(* ===== verification/Prelude.thy ===== *)
theory Prelude
  imports Main "HOL-Library.Word"
begin

text \<open>
  Shared vocabulary of the development: Java's primitive types at their width, the
  exceptions the modelled code can raise, results as sums, array allocation and copying
  with the bounds checks of the JVM, and the generic lemmas the components use.
\<close>

section \<open>Primitive types and exceptions\<close>

type_synonym jbyte = "8 word"
type_synonym jint = "32 word"
type_synonym jlong = "64 word"

datatype exn =
    NullPointer
  | IndexOutOfBounds
  | BufferOverflow
  | BufferUnderflow
  | NegativeArraySize
  | NoSuchElement
  | DivideByZero
  | IOError
  | IllegalArgument
  | ClassCast
  | RejectedExecution

type_synonym 'a result = "exn + 'a"

named_theorems result_simps "evaluation of results, arrays and buffers"

fun bindR :: "'a result \<Rightarrow> ('a \<Rightarrow> 'b result) \<Rightarrow> 'b result" where
  "bindR (Inl e) f = Inl e"
| "bindR (Inr x) f = f x"

lemma bindR_Inr_iff: "bindR m f = Inr y \<longleftrightarrow> (\<exists>x. m = Inr x \<and> f x = Inr y)"
  by (cases m) auto

lemma bindR_assoc: "bindR (bindR m f) g = bindR m (\<lambda>x. bindR (f x) g)"
  by (cases m) auto

lemma bindR_Inl_iff: "bindR m f = Inl e \<longleftrightarrow> m = Inl e \<or> (\<exists>x. m = Inr x \<and> f x = Inl e)"
  by (cases m) auto

section \<open>Java arrays and integer arithmetic\<close>

text \<open>
  \<open>new byte[n]\<close>: the length expression is an \<open>int\<close>, so it wraps at 32 bits, and a
  negative length raises. A fresh array holds zeros.
\<close>

definition wrap_int :: "int \<Rightarrow> int" where
  "wrap_int n = sint (word_of_int n :: jint)"

definition new_bytes :: "int \<Rightarrow> jbyte list result" where
  "new_bytes n =
     (let k = wrap_int n in if k < 0 then Inl NegativeArraySize else Inr (replicate (nat k) 0))"

text \<open>\<open>System.arraycopy(src, sp, dst, dp, n)\<close> with its bounds check; the destination is returned.\<close>

definition arraycopy :: "'a list \<Rightarrow> int \<Rightarrow> 'a list \<Rightarrow> int \<Rightarrow> int \<Rightarrow> 'a list result" where
  "arraycopy src sp dst dp n =
     (if sp < 0 \<or> dp < 0 \<or> n < 0 \<or> int (length src) < sp + n \<or> int (length dst) < dp + n
      then Inl IndexOutOfBounds
      else Inr (take (nat dp) dst @ take (nat n) (drop (nat sp) src) @ drop (nat (dp + n)) dst))"

text \<open>Java's \<open>%\<close> truncates: the result has the sign of the dividend.\<close>

definition java_rem :: "int \<Rightarrow> int \<Rightarrow> int result" where
  "java_rem a b = (if b = 0 then Inl DivideByZero else Inr (sgn a * (\<bar>a\<bar> mod \<bar>b\<bar>)))"

text \<open>Array reads and writes raise outside the bounds.\<close>

definition array_get :: "'a list \<Rightarrow> int \<Rightarrow> 'a result" where
  "array_get xs i = (if 0 \<le> i \<and> i < int (length xs) then Inr (xs ! nat i) else Inl IndexOutOfBounds)"

definition array_set :: "'a list \<Rightarrow> int \<Rightarrow> 'a \<Rightarrow> 'a list result" where
  "array_set xs i v =
     (if 0 \<le> i \<and> i < int (length xs) then Inr (xs[nat i := v]) else Inl IndexOutOfBounds)"

text \<open>\<open>String.toLowerCase\<close> and \<open>equalsIgnoreCase\<close> on ASCII text.\<close>

definition lower_char :: "char \<Rightarrow> char" where
  "lower_char c =
     (let k = (of_char c :: nat) in if 65 \<le> k \<and> k \<le> 90 then char_of (k + 32) else c)"

definition eq_ignore_case :: "string \<Rightarrow> string \<Rightarrow> bool" where
  "eq_ignore_case a b \<longleftrightarrow> map lower_char a = map lower_char b"

text \<open>The decimal text of an integer, as string concatenation produces it.\<close>

fun decimal :: "nat \<Rightarrow> string" where
  "decimal n = (if n < 10 then [char_of (48 + n)] else decimal (n div 10) @ [char_of (48 + n mod 10)])"

declare decimal.simps [simp del]

definition int_text :: "int \<Rightarrow> string" where
  "int_text i = (if i < 0 then CHR ''-'' # decimal (nat (- i)) else decimal (nat i))"

lemma wrap_int_id: "- (2 ^ 31) \<le> n \<Longrightarrow> n < 2 ^ 31 \<Longrightarrow> wrap_int n = n"
  by (simp add: wrap_int_def sint_word_ariths signed_take_bit_int_eq_self sint_sbintrunc')

lemma new_bytes_ok [result_simps]:
  "0 \<le> n \<Longrightarrow> n < 2 ^ 31 \<Longrightarrow> new_bytes n = Inr (replicate (nat n) 0)"
  by (simp add: new_bytes_def wrap_int_id)

lemma arraycopy_all [result_simps]:
  "length dst = length src \<Longrightarrow> arraycopy src 0 dst 0 (int (length src)) = Inr src"
  by (simp add: arraycopy_def)

lemma arraycopy_slice [result_simps]:
  "0 \<le> sp \<Longrightarrow> 0 \<le> n \<Longrightarrow> sp + n \<le> int (length src) \<Longrightarrow> length dst = nat n \<Longrightarrow>
    arraycopy src sp dst 0 n = Inr (take (nat n) (drop (nat sp) src))"
  by (simp add: arraycopy_def)

lemma java_rem_nonneg [result_simps]:
  "0 \<le> a \<Longrightarrow> 0 < b \<Longrightarrow> java_rem a b = Inr (a mod b)"
  by (cases "a = 0") (auto simp: java_rem_def)

lemma array_get_ok [result_simps]:
  "0 \<le> i \<Longrightarrow> i < int (length xs) \<Longrightarrow> array_get xs i = Inr (xs ! nat i)"
  by (simp add: array_get_def)

lemma array_set_ok [result_simps]:
  "0 \<le> i \<Longrightarrow> i < int (length xs) \<Longrightarrow> array_set xs i v = Inr (xs[nat i := v])"
  by (simp add: array_set_def)

end
