(* ===== verification/ByteBuf.thy ===== *)
theory ByteBuf
  imports Prelude
begin

text \<open>
  The part of \<open>java.nio.ByteBuffer\<close> the packet code uses: a wrapped or allocated
  big-endian buffer with a position, whose limit is its capacity. Relative puts and
  gets move the position and raise \<open>BufferOverflow\<close> and \<open>BufferUnderflow\<close> when
  fewer bytes remain than they need.
\<close>

section \<open>Big-endian encoding\<close>

unbundle bit_operations_syntax

fun be_bytes :: "nat \<Rightarrow> 'a::len word \<Rightarrow> jbyte list" where
  "be_bytes 0 w = []"
| "be_bytes (Suc n) w = be_bytes n (drop_bit 8 w) @ [ucast w]"

definition be_val :: "jbyte list \<Rightarrow> 'a::len word" where
  "be_val bs = foldl (\<lambda>acc b. push_bit 8 acc OR ucast b) 0 bs"

lemma length_be_bytes [simp]: "length (be_bytes n w) = n"
  by (induction n arbitrary: w) auto

lemma be_val_Nil [simp]: "be_val [] = 0"
  by (simp add: be_val_def)

lemma be_val_snoc: "be_val (bs @ [b]) = push_bit 8 (be_val bs) OR ucast b"
  by (simp add: be_val_def)

lemma push_drop_byte:
  "push_bit 8 (take_bit k (drop_bit 8 (w::'a::len word))) OR ucast (ucast w :: jbyte)
     = take_bit (8 + k) w"
  by (rule bit_eqI) (auto simp: bit_simps)

lemma be_val_be_bytes_take: "be_val (be_bytes n w) = take_bit (8 * n) w"
  by (induction n arbitrary: w) (auto simp: be_val_snoc push_drop_byte)

lemma be_val_be_bytes: "LENGTH('a) \<le> 8 * n \<Longrightarrow> be_val (be_bytes n w) = (w :: 'a::len word)"
  by (simp add: be_val_be_bytes_take take_bit_word_eq_self)

lemma drop_byte_snoc:
  "drop_bit 8 (push_bit 8 v OR ucast (b :: jbyte)) = take_bit (LENGTH('a) - 8) (v :: 'a::len word)"
  by (rule bit_eqI) (auto simp: bit_simps dest: bit_imp_le_length)

lemma ucast_snoc:
  "8 \<le> LENGTH('a) \<Longrightarrow> ucast (push_bit 8 (v :: 'a::len word) OR ucast b) = (b :: jbyte)"
  by (rule bit_eqI) (auto simp: bit_simps dest: bit_imp_le_length)

lemma be_val_bound: "take_bit (8 * length bs) (be_val bs) = be_val bs"
proof (induction bs rule: rev_induct)
  case Nil
  then show ?case by simp
next
  case (snoc b bs)
  have "take_bit (8 * length (bs @ [b])) (push_bit 8 (be_val bs :: 'a word) OR ucast b)
      = push_bit 8 (take_bit (8 * length bs) (be_val bs)) OR ucast b"
    by (rule bit_eqI) (auto simp: bit_simps dest: bit_imp_le_length)
  then show ?case by (simp add: snoc.IH be_val_snoc)
qed

lemma be_bytes_be_val:
  "8 * length bs \<le> LENGTH('a) \<Longrightarrow> be_bytes (length bs) (be_val bs :: 'a::len word) = bs"
proof (induction bs rule: rev_induct)
  case Nil
  then show ?case by simp
next
  case (snoc b bs)
  have "take_bit (LENGTH('a) - 8) (be_val bs :: 'a word)
      = take_bit (min (LENGTH('a) - 8) (8 * length bs)) (be_val bs)"
    by (subst be_val_bound [symmetric]) (simp only: take_bit_take_bit)
  also have "\<dots> = be_val bs"
    using snoc.prems by (simp add: min_absorb2 be_val_bound)
  finally show ?case
    using snoc by (simp add: be_val_snoc drop_byte_snoc ucast_snoc del: drop_bit_or)
qed

section \<open>The buffer\<close>

record bytebuffer =
  bb_array :: "jbyte list"
  bb_pos :: nat

definition bb_wrap :: "jbyte list \<Rightarrow> bytebuffer" where
  "bb_wrap bs = \<lparr>bb_array = bs, bb_pos = 0\<rparr>"

definition bb_put :: "jbyte list \<Rightarrow> bytebuffer \<Rightarrow> bytebuffer result" where
  "bb_put bs buf =
     (if length (bb_array buf) < bb_pos buf + length bs then Inl BufferOverflow
      else Inr (buf\<lparr>bb_array := take (bb_pos buf) (bb_array buf) @ bs
                      @ drop (bb_pos buf + length bs) (bb_array buf),
                   bb_pos := bb_pos buf + length bs\<rparr>))"

definition bb_get :: "nat \<Rightarrow> bytebuffer \<Rightarrow> (jbyte list \<times> bytebuffer) result" where
  "bb_get n buf =
     (if length (bb_array buf) < bb_pos buf + n then Inl BufferUnderflow
      else Inr (take n (drop (bb_pos buf) (bb_array buf)), buf\<lparr>bb_pos := bb_pos buf + n\<rparr>))"

definition bb_putByte :: "jbyte \<Rightarrow> bytebuffer \<Rightarrow> bytebuffer result" where
  "bb_putByte b buf = bb_put [b] buf"

definition bb_putInt :: "jint \<Rightarrow> bytebuffer \<Rightarrow> bytebuffer result" where
  "bb_putInt w buf = bb_put (be_bytes 4 w) buf"

definition bb_putLong :: "jlong \<Rightarrow> bytebuffer \<Rightarrow> bytebuffer result" where
  "bb_putLong w buf = bb_put (be_bytes 8 w) buf"

definition bb_getByte :: "bytebuffer \<Rightarrow> (jbyte \<times> bytebuffer) result" where
  "bb_getByte buf = bindR (bb_get 1 buf) (\<lambda>(bs, buf'). Inr (hd bs, buf'))"

definition bb_getInt :: "bytebuffer \<Rightarrow> (jint \<times> bytebuffer) result" where
  "bb_getInt buf = bindR (bb_get 4 buf) (\<lambda>(bs, buf'). Inr (be_val bs, buf'))"

definition bb_getLong :: "bytebuffer \<Rightarrow> (jlong \<times> bytebuffer) result" where
  "bb_getLong buf = bindR (bb_get 8 buf) (\<lambda>(bs, buf'). Inr (be_val bs, buf'))"

text \<open>
  Two views of a buffer that make the chains of puts and gets evaluate by rewriting:
  \<open>filled ws k\<close> has \<open>ws\<close> written and \<open>k\<close> zeros left, \<open>pending d r\<close> has
  \<open>d\<close> consumed and \<open>r\<close> left.
\<close>

definition filled :: "jbyte list \<Rightarrow> nat \<Rightarrow> bytebuffer" where
  "filled ws k = \<lparr>bb_array = ws @ replicate k 0, bb_pos = length ws\<rparr>"

definition pending :: "jbyte list \<Rightarrow> jbyte list \<Rightarrow> bytebuffer" where
  "pending d r = \<lparr>bb_array = d @ r, bb_pos = length d\<rparr>"

lemma bb_wrap_filled [result_simps]: "bb_wrap (replicate k 0) = filled [] k"
  by (simp add: bb_wrap_def filled_def)

lemma bb_wrap_pending: "bb_wrap bs = pending [] bs"
  by (simp add: bb_wrap_def pending_def)

lemma bb_array_filled [result_simps]: "bb_array (filled ws 0) = ws"
  by (simp add: filled_def)

lemma bb_put_filled [result_simps]:
  "length bs \<le> k \<Longrightarrow> bb_put bs (filled ws k) = Inr (filled (ws @ bs) (k - length bs))"
  by (simp add: bb_put_def filled_def)

lemma bb_putByte_filled [result_simps]:
  "1 \<le> k \<Longrightarrow> bb_putByte b (filled ws k) = Inr (filled (ws @ [b]) (k - 1))"
  by (simp add: bb_putByte_def bb_put_filled)

lemma bb_putInt_filled [result_simps]:
  "4 \<le> k \<Longrightarrow> bb_putInt w (filled ws k) = Inr (filled (ws @ be_bytes 4 w) (k - 4))"
  by (simp add: bb_putInt_def bb_put_filled)

lemma bb_putLong_filled [result_simps]:
  "8 \<le> k \<Longrightarrow> bb_putLong w (filled ws k) = Inr (filled (ws @ be_bytes 8 w) (k - 8))"
  by (simp add: bb_putLong_def bb_put_filled)

lemma bb_get_pending:
  "bb_get n (pending d r) =
     (if length r < n then Inl BufferUnderflow
      else Inr (take n r, pending (d @ take n r) (drop n r)))"
  by (auto simp: bb_get_def pending_def)

lemma bb_getByte_pending [result_simps]: "bb_getByte (pending d (b # r)) = Inr (b, pending (d @ [b]) r)"
  by (simp add: bb_getByte_def bb_get_pending)

lemma bb_getInt_pending [result_simps]:
  "bb_getInt (pending d (be_bytes 4 w @ r)) = Inr (w, pending (d @ be_bytes 4 w) r)"
  by (simp add: bb_getInt_def bb_get_pending be_val_be_bytes)

lemma bb_getLong_pending [result_simps]:
  "bb_getLong (pending d (be_bytes 8 w @ r)) = Inr (w, pending (d @ be_bytes 8 w) r)"
  by (simp add: bb_getLong_def bb_get_pending be_val_be_bytes)

lemma bb_getInt_short [result_simps]:
  "length r < 4 \<Longrightarrow> bb_getInt (pending d r) = Inl BufferUnderflow"
  by (simp add: bb_getInt_def bb_get_pending)

lemma bb_getLong_short [result_simps]:
  "length r < 8 \<Longrightarrow> bb_getLong (pending d r) = Inl BufferUnderflow"
  by (simp add: bb_getLong_def bb_get_pending)

lemma bb_getByte_short [result_simps]: "bb_getByte (pending d []) = Inl BufferUnderflow"
  by (simp add: bb_getByte_def bb_get_pending)

lemma bb_getInt_long:
  "4 \<le> length r \<Longrightarrow>
    bb_getInt (pending d r) = Inr (be_val (take 4 r), pending (d @ take 4 r) (drop 4 r))"
  by (simp add: bb_getInt_def bb_get_pending)

lemma bb_getLong_long:
  "8 \<le> length r \<Longrightarrow>
    bb_getLong (pending d r) = Inr (be_val (take 8 r), pending (d @ take 8 r) (drop 8 r))"
  by (simp add: bb_getLong_def bb_get_pending)

end
