(* ===== verification/Ids.thy ===== *)
theory Ids
  imports ByteBuf
begin

text \<open>
  The identifier source (\<open>NetPackaget/PackagetRandom.java\<close>): the global sequence counter, one
  counter per object in a map of \<open>AtomicLong\<close> cells, the random session id and the id of the
  virtual machine kept in a lock file. The first part models the calls one after the other, the
  second the steps of threads that call \<open>getInstanceID\<close> at the same time.
\<close>

section \<open>Counters\<close>

text \<open>Objects and \<open>AtomicLong\<close> cells are references; a new cell gets the next free reference.\<close>

record ids_state =
  aid :: jlong
  cells :: "jlong list"
  atomicMap :: "nat \<Rightarrow> nat option"

definition new_ids :: ids_state where
  "new_ids = \<lparr>aid = 0, cells = [], atomicMap = (\<lambda>_. None)\<rparr>"

definition getSequeueID :: "ids_state \<Rightarrow> jlong \<times> ids_state" where
  "getSequeueID st = (aid st, st\<lparr>aid := aid st + 1\<rparr>)"

definition install_cell :: "nat \<Rightarrow> ids_state \<Rightarrow> nat \<times> ids_state" where
  "install_cell self st =
     (let c = length (cells st)
      in (c, st\<lparr>cells := cells st @ [0], atomicMap := (atomicMap st)(self \<mapsto> c)\<rparr>))"

definition getInstanceLong :: "nat \<Rightarrow> ids_state \<Rightarrow> nat \<times> ids_state" where
  "getInstanceLong self st =
     (case atomicMap st self of Some c \<Rightarrow> (c, st) | None \<Rightarrow> install_cell self st)"

definition getAndIncrement :: "nat \<Rightarrow> ids_state \<Rightarrow> jlong \<times> ids_state" where
  "getAndIncrement c st = (cells st ! c, st\<lparr>cells := (cells st)[c := cells st ! c + 1]\<rparr>)"

definition getInstanceID :: "nat \<Rightarrow> ids_state \<Rightarrow> jlong \<times> ids_state" where
  "getInstanceID self st = (case getInstanceLong self st of (c, st') \<Rightarrow> getAndIncrement c st')"

definition resetInstanceLong :: "nat \<Rightarrow> jlong \<Rightarrow> ids_state \<Rightarrow> ids_state" where
  "resetInstanceLong self v st =
     (case getInstanceLong self st of (c, st') \<Rightarrow> st'\<lparr>cells := (cells st')[c := v]\<rparr>)"

text \<open>The value the next call returns for an object.\<close>

definition instance_value :: "nat \<Rightarrow> ids_state \<Rightarrow> jlong" where
  "instance_value self st = (case atomicMap st self of None \<Rightarrow> 0 | Some c \<Rightarrow> cells st ! c)"

text \<open>Every registered object has a cell of its own.\<close>

definition ids_inv :: "ids_state \<Rightarrow> bool" where
  "ids_inv st \<longleftrightarrow> (\<forall>x c. atomicMap st x = Some c \<longrightarrow> c < length (cells st))
     \<and> (\<forall>x y c. atomicMap st x = Some c \<longrightarrow> atomicMap st y = Some c \<longrightarrow> x = y)"

lemma ids_inv_new: "ids_inv new_ids"
  by (simp add: ids_inv_def new_ids_def)

lemma install_cell_inv:
  assumes "ids_inv st" and "install_cell self st = (c, st')"
  shows "ids_inv st'" "atomicMap st' self = Some c" "c < length (cells st')" "cells st' ! c = 0"
proof -
  have st': "c = length (cells st)" "cells st' = cells st @ [0]"
      "atomicMap st' = (atomicMap st)(self \<mapsto> c)"
    using assms(2) by (auto simp: install_cell_def Let_def)
  have lt: "atomicMap st x = Some d \<Longrightarrow> d < c" for x d
    using assms(1) st'(1) by (simp add: ids_inv_def)
  show "atomicMap st' self = Some c" "c < length (cells st')" "cells st' ! c = 0"
    using st' by simp_all
  show "ids_inv st'"
    unfolding ids_inv_def
  proof (intro conjI allI impI)
    fix x d assume "atomicMap st' x = Some d"
    then show "d < length (cells st')" using lt st' by (auto simp: less_Suc_eq split: if_splits)
  next
    fix x y d assume "atomicMap st' x = Some d" "atomicMap st' y = Some d"
    then show "x = y"
      using lt st' assms(1) by (auto simp: ids_inv_def split: if_splits dest: lt)
  qed
qed

lemma install_cell_value:
  assumes "ids_inv st" and "install_cell self st = (c, st')" and "atomicMap st self = None"
  shows "instance_value x st' = instance_value x st"
proof (cases "x = self")
  case False
  have "atomicMap st x = Some d \<Longrightarrow> d < length (cells st)" for d
    using assms(1) by (simp add: ids_inv_def)
  with False assms(2) show ?thesis
    by (auto simp: instance_value_def install_cell_def Let_def nth_append split: option.splits)
qed (use assms in \<open>auto simp: instance_value_def install_cell_def Let_def\<close>)

lemma getInstanceLong_inv:
  assumes "ids_inv st" and "getInstanceLong self st = (c, st')"
  shows "ids_inv st'" "atomicMap st' self = Some c" "c < length (cells st')"
    "instance_value x st' = instance_value x st" "aid st' = aid st"
    "cells st' ! c = instance_value self st"
proof -
  have *: "ids_inv st' \<and> atomicMap st' self = Some c \<and> c < length (cells st')
      \<and> instance_value x st' = instance_value x st \<and> aid st' = aid st
      \<and> cells st' ! c = instance_value self st"
  proof (cases "atomicMap st self")
    case None
    then have i: "install_cell self st = (c, st')"
      using assms(2) by (simp add: getInstanceLong_def)
    then have "aid st' = aid st" by (auto simp: install_cell_def Let_def)
    then show ?thesis
      using install_cell_inv [OF assms(1) i] install_cell_value [OF assms(1) i None]
      by (simp add: instance_value_def None)
  next
    case (Some d)
    then show ?thesis
      using assms by (auto simp: getInstanceLong_def ids_inv_def instance_value_def)
  qed
  then show "ids_inv st'" "atomicMap st' self = Some c" "c < length (cells st')"
    "instance_value x st' = instance_value x st" "aid st' = aid st"
    "cells st' ! c = instance_value self st" by blast+
qed

lemma getInstanceID_spec:
  assumes "ids_inv st" and "getInstanceID self st = (v, st')"
  shows "v = instance_value self st" "ids_inv st'"
    "instance_value self st' = instance_value self st + 1"
    "x \<noteq> self \<Longrightarrow> instance_value x st' = instance_value x st" "aid st' = aid st"
proof -
  obtain c st1 where g: "getInstanceLong self st = (c, st1)" by fastforce
  note i = getInstanceLong_inv [OF assms(1) g]
  have st': "v = cells st1 ! c" "st' = st1\<lparr>cells := (cells st1)[c := cells st1 ! c + 1]\<rparr>"
    using assms(2) g by (auto simp: getInstanceID_def getAndIncrement_def)
  show "v = instance_value self st" using st' i(6) by simp
  show "ids_inv st'" using st' i(1) by (simp add: ids_inv_def)
  show "instance_value self st' = instance_value self st + 1"
    using st' i(2,3,6) by (simp add: instance_value_def)
  show "aid st' = aid st" using st' i(5) by simp
  assume ne: "x \<noteq> self"
  then have "atomicMap st1 x = Some d \<Longrightarrow> d \<noteq> c" for d
    using i(1,2) by (auto simp: ids_inv_def)
  then have "instance_value x st' = instance_value x st1"
    using st'(2) by (auto simp: instance_value_def split: option.splits)
  then show "instance_value x st' = instance_value x st" by (simp add: i(4))
qed

section \<open>The contract of a counter\<close>

text \<open>
  What the callers of an identifier source rely on: a draw returns the current value and advances
  it by one. Drawing repeatedly then gives consecutive values, without repetition up to the width
  of a \<open>long\<close>.
\<close>

locale counter =
  fixes draw :: "'s \<Rightarrow> jlong \<times> 's" and peek :: "'s \<Rightarrow> jlong" and ok :: "'s \<Rightarrow> bool"
  assumes draw_value: "ok s \<Longrightarrow> fst (draw s) = peek s"
    and draw_next: "ok s \<Longrightarrow> peek (snd (draw s)) = peek s + 1"
    and draw_inv: "ok s \<Longrightarrow> ok (snd (draw s))"

primrec draws :: "('s \<Rightarrow> 'a \<times> 's) \<Rightarrow> nat \<Rightarrow> 's \<Rightarrow> 'a list \<times> 's" where
  "draws f 0 s = ([], s)"
| "draws f (Suc n) s = (case f s of (v, s1) \<Rightarrow> case draws f n s1 of (vs, s2) \<Rightarrow> (v # vs, s2))"

lemma of_nat_inj_long: "i < 2 ^ 64 \<Longrightarrow> j < 2 ^ 64 \<Longrightarrow> (of_nat i :: jlong) = of_nat j \<longleftrightarrow> i = j"
  by (simp add: word_of_nat_eq_iff take_bit_nat_eq_self)

context counter
begin

lemma draws_spec:
  "ok s \<Longrightarrow> draws draw n s = (vs, s') \<Longrightarrow>
    vs = map (\<lambda>i. peek s + of_nat i) [0..<n] \<and> peek s' = peek s + of_nat n \<and> ok s'"
proof (induction n arbitrary: s vs s')
  case (Suc n)
  obtain v s1 where d: "draw s = (v, s1)" by fastforce
  obtain ws s2 where ds: "draws draw n s1 = (ws, s2)" by fastforce
  have s1: "ok s1" "peek s1 = peek s + 1" "v = peek s"
    using draw_inv [OF Suc.prems(1)] draw_next [OF Suc.prems(1)] draw_value [OF Suc.prems(1)] d
    by auto
  have "vs = v # ws" "s' = s2" using Suc.prems(2) d ds by auto
  moreover note Suc.IH [OF s1(1) ds]
  moreover have "[0..<Suc n] = 0 # map Suc [0..<n]" by (simp add: map_Suc_upt upt_conv_Cons)
  ultimately show ?case using s1 by (simp add: ac_simps)
qed simp

lemma draws_distinct:
  assumes "ok s" and "n \<le> 2 ^ 64" and "draws draw n s = (vs, s')"
  shows "distinct vs"
proof -
  have "inj_on (\<lambda>i. peek s + of_nat i) (set [0..<n])"
    using assms(2) by (auto simp: inj_on_def of_nat_inj_long)
  then show ?thesis using draws_spec [OF assms(1,3)] by (simp add: distinct_map)
qed

end

interpretation sequence_ids: counter getSequeueID aid "\<lambda>_. True"
  by unfold_locales (simp_all add: getSequeueID_def)

interpretation instance_ids: counter "getInstanceID self" "instance_value self" ids_inv
  for self
proof
  fix s assume "ids_inv s"
  moreover obtain v s' where "getInstanceID self s = (v, s')" by fastforce
  ultimately show "fst (getInstanceID self s) = instance_value self s"
    "instance_value self (snd (getInstanceID self s)) = instance_value self s + 1"
    "ids_inv (snd (getInstanceID self s))"
    using getInstanceID_spec [of s self v s'] by simp_all
qed

text \<open>Identifiers drawn one after the other for the same object are consecutive, start at the
  object's current value (0 for a new object), and are pairwise different up to \<open>2 ^ 64\<close> of them;
  the counters of other objects do not move.\<close>

theorem instance_ids_consecutive:
  assumes "ids_inv st" and "n \<le> 2 ^ 64" and "draws (getInstanceID self) n st = (vs, st')"
  shows "vs = map (\<lambda>i. instance_value self st + of_nat i) [0..<n] \<and> distinct vs \<and> ids_inv st'
    \<and> (\<forall>x. x \<noteq> self \<longrightarrow> instance_value x st' = instance_value x st)"
proof -
  have "ids_inv st \<Longrightarrow> draws (getInstanceID self) n st = (vs, st') \<Longrightarrow> x \<noteq> self \<Longrightarrow>
      instance_value x st' = instance_value x st" for x
  proof (induction n arbitrary: st vs)
    case (Suc n)
    obtain v st1 where g: "getInstanceID self st = (v, st1)" by fastforce
    moreover obtain ws st2 where "draws (getInstanceID self) n st1 = (ws, st2)" by fastforce
    ultimately show ?case
      using Suc getInstanceID_spec(2,4) [OF Suc.prems(1) g] by auto
  qed simp
  then show ?thesis
    using instance_ids.draws_spec [OF assms(1,3)] instance_ids.draws_distinct [OF assms] assms
    by blast
qed

theorem instance_ids_consecutive_witness:
  "distinct (fst (draws (getInstanceID 7) 3 new_ids))"
proof -
  have "(3::nat) \<le> 2 ^ 64" by simp
  from instance_ids_consecutive [OF ids_inv_new this prod.collapse [symmetric]]
  show ?thesis by blast
qed

section \<open>Threads that draw at the same time\<close>

text \<open>
  One call of \<open>getInstanceID\<close> for a fixed object, step by step: the unlocked read of the map, the
  lock, the creation of a cell (the test under the lock looks at the local variable, which is
  still null), the unlock and the atomic increment. A thread's program counter says where it is.
\<close>

datatype pc = Start | Missed | Locked | Installed nat | Got nat | Done jlong

record conc =
  c_ids :: ids_state
  c_lock :: "nat option"
  c_pc :: "nat \<Rightarrow> pc"

definition conc_start :: "ids_state \<Rightarrow> conc" where
  "conc_start st = \<lparr>c_ids = st, c_lock = None, c_pc = (\<lambda>_. Start)\<rparr>"

definition goto :: "nat \<Rightarrow> pc \<Rightarrow> conc \<Rightarrow> conc" where
  "goto t p s = s\<lparr>c_pc := (c_pc s)(t := p)\<rparr>"

inductive cstep :: "nat \<Rightarrow> nat \<Rightarrow> conc \<Rightarrow> conc \<Rightarrow> bool" for self N where
  hit: "t < N \<Longrightarrow> c_pc s t = Start \<Longrightarrow> atomicMap (c_ids s) self = Some c \<Longrightarrow>
    cstep self N s (goto t (Got c) s)"
| miss: "t < N \<Longrightarrow> c_pc s t = Start \<Longrightarrow> atomicMap (c_ids s) self = None \<Longrightarrow>
    cstep self N s (goto t Missed s)"
| acquire: "t < N \<Longrightarrow> c_pc s t = Missed \<Longrightarrow> c_lock s = None \<Longrightarrow>
    cstep self N s (goto t Locked (s\<lparr>c_lock := Some t\<rparr>))"
| install: "t < N \<Longrightarrow> c_pc s t = Locked \<Longrightarrow> install_cell self (c_ids s) = (c, st) \<Longrightarrow>
    cstep self N s (goto t (Installed c) (s\<lparr>c_ids := st\<rparr>))"
| release: "t < N \<Longrightarrow> c_pc s t = Installed c \<Longrightarrow>
    cstep self N s (goto t (Got c) (s\<lparr>c_lock := None\<rparr>))"
| fetch: "t < N \<Longrightarrow> c_pc s t = Got c \<Longrightarrow> getAndIncrement c (c_ids s) = (v, st) \<Longrightarrow>
    cstep self N s (goto t (Done v) (s\<lparr>c_ids := st\<rparr>))"

inductive creach :: "nat \<Rightarrow> nat \<Rightarrow> ids_state \<Rightarrow> conc \<Rightarrow> bool" for self N st where
  creach_start: "creach self N st (conc_start st)"
| creach_step: "creach self N st s \<Longrightarrow> cstep self N s s' \<Longrightarrow> creach self N st s'"

text \<open>
  With the object registered beforehand: all threads share its cell, and the finished ones are
  the calls of a sequential order, each with the value of its place in it.
\<close>

definition shared_inv :: "nat \<Rightarrow> nat \<Rightarrow> ids_state \<Rightarrow> nat \<Rightarrow> conc \<Rightarrow> nat list \<Rightarrow> bool" where
  "shared_inv self N st c s order \<longleftrightarrow>
     atomicMap (c_ids s) = atomicMap st \<and> length (cells (c_ids s)) = length (cells st)
     \<and> (\<forall>t. c_pc s t = Start \<or> c_pc s t = Got c \<or> t \<in> set order)
     \<and> distinct order \<and> set order \<subseteq> {..<N}
     \<and> (\<forall>i < length order. c_pc s (order ! i) = Done (cells st ! c + of_nat i))
     \<and> cells (c_ids s) ! c = cells st ! c + of_nat (length order)"

lemma shared_inv_pc:
  "shared_inv self N st c s order \<Longrightarrow>
    c_pc s t = Start \<or> c_pc s t = Got c \<or> (\<exists>i < length order. t = order ! i
      \<and> c_pc s t = Done (cells st ! c + of_nat i))"
  unfolding shared_inv_def by (metis in_set_conv_nth)

lemma shared_inv_step:
  assumes "shared_inv self N st c s order" and "cstep self N s s'"
    and c: "atomicMap st self = Some c" "c < length (cells st)"
  shows "\<exists>order'. shared_inv self N st c s' order'"
  using assms(2)
proof (cases rule: cstep.cases)
  case (hit t d)
  then have "d = c" "t \<notin> set order"
    using assms(1) c by (auto simp: shared_inv_def in_set_conv_nth)
  then have "shared_inv self N st c s' order"
    using assms(1) hit by (auto simp: shared_inv_def goto_def)
  then show ?thesis by blast
next
  case (miss t)
  then show ?thesis using assms(1) c by (simp add: shared_inv_def)
next
  case (acquire t)
  then show ?thesis using shared_inv_pc [OF assms(1), of t] by auto
next
  case (install t d st')
  then show ?thesis using shared_inv_pc [OF assms(1), of t] by auto
next
  case (release t d)
  then show ?thesis using shared_inv_pc [OF assms(1), of t] by auto
next
  case (fetch t d v st')
  then have dc: "d = c" using shared_inv_pc [OF assms(1), of t] by auto
  moreover have "t \<notin> set order"
    using fetch assms(1) by (auto simp: shared_inv_def in_set_conv_nth)
  moreover have "v = cells st ! c + of_nat (length order)"
    using fetch dc assms(1) by (simp add: shared_inv_def getAndIncrement_def)
  ultimately have d: "d = c" "t \<notin> set order" "v = cells st ! c + of_nat (length order)"
    by blast+
  have "shared_inv self N st c s' (order @ [t])"
    using assms(1) fetch d c
    by (auto simp: shared_inv_def goto_def getAndIncrement_def nth_append less_Suc_eq)
  then show ?thesis by blast
qed

lemma shared_reach:
  assumes "creach self N st s" and "atomicMap st self = Some c" "c < length (cells st)"
  shows "\<exists>order. shared_inv self N st c s order"
  using assms(1)
proof induction
  case creach_start
  have "shared_inv self N st c (conc_start st) []"
    by (simp add: shared_inv_def conc_start_def)
  then show ?case by blast
next
  case (creach_step s s')
  then show ?case using shared_inv_step assms(2,3) by blast
qed

text \<open>C31: When the object has its counter already, any number of threads up to \<open>2 ^ 64\<close> may call
  \<open>getInstanceID\<close> for it at the same time, in any interleaving: two calls that have finished have
  returned different identifiers.\<close>

theorem registered_ids_unique:
  assumes "creach self N st s" and "ids_inv st" and "atomicMap st self \<noteq> None" and "N \<le> 2 ^ 64"
    and "c_pc s t = Done v" and "c_pc s u = Done w" and "t \<noteq> u"
  shows "v \<noteq> w"
proof -
  obtain c where c: "atomicMap st self = Some c" "c < length (cells st)"
    using assms(2,3) by (auto simp: ids_inv_def)
  obtain order where o: "shared_inv self N st c s order"
    using shared_reach [OF assms(1) c] by blast
  have "length order = card (set order)" "set order \<subseteq> {..<N}"
    using o by (auto simp: shared_inv_def distinct_card)
  then have len: "length order \<le> 2 ^ 64"
    using card_mono [of "{..<N}" "set order"] assms(4) by simp
  obtain i j where "i < length order" "t = order ! i" "v = cells st ! c + of_nat i"
    "j < length order" "u = order ! j" "w = cells st ! c + of_nat j"
    using shared_inv_pc [OF o, of t] shared_inv_pc [OF o, of u] assms(5,6) by auto
  then show ?thesis using assms(7) len of_nat_inj_long [of i j] by auto
qed

text \<open>Two threads that draw for a registered object, one after the other.\<close>

lemma two_threads_reach:
  assumes "atomicMap st self = Some c" and "c < length (cells st)" and "2 \<le> N"
  shows "\<exists>s. creach self N st s \<and> c_pc s 0 = Done (cells st ! c)
    \<and> c_pc s 1 = Done (cells st ! c + 1)"
proof -
  define s1 where "s1 = goto 0 (Got c) (conc_start st)"
  define s2 where "s2 = goto 0 (Done (cells st ! c)) (s1\<lparr>c_ids := snd (getAndIncrement c st)\<rparr>)"
  define s3 where "s3 = goto 1 (Got c) s2"
  define s4 where
    "s4 = goto 1 (Done (cells st ! c + 1)) (s3\<lparr>c_ids := snd (getAndIncrement c (c_ids s3))\<rparr>)"
  note defs = s1_def s2_def s3_def s4_def goto_def conc_start_def getAndIncrement_def
  have N: "0 < N" "1 < N" using assms(3) by auto
  have "cstep self N (conc_start st) s1" unfolding s1_def
    by (rule cstep.hit) (use N assms(1) in \<open>simp_all add: defs\<close>)
  then have "creach self N st s1" by (rule creach_step [OF creach_start])
  moreover have "cstep self N s1 s2" unfolding s2_def
    by (rule cstep.fetch [where c = c]) (use N in \<open>simp_all add: defs\<close>)
  moreover have "cstep self N s2 s3" unfolding s3_def
    by (rule cstep.hit) (use N assms(1) in \<open>simp_all add: defs\<close>)
  moreover have "cstep self N s3 s4" unfolding s4_def
    by (rule cstep.fetch [where c = c]) (use N assms(2) in \<open>simp_all add: defs\<close>)
  ultimately have "creach self N st s4" by (meson creach_step)
  moreover have "c_pc s4 0 = Done (cells st ! c)" "c_pc s4 1 = Done (cells st ! c + 1)"
    by (simp_all add: defs)
  ultimately show ?thesis by blast
qed

theorem registered_ids_unique_witness:
  "\<exists>s v w. creach 7 2 (new_ids\<lparr>cells := [4], atomicMap := [7 \<mapsto> 0]\<rparr>) s
    \<and> c_pc s 0 = Done v \<and> c_pc s 1 = Done w \<and> v \<noteq> w"
proof -
  let ?st = "new_ids\<lparr>cells := [4], atomicMap := [7 \<mapsto> 0]\<rparr>"
  obtain s where s: "creach 7 2 ?st s" "c_pc s 0 = Done 4" "c_pc s 1 = Done (4 + 1)"
    using two_threads_reach [of ?st 7 0 2] by auto
  have "ids_inv ?st" "atomicMap ?st 7 \<noteq> None" "(2 :: nat) \<le> 2 ^ 64"
    by (simp_all add: ids_inv_def)
  with registered_ids_unique [OF s(1) _ _ _ s(2,3)] s show ?thesis by auto
qed

text \<open>C32: For a new object the unlocked test and the test of the stale local under the lock let two
  threads create a counter each: both then return identifier 0.\<close>

theorem new_object_ids_collide:
  assumes "atomicMap st self = None" and "2 \<le> N"
  shows "\<exists>s. creach self N st s \<and> c_pc s 0 = Done 0 \<and> c_pc s 1 = Done 0"
proof -
  let ?c0 = "length (cells st)"
  define s1 where "s1 = goto 0 Missed (conc_start st)"
  define s2 where "s2 = goto 1 Missed s1"
  define s3 where "s3 = goto 0 Locked (s2\<lparr>c_lock := Some 0\<rparr>)"
  define s4 where "s4 = goto 0 (Installed ?c0) (s3\<lparr>c_ids := snd (install_cell self st)\<rparr>)"
  define s5 where "s5 = goto 0 (Got ?c0) (s4\<lparr>c_lock := None\<rparr>)"
  define s6 where "s6 = goto 0 (Done 0) (s5\<lparr>c_ids := snd (getAndIncrement ?c0 (c_ids s5))\<rparr>)"
  define s7 where "s7 = goto 1 Locked (s6\<lparr>c_lock := Some 1\<rparr>)"
  define s8 where
    "s8 = goto 1 (Installed (Suc ?c0)) (s7\<lparr>c_ids := snd (install_cell self (c_ids s7))\<rparr>)"
  define s9 where "s9 = goto 1 (Got (Suc ?c0)) (s8\<lparr>c_lock := None\<rparr>)"
  define s10 where
    "s10 = goto 1 (Done 0) (s9\<lparr>c_ids := snd (getAndIncrement (Suc ?c0) (c_ids s9))\<rparr>)"
  note defs = s1_def s2_def s3_def s4_def s5_def s6_def s7_def s8_def s9_def s10_def goto_def
    conc_start_def install_cell_def getAndIncrement_def Let_def
  have N: "0 < N" "1 < N" using assms(2) by auto
  have "cstep self N (conc_start st) s1" unfolding s1_def
    by (rule cstep.miss) (use N assms(1) in \<open>simp_all add: defs\<close>)
  then have "creach self N st s1" by (rule creach_step [OF creach_start])
  moreover have "cstep self N s1 s2" unfolding s2_def
    by (rule cstep.miss) (use N assms(1) in \<open>simp_all add: defs\<close>)
  moreover have "cstep self N s2 s3" unfolding s3_def
    by (rule cstep.acquire) (use N in \<open>simp_all add: defs\<close>)
  moreover have "cstep self N s3 s4" unfolding s4_def
    by (rule cstep.install) (use N in \<open>simp_all add: defs\<close>)
  moreover have "cstep self N s4 s5" unfolding s5_def
    by (rule cstep.release) (use N in \<open>simp_all add: defs\<close>)
  moreover have "cstep self N s5 s6" unfolding s6_def
    by (rule cstep.fetch [where c = ?c0]) (use N in \<open>simp_all add: defs\<close>)
  moreover have "cstep self N s6 s7" unfolding s7_def
    by (rule cstep.acquire) (use N in \<open>simp_all add: defs\<close>)
  moreover have "cstep self N s7 s8" unfolding s8_def
    by (rule cstep.install) (use N in \<open>simp_all add: defs\<close>)
  moreover have "cstep self N s8 s9" unfolding s9_def
    by (rule cstep.release) (use N in \<open>simp_all add: defs\<close>)
  moreover have "cstep self N s9 s10" unfolding s10_def
    by (rule cstep.fetch [where c = "Suc ?c0"]) (use N in \<open>simp_all add: defs nth_append\<close>)
  ultimately have "creach self N st s10" by (meson creach_step)
  moreover have "c_pc s10 0 = Done 0" "c_pc s10 1 = Done 0" by (simp_all add: defs)
  ultimately show ?thesis by blast
qed

theorem new_object_ids_collide_witness:
  "\<exists>s. creach 7 2 new_ids s \<and> c_pc s 0 = Done 0 \<and> c_pc s 1 = Done 0"
  using new_object_ids_collide [of new_ids 7 2] by (simp add: new_ids_def)

section \<open>Session identifiers\<close>

text \<open>
  \<open>getSessionID\<close> computes in \<open>int\<close>, so the product wraps at 32 bits before it is widened.
  \<open>Calendar.MINUTE\<close> is the constant 12, the index of a calendar field. The argument is the random
  number drawn.
\<close>

definition calendar_MINUTE :: jint where
  "calendar_MINUTE = 12"

definition getSessionID :: "jint \<Rightarrow> jlong" where
  "getSessionID r = scast (r * 100 + calendar_MINUTE)"

lemma scast_inj_long: "(scast (x :: jint) :: jlong) = scast y \<longleftrightarrow> x = y"
proof
  assume "(scast x :: jlong) = scast y"
  then have "sint (scast x :: jlong) = sint (scast y :: jlong)" by simp
  then have "sint x = sint y" by (simp add: sint_up_scast is_up)
  then show "x = y" by (rule signed_word_eqI)
qed simp

lemma times_100_eq_iff: "(r * 100 :: jint) = s * 100 \<longleftrightarrow> (2 ^ 30 :: int) dvd uint r - uint s"
proof -
  have "(r * 100 :: jint) = s * 100 \<longleftrightarrow> (r - s) * 100 = 0" by (simp add: algebra_simps)
  also have "\<dots> \<longleftrightarrow> (of_int ((uint r - uint s) * 100) :: jint) = 0" by simp
  also have "\<dots> \<longleftrightarrow> (2 ^ 32 :: int) dvd (uint r - uint s) * 100"
    using word_of_int_eq_0_iff [where 'a = 32, of "(uint r - uint s) * 100"] by (simp del: of_int_mult)
  also have "\<dots> \<longleftrightarrow> (2 ^ 30 :: int) dvd (uint r - uint s) * 25"
  proof -
    have "(2 ^ 32 :: int) = 4 * 2 ^ 30" "(uint r - uint s) * 100 = 4 * ((uint r - uint s) * 25)"
      by simp_all
    then show ?thesis by (simp only: dvd_mult_cancel_left) simp
  qed
  also have "\<dots> \<longleftrightarrow> (2 ^ 30 :: int) dvd uint r - uint s"
    by (rule coprime_dvd_mult_left_iff) (simp only: coprime_power_left_iff, simp)
  finally show ?thesis .
qed

text \<open>C33: Two random numbers give the same session id exactly when they differ by a multiple of
  \<open>2 ^ 30\<close>: the multiplication by 100 wraps, and of the \<open>2 ^ 32\<close> values only a quarter remains.\<close>

theorem session_id_collisions:
  "getSessionID r = getSessionID s \<longleftrightarrow> (2 ^ 30 :: int) dvd uint r - uint s"
  unfolding getSessionID_def scast_inj_long add_right_cancel by (rule times_100_eq_iff)

section \<open>The id of the virtual machine\<close>

text \<open>
  \<open>getJVMID\<close> keeps a counter in \<open>jvmlock.dat\<close>. The directory is the first of three system
  properties that is set; the file is opened for writing, which empties it, and for reading. The
  file system is the file's content and whether the directory can be written. A channel writes and
  reads between the buffer's position and its end.
\<close>

definition choose_jvmPath :: "string \<Rightarrow> (string \<Rightarrow> string option) \<Rightarrow> string" where
  "choose_jvmPath old props =
     (if old \<noteq> [] then old
      else case filter (\<lambda>p. p \<noteq> [])
             (map (\<lambda>k. case props k of None \<Rightarrow> [] | Some p \<Rightarrow> p)
               [''java.home'', ''java.library.path'', ''ava.io.tmpdir'']) of
             [] \<Rightarrow> old | p # _ \<Rightarrow> p)"

record lock_fs =
  lock_file :: "jbyte list option"
  lock_writable :: bool

definition channel_write :: "bytebuffer \<Rightarrow> jbyte list \<Rightarrow> bytebuffer \<times> jbyte list" where
  "channel_write buf file =
     (buf\<lparr>bb_pos := length (bb_array buf)\<rparr>, file @ drop (bb_pos buf) (bb_array buf))"

definition channel_read :: "jbyte list \<Rightarrow> bytebuffer \<Rightarrow> bytebuffer" where
  "channel_read file buf =
     (let bs = take (length (bb_array buf) - bb_pos buf) file
      in buf\<lparr>bb_array := take (bb_pos buf) (bb_array buf) @ bs
               @ drop (bb_pos buf + length bs) (bb_array buf),
             bb_pos := bb_pos buf + length bs\<rparr>)"

definition buf_clear :: "bytebuffer \<Rightarrow> bytebuffer" where
  "buf_clear buf = buf\<lparr>bb_pos := 0\<rparr>"

definition getJVMID :: "lock_fs \<Rightarrow> (jlong \<times> lock_fs) result" where
  "getJVMID fs =
     (let isCreate = (lock_file fs = None \<and> lock_writable fs)
      in if \<not> lock_writable fs then Inl NullPointer
         else let file = []; buf = bb_wrap (replicate 8 0)
              in bindR (if isCreate
                        then bindR (bb_putLong 0 buf) (\<lambda>b. Inr (channel_write b file))
                        else Inr (buf, file)) (\<lambda>(buf1, file1).
                 bindR (bb_getLong (channel_read file1 (buf_clear buf1))) (\<lambda>(longid, buf2).
                 bindR (bb_putLong (longid + 1) (buf_clear buf2)) (\<lambda>buf3.
                   Inr (longid, fs\<lparr>lock_file := Some (snd (channel_write buf3 file1))\<rparr>)))))"

text \<open>The id of a virtual machine is not unique: whatever an earlier run left in the lock file,
  \<open>getJVMID\<close> returns 0 and leaves the file empty, as opening the output stream empties it and the
  buffer is written without being flipped.\<close>

theorem getJVMID_always_zero:
  assumes "lock_writable fs"
  shows "getJVMID fs = Inr (0, fs\<lparr>lock_file := Some []\<rparr>)"
proof -
  have z: "be_bytes 8 (0 :: jlong) = replicate 8 0"
    by (simp add: eval_nat_numeral)
  have v: "be_val (replicate 8 0) = (0 :: jlong)"
    using be_val_be_bytes [of 8 "0 :: jlong"] z by simp
  show ?thesis
    using assms
    by (simp add: getJVMID_def bb_putLong_def bb_put_def bb_wrap_def z bb_getLong_def bb_get_def
        channel_read_def channel_write_def buf_clear_def Let_def v)
qed

theorem getJVMID_always_zero_witness:
  "getJVMID \<lparr>lock_file = Some (be_bytes 8 (5 :: jlong)), lock_writable = True\<rparr>
     = Inr (0, \<lparr>lock_file = Some [], lock_writable = True\<rparr>)"
  using getJVMID_always_zero [of "\<lparr>lock_file = Some (be_bytes 8 (5 :: jlong)), lock_writable = True\<rparr>"]
  by simp

end
