(* ===== verification/Packets.thy ===== *)
theory Packets
  imports ByteBuf
begin

text \<open>
  The wire format of the protocol (\<open>NetPackaget/CreateNetPackaget.java\<close>): data packets,
  acknowledgements and their parser, with the value classes \<open>AckPackaget\<close> and
  \<open>ReturnCode\<close> as records. Every datagram of the protocol starts with the four bytes
  \<open>judp\<close>; the next byte is 0 for data and 1 for an acknowledgement.
\<close>

section \<open>Value classes\<close>

record ack_packaget =
  ackType :: jbyte
  ack_sessionid :: jlong
  ack_packagetNum :: jint
  ack_packagetID :: jlong
  ack_clientID :: jlong

definition new_AckPackaget :: ack_packaget where
  "new_AckPackaget = \<lparr>ackType = 0, ack_sessionid = 0, ack_packagetNum = 0,
     ack_packagetID = -1, ack_clientID = -1\<rparr>"

record return_code =
  isAck :: bool
  ErrorCode :: "string option"
  SessionID :: jlong
  PackagetID :: jlong
  InitSeq :: jlong
  packagetNum :: jint
  rc_data :: "jbyte list option"
  ackPackaget :: "ack_packaget option"
  clientid :: jlong

definition new_ReturnCode :: return_code where
  "new_ReturnCode = \<lparr>isAck = False, ErrorCode = None, SessionID = 0, PackagetID = 0,
     InitSeq = 0, packagetNum = -1, rc_data = None, ackPackaget = None, clientid = 0\<rparr>"

section \<open>Building packets\<close>

definition myFlage :: "jbyte list" where
  "myFlage = [106, 117, 100, 112]"

lemma length_myFlage [simp]: "length myFlage = 4"
  by (simp add: myFlage_def)

definition createNetPackaget ::
    "jlong \<Rightarrow> jlong \<Rightarrow> jlong \<Rightarrow> jlong \<Rightarrow> jint \<Rightarrow> jbyte list option \<Rightarrow> jbyte list option result" where
  "createNetPackaget ident sessionid initseq packagetid pnum data =
     (case data of None \<Rightarrow> Inr None
      | Some d \<Rightarrow>
         bindR (new_bytes (36 + int (length d) + 1 + int (length myFlage))) (\<lambda>bytes.
         bindR (bb_put myFlage (bb_wrap bytes)) (\<lambda>buf.
         bindR (bb_putByte 0 buf) (\<lambda>buf.
         bindR (bb_putLong ident buf) (\<lambda>buf.
         bindR (bb_putLong sessionid buf) (\<lambda>buf.
         bindR (bb_putLong initseq buf) (\<lambda>buf.
         bindR (bb_putInt pnum buf) (\<lambda>buf.
         bindR (bb_putLong packagetid buf) (\<lambda>buf.
         bindR (bb_put d buf) (\<lambda>buf. Inr (Some (bb_array buf))))))))))))"

definition createAckPackaget :: "ack_packaget \<Rightarrow> jbyte list result" where
  "createAckPackaget ack =
     (let withID = (ackType ack = 2 \<or> ackType ack = 1 \<or> ackType ack = 0);
          len = (if withID then 30 else 22)
      in bindR (new_bytes (len + int (length myFlage))) (\<lambda>bytes.
         bindR (bb_put myFlage (bb_wrap bytes)) (\<lambda>buf.
         bindR (bb_putByte 1 buf) (\<lambda>buf.
         bindR (bb_putByte (ackType ack) buf) (\<lambda>buf.
         bindR (bb_putLong (ack_clientID ack) buf) (\<lambda>buf.
         bindR (bb_putLong (ack_sessionid ack) buf) (\<lambda>buf.
         bindR (bb_putInt (ack_packagetNum ack) buf) (\<lambda>buf.
         bindR (if withID then bb_putLong (ack_packagetID ack) buf else Inr buf)
           (\<lambda>buf. Inr (bb_array buf))))))))))"

definition createNetData :: "jbyte list \<Rightarrow> jbyte list result" where
  "createNetData sendData =
     bindR (new_bytes (int (length myFlage) + int (length sendData))) (\<lambda>netData.
     bindR (arraycopy myFlage 0 netData 0 (int (length myFlage))) (\<lambda>netData.
     arraycopy sendData 0 netData (int (length myFlage)) (int (length sendData))))"

section \<open>Parsing packets\<close>

text \<open>
  The \<open>try\<close> block of \<open>AnalysisNetPackaget\<close>, after the flag has been stripped. The
  fields of the result are assigned only after every read of the branch succeeded, so an
  exception leaves the fresh \<open>ReturnCode\<close>.
\<close>

definition parse_data :: "jbyte list \<Rightarrow> bytebuffer \<Rightarrow> return_code result" where
  "parse_data netdata buf =
     bindR (bb_getLong buf) (\<lambda>(cid, buf).
     bindR (bb_getLong buf) (\<lambda>(sid, buf).
     bindR (bb_getLong buf) (\<lambda>(initseq, buf).
     bindR (bb_getInt buf) (\<lambda>(n, buf).
     bindR (bb_getLong buf) (\<lambda>(pid, buf).
     bindR (new_bytes (int (length netdata) - 36 - 1)) (\<lambda>data.
     bindR (bb_get (length data) buf) (\<lambda>(data, buf).
       Inr (new_ReturnCode\<lparr>rc_data := Some data, InitSeq := initseq, PackagetID := pid,
              packagetNum := n, SessionID := sid, isAck := False, clientid := cid\<rparr>))))))))"

definition parse_ack :: "bytebuffer \<Rightarrow> return_code result" where
  "parse_ack buf =
     bindR (bb_getByte buf) (\<lambda>(acktype, buf).
     bindR (bb_getLong buf) (\<lambda>(cid, buf).
     bindR (bb_getLong buf) (\<lambda>(sid, buf).
     bindR (bb_getInt buf) (\<lambda>(n, buf).
     let ack = new_AckPackaget\<lparr>ackType := acktype, ack_packagetNum := n,
                 ack_sessionid := sid, ack_clientID := cid\<rparr>
     in bindR (if acktype = 2 \<or> acktype = 1 \<or> acktype = 0
               then bindR (bb_getLong buf) (\<lambda>(pid, buf). Inr (ack\<lparr>ack_packagetID := pid\<rparr>))
               else Inr ack) (\<lambda>ack.
        let code = new_ReturnCode\<lparr>isAck := True, ackPackaget := Some ack\<rparr>
        in Inr (if acktype = 0
                then code\<lparr>InitSeq := ack_packagetID ack, packagetNum := ack_packagetNum ack\<rparr>
                else code))))))"

definition parse_body :: "jbyte list \<Rightarrow> return_code result" where
  "parse_body netdata =
     bindR (bb_getByte (bb_wrap netdata)) (\<lambda>(ty, buf).
       if ty = 0 then parse_data netdata buf else parse_ack buf)"

text \<open>
  \<open>getMessage()\<close> of what the block can raise: the \<open>java.nio\<close> buffer exceptions are
  constructed without a detail message.
\<close>

definition getMessage :: "exn \<Rightarrow> string option" where
  "getMessage ex = None"

definition AnalysisNetPackaget :: "jbyte list option \<Rightarrow> return_code" where
  "AnalysisNetPackaget netdata =
     (case netdata of None \<Rightarrow> new_ReturnCode
      | Some nd \<Rightarrow>
         let body = (\<lambda>b. case parse_body b of
                           Inr code \<Rightarrow> code
                         | Inl ex \<Rightarrow> new_ReturnCode\<lparr>ErrorCode := getMessage ex\<rparr>)
         in if length myFlage \<le> length nd
            then if take (length myFlage) nd = myFlage then body (drop (length myFlage) nd)
                 else new_ReturnCode\<lparr>rc_data := Some nd\<rparr>
            else body nd)"

section \<open>The bytes of a packet\<close>

definition data_bytes ::
    "jlong \<Rightarrow> jlong \<Rightarrow> jlong \<Rightarrow> jlong \<Rightarrow> jint \<Rightarrow> jbyte list \<Rightarrow> jbyte list" where
  "data_bytes ident sid initseq pid n d =
     myFlage @ 0 # be_bytes 8 ident @ be_bytes 8 sid @ be_bytes 8 initseq @ be_bytes 4 n
       @ be_bytes 8 pid @ d"

definition ack_bytes :: "ack_packaget \<Rightarrow> jbyte list" where
  "ack_bytes ack =
     myFlage @ 1 # ackType ack # be_bytes 8 (ack_clientID ack) @ be_bytes 8 (ack_sessionid ack)
       @ be_bytes 4 (ack_packagetNum ack)
       @ (if ackType ack = 2 \<or> ackType ack = 1 \<or> ackType ack = 0
          then be_bytes 8 (ack_packagetID ack) else [])"

lemma length_data_bytes: "length (data_bytes ident sid initseq pid n d) = 41 + length d"
  by (simp add: data_bytes_def)

lemma createNetPackaget_eq:
  "length d < 2 ^ 31 - 41 \<Longrightarrow>
    createNetPackaget ident sid initseq pid n (Some d)
      = Inr (Some (data_bytes ident sid initseq pid n d))"
  by (simp add: createNetPackaget_def result_simps nat_add_distrib data_bytes_def)

lemma createAckPackaget_eq: "createAckPackaget ack = Inr (ack_bytes ack)"
  by (simp add: createAckPackaget_def result_simps ack_bytes_def)

lemma createNetData_eq:
  "length d < 2 ^ 31 - 4 \<Longrightarrow> createNetData d = Inr (myFlage @ d)"
  by (simp add: createNetData_def result_simps arraycopy_def nat_add_distrib)

section \<open>Parsing what was built\<close>

lemma take_flag [simp]: "take 4 (myFlage @ r) = myFlage" "drop 4 (myFlage @ r) = r"
  by (simp_all add: myFlage_def)

lemma Analysis_flag:
  "AnalysisNetPackaget (Some (myFlage @ r)) =
     (case parse_body r of Inr code \<Rightarrow> code
      | Inl ex \<Rightarrow> new_ReturnCode\<lparr>ErrorCode := getMessage ex\<rparr>)"
  by (simp add: AnalysisNetPackaget_def)

lemma parse_body_data:
  "length d < 2 ^ 31 \<Longrightarrow>
    parse_body (0 # be_bytes 8 ident @ be_bytes 8 sid @ be_bytes 8 initseq @ be_bytes 4 n
                  @ be_bytes 8 pid @ d)
    = Inr (new_ReturnCode\<lparr>rc_data := Some d, InitSeq := initseq, PackagetID := pid,
             packagetNum := n, SessionID := sid, clientid := ident\<rparr>)"
  by (simp add: parse_body_def parse_data_def bb_wrap_pending result_simps bb_get_pending
      new_ReturnCode_def)

lemma parse_body_ack:
  assumes "ty \<noteq> 0"
  shows "parse_body (ty # at # be_bytes 8 cid @ be_bytes 8 sid @ be_bytes 4 n
            @ (if at = 2 \<or> at = 1 \<or> at = 0 then be_bytes 8 pid else []))
    = (let ack = \<lparr>ackType = at, ack_sessionid = sid, ack_packagetNum = n,
             ack_packagetID = (if at = 2 \<or> at = 1 \<or> at = 0 then pid else -1),
             ack_clientID = cid\<rparr>;
           code = new_ReturnCode\<lparr>isAck := True, ackPackaget := Some ack\<rparr>
       in Inr (if at = 0 then code\<lparr>InitSeq := pid, packagetNum := n\<rparr> else code))"
  using assms bb_getLong_pending [of _ pid "[]"]
  by (simp add: parse_body_def parse_ack_def bb_wrap_pending result_simps new_AckPackaget_def)

lemma parse_data_short:
  assumes "length r < 36"
  shows "parse_data nd (pending d r) = Inl BufferUnderflow"
proof -
  consider "length r < 8" | "8 \<le> length r" "length r < 16" | "16 \<le> length r" "length r < 24"
    | "24 \<le> length r" "length r < 28" | "28 \<le> length r"
    by linarith
  then show ?thesis
    using assms
    by cases (simp_all add: parse_data_def bb_getLong_long bb_getInt_long result_simps)
qed

lemma parse_ack_short:
  assumes "length r < 21"
  shows "parse_ack (pending d r) = Inl BufferUnderflow"
proof (cases r)
  case Nil
  then show ?thesis by (simp add: parse_ack_def result_simps)
next
  case (Cons a s)
  consider "length s < 8" | "8 \<le> length s" "length s < 16" | "16 \<le> length s"
    by linarith
  then show ?thesis
    using assms Cons
    by cases (simp_all add: parse_ack_def bb_getLong_long bb_getInt_long result_simps)
qed

text \<open>C7: Parsing a data packet that \<open>createNetPackaget\<close> built gives back every field: the
  payload, the message's first sequence number, the packet's sequence number, the packet
  count, the session and the client, and the result is not an acknowledgement.\<close>
theorem data_packet_roundtrip:
  assumes "length d < 2 ^ 31 - 41"
  shows "\<exists>bytes. createNetPackaget ident sid initseq pid n (Some d) = Inr (Some bytes)
     \<and> length bytes = 41 + length d
     \<and> AnalysisNetPackaget (Some bytes)
         = \<lparr>isAck = False, ErrorCode = None, SessionID = sid, PackagetID = pid,
            InitSeq = initseq, packagetNum = n, rc_data = Some d, ackPackaget = None,
            clientid = ident\<rparr>"
proof -
  have "AnalysisNetPackaget (Some (data_bytes ident sid initseq pid n d))
      = new_ReturnCode\<lparr>rc_data := Some d, InitSeq := initseq, PackagetID := pid,
             packagetNum := n, SessionID := sid, clientid := ident\<rparr>"
    using assms by (simp add: data_bytes_def Analysis_flag parse_body_data)
  with createNetPackaget_eq [OF assms] show ?thesis
    by (auto simp: length_data_bytes new_ReturnCode_def)
qed

theorem data_packet_roundtrip_witness:
  "\<exists>bytes. createNetPackaget 1 2 3 4 5 (Some [7, 8]) = Inr (Some bytes)
     \<and> length bytes = 43
     \<and> AnalysisNetPackaget (Some bytes)
         = \<lparr>isAck = False, ErrorCode = None, SessionID = 2, PackagetID = 4,
            InitSeq = 3, packagetNum = 5, rc_data = Some [7, 8], ackPackaget = None,
            clientid = 1\<rparr>"
  using data_packet_roundtrip [of "[7, 8]" 1 2 3 4 5] by simp

text \<open>C8: An acknowledgement of any type survives building and parsing: type, client, session
  and packet count always, the packet id for the types 0, 1 and 2 that carry it (types from 3
  on leave it at its initial -1), and for type 0 the result also holds the announced first
  sequence number and packet count.\<close>
theorem ack_packet_roundtrip:
  "\<exists>bytes. createAckPackaget ack = Inr bytes
     \<and> (let code = AnalysisNetPackaget (Some bytes);
            withID = (ackType ack = 2 \<or> ackType ack = 1 \<or> ackType ack = 0)
        in isAck code \<and> rc_data code = None \<and> ErrorCode code = None \<and> SessionID code = 0
         \<and> ackPackaget code = Some (ack\<lparr>ack_packagetID := if withID then ack_packagetID ack else -1\<rparr>)
         \<and> (InitSeq code, packagetNum code)
              = (if ackType ack = 0 then (ack_packagetID ack, ack_packagetNum ack) else (0, -1)))"
proof -
  have "parse_body (1 # ackType ack # be_bytes 8 (ack_clientID ack) @ be_bytes 8 (ack_sessionid ack)
       @ be_bytes 4 (ack_packagetNum ack)
       @ (if ackType ack = 2 \<or> ackType ack = 1 \<or> ackType ack = 0
          then be_bytes 8 (ack_packagetID ack) else []))
     = (let a = ack\<lparr>ack_packagetID := if ackType ack = 2 \<or> ackType ack = 1 \<or> ackType ack = 0
                 then ack_packagetID ack else -1\<rparr>;
            code = new_ReturnCode\<lparr>isAck := True, ackPackaget := Some a\<rparr>
        in Inr (if ackType ack = 0
                then code\<lparr>InitSeq := ack_packagetID ack, packagetNum := ack_packagetNum ack\<rparr>
                else code))"
    by (cases ack) (simp add: parse_body_ack)
  then show ?thesis
    by (simp add: createAckPackaget_eq ack_bytes_def Analysis_flag Let_def new_ReturnCode_def
        split: if_splits)
qed

text \<open>A protocol datagram too short for its header is parsed to the fresh \<open>ReturnCode\<close>: the
  buffer underflow is caught and, as that exception has no message, nothing in the result
  distinguishes it from parsing \<open>null\<close>. This holds for every truncation of a data header
  (fewer than 37 bytes after the flag) and of an acknowledgement (fewer than 22).\<close>
theorem truncated_packet_parses_to_fresh:
  assumes "r = [] \<or> (hd r = 0 \<and> length r < 37) \<or> (hd r \<noteq> 0 \<and> length r < 22)"
  shows "AnalysisNetPackaget (Some (myFlage @ r)) = AnalysisNetPackaget None"
proof (cases r)
  case Nil
  then show ?thesis
    by (simp add: Analysis_flag AnalysisNetPackaget_def parse_body_def bb_wrap_pending
        result_simps getMessage_def new_ReturnCode_def)
next
  case (Cons ty s)
  have "parse_body (ty # s) = Inl BufferUnderflow"
    using assms Cons
    by (auto simp: parse_body_def bb_wrap_pending result_simps parse_data_short parse_ack_short)
  with Cons show ?thesis
    by (simp add: Analysis_flag AnalysisNetPackaget_def getMessage_def new_ReturnCode_def)
qed

theorem truncated_packet_parses_to_fresh_witness:
  "AnalysisNetPackaget (Some (myFlage @ [0, 9, 9])) = AnalysisNetPackaget None"
  by (rule truncated_packet_parses_to_fresh) simp

text \<open>The parser is exact on data packets: whatever well-formed data datagram arrives (flag,
  type byte 0 and at least the 36 header bytes), building a packet from the parsed fields
  reproduces the datagram byte for byte.\<close>
theorem data_packet_reprint:
  assumes "36 \<le> length r" and "length r < 2 ^ 31 - 5"
  shows "let code = AnalysisNetPackaget (Some (myFlage @ 0 # r))
     in createNetPackaget (clientid code) (SessionID code) (InitSeq code) (PackagetID code)
          (packagetNum code) (rc_data code) = Inr (Some (myFlage @ 0 # r))"
proof -
  define b1 b2 b3 b4 b5 d where "b1 = take 8 r" and "b2 = take 8 (drop 8 r)"
    and "b3 = take 8 (drop 16 r)" and "b4 = take 4 (drop 24 r)" and "b5 = take 8 (drop 28 r)"
    and "d = drop 36 r"
  have len: "length b1 = 8" "length b2 = 8" "length b3 = 8" "length b4 = 4" "length b5 = 8"
    using assms by (simp_all add: b1_def b2_def b3_def b4_def b5_def)
  have cut: "\<And>xs n m. drop n xs = take m (drop n xs) @ drop (m + n) (xs :: jbyte list)"
    by (metis append_take_drop_id drop_drop)
  have r: "r = b1 @ b2 @ b3 @ b4 @ b5 @ d"
    using cut [of 0 r 8] cut [of 8 r 8] cut [of 16 r 8] cut [of 24 r 4] cut [of 28 r 8]
    by (simp add: b1_def b2_def b3_def b4_def b5_def d_def)
  have w8: "b = be_bytes 8 (be_val b :: jlong)" if "length b = 8" for b
    using be_bytes_be_val [where 'a = 64, of b] that by simp
  have w4: "b4 = be_bytes 4 (be_val b4 :: jint)"
    using be_bytes_be_val [where 'a = 32, of b4] len by simp
  have fields: "myFlage @ 0 # r = data_bytes (be_val b1) (be_val b2) (be_val b3) (be_val b5) (be_val b4) d"
    using w8 [OF len(1)] w8 [OF len(2)] w8 [OF len(3)] w8 [OF len(5)] w4 r
    by (simp add: data_bytes_def)
  have "length d < 2 ^ 31 - 41" using assms by (simp add: d_def)
  then show ?thesis
    unfolding fields
    by (simp add: createNetPackaget_eq) (simp add: data_bytes_def Analysis_flag parse_body_data createNetPackaget_eq)
qed

theorem data_packet_reprint_witness:
  "let r = replicate 38 3; code = AnalysisNetPackaget (Some (myFlage @ 0 # r))
   in createNetPackaget (clientid code) (SessionID code) (InitSeq code) (PackagetID code)
          (packagetNum code) (rc_data code) = Inr (Some (myFlage @ 0 # r))"
  using data_packet_reprint [of "replicate 38 3"] by simp

text \<open>A datagram of at least four bytes that does not start with the protocol's flag is passed
  on unparsed: its bytes are the payload and the packet count stays at -1.\<close>
theorem foreign_datagram_raw:
  assumes "4 \<le> length nd" and "take 4 nd \<noteq> myFlage"
  shows "AnalysisNetPackaget (Some nd) = new_ReturnCode\<lparr>rc_data := Some nd\<rparr>"
  using assms by (simp add: AnalysisNetPackaget_def)

theorem foreign_datagram_raw_witness:
  "AnalysisNetPackaget (Some [1, 2, 3, 4, 5]) = new_ReturnCode\<lparr>rc_data := Some [1, 2, 3, 4, 5]\<rparr>"
  by (rule foreign_datagram_raw) (simp_all add: myFlage_def)

end
