(* ===== verification/SubPack.thy ===== *)
theory SubPack
  imports Packets
begin

text \<open>
  Splitting a message into datagram payloads (\<open>NetPackaget/SubPackaget.java\<close>). The
  static field \<open>streamSize\<close> is the state: an \<open>int\<close> the setters replace and \<open>subData\<close>
  reads.
\<close>

section \<open>The chunk size\<close>

definition initial_streamSize :: int where
  "initial_streamSize = 65535 - 20"

definition setSizeByDefault :: "string \<Rightarrow> int \<Rightarrow> int" where
  "setSizeByDefault name streamSize =
     (let dname = map lower_char name
      in if dname = ''min'' then 548
         else if dname = ''middle'' then 1472
         else if dname = ''max'' then 65535
         else 65535)"

definition setStreamSize :: "int \<Rightarrow> int \<Rightarrow> int" where
  "setStreamSize sz streamSize = sz"

definition getStreamSize :: "int \<Rightarrow> int" where
  "getStreamSize streamSize = streamSize"

section \<open>Splitting\<close>

text \<open>
  The \<open>while (len > 0)\<close> loop: copy \<open>len\<close> bytes from \<open>offset\<close>, advance, and take at
  most \<open>streamSize\<close> of what is left. A copy outside the array raises, which also bounds the
  loop.
\<close>

function subLoop :: "jbyte list \<Rightarrow> int \<Rightarrow> int \<Rightarrow> int \<Rightarrow> jbyte list list \<Rightarrow> jbyte list list result" where
  "subLoop bytes streamSize offset len acc =
     (if len > 0
      then (if offset < 0 \<or> int (length bytes) < offset + len then Inl IndexOutOfBounds
            else let tmp = take (nat len) (drop (nat offset) bytes);
                     offset' = offset + len;
                     rest = int (length bytes) - offset'
                 in subLoop bytes streamSize offset' (if rest > streamSize then streamSize else rest)
                      (acc @ [tmp]))
      else Inr acc)"
  by pat_completeness auto
termination
  by (relation "measure (\<lambda>(bytes, s, offset, len, acc). nat (int (length bytes) - offset))") auto

declare subLoop.simps [simp del]

definition subData :: "int \<Rightarrow> jbyte list option \<Rightarrow> jbyte list list option result" where
  "subData streamSize bytes =
     (case bytes of None \<Rightarrow> Inr None
      | Some bs \<Rightarrow>
          if int (length bs) < streamSize then Inr (Some [bs])
          else bindR (subLoop bs streamSize 0 streamSize []) (\<lambda>l. Inr (Some l)))"

section \<open>Reference: chunks of a list\<close>

function chunks :: "nat \<Rightarrow> 'a list \<Rightarrow> 'a list list" where
  "chunks n xs = (if n = 0 \<or> xs = [] then [] else take n xs # chunks n (drop n xs))"
  by pat_completeness auto
termination
  by (relation "measure (\<lambda>(n, xs). length xs)") auto

declare chunks.simps [simp del]

lemma chunks_Nil [simp]: "chunks n [] = []"
  by (simp add: chunks.simps)

lemma concat_chunks: "0 < n \<Longrightarrow> concat (chunks n xs) = xs"
  by (induction n xs rule: chunks.induct) (subst chunks.simps, auto)

lemma chunks_length: "c \<in> set (chunks n xs) \<Longrightarrow> 0 < length c \<and> length c \<le> n"
proof (induction n xs rule: chunks.induct)
  case (1 n xs)
  then show ?case
    by (subst (asm) chunks.simps) (auto split: if_splits)
qed

lemma chunks_full: "i + 1 < length (chunks n xs) \<Longrightarrow> length (chunks n xs ! i) = n"
proof (induction n xs arbitrary: i rule: chunks.induct)
  case (1 n xs)
  show ?case
  proof (cases "n = 0 \<or> xs = []")
    case True
    with 1 show ?thesis by (simp add: chunks.simps)
  next
    case False
    then have step: "chunks n xs = take n xs # chunks n (drop n xs)"
      by (simp add: chunks.simps)
    show ?thesis
    proof (cases i)
      case 0
      have "drop n xs \<noteq> []"
        using "1.prems" step 0 by auto
      with step 0 show ?thesis by simp
    next
      case (Suc j)
      with "1.IH" [of j] "1.prems" False step show ?thesis by simp
    qed
  qed
qed

lemma length_chunks: "0 < n \<Longrightarrow> length (chunks n xs) = (length xs + n - 1) div n"
proof (induction n xs rule: chunks.induct)
  case (1 n xs)
  show ?case
  proof (cases "xs = []")
    case True
    with 1 show ?thesis by simp
  next
    case False
    with 1 have "length (chunks n xs) = Suc ((length xs - n + n - 1) div n)"
      by (subst chunks.simps) simp
    also have "\<dots> = (length xs + n - 1) div n"
    proof (cases "length xs \<le> n")
      case True
      have "(length xs + n - 1) div n = ((length xs - 1) + n) div n"
        using False by (cases xs) simp_all
      also have "\<dots> = Suc ((length xs - 1) div n)"
        using div_add_self2 [of n "length xs - 1"] "1.prems" by simp
      also have "(length xs - 1) div n = 0"
        using True False by (cases xs) simp_all
      finally show ?thesis using True 1 by simp
    next
      case F2: False
      then have "length xs + n - 1 = (length xs - n + n - 1) + n" by simp
      then show ?thesis
        using div_add_self2 [of n "length xs - n + n - 1"] "1.prems" by (simp only:)
    qed
    finally show ?thesis .
  qed
qed

section \<open>The loop computes the chunks\<close>

lemma subLoop_chunks:
  assumes "0 < s" and "0 \<le> offset" and "offset \<le> int (length bs)"
    and "len = min s (int (length bs) - offset)"
  shows "subLoop bs s offset len acc = Inr (acc @ chunks (nat s) (drop (nat offset) bs))"
  using assms
proof (induction bs s offset len acc rule: subLoop.induct)
  case (1 bs s offset len acc)
  show ?case
  proof (cases "len > 0")
    case False
    with 1 have "drop (nat offset) bs = []" by simp
    with False show ?thesis by (subst subLoop.simps) simp
  next
    case True
    define rest where "rest = int (length bs) - (offset + len)"
    have mn: "(if int (length bs) - (offset + len) > s then s else int (length bs) - (offset + len))
        = min s rest"
      by (auto simp: rest_def)
    have len: "offset + len \<le> int (length bs)" using "1.prems" by simp
    have guard: "\<not> (offset < 0 \<or> int (length bs) < offset + len)"
      using len "1.prems"(2) by simp
    have tk: "take (nat len) (drop (nat offset) bs) = take (nat s) (drop (nat offset) bs)"
      using "1.prems" by (cases "s \<le> int (length bs) - offset") (auto simp: min_def)
    have dr: "drop (nat (offset + len)) bs = drop (nat s) (drop (nat offset) bs)"
      using "1.prems" by (auto simp: min_def nat_add_distrib add.commute)
    have "subLoop bs s offset len acc
        = subLoop bs s (offset + len) (min s rest) (acc @ [take (nat s) (drop (nat offset) bs)])"
      using True len "1.prems"(2) by (subst subLoop.simps) (simp add: tk mn Let_def)
    also have "\<dots> = Inr ((acc @ [take (nat s) (drop (nat offset) bs)])
                       @ chunks (nat s) (drop (nat (offset + len)) bs))"
      by (rule "1.IH" [OF True guard refl refl refl, unfolded tk mn])
        (use True len "1.prems"(1,2) in \<open>simp_all add: rest_def\<close>)
    also have "\<dots> = Inr (acc @ chunks (nat s) (drop (nat offset) bs))"
      using True "1.prems" dr by (subst (2) chunks.simps) auto
    finally show ?thesis .
  qed
qed

lemma subData_eq:
  assumes "0 < s"
  shows "subData s (Some bs) = Inr (Some (if bs = [] then [[]] else chunks (nat s) bs))"
proof (cases "int (length bs) < s")
  case True
  then have "bs \<noteq> [] \<Longrightarrow> chunks (nat s) bs = [bs]"
    using assms by (subst chunks.simps) auto
  with True show ?thesis by (simp add: subData_def)
next
  case False
  then show ?thesis
    using assms by (auto simp: subData_def subLoop_chunks)
qed

lemma subData_facts:
  assumes "0 < s" and "subData s (Some bs) = Inr (Some l)"
  shows "concat l = bs" and "l \<noteq> []" and "\<forall>c \<in> set l. length c \<le> nat s"
    and "\<forall>i. i + 1 < length l \<longrightarrow> length (l ! i) = nat s"
    and "length l = max 1 ((length bs + nat s - 1) div nat s)"
proof -
  have l: "l = (if bs = [] then [[]] else chunks (nat s) bs)"
    using assms by (simp add: subData_eq)
  have pos: "0 < nat s" using assms by simp
  show cc: "concat l = bs" using l pos by (auto simp: concat_chunks)
  show "\<forall>c \<in> set l. length c \<le> nat s"
    using l by (auto dest: chunks_length)
  show "\<forall>i. i + 1 < length l \<longrightarrow> length (l ! i) = nat s"
    using l by (auto simp: chunks_full)
  show ne: "l \<noteq> []" using l cc by auto
  show "length l = max 1 ((length bs + nat s - 1) div nat s)"
  proof (cases "bs = []")
    case True
    then show ?thesis using l pos by simp
  next
    case False
    then have "length l = (length bs + nat s - 1) div nat s"
      using l pos by (simp add: length_chunks)
    moreover have "1 \<le> length l" using ne by (cases l) auto
    ultimately show ?thesis by simp
  qed
qed

lemma setSizeByDefault_names:
  "setSizeByDefault ''max'' s = 65535" "setSizeByDefault ''MIN'' s = 548"
  "setSizeByDefault ''Middle'' s = 1472"
proof -
  have "map lower_char ''max'' = ''max''" "map lower_char ''MIN'' = ''min''"
    "map lower_char ''Middle'' = ''middle''"
    by code_simp+
  then show "setSizeByDefault ''max'' s = 65535" "setSizeByDefault ''MIN'' s = 548"
    "setSizeByDefault ''Middle'' s = 1472"
    by (simp_all add: setSizeByDefault_def)
qed

section \<open>Properties\<close>

text \<open>C6: For a positive chunk size, splitting succeeds and loses nothing: the chunks concatenate
  to the message, there is at least one, none is longer than the chunk size, all but the last
  have exactly that size, and their number is the message length divided by the chunk size,
  rounded up (an empty message is one empty chunk).\<close>
theorem subData_correct:
  assumes "0 < s"
  shows "\<exists>l. subData s (Some bs) = Inr (Some l) \<and> concat l = bs \<and> l \<noteq> []
     \<and> (\<forall>c \<in> set l. length c \<le> nat s)
     \<and> (\<forall>i. i + 1 < length l \<longrightarrow> length (l ! i) = nat s)
     \<and> length l = max 1 ((length bs + nat s - 1) div nat s)"
proof -
  obtain l where l: "subData s (Some bs) = Inr (Some l)"
    using assms by (simp add: subData_eq)
  show ?thesis using l subData_facts [OF assms l] by blast
qed

theorem subData_correct_witness:
  "\<exists>l. subData 2 (Some [1, 2, 3, 4, 5]) = Inr (Some l) \<and> concat l = [1, 2, 3, 4, 5] \<and> l \<noteq> []
     \<and> (\<forall>c \<in> set l. length c \<le> nat 2)
     \<and> (\<forall>i. i + 1 < length l \<longrightarrow> length (l ! i) = nat 2)
     \<and> length l = max 1 ((length ([1, 2, 3, 4, 5] :: jbyte list) + nat 2 - 1) div nat 2)"
  by (rule subData_correct) simp

text \<open>With a chunk size that is zero or negative (the setter takes any \<open>int\<close>) the loop body
  never runs: every message, however long, is split into no chunk at all.\<close>
theorem subData_nonpositive_size_drops:
  assumes "s \<le> 0"
  shows "subData (setStreamSize s old) (Some bs) = Inr (Some [])"
  using assms by (subst subData_def) (simp add: setStreamSize_def subLoop.simps)

theorem subData_nonpositive_size_drops_witness:
  "subData (setStreamSize 0 1472) (Some [1, 2, 3]) = Inr (Some [])"
  by (rule subData_nonpositive_size_drops) simp

text \<open>Datagram sizes. A chunk of a message split at size \<open>s\<close> becomes a datagram of at most
  \<open>s + 41\<close> bytes. With the initial size, or after \<open>setSizeByDefault\<close> with \<open>max\<close>,
  a message of at least that size produces a first datagram of more than 65507
  bytes, the largest UDP payload over IPv4; with \<open>min\<close> and \<open>middle\<close> (in any letter case of
  the model's ASCII folding) every datagram has at most 589 and 1513 bytes.\<close>
theorem datagram_sizes:
  assumes "0 < s" and "s \<le> 65535" and "subData s (Some bs) = Inr (Some l)" and "c \<in> set l"
    and "createNetPackaget ident sid initseq pid n (Some c) = Inr (Some pkt)"
  shows "int (length pkt) \<le> s + 41
     \<and> (s \<in> {initial_streamSize, setSizeByDefault ''max'' s} \<longrightarrow> s \<le> int (length bs) \<longrightarrow>
          c = hd l \<longrightarrow> 65507 < length pkt)
     \<and> (s = setSizeByDefault ''MIN'' s \<longrightarrow> length pkt \<le> 589)
     \<and> (s = setSizeByDefault ''Middle'' s \<longrightarrow> length pkt \<le> 1513)"
proof -
  note facts = subData_facts [OF assms(1,3)]
  have cl: "length c \<le> nat s" using facts(3) assms(4) by blast
  have "length c < 2 ^ 31 - 41" using cl assms(2) by simp
  then have len: "length pkt = 41 + length c"
    using assms(5) by (auto simp: createNetPackaget_eq length_data_bytes)
  have hdl: "length (hd l) = nat s" if "s \<le> int (length bs)"
  proof (cases "1 < length l")
    case True
    then show ?thesis using facts(2,4) by (auto simp: hd_conv_nth)
  next
    case False
    then have "l = [hd l]" using facts(2) by (cases l) auto
    then have "hd l = bs" using facts(1) by (metis concat.simps(1,2) append_Nil2)
    moreover have "length (hd l) \<le> nat s" using facts(2,3) by simp
    ultimately show ?thesis using that by simp
  qed
  show ?thesis
    using cl len hdl assms(1)
    by (auto simp: initial_streamSize_def setSizeByDefault_names)
qed

theorem datagram_sizes_witness:
  "\<exists>l pkt. subData 2 (Some [1, 2, 3]) = Inr (Some l) \<and> hd l \<in> set l
     \<and> createNetPackaget 1 1 0 0 2 (Some (hd l)) = Inr (Some pkt) \<and> int (length pkt) \<le> 2 + 41"
proof -
  have l: "subData 2 (Some [1, 2, 3]) = Inr (Some [[1, 2], [3]])"
    by (simp add: subData_eq chunks.simps)
  obtain pkt where p: "createNetPackaget 1 1 0 0 2 (Some [1, 2]) = Inr (Some pkt)"
    by (simp add: createNetPackaget_eq)
  have "int (length pkt) \<le> 2 + 41"
    using datagram_sizes [OF _ _ l _ p] by simp
  then show ?thesis using l p by auto
qed

end
