(* ===== verification/FileIO.thy ===== *)
theory FileIO
  imports Prelude
begin

text \<open>
  File access of the persistence layer (\<open>FileStore/FileRead.java\<close>, \<open>FileStore/FileWrite.java\<close>).
  A file system maps paths to contents; a path may be a directory, and may be one at which no file
  can be created.
\<close>

record file_system =
  files :: "string \<Rightarrow> jbyte list option"
  is_dir :: "string \<Rightarrow> bool"
  creatable :: "string \<Rightarrow> bool"

definition file_len :: "file_system \<Rightarrow> string \<Rightarrow> int" where
  "file_len fs path = (case files fs path of None \<Rightarrow> 0 | Some bs \<Rightarrow> int (length bs))"

definition content :: "file_system \<Rightarrow> string \<Rightarrow> jbyte list" where
  "content fs path = (case files fs path of None \<Rightarrow> [] | Some bs \<Rightarrow> bs)"

text \<open>
  \<open>2*1024*1024*1024\<close> is computed in \<open>int\<close> before it is widened, and so is \<open>100*1024*102\<close>.
\<close>

definition fileMax :: int where
  "fileMax = wrap_int (2 * 1024 * 1024 * 1024)"

definition blockSize :: int where
  "blockSize = wrap_int (100 * 1024 * 102)"

definition max_int :: int where
  "max_int = 2 ^ 31 - 1"

lemma fileMax_negative: "fileMax = - (2 ^ 31)"
  by (simp add: fileMax_def wrap_int_def)

lemma blockSize_value: "blockSize = 10444800"
  by (simp add: blockSize_def wrap_int_def)

lemma file_len_content: "file_len fs path = int (length (content fs path))"
  by (simp add: file_len_def content_def split: option.splits)

section \<open>Writing\<close>

text \<open>
  \<open>writeSmall\<close>: the position is read before the buffer is flushed, and only data of at least 8192
  bytes passes the buffer at once. The flag is \<open>append\<close>. A failure to open is printed and ignored.
\<close>

definition writeSmall :: "bool \<Rightarrow> string \<Rightarrow> jbyte list \<Rightarrow> file_system \<Rightarrow> int \<times> file_system" where
  "writeSmall app path data fs =
     (if is_dir fs path \<or> (files fs path = None \<and> \<not> creatable fs path) then (0, fs)
      else let old = (if app then content fs path else []);
               len = int (length old) + (if 8192 \<le> length data then int (length data) else 0)
           in (len, fs\<lparr>files := (files fs)(path \<mapsto> old @ data)\<rparr>))"

text \<open>
  \<open>write\<close> maps the region after the end of the file, which makes the file longer, and then adds
  the length of the data to the length the file has by now.
\<close>

definition write_mapped :: "string \<Rightarrow> jbyte list \<Rightarrow> file_system \<Rightarrow> (int \<times> file_system) result" where
  "write_mapped path data fs =
     (if is_dir fs path then Inr (-1, fs)
      else if files fs path = None \<and> \<not> creatable fs path then Inl NullPointer
      else let fs' = fs\<lparr>files := (files fs)(path \<mapsto> content fs path @ data)\<rparr>
           in Inr (file_len fs' path + int (length data), fs'))"

definition writeFile :: "bool \<Rightarrow> string \<Rightarrow> jbyte list \<Rightarrow> file_system \<Rightarrow> (int \<times> file_system) result" where
  "writeFile app path data fs =
     (if is_dir fs path then Inr (-1, fs)
      else let fs1 = (if files fs path \<noteq> None \<and> \<not> app
                      then fs\<lparr>files := (files fs)(path \<mapsto> [])\<rparr> else fs)
           in if file_len fs1 path \<le> fileMax then Inr (writeSmall app path data fs1)
              else write_mapped path data fs1)"

definition getFile :: "string \<Rightarrow> file_system \<Rightarrow> int" where
  "getFile path fs = (if is_dir fs path then -1 else file_len fs path)"

section \<open>Reading\<close>

definition new_array :: "int \<Rightarrow> jbyte list result" where
  "new_array n = (if n < 0 then Inl NegativeArraySize else Inr (replicate (nat n) 0))"

definition readSmall :: "string \<Rightarrow> int \<Rightarrow> int \<Rightarrow> file_system \<Rightarrow> jbyte list option result" where
  "readSmall path position len fs =
     bindR (new_array len) (\<lambda>_.
       if files fs path = None \<or> is_dir fs path then Inr None
       else if position < 0 then Inl IllegalArgument
       else let got = take (nat len) (drop (nat position) (content fs path))
            in Inr (Some (got @ replicate (nat len - length got) 0)))"

text \<open>
  \<open>read\<close> maps as many bytes as the whole file has, from \<open>position\<close> on. A read-only map that ends
  behind the end of the file throws, which is printed, and the read of the null buffer fails.
\<close>

definition read_mapped :: "string \<Rightarrow> int \<Rightarrow> int \<Rightarrow> file_system \<Rightarrow> jbyte list option result" where
  "read_mapped path position len fs =
     bindR (new_array len) (\<lambda>_.
       if files fs path = None \<or> is_dir fs path then Inr None
       else let finLen = file_len fs path
            in if position < 0 \<or> max_int < finLen then Inl IllegalArgument
               else if finLen < position + finLen then Inl NullPointer
               else if finLen < len then Inl BufferUnderflow
               else Inr (Some (take (nat len) (drop (nat position) (content fs path)))))"

text \<open>The loop over the blocks of a big read; a block that is null makes \<open>arraycopy\<close> fail.\<close>

fun readBlocks :: "string \<Rightarrow> nat \<Rightarrow> int \<Rightarrow> int \<Rightarrow> jbyte list \<Rightarrow> file_system \<Rightarrow>
    (int \<times> jbyte list) result" where
  "readBlocks path 0 position offset buf fs = Inr (offset, buf)"
| "readBlocks path (Suc n) position offset buf fs =
     bindR (read_mapped path (position + offset) blockSize fs) (\<lambda>r.
       case r of None \<Rightarrow> Inl NullPointer
       | Some tmp \<Rightarrow> bindR (arraycopy tmp 0 buf offset blockSize) (\<lambda>buf'.
           readBlocks path n position (offset + blockSize) buf' fs))"

definition readFile :: "string \<Rightarrow> int \<Rightarrow> int \<Rightarrow> file_system \<Rightarrow> jbyte list option result" where
  "readFile path position len fs =
     (if files fs path = None \<or> is_dir fs path then Inr None
      else if file_len fs path \<le> fileMax then readSmall path position len fs
      else bindR (new_array len) (\<lambda>buf.
           bindR (readBlocks path (nat (len div blockSize)) position 0 buf fs) (\<lambda>(offset, buf1).
             let left = len mod blockSize
             in if 0 < left
                then bindR (read_mapped path (position + offset) left fs) (\<lambda>r.
                  case r of None \<Rightarrow> Inl NullPointer
                  | Some tmp \<Rightarrow> bindR (arraycopy tmp 0 buf1 offset left) (\<lambda>buf2. Inr (Some buf2)))
                else Inr (Some buf1))))"

section \<open>What the writes do\<close>

lemma fileMax_never: "\<not> file_len fs path \<le> fileMax"
  by (simp add: fileMax_negative file_len_content)

definition appended :: "string \<Rightarrow> jbyte list \<Rightarrow> file_system \<Rightarrow> file_system" where
  "appended path data fs = fs\<lparr>files := (files fs)(path \<mapsto> content fs path @ data)\<rparr>"

lemma appended_simps [simp]:
  "content (appended path data fs) q = (if q = path then content fs path @ data else content fs q)"
  "is_dir (appended path data fs) = is_dir fs" "creatable (appended path data fs) = creatable fs"
  "files (appended path data fs) path \<noteq> None"
  "q \<noteq> path \<Longrightarrow> files (appended path data fs) q = files fs q"
  by (simp_all add: appended_def content_def)

lemma writeFile_result:
  assumes "\<not> is_dir fs path" and "files fs path \<noteq> None \<or> creatable fs path"
  shows "writeFile True path data fs
    = Inr (file_len fs path + 2 * int (length data), appended path data fs)"
proof -
  have "writeFile True path data fs = write_mapped path data fs"
    using assms(1) by (simp add: writeFile_def fileMax_never Let_def)
  then show ?thesis
    using assms by (auto simp: write_mapped_def Let_def file_len_content appended_def [symmetric])
qed

text \<open>C37: An appending write adds the data at the end of the file and changes no other file. The
  value it returns is not the new length: it counts the data twice, as the length is read after the
  mapping has extended the file. The limit below which the small-file path would be taken is
  negative, as \<open>2*1024*1024*1024\<close> wraps, so that path is never taken.\<close>

theorem writeFile_appends:
  assumes "\<not> is_dir fs path" and "files fs path \<noteq> None \<or> creatable fs path"
  shows "\<exists>fs'. writeFile True path data fs
      = Inr (file_len fs path + 2 * int (length data), fs')
    \<and> content fs' path = content fs path @ data
    \<and> (\<forall>q. q \<noteq> path \<longrightarrow> files fs' q = files fs q)"
  using writeFile_result [OF assms] by (intro exI [of _ "appended path data fs"]) simp

definition empty_fs :: file_system where
  "empty_fs = \<lparr>files = (\<lambda>_. None), is_dir = (\<lambda>_. False), creatable = (\<lambda>_. True)\<rparr>"

theorem writeFile_appends_witness:
  "\<exists>fs'. writeFile True ''1.DB'' [1, 2, 3] empty_fs = Inr (6, fs')"
  using writeFile_appends [of empty_fs "''1.DB''" "[1, 2, 3]"]
  by (auto simp: empty_fs_def file_len_def)

section \<open>What can be read back\<close>

lemma read_mapped_later:
  "files fs path \<noteq> None \<Longrightarrow> \<not> is_dir fs path \<Longrightarrow> file_len fs path \<le> max_int \<Longrightarrow> 0 < position \<Longrightarrow>
    0 \<le> len \<Longrightarrow> read_mapped path position len fs = Inl NullPointer"
  by (simp add: read_mapped_def new_array_def Let_def)

lemma read_mapped_start:
  "files fs path \<noteq> None \<Longrightarrow> \<not> is_dir fs path \<Longrightarrow> file_len fs path \<le> max_int \<Longrightarrow> 0 \<le> len \<Longrightarrow>
    read_mapped path 0 len fs =
      (if file_len fs path < len then Inl BufferUnderflow
       else Inr (Some (take (nat len) (content fs path))))"
  by (simp add: read_mapped_def new_array_def Let_def)

lemma content_length: "nat (file_len fs path) = length (content fs path)"
  by (simp add: file_len_content)

lemma arraycopy_into_new:
  "length tmp = n \<Longrightarrow> arraycopy tmp 0 (replicate n 0) 0 (int n) = Inr tmp"
  using arraycopy_all [of "replicate n 0" tmp] by simp

lemma readFile_blocks:
  assumes "files fs path \<noteq> None" and "\<not> is_dir fs path" and "0 < len"
  shows "readFile path position len fs =
      bindR (readBlocks path (nat (len div blockSize)) position 0 (replicate (nat len) 0) fs)
        (\<lambda>(offset, buf1).
          if 0 < len mod blockSize
          then bindR (read_mapped path (position + offset) (len mod blockSize) fs) (\<lambda>r.
            case r of None \<Rightarrow> Inl NullPointer
            | Some tmp \<Rightarrow> bindR (arraycopy tmp 0 buf1 offset (len mod blockSize)) (\<lambda>buf2.
                Inr (Some buf2)))
          else Inr (Some buf1))"
proof -
  have "new_array len = Inr (replicate (nat len) 0)" using assms(3) by (simp add: new_array_def)
  then show ?thesis
    unfolding readFile_def Let_def using assms(1,2) fileMax_never [of fs path] by auto
qed

text \<open>Less than a block: one read of the rest. A block or more: the first block decides.\<close>

lemma readFile_small:
  assumes "files fs path \<noteq> None" and "\<not> is_dir fs path" and "file_len fs path \<le> max_int"
    and "0 \<le> position" and "0 < len" and "len < blockSize"
  shows "readFile path position len fs =
    (if 0 < position then Inl NullPointer
     else if file_len fs path < len then Inl BufferUnderflow
     else Inr (Some (take (nat len) (content fs path))))"
proof -
  have n: "nat (len div blockSize) = 0" "len mod blockSize = len" using assms(5,6) by simp_all
  show ?thesis
  proof (cases "0 < position")
    case True
    then show ?thesis
      using readFile_blocks [OF assms(1,2,5), of position] n assms by (simp add: read_mapped_later)
  next
    case False
    then have "position = 0" using assms(4) by simp
    then show ?thesis
      using readFile_blocks [OF assms(1,2,5), of position] n assms
        arraycopy_into_new [of "take (nat len) (content fs path)" "nat len"]
      by (simp add: read_mapped_start file_len_content)
  qed
qed

lemma readFile_big:
  assumes "files fs path \<noteq> None" and "\<not> is_dir fs path" and "file_len fs path \<le> max_int"
    and "0 \<le> position" and "blockSize \<le> len"
  shows "readFile path position len fs =
    (if 0 < position then Inl NullPointer
     else if file_len fs path < blockSize then Inl BufferUnderflow
     else if blockSize < len then Inl NullPointer
     else Inr (Some (take (nat len) (content fs path))))"
proof -
  note bs = blockSize_value
  have pos: "0 < len" using assms(5) bs by simp
  then have "0 < len div blockSize" using assms(5) bs by (simp add: pos_imp_zdiv_pos_iff)
  then obtain k where n: "nat (len div blockSize) = Suc k" by (metis gr0_implies_Suc zero_less_nat_eq)
  note start = readFile_blocks [OF assms(1,2) pos, of position]
  have later: "read_mapped path q r fs = Inl NullPointer" if "0 < q" "0 \<le> r" for q r
    using assms that by (intro read_mapped_later) auto
  have first: "read_mapped path 0 blockSize fs = (if file_len fs path < blockSize
      then Inl BufferUnderflow else Inr (Some (take (nat blockSize) (content fs path))))"
    using assms bs by (intro read_mapped_start) auto
  have "0 < position \<or> position = 0" using assms(4) by auto
  moreover have ?thesis if "0 < position"
    using that start n later [OF that, of blockSize] bs by simp
  moreover have ?thesis if "position = 0" "file_len fs path < blockSize"
    using that start n first by simp
  moreover have ?thesis if p: "position = 0" and l: "\<not> file_len fs path < blockSize"
  proof -
    obtain buf where c: "arraycopy (take (nat blockSize) (content fs path)) 0
        (replicate (nat len) 0) 0 blockSize = Inr buf"
      "len = blockSize \<Longrightarrow> buf = take (nat blockSize) (content fs path)"
      using assms(5) l bs by (auto simp: arraycopy_def file_len_content)
    consider "len = blockSize" | "blockSize < len" "k = 0" | j where "blockSize < len" "k = Suc j"
      using assms(5) by (cases k) force+
    then show ?thesis
    proof cases
      case 1
      then have "k = 0" "len mod blockSize = 0" using n bs by simp_all
      then show ?thesis using start n p first c 1 l by simp
    next
      case 2
      then have "len div blockSize = 1" using n by simp
      then have "blockSize + len mod blockSize = len"
        using mult_div_mod_eq [of blockSize len] by simp
      then have "0 < len mod blockSize" using 2(1) by linarith
      then show ?thesis
        using start n p first c(1) 2 l later [of blockSize "len mod blockSize"] bs by simp
    next
      case 3
      then show ?thesis
        using start n p first c(1) l later [of blockSize blockSize] bs by simp
    qed
  qed
  ultimately show ?thesis by blast
qed

text \<open>What \<open>readFile\<close> gives for a file that can be mapped, a non-negative position and a positive
  length: the bytes, when the position is 0 and the length is at most one block and at most the
  file's length; otherwise it fails. No record that starts behind the first byte of a file can be
  read, and no record longer than a block.\<close>

theorem readFile_exactly:
  assumes "files fs path \<noteq> None" and "\<not> is_dir fs path" and "file_len fs path \<le> max_int"
    and "0 \<le> position" and "0 < len"
  shows "readFile path position len fs =
    (if 0 < position then Inl NullPointer
     else if file_len fs path < min len blockSize then Inl BufferUnderflow
     else if blockSize < len then Inl NullPointer
     else Inr (Some (take (nat len) (content fs path))))"
proof (cases "len < blockSize")
  case True
  then show ?thesis using readFile_small [OF assms] by simp
next
  case False
  then show ?thesis using readFile_big [OF assms(1-4)] by simp
qed

theorem readFile_exactly_witness:
  "readFile ''1.DB'' 2 1 (empty_fs\<lparr>files := [''1.DB'' \<mapsto> [1, 2, 3]]\<rparr>) = Inl NullPointer
    \<and> readFile ''1.DB'' 0 2 (empty_fs\<lparr>files := [''1.DB'' \<mapsto> [1, 2, 3]]\<rparr>) = Inr (Some [1, 2])"
  using readFile_exactly [of "empty_fs\<lparr>files := [''1.DB'' \<mapsto> [1, 2, 3]]\<rparr>" "''1.DB''" 2 1]
    readFile_exactly [of "empty_fs\<lparr>files := [''1.DB'' \<mapsto> [1, 2, 3]]\<rparr>" "''1.DB''" 0 2]
  by (simp add: empty_fs_def file_len_def content_def max_int_def blockSize_value)

end
