(* ===== verification/FileStore.thy ===== *)
theory FileStore
  imports FileIO ByteBuf
begin

text \<open>
  The file-backed store (\<open>FileStore/FileMemoryData.java\<close>, \<open>FileIndex.java\<close>,
  \<open>DataDeleteIndex.java\<close>): values are put in a memory cache; past a threshold a task writes the
  cache to a data file, remembers where each value lies, and empties the cache. The task is modelled
  in the two phases between which other threads can put: writing, and removing what was written.
  Java object serialisation is a parameter: \<open>ser\<close> and \<open>deser\<close>, each null on failure.
\<close>

section \<open>Data\<close>

datatype 'o jval =
    JBytes "jbyte list" | JLong jlong | JInteger jint | JShort "16 word" | JByte jbyte | JObj 'o

record 'k file_index =
  fi_key :: 'k
  fi_position :: int
  fi_len :: int
  fi_fileid :: string

record data_delete_index =
  dd_fileid :: string
  dd_position :: int
  dd_len :: int
  dd_flage :: int

text \<open>The calls of \<open>FileModifyDBManager\<close>: a change of the index, and an old record to reclaim.\<close>

datatype mod_call = AddDataDeleteIndex data_delete_index | AddFile data_delete_index

record ('k, 'o) file_memory =
  fm_cache :: "'k \<Rightarrow> 'o jval option"
  findex :: "'k \<Rightarrow> 'k file_index option"
  fm_sum :: int
  valType :: int
  typeLen :: int
  fm_isRunning :: bool
  isDeleteRunning :: bool
  dataDir :: string
  dataFile :: string
  isModifyFile :: bool
  mod_calls :: "mod_call list"

definition new_FileMemoryData :: "string \<Rightarrow> ('k, 'o) file_memory" where
  "new_FileMemoryData now =
     \<lparr>fm_cache = (\<lambda>_. None), findex = (\<lambda>_. None), fm_sum = 0, valType = -1, typeLen = -1,
      fm_isRunning = False, isDeleteRunning = False, dataDir = ''sessiondata'',
      dataFile = now @ ''.DB'', isModifyFile = False, mod_calls = []\<rparr>"

definition setDir :: "string \<Rightarrow> ('k, 'o) file_memory \<Rightarrow> ('k, 'o) file_memory" where
  "setDir dir fm = fm\<lparr>dataDir := dir\<rparr>"

section \<open>Reading and putting\<close>

text \<open>
  \<open>get\<close>: the cache, else the data file. The reader gets the bare file name as its path, and the
  test \<open>val instanceof byte[]\<close> looks at the null that the cache returned.
\<close>

definition fm_get :: "(jbyte list \<Rightarrow> 'o jval option) \<Rightarrow> file_system \<Rightarrow> 'k \<Rightarrow> ('k, 'o) file_memory \<Rightarrow>
    'o jval option result" where
  "fm_get deser fs key fm =
     (case fm_cache fm key of
        Some val \<Rightarrow> Inr (Some val)
      | None \<Rightarrow>
          (case findex fm key of
             None \<Rightarrow> Inl NullPointer
           | Some f \<Rightarrow>
               bindR (read_mapped (fi_fileid f) (fi_position f) (fi_len f) fs) (\<lambda>data.
                 case data of None \<Rightarrow> Inr None | Some bs \<Rightarrow> Inr (deser bs))))"

text \<open>\<open>check\<close>: the kind of number the values are.\<close>

definition check_type :: "'o jval \<Rightarrow> ('k, 'o) file_memory \<Rightarrow> ('k, 'o) file_memory" where
  "check_type val fm =
     (case val of
        JLong _ \<Rightarrow> fm\<lparr>valType := 2, typeLen := 8\<rparr>
      | JInteger _ \<Rightarrow> fm\<lparr>valType := 2, typeLen := 4\<rparr>
      | JShort _ \<Rightarrow> fm\<lparr>valType := 2, typeLen := 2\<rparr>
      | JByte _ \<Rightarrow> fm\<lparr>valType := 2, typeLen := 1\<rparr>
      | _ \<Rightarrow> fm)"

text \<open>\<open>startThreadStore\<close>: whether the store task is started, the flag that keeps a second one away.\<close>

definition startThreadStore :: "('k, 'o) file_memory \<Rightarrow> bool \<times> ('k, 'o) file_memory" where
  "startThreadStore fm =
     (if fm_isRunning fm then (False, fm)
      else if (valType fm = 0 \<or> valType fm = 2) \<and> fm_sum fm < 10 * 1024 * 1024 then (False, fm)
      else if valType fm = 1 \<and> fm_sum fm < 100 then (False, fm)
      else (True, fm\<lparr>fm_isRunning := True\<rparr>))"

text \<open>The first put settles the type of the values.\<close>

definition settle_type :: "'o jval \<Rightarrow> ('k, 'o) file_memory \<Rightarrow> ('k, 'o) file_memory" where
  "settle_type val fm =
     (if valType fm = -1
      then let g = (case val of JBytes _ \<Rightarrow> fm\<lparr>valType := 0\<rparr> | _ \<Rightarrow> check_type val fm)
           in if valType g = -1 then g\<lparr>valType := 1\<rparr> else g
      else fm)"

definition count_and_start :: "int \<Rightarrow> ('k, 'o) file_memory \<Rightarrow> bool option \<times> ('k, 'o) file_memory" where
  "count_and_start n fm =
     (case startThreadStore (fm\<lparr>fm_sum := fm_sum fm + n\<rparr>) of (b, fm') \<Rightarrow> (Some b, fm'))"

text \<open>
  \<open>put\<close>: None is the exception of the cast to \<open>byte[]\<close>, Some tells whether a store task starts.
\<close>

definition fm_put :: "'k \<Rightarrow> 'o jval \<Rightarrow> ('k, 'o) file_memory \<Rightarrow>
    (bool option \<times> ('k, 'o) file_memory)" where
  "fm_put key val fm =
     (let fm2 = settle_type val (fm\<lparr>fm_cache := (fm_cache fm)(key \<mapsto> val)\<rparr>)
      in if valType fm2 = 0
         then (case val of JBytes data \<Rightarrow> count_and_start (int (length data)) fm2
               | _ \<Rightarrow> (None, fm2))
         else if valType fm2 = 1 then count_and_start 1 fm2
         else if valType fm2 = 2 then count_and_start (typeLen fm2) fm2
         else count_and_start 0 fm2)"

lemma settle_type_frame [simp]:
  "fm_cache (settle_type val fm) = fm_cache fm" "findex (settle_type val fm) = findex fm"
  "dataDir (settle_type val fm) = dataDir fm" "dataFile (settle_type val fm) = dataFile fm"
  by (simp_all add: settle_type_def check_type_def Let_def split: jval.split)

lemma count_and_start_frame [simp]:
  "fm_cache (snd (count_and_start n fm)) = fm_cache fm"
  "findex (snd (count_and_start n fm)) = findex fm"
  "dataDir (snd (count_and_start n fm)) = dataDir fm"
  "dataFile (snd (count_and_start n fm)) = dataFile fm"
  by (simp_all add: count_and_start_def startThreadStore_def)

lemma count_and_start_some: "count_and_start n fm = (r, fm') \<Longrightarrow> r \<noteq> None"
  by (auto simp: count_and_start_def split: prod.splits)

lemma fm_put_frame:
  assumes "fm_put key val fm = (r, fm')"
  shows "fm_cache fm' = (fm_cache fm)(key \<mapsto> val)" "findex fm' = findex fm"
    "dataDir fm' = dataDir fm" "dataFile fm' = dataFile fm"
proof -
  have fm': "fm' = snd (fm_put key val fm)" using assms by simp
  show "fm_cache fm' = (fm_cache fm)(key \<mapsto> val)" "findex fm' = findex fm"
    "dataDir fm' = dataDir fm" "dataFile fm' = dataFile fm"
    unfolding fm' by (simp_all add: fm_put_def Let_def split: jval.split)
qed

definition fm_delete :: "'k \<Rightarrow> ('k, 'o) file_memory \<Rightarrow> ('k, 'o) file_memory" where
  "fm_delete key fm =
     (let fm1 = fm\<lparr>fm_cache := (fm_cache fm)(key := None)\<rparr>
      in case findex fm1 key of
           None \<Rightarrow> fm1
         | Some f \<Rightarrow>
             if isModifyFile fm1
             then fm1\<lparr>mod_calls := mod_calls fm1 @
                    [AddDataDeleteIndex \<lparr>dd_fileid = fi_fileid f, dd_position = fi_position f,
                       dd_len = fi_len f, dd_flage = 2\<rparr>]\<rparr>
             else fm1)"

section \<open>The store task\<close>

text \<open>The bytes of a value, by the type the store has settled on; a wrong cast throws.\<close>

definition value_bytes :: "('o jval \<Rightarrow> jbyte list option) \<Rightarrow> int \<Rightarrow> int \<Rightarrow> 'o jval \<Rightarrow>
    jbyte list result" where
  "value_bytes ser vt tlen val =
     (if vt = 0 then (case val of JBytes data \<Rightarrow> Inr data | _ \<Rightarrow> Inl ClassCast)
      else if vt = 1 then (case ser val of Some data \<Rightarrow> Inr data | None \<Rightarrow> Inl NullPointer)
      else if tlen = 1 then (case val of JByte b \<Rightarrow> Inr [b] | _ \<Rightarrow> Inl ClassCast)
      else if tlen = 2 then (case val of JShort w \<Rightarrow> Inr (be_bytes 2 w) | _ \<Rightarrow> Inl ClassCast)
      else if tlen = 4 then (case val of JInteger w \<Rightarrow> Inr (be_bytes 4 w) | _ \<Rightarrow> Inl ClassCast)
      else (case val of JLong w \<Rightarrow> Inr (be_bytes 8 w) | _ \<Rightarrow> Inl ClassCast))"

text \<open>
  One entry: write the bytes, index them at the running position, and report to the modification
  manager when that is switched on (with the position behind the record).
\<close>

definition store_entry :: "('o jval \<Rightarrow> jbyte list option) \<Rightarrow> 'k \<Rightarrow> 'o jval \<Rightarrow> int \<Rightarrow>
    ('k, 'o) file_memory \<Rightarrow> file_system \<Rightarrow> (int \<times> ('k, 'o) file_memory \<times> file_system) result" where
  "store_entry ser key val position fm fs =
     bindR (value_bytes ser (valType fm) (typeLen fm) val) (\<lambda>data.
     bindR (writeFile True (dataDir fm @ ''/'' @ dataFile fm) data fs) (\<lambda>(_, fs').
       let index = \<lparr>fi_key = key, fi_position = position, fi_len = int (length data),
                    fi_fileid = dataFile fm\<rparr>;
           position' = position + fi_len index;
           note = (\<lambda>fl. AddDataDeleteIndex \<lparr>dd_fileid = dataFile fm, dd_position = position',
                          dd_len = fi_len index, dd_flage = fl\<rparr>);
           calls = (if isModifyFile fm
                    then (case findex fm key of
                            Some old \<Rightarrow> [note 1, AddFile \<lparr>dd_fileid = fi_fileid old,
                              dd_position = fi_position old, dd_len = fi_len old, dd_flage = 2\<rparr>]
                          | None \<Rightarrow> [note 0])
                    else [])
       in Inr (position', fm\<lparr>findex := (findex fm)(key \<mapsto> index),
                             mod_calls := mod_calls fm @ calls\<rparr>, fs')))"

text \<open>
  The loop over the entries of the cache, in the order \<open>entries\<close> that the map's iterator gives
  them; it stops when the modification manager has locked the data file.
\<close>

fun store_loop :: "('o jval \<Rightarrow> jbyte list option) \<Rightarrow> string \<Rightarrow> ('k \<times> 'o jval) list \<Rightarrow> int \<Rightarrow>
    ('k, 'o) file_memory \<Rightarrow> file_system \<Rightarrow> ('k list \<times> ('k, 'o) file_memory \<times> file_system) result" where
  "store_loop ser locked [] position fm fs = Inr ([], fm, fs)"
| "store_loop ser locked ((key, val) # entries) position fm fs =
     (if eq_ignore_case locked (dataFile fm) then Inr ([], fm, fs)
      else bindR (store_entry ser key val position fm fs) (\<lambda>(position', fm', fs').
           bindR (store_loop ser locked entries position' fm' fs') (\<lambda>(keys, fm'', fs'').
             Inr (key # keys, fm'', fs''))))"

text \<open>The first phase; the result says which keys were written, or that the file is locked.\<close>

definition store_write :: "('o jval \<Rightarrow> jbyte list option) \<Rightarrow> string \<Rightarrow> string \<Rightarrow>
    ('k \<times> 'o jval) list \<Rightarrow> ('k, 'o) file_memory \<Rightarrow> file_system \<Rightarrow>
    ('k list option \<times> ('k, 'o) file_memory \<times> file_system) result" where
  "store_write ser locked now entries fm fs =
     (let fm1 = fm\<lparr>fm_sum := 0\<rparr>;
          fm2 = (if 1024 * 1024 * 1024 \<le> file_len fs (dataDir fm1 @ ''/'' @ dataFile fm1)
                 then fm1\<lparr>dataFile := now @ ''.DB''\<rparr> else fm1)
      in if eq_ignore_case locked (dataFile fm2)
         then Inr (None, fm2\<lparr>fm_isRunning := False\<rparr>, fs)
         else bindR (store_loop ser locked entries
                       (getFile (dataDir fm2 @ ''/'' @ dataFile fm2) fs) fm2 fs)
              (\<lambda>(keys, fm3, fs'). Inr (Some keys, fm3, fs')))"

text \<open>The second phase: the written keys leave the cache.\<close>

definition store_clean :: "'k list \<Rightarrow> ('k, 'o) file_memory \<Rightarrow> ('k, 'o) file_memory" where
  "store_clean keys fm =
     fm\<lparr>fm_cache := (\<lambda>k. if k \<in> set keys then None else fm_cache fm k), fm_isRunning := False\<rparr>"

section \<open>Clearing and deleting old files\<close>

text \<open>
  \<open>clear\<close> empties the maps and tries to remove the data directory, which only succeeds when the
  directory is empty; the files stay.
\<close>

definition fm_clear :: "('k, 'o) file_memory \<Rightarrow> ('k, 'o) file_memory" where
  "fm_clear fm = fm\<lparr>fm_cache := (\<lambda>_. None), findex := (\<lambda>_. None)\<rparr>"

definition timeLen :: int where
  "timeLen = 10 * 60 * 1000"

text \<open>\<open>DirFilter.accept\<close>: the name contains the type anywhere.\<close>

fun contains_sub :: "string \<Rightarrow> string \<Rightarrow> bool" where
  "contains_sub p [] = (p = [])"
| "contains_sub p (c # cs) = (take (length p) (c # cs) = p \<or> contains_sub p cs)"

definition dirFilter_accept :: "string \<Rightarrow> string \<Rightarrow> bool" where
  "dirFilter_accept tp name = contains_sub tp name"

text \<open>
  \<open>fileDelete\<close>: a data file whose name, read as a time, and whose last modification are older than
  \<open>timeLen\<close> is deleted with the index entries that point to it. \<open>parse\<close> is \<open>Long.valueOf\<close> (None
  where it throws), \<open>modified\<close> the modification times. The entries are reported in the order
  \<open>keys\<close> of the index.
\<close>

definition outdated :: "(string \<Rightarrow> int option) \<Rightarrow> (string \<Rightarrow> int) \<Rightarrow> int \<Rightarrow> string \<Rightarrow> bool option" where
  "outdated parse modified now name =
     (case parse (take (length name - 3) name) of
        None \<Rightarrow> None
      | Some i \<Rightarrow> Some (i \<noteq> 0 \<and> timeLen < now - i \<and> timeLen < now - modified name))"

fun outdated_files :: "(string \<Rightarrow> int option) \<Rightarrow> (string \<Rightarrow> int) \<Rightarrow> int \<Rightarrow> string list \<Rightarrow> string list option" where
  "outdated_files parse modified now [] = Some []"
| "outdated_files parse modified now (n # ns) =
     (case outdated parse modified now n of
        None \<Rightarrow> None
      | Some d \<Rightarrow> (case outdated_files parse modified now ns of
                   None \<Rightarrow> None
                 | Some ds \<Rightarrow> Some (if d then n # ds else ds)))"

definition fileDelete :: "(string \<Rightarrow> int option) \<Rightarrow> (string \<Rightarrow> int) \<Rightarrow> int \<Rightarrow> string list \<Rightarrow> 'k list \<Rightarrow>
    ('k, 'o) file_memory \<Rightarrow> file_system \<Rightarrow> (('k, 'o) file_memory \<times> file_system) option" where
  "fileDelete parse modified now listing keys fm fs =
     (case outdated_files parse modified now (filter (dirFilter_accept ''.DB'') listing) of
        None \<Rightarrow> None
      | Some old \<Rightarrow>
          (let gone = (\<lambda>k. case findex fm k of None \<Rightarrow> False | Some f \<Rightarrow> fi_fileid f \<in> set old);
               calls = (if isModifyFile fm
                        then concat (map (\<lambda>k. case findex fm k of
                               Some f \<Rightarrow> (if gone k then [AddDataDeleteIndex
                                 \<lparr>dd_fileid = fi_fileid f, dd_position = fi_position f,
                                  dd_len = fi_len f, dd_flage = 2\<rparr>] else [])
                             | None \<Rightarrow> []) keys)
                        else [])
           in Some (fm\<lparr>findex := (\<lambda>k. if gone k then None else findex fm k),
                       mod_calls := mod_calls fm @ calls\<rparr>,
                    fs\<lparr>files := (\<lambda>p. if p \<in> (\<lambda>n. dataDir fm @ ''/'' @ n) ` set old then None
                                     else files fs p)\<rparr>)))"

section \<open>The index finds the bytes\<close>

text \<open>The bytes an index entry points to, in the file it names in the data directory.\<close>

definition indexed_bytes :: "file_system \<Rightarrow> ('k, 'o) file_memory \<Rightarrow> 'k \<Rightarrow> jbyte list option" where
  "indexed_bytes fs fm key =
     (case findex fm key of None \<Rightarrow> None
      | Some f \<Rightarrow> Some (take (nat (fi_len f)) (drop (nat (fi_position f))
          (content fs (dataDir fm @ ''/'' @ fi_fileid f)))))"

text \<open>Every entry lies inside its file.\<close>

definition index_inv :: "file_system \<Rightarrow> ('k, 'o) file_memory \<Rightarrow> bool" where
  "index_inv fs fm \<longleftrightarrow> (\<forall>k f. findex fm k = Some f \<longrightarrow> 0 \<le> fi_position f \<and> 0 \<le> fi_len f
     \<and> fi_position f + fi_len f \<le> file_len fs (dataDir fm @ ''/'' @ fi_fileid f))"

definition data_path :: "('k, 'o) file_memory \<Rightarrow> string" where
  "data_path fm = dataDir fm @ ''/'' @ dataFile fm"

definition data_usable :: "('k, 'o) file_memory \<Rightarrow> file_system \<Rightarrow> bool" where
  "data_usable fm fs \<longleftrightarrow> \<not> is_dir fs (data_path fm)
     \<and> (files fs (data_path fm) \<noteq> None \<or> creatable fs (data_path fm))"

lemma slice_append: "p + l \<le> length c \<Longrightarrow> take l (drop p (c @ r)) = take l (drop p c)"
  by simp

lemma store_entry_step:
  assumes "data_usable fm fs" and "index_inv fs fm" and "position = file_len fs (data_path fm)"
    and "value_bytes ser (valType fm) (typeLen fm) val = Inr data"
  obtains fm' fs' where "store_entry ser key val position fm fs
        = Inr (position + int (length data), fm', fs')"
    "data_usable fm' fs'" "index_inv fs' fm'"
    "position + int (length data) = file_len fs' (data_path fm')"
    "indexed_bytes fs' fm' key = Some data"
    "\<And>k. k \<noteq> key \<Longrightarrow> indexed_bytes fs' fm' k = indexed_bytes fs fm k"
    "dataFile fm' = dataFile fm" "dataDir fm' = dataDir fm" "valType fm' = valType fm"
    "typeLen fm' = typeLen fm" "fm_cache fm' = fm_cache fm"
proof -
  let ?path = "data_path fm"
  define fs' where "fs' = appended ?path data fs"
  have w: "writeFile True ?path data fs = Inr (file_len fs ?path + 2 * int (length data), fs')"
    unfolding fs'_def using writeFile_result [of fs ?path] assms(1) by (simp add: data_usable_def)
  obtain fm' where st: "store_entry ser key val position fm fs
      = Inr (position + int (length data), fm', fs')"
    and fm': "findex fm' = (findex fm)(key \<mapsto> \<lparr>fi_key = key, fi_position = position,
        fi_len = int (length data), fi_fileid = dataFile fm\<rparr>)"
      "dataFile fm' = dataFile fm" "dataDir fm' = dataDir fm" "valType fm' = valType fm"
      "typeLen fm' = typeLen fm" "fm_cache fm' = fm_cache fm"
    using w assms(4) by (simp add: store_entry_def data_path_def Let_def)
  have path': "data_path fm' = ?path" using fm' by (simp add: data_path_def)
  have grow: "\<exists>r. content fs' q = content fs q @ r" for q
    by (simp add: fs'_def)
  show thesis
  proof (rule that [OF st])
    show "data_usable fm' fs'" using assms(1) path' by (simp add: data_usable_def fs'_def)
    show "position + int (length data) = file_len fs' (data_path fm')"
      using assms(3) path' by (simp add: file_len_content fs'_def)
    show "indexed_bytes fs' fm' key = Some data"
      using assms(3) fm' by (simp add: indexed_bytes_def data_path_def file_len_content fs'_def)
    show "index_inv fs' fm'"
      unfolding index_inv_def
    proof (intro allI impI)
      fix k f assume "findex fm' k = Some f"
      then show "0 \<le> fi_position f \<and> 0 \<le> fi_len f \<and> fi_position f + fi_len f
          \<le> file_len fs' (dataDir fm' @ ''/'' @ fi_fileid f)"
        using assms(2,3) fm'
        by (fastforce simp: index_inv_def file_len_content data_path_def fs'_def split: if_splits)
    qed
    fix k assume "k \<noteq> key"
    then show "indexed_bytes fs' fm' k = indexed_bytes fs fm k"
    proof (cases "findex fm k")
      case (Some f)
      let ?q = "dataDir fm @ ''/'' @ fi_fileid f"
      obtain r where r: "content fs' ?q = content fs ?q @ r" using grow by blast
      have "nat (fi_position f) + nat (fi_len f) \<le> length (content fs ?q)"
        using assms(2) Some unfolding index_inv_def file_len_content by fastforce
      then show ?thesis
        using \<open>k \<noteq> key\<close> Some fm' r by (simp add: indexed_bytes_def slice_append)
    qed (use fm' in \<open>simp add: indexed_bytes_def\<close>)
  qed (use fm' in simp_all)
qed

definition bytes_of :: "('o jval \<Rightarrow> jbyte list option) \<Rightarrow> ('k, 'o) file_memory \<Rightarrow> 'o jval \<Rightarrow>
    jbyte list option" where
  "bytes_of ser fm val =
     (case value_bytes ser (valType fm) (typeLen fm) val of Inl _ \<Rightarrow> None | Inr d \<Rightarrow> Some d)"

lemma store_loop_spec:
  "data_usable fm fs \<Longrightarrow> index_inv fs fm \<Longrightarrow> position = file_len fs (data_path fm) \<Longrightarrow>
    distinct (map fst entries) \<Longrightarrow> \<forall>(k, v) \<in> set entries. bytes_of ser fm v \<noteq> None \<Longrightarrow>
    \<not> eq_ignore_case locked (dataFile fm) \<Longrightarrow>
    \<exists>fm' fs'. store_loop ser locked entries position fm fs = Inr (map fst entries, fm', fs')
      \<and> index_inv fs' fm' \<and> dataFile fm' = dataFile fm \<and> fm_cache fm' = fm_cache fm
      \<and> (\<forall>(k, v) \<in> set entries. indexed_bytes fs' fm' k = bytes_of ser fm v)
      \<and> (\<forall>k. k \<notin> fst ` set entries \<longrightarrow> indexed_bytes fs' fm' k = indexed_bytes fs fm k)"
proof (induction entries arbitrary: position fm fs)
  case (Cons e entries)
  obtain key val where e: "e = (key, val)" by (cases e)
  then obtain data where d: "value_bytes ser (valType fm) (typeLen fm) val = Inr data"
    using Cons.prems(5) by (auto simp: bytes_of_def split: sum.splits)
  obtain fm1 fs1 where s1: "store_entry ser key val position fm fs
        = Inr (position + int (length data), fm1, fs1)"
    "data_usable fm1 fs1" "index_inv fs1 fm1"
    "position + int (length data) = file_len fs1 (data_path fm1)"
    "indexed_bytes fs1 fm1 key = Some data"
    "\<And>k. k \<noteq> key \<Longrightarrow> indexed_bytes fs1 fm1 k = indexed_bytes fs fm k"
    "dataFile fm1 = dataFile fm" "dataDir fm1 = dataDir fm" "valType fm1 = valType fm"
    "typeLen fm1 = typeLen fm" "fm_cache fm1 = fm_cache fm"
    using store_entry_step [OF Cons.prems(1-3) d] by metis
  have b1: "bytes_of ser fm1 = bytes_of ser fm" using s1(9,10) by (simp add: bytes_of_def fun_eq_iff)
  obtain fm2 fs2 where s2: "store_loop ser locked entries (position + int (length data)) fm1 fs1
        = Inr (map fst entries, fm2, fs2)"
    "index_inv fs2 fm2" "dataFile fm2 = dataFile fm1" "fm_cache fm2 = fm_cache fm1"
    "\<forall>(k, v) \<in> set entries. indexed_bytes fs2 fm2 k = bytes_of ser fm1 v"
    "\<forall>k. k \<notin> fst ` set entries \<longrightarrow> indexed_bytes fs2 fm2 k = indexed_bytes fs1 fm1 k"
    using Cons.IH [OF s1(2-4)] Cons.prems(4-6) s1(7) b1 by auto
  have "key \<notin> fst ` set entries" using Cons.prems(4) e by auto
  then have "indexed_bytes fs2 fm2 key = bytes_of ser fm val"
    using s2(6) s1(5) d by (simp add: bytes_of_def)
  then show ?case
    using e s1 s2 Cons.prems(6) b1 by auto
qed simp

definition entries_of :: "('k \<Rightarrow> 'o jval option) \<Rightarrow> ('k \<times> 'o jval) list \<Rightarrow> bool" where
  "entries_of cache entries \<longleftrightarrow> distinct (map fst entries) \<and> map_of entries = cache"

definition flushed :: "('k, 'o) file_memory \<Rightarrow> file_system \<Rightarrow> string \<Rightarrow> ('k, 'o) file_memory" where
  "flushed fm fs now = fm\<lparr>fm_sum := 0,
     dataFile := (if 1024 * 1024 * 1024 \<le> file_len fs (data_path fm) then now @ ''.DB''
                  else dataFile fm)\<rparr>"

lemma flushed_simps [simp]:
  "findex (flushed fm fs now) = findex fm" "fm_cache (flushed fm fs now) = fm_cache fm"
  "dataDir (flushed fm fs now) = dataDir fm" "valType (flushed fm fs now) = valType fm"
  "typeLen (flushed fm fs now) = typeLen fm"
  by (simp_all add: flushed_def)

lemma flushed_cong [simp]:
  "index_inv fs (flushed fm fs now) = index_inv fs fm"
  "indexed_bytes fs (flushed fm fs now) k = indexed_bytes fs fm k"
  "bytes_of ser (flushed fm fs now) = bytes_of ser fm"
  by (simp_all add: index_inv_def indexed_bytes_def bytes_of_def fun_eq_iff split: option.split)

lemma store_write_flushed:
  "store_write ser locked now entries fm fs =
     (if eq_ignore_case locked (dataFile (flushed fm fs now))
      then Inr (None, (flushed fm fs now)\<lparr>fm_isRunning := False\<rparr>, fs)
      else bindR (store_loop ser locked entries (getFile (data_path (flushed fm fs now)) fs)
                    (flushed fm fs now) fs)
           (\<lambda>(keys, fm3, fs'). Inr (Some keys, fm3, fs')))"
  by (cases "1024 * 1024 * 1024 \<le> file_len fs (data_path fm)")
    (simp_all add: store_write_def flushed_def data_path_def Let_def)

lemma store_write_spec:
  assumes "data_usable (flushed fm fs now) fs" and "index_inv fs fm"
    and "entries_of (fm_cache fm) entries" and "\<forall>v \<in> ran (fm_cache fm). bytes_of ser fm v \<noteq> None"
    and "\<not> eq_ignore_case locked (dataFile (flushed fm fs now))"
  shows "\<exists>fm' fs'. store_write ser locked now entries fm fs = Inr (Some (map fst entries), fm', fs')
    \<and> index_inv fs' fm' \<and> dataFile fm' = dataFile (flushed fm fs now) \<and> fm_cache fm' = fm_cache fm
    \<and> (\<forall>k v. fm_cache fm k = Some v \<longrightarrow> indexed_bytes fs' fm' k = bytes_of ser fm v)
    \<and> (\<forall>k. fm_cache fm k = None \<longrightarrow> indexed_bytes fs' fm' k = indexed_bytes fs fm k)"
proof -
  let ?g = "flushed fm fs now"
  have cache: "fm_cache fm k = Some v \<longleftrightarrow> (k, v) \<in> set entries" for k v
    using assms(3) map_of_is_SomeI map_of_SomeD unfolding entries_of_def by metis
  have none: "fm_cache fm k = None \<longleftrightarrow> k \<notin> fst ` set entries" for k
    using assms(3) map_of_eq_None_iff [of entries k] by (auto simp: entries_of_def)
  have pos: "getFile (data_path ?g) fs = file_len fs (data_path ?g)"
    using assms(1) by (simp add: getFile_def data_usable_def)
  have run: "store_write ser locked now entries fm fs
      = bindR (store_loop ser locked entries (file_len fs (data_path ?g)) ?g fs)
          (\<lambda>(keys, fm3, fs'). Inr (Some keys, fm3, fs'))"
    using assms(5) by (simp add: store_write_flushed pos)
  have "\<forall>(k, v) \<in> set entries. bytes_of ser ?g v \<noteq> None"
    using assms(4) cache by (auto simp: ran_def)
  then obtain fm' fs' where "store_loop ser locked entries (file_len fs (data_path ?g)) ?g fs
        = Inr (map fst entries, fm', fs')"
    "index_inv fs' fm'" "dataFile fm' = dataFile ?g" "fm_cache fm' = fm_cache ?g"
    "\<forall>(k, v) \<in> set entries. indexed_bytes fs' fm' k = bytes_of ser ?g v"
    "\<forall>k. k \<notin> fst ` set entries \<longrightarrow> indexed_bytes fs' fm' k = indexed_bytes fs ?g k"
    using store_loop_spec [OF assms(1) _ refl, of entries ser locked] assms(2,3,5)
    by (auto simp: entries_of_def)
  then show ?thesis using run cache none by auto
qed

text \<open>C34: The store task, on a cache whose values all have bytes of the store's type, writes every
  entry and indexes it correctly, whatever order the map's iterator gives: each index entry of a
  written key points to exactly the value's bytes in the data file, the entries of the other keys
  still point to the bytes they pointed to, and all lie inside their files.\<close>

theorem store_indexes_values:
  assumes "data_usable (flushed fm fs now) fs" and "index_inv fs fm"
    and "entries_of (fm_cache fm) entries" and "\<forall>v \<in> ran (fm_cache fm). bytes_of ser fm v \<noteq> None"
    and "\<not> eq_ignore_case locked (dataFile (flushed fm fs now))"
  shows "\<exists>fm' fs'. store_write ser locked now entries fm fs = Inr (Some (map fst entries), fm', fs')
    \<and> index_inv fs' fm'
    \<and> (\<forall>k v. fm_cache fm k = Some v \<longrightarrow> indexed_bytes fs' fm' k = bytes_of ser fm v)
    \<and> (\<forall>k. fm_cache fm k = None \<longrightarrow> indexed_bytes fs' fm' k = indexed_bytes fs fm k)"
  using store_write_spec [OF assms] by blast

definition one_value :: "(nat, unit) file_memory" where
  "one_value = snd (fm_put 7 (JBytes [1, 2, 3]) (new_FileMemoryData ''0''))"

lemma one_value_simps:
  "fm_cache one_value = [7 \<mapsto> JBytes [1, 2, 3]]" "findex one_value = (\<lambda>_. None)"
  "valType one_value = 0" "dataFile one_value = ''0.DB''" "dataDir one_value = ''sessiondata''"
  by (simp_all add: one_value_def fm_put_def settle_type_def count_and_start_def
      new_FileMemoryData_def startThreadStore_def Let_def)

lemma one_value_hyps:
  "data_usable (flushed one_value empty_fs ''0'') empty_fs" "index_inv empty_fs one_value"
  "entries_of (fm_cache one_value) [(7, JBytes [1, 2, 3])]"
  "\<forall>v \<in> ran (fm_cache one_value). bytes_of ser one_value v \<noteq> None"
  "\<not> eq_ignore_case [] (dataFile (flushed one_value empty_fs ''0''))"
  by (auto simp: data_usable_def empty_fs_def index_inv_def one_value_simps entries_of_def bytes_of_def
      value_bytes_def flushed_def eq_ignore_case_def data_path_def file_len_def)

theorem store_indexes_values_witness:
  "\<exists>fm' fs'. store_write (\<lambda>_. None) [] ''0'' [(7, JBytes [1, 2, 3])] one_value empty_fs
      = Inr (Some [7], fm', fs') \<and> indexed_bytes fs' fm' 7 = Some [1, 2, 3]"
  using store_indexes_values [OF one_value_hyps]
  by (fastforce simp: one_value_simps bytes_of_def value_bytes_def)

section \<open>Reading what was stored\<close>

lemma fm_get_stored:
  assumes "fm_cache fm key = None" and "findex fm key = Some f" and "files fs (fi_fileid f) = None"
    and "0 \<le> fi_len f"
  shows "fm_get deser fs key fm = Inr None"
  using assms by (simp add: fm_get_def read_mapped_def new_array_def)

lemma store_entry_file:
  "store_entry ser key val position fm fs = Inr (p, fm', fs') \<Longrightarrow>
    (\<exists>f. findex fm' key = Some f \<and> fi_fileid f = dataFile fm \<and> 0 \<le> fi_len f)
    \<and> (\<forall>k. k \<noteq> key \<longrightarrow> findex fm' k = findex fm k) \<and> dataFile fm' = dataFile fm
    \<and> dataDir fm' = dataDir fm \<and> (\<forall>q. q \<noteq> data_path fm \<longrightarrow> files fs' q = files fs q)"
  by (auto simp: store_entry_def Let_def data_path_def bindR_Inr_iff writeFile_def write_mapped_def
      writeSmall_def split: if_splits prod.splits)

lemma store_loop_file:
  "store_loop ser locked entries position fm fs = Inr (keys, fm', fs') \<Longrightarrow>
    (\<forall>k \<in> set keys. \<exists>f. findex fm' k = Some f \<and> fi_fileid f = dataFile fm \<and> 0 \<le> fi_len f)
    \<and> (\<forall>k. k \<notin> set keys \<longrightarrow> findex fm' k = findex fm k) \<and> dataFile fm' = dataFile fm
    \<and> (\<forall>q. q \<noteq> data_path fm \<longrightarrow> files fs' q = files fs q)"
proof (induction entries arbitrary: position fm fs keys)
  case (Cons e entries)
  obtain key val where e: "e = (key, val)" by (cases e)
  show ?case
  proof (cases "eq_ignore_case locked (dataFile fm)")
    case False
    then obtain p fm1 fs1 ks where s: "store_entry ser key val position fm fs = Inr (p, fm1, fs1)"
      "store_loop ser locked entries p fm1 fs1 = Inr (ks, fm', fs')" "keys = key # ks"
      using Cons.prems e by (auto simp: bindR_Inr_iff)
    have "data_path fm1 = data_path fm" using store_entry_file [OF s(1)] by (simp add: data_path_def)
    then show ?thesis
      using store_entry_file [OF s(1)] Cons.IH [OF s(2)] s(3) by (cases "key \<in> set ks") auto
  qed (use Cons.prems e in auto)
qed auto

lemma stored_unreadable:
  assumes "store_write ser locked now entries fm fs = Inr (Some keys, fm1, fs1)"
    and "key \<in> set keys" and "files fs (dataFile fm1) = None"
  shows "fm_get deser fs1 key (store_clean keys fm1) = Inr None"
proof -
  obtain g where g: "dataDir g = dataDir fm"
    "store_loop ser locked entries (getFile (data_path g) fs) g fs = Inr (keys, fm1, fs1)"
    using assms(1) that [of "flushed fm fs now"]
    by (auto simp: store_write_flushed bindR_Inr_iff split: if_splits)
  note l = store_loop_file [OF g(2)]
  obtain f where f: "findex fm1 key = Some f" "fi_fileid f = dataFile g" "0 \<le> fi_len f"
    using l assms(2) by blast
  have "data_path g \<noteq> dataFile g"
  proof
    assume "data_path g = dataFile g"
    then have "length (data_path g) = length (dataFile g)" by simp
    then show False by (simp add: data_path_def)
  qed
  then have "files fs1 (fi_fileid f) = None" using l assms(3) f(2) by auto
  then show ?thesis
    using fm_get_stored [of "store_clean keys fm1" key f fs1] f assms(2)
    by (simp add: store_clean_def)
qed

text \<open>C35: A value that the store task has written cannot be read back: \<open>get\<close> opens the bare file
  name, without the data directory, and gives null, unless a file of that name happens to lie in
  the working directory.\<close>

theorem stored_values_are_lost:
  assumes "store_write ser locked now entries fm fs = Inr (Some keys, fm1, fs1)"
    and "key \<in> set keys" and "files fs (dataFile fm1) = None"
  shows "fm_get deser fs1 key (store_clean keys fm1) = Inr None"
  using assms by (rule stored_unreadable)

lemma one_value_written:
  "\<exists>fm'. store_write (\<lambda>_. None) [] ''0'' [(7, JBytes [1, 2, 3])] one_value empty_fs
      = Inr (Some [7], fm', appended ''sessiondata/0.DB'' [1, 2, 3] empty_fs)
    \<and> dataFile fm' = ''0.DB''"
  by (simp add: store_write_flushed store_entry_def value_bytes_def flushed_def one_value_simps
      eq_ignore_case_def data_path_def writeFile_result empty_fs_def file_len_def Let_def)

theorem stored_values_are_lost_witness:
  "\<exists>fm' fs'. store_write (\<lambda>_. None) [] ''0'' [(7, JBytes [1, 2, 3])] one_value empty_fs
      = Inr (Some [7], fm', fs')
    \<and> fm_get (\<lambda>_. None) fs' 7 (store_clean [7] fm') = Inr None"
proof -
  obtain fm' where w: "store_write (\<lambda>_. None) [] ''0'' [(7, JBytes [1, 2, 3])] one_value empty_fs
      = Inr (Some [7], fm', appended ''sessiondata/0.DB'' [1, 2, 3] empty_fs)"
    "dataFile fm' = ''0.DB''"
    using one_value_written by blast
  from stored_values_are_lost [OF w(1)] w show ?thesis by (auto simp: empty_fs_def)
qed

text \<open>C36: The cache is a map: right after a put that does not throw, \<open>get\<close> gives the value put for
  its key and what it gave before for every other key; a put only throws, with the value already
  in the cache, when it is not a byte array and the store holds byte arrays.\<close>

theorem put_then_get:
  assumes "fm_put key val fm = (r, fm')"
  shows "fm_get deser fs key fm' = Inr (Some val)
    \<and> (k \<noteq> key \<longrightarrow> fm_get deser fs k fm' = fm_get deser fs k fm)
    \<and> (r = None \<longleftrightarrow> valType fm = 0 \<and> (\<forall>bs. val \<noteq> JBytes bs))"
proof -
  have "r = None \<longleftrightarrow> valType (settle_type val (fm\<lparr>fm_cache := (fm_cache fm)(key \<mapsto> val)\<rparr>)) = 0
      \<and> (\<forall>bs. val \<noteq> JBytes bs)"
    using assms count_and_start_some
    by (cases val) (auto simp: fm_put_def Let_def split: if_splits)
  also have "\<dots> \<longleftrightarrow> valType fm = 0 \<and> (\<forall>bs. val \<noteq> JBytes bs)"
    by (cases val) (auto simp: settle_type_def check_type_def Let_def)
  finally show ?thesis
    using fm_put_frame [OF assms] by (simp add: fm_get_def split: option.split)
qed

theorem put_then_get_witness:
  "fm_get (\<lambda>_. None) empty_fs 7 one_value = Inr (Some (JBytes [1, 2, 3]))"
  using put_then_get [of 7 "JBytes [1, 2, 3]" "new_FileMemoryData ''0''" "Some False" one_value]
  by (simp add: one_value_def fm_put_def settle_type_def count_and_start_def new_FileMemoryData_def
      startThreadStore_def Let_def)

text \<open>A value put for a key while the store task is between writing that key and emptying the
  cache is lost: the clean-up removes the new value, the index keeps pointing to the old bytes, and
  \<open>get\<close> gives null.\<close>

theorem put_during_store_is_lost:
  assumes "store_write ser locked now entries fm fs = Inr (Some keys, fm1, fs1)"
    and "key \<in> set keys" and "fm_put key val fm1 = (r, fm2)" and "files fs (dataFile fm1) = None"
  shows "fm_get deser fs1 key (store_clean keys fm2) = Inr None
    \<and> indexed_bytes fs1 (store_clean keys fm2) key = indexed_bytes fs1 fm1 key"
proof
  note p = fm_put_frame [OF assms(3)]
  have "fm_get deser fs1 key (store_clean keys fm2) = fm_get deser fs1 key (store_clean keys fm1)"
    using p assms(2) by (simp add: fm_get_def store_clean_def split: option.split)
  then show "fm_get deser fs1 key (store_clean keys fm2) = Inr None"
    using stored_unreadable [OF assms(1,2,4)] by simp
  show "indexed_bytes fs1 (store_clean keys fm2) key = indexed_bytes fs1 fm1 key"
    using p by (simp add: store_clean_def indexed_bytes_def split: option.split)
qed

theorem put_during_store_is_lost_witness:
  "\<exists>fm' fs'. store_write (\<lambda>_. None) [] ''0'' [(7, JBytes [1, 2, 3])] one_value empty_fs
      = Inr (Some [7], fm', fs')
    \<and> fm_get (\<lambda>_. None) fs' 7 (store_clean [7] (snd (fm_put 7 (JBytes [9]) fm'))) = Inr None"
proof -
  obtain fm' where w: "store_write (\<lambda>_. None) [] ''0'' [(7, JBytes [1, 2, 3])] one_value empty_fs
      = Inr (Some [7], fm', appended ''sessiondata/0.DB'' [1, 2, 3] empty_fs)"
    "dataFile fm' = ''0.DB''"
    using one_value_written by blast
  have "fm_put 7 (JBytes [9]) fm' = (fst (fm_put 7 (JBytes [9]) fm'), snd (fm_put 7 (JBytes [9]) fm'))"
    by simp
  from put_during_store_is_lost [OF w(1) _ this] w show ?thesis by (auto simp: empty_fs_def)
qed

end
