(* ===== verification/Udp.thy ===== *)
theory Udp
  imports Prelude
begin

text \<open>
  The datagram client (\<open>JNetSocket/UDPClient.java\<close>) over the platform's \<open>DatagramSocket\<close>. The
  network is an environment: which host names resolve, which packets the socket sends (a datagram
  that is too long is refused), and the port the platform picks for a new socket. What has been
  sent is a log.
\<close>

type_synonym datagram = "string \<times> int \<times> jbyte list"

record net_env =
  resolves :: "string \<Rightarrow> bool"
  sendable :: "nat \<Rightarrow> bool"
  free_port :: int

datatype socket = Socket (sock_port: int) (sock_closed: bool)

record udp_client =
  u_socket :: "socket option"
  isColse :: bool
  localAddr :: "string option"
  localPort :: int
  remoteAddr :: "string option"
  remotePort :: int
  isBind :: bool
  isProtocolClose :: bool

definition new_UDPClient :: udp_client where
  "new_UDPClient = \<lparr>u_socket = None, isColse = False, localAddr = None, localPort = 0,
     remoteAddr = None, remotePort = 0, isBind = False, isProtocolClose = False\<rparr>"

definition bindLocal :: "string \<Rightarrow> int \<Rightarrow> udp_client \<Rightarrow> udp_client" where
  "bindLocal host port c = c\<lparr>isBind := True, localAddr := Some host, localPort := port\<rparr>"

text \<open>
  \<open>new DatagramSocket()\<close> is bound to a free port at once; binding it again, as the code does after
  \<open>bindLocal\<close>, throws a \<open>SocketException\<close> that is printed.
\<close>

definition open_socket :: "net_env \<Rightarrow> udp_client \<Rightarrow> udp_client" where
  "open_socket env c =
     (case u_socket c of
        Some _ \<Rightarrow> c
      | None \<Rightarrow> c\<lparr>u_socket := Some (Socket (free_port env) False)\<rparr>)"

definition any_address :: string where
  "any_address = ''0.0.0.0''"

text \<open>
  \<open>sendData\<close>: an unknown host leaves the packet null, and sending null throws; a closed socket or a
  refused packet is an \<open>IOException\<close> that is printed. The host may be null, which is the loopback
  address.
\<close>

definition udp_sendData :: "net_env \<Rightarrow> string option \<Rightarrow> int \<Rightarrow> jbyte list option \<Rightarrow> udp_client \<Rightarrow>
    exn option \<times> datagram list \<times> udp_client" where
  "udp_sendData env host port data c =
     (let c1 = open_socket env c; h = (case host of None \<Rightarrow> ''localhost'' | Some a \<Rightarrow> a)
      in case data of
           None \<Rightarrow> (Some NullPointer, [], c1)
         | Some d \<Rightarrow>
             if \<not> resolves env h then (Some NullPointer, [], c1)
             else (case u_socket c1 of
                     None \<Rightarrow> (Some NullPointer, [], c1)
                   | Some sk \<Rightarrow>
                       if sock_closed sk \<or> \<not> sendable env (length d) then (None, [], c1)
                       else (None, [(h, port, d)],
                             c1\<lparr>remoteAddr := host, remotePort := port,
                                localAddr := Some any_address, localPort := sock_port sk\<rparr>)))"

text \<open>
  The overload for a socket address: an unresolved one, None here, is refused by the packet. A packet
  that the socket refuses is reported as sent, and a closed socket has no local address to ask for.
\<close>

definition udp_sendData_to :: "net_env \<Rightarrow> (string \<times> int) option \<Rightarrow> jbyte list option \<Rightarrow> udp_client \<Rightarrow>
    exn option \<times> datagram list \<times> udp_client" where
  "udp_sendData_to env addr data c =
     (let c1 = open_socket env c
      in case data of
           None \<Rightarrow> (Some NullPointer, [], c1)
         | Some d \<Rightarrow>
             (case addr of
                None \<Rightarrow> (Some IllegalArgument, [], c1)
              | Some (a, port) \<Rightarrow>
                  (case u_socket c1 of
                     None \<Rightarrow> (Some NullPointer, [], c1)
                   | Some sk \<Rightarrow>
                       (let c2 = c1\<lparr>remoteAddr := Some a, remotePort := port\<rparr>
                        in if sock_closed sk then (Some NullPointer, [], c2)
                           else (None, if sendable env (length d) then [(a, port, d)] else [],
                                 c2\<lparr>localAddr := Some any_address, localPort := sock_port sk\<rparr>)))))"

text \<open>
  A received datagram, None for an \<open>IOException\<close>, which a closed socket always gives. Its data are
  cut to the 65535 bytes of the receive buffer. Before the first send there is no socket.
\<close>

definition received :: "socket \<Rightarrow> datagram option \<Rightarrow> datagram option" where
  "received sk incoming =
     (if sock_closed sk then None else map_option (\<lambda>(a, p, d). (a, p, take 65535 d)) incoming)"

definition getCallData :: "datagram option \<Rightarrow> udp_client \<Rightarrow> datagram option result" where
  "getCallData incoming c =
     (if isColse c then Inr None
      else case u_socket c of None \<Rightarrow> Inl NullPointer | Some sk \<Rightarrow> Inr (received sk incoming))"

text \<open>\<open>getCallBackData\<close>: after an \<open>IOException\<close> the whole buffer, never written, is taken as the data.\<close>

definition udp_getCallBackData :: "datagram option \<Rightarrow> udp_client \<Rightarrow> jbyte list option result" where
  "udp_getCallBackData incoming c =
     (if isColse c then Inr None
      else case u_socket c of
             None \<Rightarrow> Inl NullPointer
           | Some sk \<Rightarrow>
               Inr (Some (case received sk incoming of
                            None \<Rightarrow> replicate 65535 0 | Some (_, _, d) \<Rightarrow> d)))"

definition udp_close :: "udp_client \<Rightarrow> udp_client" where
  "udp_close c = c\<lparr>isColse := True,
     u_socket := map_option (\<lambda>sk. Socket (sock_port sk) True) (u_socket c)\<rparr>"

definition udp_protocolClose :: "udp_client \<Rightarrow> udp_client" where
  "udp_protocolClose c = c\<lparr>isProtocolClose := True\<rparr>"

lemma udp_sendData_ok:
  assumes "resolves env h" and "sendable env (length d)"
    and "case u_socket c of None \<Rightarrow> True | Some sk \<Rightarrow> \<not> sock_closed sk"
  shows "\<exists>c'. udp_sendData env (Some h) port (Some d) c = (None, [(h, port, d)], c')
    \<and> (case u_socket c' of None \<Rightarrow> False | Some sk \<Rightarrow> \<not> sock_closed sk)"
  using assms by (auto simp: udp_sendData_def open_socket_def Let_def split: option.splits)

text \<open>Binding a client to a local port before its first send has no effect: the datagram leaves
  from the free port the platform chose, and the client's local address and port are overwritten
  with the socket's.\<close>

theorem bindLocal_has_no_effect:
  assumes "resolves env h" and "sendable env (length d)" and "u_socket c = None"
  shows "\<exists>c'. udp_sendData env (Some h) port (Some d) (bindLocal host lport c)
      = (None, [(h, port, d)], c')
    \<and> localPort c' = free_port env \<and> u_socket c' = Some (Socket (free_port env) False)"
  using assms by (simp add: udp_sendData_def open_socket_def bindLocal_def Let_def)

theorem bindLocal_has_no_effect_witness:
  "\<exists>c'. udp_sendData \<lparr>resolves = (\<lambda>_. True), sendable = (\<lambda>n. n \<le> 65507), free_port = 40000\<rparr>
      (Some ''10.0.0.1'') 5555 (Some [1]) (bindLocal ''10.0.0.2'' 7000 new_UDPClient)
      = (None, [(''10.0.0.1'', 5555, [1])], c') \<and> localPort c' = 40000"
  using bindLocal_has_no_effect
      [of "\<lparr>resolves = (\<lambda>_. True), sendable = (\<lambda>n. n \<le> 65507), free_port = 40000\<rparr>"
        "''10.0.0.1''" "[1]" new_UDPClient 5555 "''10.0.0.2''" 7000]
  by (auto simp: new_UDPClient_def)

end
