(* ===== verification/Sender.thy ===== *)
theory Sender
  imports Ids SubPack FileStore Udp "HOL-Library.AList" "HOL-Library.Sublist"
begin

text \<open>
  The sending side: a client session (\<open>Sessions/ClientSession.java\<close> with the fields it inherits
  from \<open>Session.java\<close>), and the parts of \<open>Sessions/ClientManager.java\<close> that bound the memory of
  unacknowledged datagrams. Sessions are objects with a reference, as \<open>getInstanceID(this)\<close> keys
  the packet counter by object. The tasks the manager starts are logged; their bodies are operations
  of their own.
\<close>

section \<open>State\<close>

text \<open>\<open>recData\<close>: the reference to the listener is there. \<open>cs_shutdown\<close>: the session's pool takes no task.
  \<open>recThread\<close>: the thread that receives runs.\<close>

record client_session =
  cs_id :: jlong
  mapCache :: "jlong \<Rightarrow> jbyte list option"
  mapInitSeq :: "(jlong \<times> int) list"
  clientNum :: int
  cs_srcIP :: "string option"
  cs_port :: int
  cs_client :: udp_client
  initRec :: bool
  cs_isClose :: bool
  logicalClose :: bool
  recData :: bool
  cs_shutdown :: bool
  recThread :: bool

definition new_ClientSession :: "jlong \<Rightarrow> client_session" where
  "new_ClientSession i =
     \<lparr>cs_id = i, mapCache = (\<lambda>_. None), mapInitSeq = [], clientNum = 0, cs_srcIP = None,
      cs_port = 0, cs_client = new_UDPClient, initRec = False, cs_isClose = False,
      logicalClose = False, recData = True, cs_shutdown = False,
      recThread = False\<rparr>"

record session_data =
  sd_sessionid :: jlong
  sd_packagetid :: jlong
  sd_len :: int

datatype task = MemoryRemove | FileRemove

record world =
  w_ids :: ids_state
  w_sess :: "nat \<Rightarrow> client_session"
  hashMap :: "jlong \<Rightarrow> nat option"
  sessionCacheData :: int
  preCache :: "session_data list"
  removeCache :: "string list"
  isStartCache :: bool
  isStartFile :: bool
  fileDB :: "(string, unit) file_memory option"
  w_fs :: file_system
  w_tasks :: "task list"
  w_net :: "datagram list"

definition upd_sess :: "nat \<Rightarrow> (client_session \<Rightarrow> client_session) \<Rightarrow> world \<Rightarrow> world" where
  "upd_sess r f w = w\<lparr>w_sess := (w_sess w)(r := f (w_sess w r))\<rparr>"

section \<open>Keys of the file store\<close>

text \<open>Decimal text of a \<open>long\<close>, and \<open>sessionid + ":" + packagetid\<close>.\<close>

definition long_text :: "jlong \<Rightarrow> string" where
  "long_text w = int_text (sint w)"

definition packet_key :: "jlong \<Rightarrow> jlong \<Rightarrow> string" where
  "packet_key sid pid = long_text sid @ '':'' @ long_text pid"

section \<open>The memory bound of the manager\<close>

definition maxMemorySize :: int where
  "maxMemorySize = 400"

definition varSize :: int where
  "varSize = 50"

text \<open>\<open>startThread\<close>: the file store is created on the first start, then the task is run.\<close>

definition mgr_startThread :: "string \<Rightarrow> string \<Rightarrow> world \<Rightarrow> world" where
  "mgr_startThread now dir w =
     (if isStartCache w then w
      else w\<lparr>isStartCache := True,
             fileDB := (case fileDB w of
                          None \<Rightarrow> Some (setDir (dir @ ''/sessiondata'') (new_FileMemoryData now))
                        | Some db \<Rightarrow> Some db),
             w_tasks := w_tasks w @ [MemoryRemove]\<rparr>)"

definition stratFileRemove :: "world \<Rightarrow> world" where
  "stratFileRemove w =
     (if isStartFile w then w else w\<lparr>isStartFile := True, w_tasks := w_tasks w @ [FileRemove]\<rparr>)"

definition addSessionData :: "string \<Rightarrow> string \<Rightarrow> jlong \<Rightarrow> jlong \<Rightarrow> int \<Rightarrow> world \<Rightarrow> world" where
  "addSessionData now dir sid pid len w =
     (let num = sessionCacheData w + (len + 16);
          w1 = w\<lparr>sessionCacheData := num,
                 preCache := preCache w @ [\<lparr>sd_sessionid = sid, sd_packagetid = pid, sd_len = len\<rparr>]\<rparr>
      in if maxMemorySize * 1024 * 1024 < num then stratFileRemove (mgr_startThread now dir w1)
         else w1)"

definition addRemoveFile :: "jlong \<Rightarrow> jlong \<Rightarrow> world \<Rightarrow> world" where
  "addRemoveFile sid pid w = w\<lparr>removeCache := removeCache w @ [packet_key sid pid]\<rparr>"

text \<open>\<open>getDBData\<close>: the store does not exist before the memory bound was reached once.\<close>

definition getDBData :: "(jbyte list \<Rightarrow> unit jval option) \<Rightarrow> jlong \<Rightarrow> jlong \<Rightarrow> world \<Rightarrow>
    jbyte list option result" where
  "getDBData deser sid pid w =
     (case fileDB w of
        None \<Rightarrow> Inl NullPointer
      | Some db \<Rightarrow>
          bindR (fm_get deser (w_fs w) (packet_key sid pid) db) (\<lambda>v.
            case v of None \<Rightarrow> Inr None | Some (JBytes bs) \<Rightarrow> Inr (Some bs) | Some _ \<Rightarrow> Inl ClassCast))"

section \<open>Sending a message\<close>

text \<open>What a session's socket sends goes on the wire.\<close>

definition cs_transmit :: "net_env \<Rightarrow> nat \<Rightarrow> string option \<Rightarrow> int \<Rightarrow> jbyte list option \<Rightarrow> world \<Rightarrow>
    exn option \<times> world" where
  "cs_transmit env r ip port data w =
     (case udp_sendData env ip port data (cs_client (w_sess w r)) of
        (e, out, c) \<Rightarrow> (e, upd_sess r (\<lambda>s. s\<lparr>cs_client := c\<rparr>) (w\<lparr>w_net := w_net w @ out\<rparr>)))"

text \<open>One packet of a message: build, send, cache, account.\<close>

definition send_packet :: "net_env \<Rightarrow> string \<Rightarrow> string \<Rightarrow> nat \<Rightarrow> jlong \<Rightarrow> string option \<Rightarrow> int \<Rightarrow> jlong \<Rightarrow> jlong \<Rightarrow>
    int \<Rightarrow> jbyte list \<Rightarrow> world \<Rightarrow> exn option \<times> world" where
  "send_packet env now dir r ident ip port initseq packageid sz d w =
     (case createNetPackaget ident (cs_id (w_sess w r)) initseq packageid (of_int sz) (Some d) of
        Inl e \<Rightarrow> (Some e, w)
      | Inr bytes \<Rightarrow>
          (case cs_transmit env r ip port bytes w of
             (Some e, w1) \<Rightarrow> (Some e, w1)
           | (None, w1) \<Rightarrow>
               (case bytes of
                  None \<Rightarrow> (Some NullPointer, w1)
                | Some bs \<Rightarrow>
                    (None, addSessionData now dir (cs_id (w_sess w1 r)) packageid (int (length bs))
                       (upd_sess r (\<lambda>s. s\<lparr>mapCache := (mapCache s)(packageid \<mapsto> bs)\<rparr>) w1)))))"

fun sendLoop :: "net_env \<Rightarrow> string \<Rightarrow> string \<Rightarrow> nat \<Rightarrow> jlong \<Rightarrow> string option \<Rightarrow> int \<Rightarrow> jlong \<Rightarrow> jlong \<Rightarrow>
    int \<Rightarrow> int \<Rightarrow> jbyte list list \<Rightarrow> world \<Rightarrow> exn option \<times> world" where
  "sendLoop env now dir r ident ip port initseq packageid sz index [] w = (Some NoSuchElement, w)"
| "sendLoop env now dir r ident ip port initseq packageid sz index (d # ds) w =
     (case send_packet env now dir r ident ip port initseq packageid sz d w of
        (Some e, w1) \<Rightarrow> (Some e, w1)
      | (None, w1) \<Rightarrow>
          (if 0 < index - 1
           then (case getInstanceID r (w_ids w1) of
                   (pid, ids) \<Rightarrow>
                     sendLoop env now dir r ident ip port initseq pid sz (index - 1) ds
                       (w1\<lparr>w_ids := ids\<rparr>))
           else (None, w1)))"

text \<open>The acknowledgement request that closes a message.\<close>

definition request_ack :: "net_env \<Rightarrow> nat \<Rightarrow> jlong \<Rightarrow> string option \<Rightarrow> int \<Rightarrow> jlong \<Rightarrow> int \<Rightarrow> world \<Rightarrow>
    exn option \<times> world" where
  "request_ack env r ident ip port initseq sz w =
     (case createAckPackaget (new_AckPackaget\<lparr>ackType := 0, ack_clientID := ident,
             ack_packagetNum := of_int sz, ack_sessionid := cs_id (w_sess w r),
             ack_packagetID := initseq\<rparr>) of
        Inl e \<Rightarrow> (Some e, w)
      | Inr bytes \<Rightarrow> cs_transmit env r ip port (Some bytes) w)"

text \<open>\<open>startThread\<close> of the session: the thread that receives.\<close>

definition cs_startThread :: "nat \<Rightarrow> world \<Rightarrow> exn option \<times> world" where
  "cs_startThread r w =
     (if initRec (w_sess w r) then (None, w)
      else if cs_shutdown (w_sess w r)
      then (Some RejectedExecution, upd_sess r (\<lambda>s. s\<lparr>initRec := True\<rparr>) w)
      else (None, upd_sess r (\<lambda>s. s\<lparr>initRec := True, recThread := True\<rparr>) w))"

definition cs_sendData :: "net_env \<Rightarrow> string \<Rightarrow> string \<Rightarrow> int \<Rightarrow> nat \<Rightarrow> jlong \<Rightarrow> string option \<Rightarrow> int \<Rightarrow>
    jbyte list option \<Rightarrow> world \<Rightarrow> exn option \<times> world" where
  "cs_sendData env now dir streamSize r ident ip port data w =
     (case data of
        None \<Rightarrow> (None, w)
      | Some _ \<Rightarrow>
          (case subData streamSize data of
             Inl e \<Rightarrow> (Some e, w)
           | Inr None \<Rightarrow> (Some NullPointer, w)
           | Inr (Some subs) \<Rightarrow>
               (case getInstanceID r (w_ids w) of
                  (initseq, ids) \<Rightarrow>
                    (let sz = int (length subs);
                         w1 = upd_sess r (\<lambda>s. s\<lparr>mapInitSeq := AList.update initseq sz (mapInitSeq s),
                                cs_srcIP := ip, cs_port := port\<rparr>) (w\<lparr>w_ids := ids\<rparr>)
                     in case sendLoop env now dir r ident ip port initseq initseq sz sz subs w1 of
                          (Some e, w2) \<Rightarrow> (Some e, w2)
                        | (None, w2) \<Rightarrow>
                            (case cs_startThread r w2 of
                               (Some e, w3) \<Rightarrow> (Some e, w3)
                             | (None, w3) \<Rightarrow> request_ack env r ident ip port initseq sz w3)))))"

text \<open>\<open>sendData\<close> with a local address binds the client first.\<close>

definition cs_sendData_from :: "net_env \<Rightarrow> string \<Rightarrow> string \<Rightarrow> int \<Rightarrow> nat \<Rightarrow> jlong \<Rightarrow> string \<Rightarrow> int \<Rightarrow>
    string option \<Rightarrow> int \<Rightarrow> jbyte list option \<Rightarrow> world \<Rightarrow> exn option \<times> world" where
  "cs_sendData_from env now dir streamSize r ident localIP lport ip port data w =
     cs_sendData env now dir streamSize r ident ip port data
       (upd_sess r (\<lambda>s. s\<lparr>cs_client := bindLocal localIP lport (cs_client s)\<rparr>) w)"

section \<open>Closing, counting, evicting\<close>

text \<open>\<open>close\<close>: once; tells the receiver with an acknowledgement of type 3.\<close>

definition cs_close :: "net_env \<Rightarrow> nat \<Rightarrow> world \<Rightarrow> exn option \<times> world" where
  "cs_close env r w =
     (let s = w_sess w r
      in if cs_isClose s then (None, w)
         else let w1 = upd_sess r (\<lambda>s. s\<lparr>cs_isClose := True\<rparr>) w
              in case createAckPackaget (new_AckPackaget\<lparr>ackType := 3, ack_sessionid := cs_id s\<rparr>) of
                   Inl e \<Rightarrow> (Some e, w1)
                 | Inr bytes \<Rightarrow>
                     (case cs_transmit env r (cs_srcIP s) (cs_port s) (Some bytes) w1 of
                        (Some e, w2) \<Rightarrow> (Some e, w2)
                      | (None, w2) \<Rightarrow>
                          (None, upd_sess r (\<lambda>s. s\<lparr>cs_client := udp_close (cs_client s)\<rparr>) w2)))"

definition setClientIncrement :: "nat \<Rightarrow> world \<Rightarrow> world" where
  "setClientIncrement r w = upd_sess r (\<lambda>s. s\<lparr>clientNum := clientNum s + 1\<rparr>) w"

definition setClientDecrement :: "nat \<Rightarrow> world \<Rightarrow> world" where
  "setClientDecrement r w = upd_sess r (\<lambda>s. s\<lparr>clientNum := clientNum s - 1\<rparr>) w"

definition getClientNum :: "nat \<Rightarrow> world \<Rightarrow> int" where
  "getClientNum r w = clientNum (w_sess w r)"

definition removeData :: "nat \<Rightarrow> jlong \<Rightarrow> world \<Rightarrow> jbyte list option \<times> world" where
  "removeData r pid w =
     (mapCache (w_sess w r) pid, upd_sess r (\<lambda>s. s\<lparr>mapCache := (mapCache s)(pid := None)\<rparr>) w)"

section \<open>Acknowledgements\<close>

text \<open>Type 1, everything received: the loop runs up to and including the number of packets.\<close>

definition evict :: "nat \<Rightarrow> jlong \<Rightarrow> world \<Rightarrow> world" where
  "evict r pid w =
     (case removeData r pid w of
        (Some _, w1) \<Rightarrow> w1
      | (None, w1) \<Rightarrow> addRemoveFile (cs_id (w_sess w r)) pid w1)"

definition evict_message :: "nat \<Rightarrow> jlong \<Rightarrow> int \<Rightarrow> world \<Rightarrow> world" where
  "evict_message r pid sz w = fold (\<lambda>i. evict r (pid + of_int i)) [0..sz] w"

text \<open>\<open>ClientManager.getSession\<close>: forget the session.\<close>

definition mgr_getSession :: "jlong \<Rightarrow> world \<Rightarrow> nat option \<times> world" where
  "mgr_getSession i w = (hashMap w i, w\<lparr>hashMap := (hashMap w)(i := None)\<rparr>)"

definition ack_received :: "net_env \<Rightarrow> nat \<Rightarrow> jlong \<Rightarrow> world \<Rightarrow> exn option \<times> world" where
  "ack_received env r pid w =
     (case map_of (mapInitSeq (w_sess w r)) pid of
        None \<Rightarrow> (None, w)
      | Some sz \<Rightarrow>
          (let w1 = upd_sess r (\<lambda>s. s\<lparr>mapInitSeq := AList.delete pid (mapInitSeq s)\<rparr>)
                      (evict_message r pid sz w)
           in if logicalClose (w_sess w1 r) \<and> mapInitSeq (w_sess w1 r) = []
              then (case cs_close env r w1 of
                      (Some e, w2) \<Rightarrow> (Some e, w2)
                    | (None, w2) \<Rightarrow>
                        (None, upd_sess r (\<lambda>s. s\<lparr>recData := False, cs_shutdown := True\<rparr>)
                           (snd (mgr_getSession (cs_id (w_sess w2 r)) w2))))
              else (None, w1)))"

text \<open>Type 2, a packet is missing: the cached datagram is sent as the data of a new message.\<close>

definition ack_missing :: "net_env \<Rightarrow> string \<Rightarrow> string \<Rightarrow> int \<Rightarrow> (jbyte list \<Rightarrow> unit jval option) \<Rightarrow> nat \<Rightarrow>
    jlong \<Rightarrow> jlong \<Rightarrow> world \<Rightarrow> exn option \<times> world" where
  "ack_missing env now dir streamSize deser r ident pid w =
     (let s = w_sess w r
      in case (case mapCache s pid of
                 Some d \<Rightarrow> Inr (Some d)
               | None \<Rightarrow> getDBData deser (cs_id s) pid w) of
           Inl e \<Rightarrow> (Some e, w)
         | Inr data \<Rightarrow>
             cs_sendData env now dir streamSize r ident (cs_srcIP s) (cs_port s) data w)"

definition cs_addData :: "net_env \<Rightarrow> string \<Rightarrow> string \<Rightarrow> int \<Rightarrow> (jbyte list \<Rightarrow> unit jval option) \<Rightarrow> nat \<Rightarrow>
    return_code \<Rightarrow> world \<Rightarrow> exn option \<times> world" where
  "cs_addData env now dir streamSize deser r code w =
     (if isAck code
      then (case ackPackaget code of
              None \<Rightarrow> (Some NullPointer, w)
            | Some ack \<Rightarrow>
                if ackType ack = 1 then ack_received env r (ack_packagetID ack) w
                else if ackType ack = 2
                then ack_missing env now dir streamSize deser r (ack_clientID ack)
                       (ack_packagetID ack) w
                else (None, w))
      else (None, w))"

section \<open>The tasks of the manager\<close>

text \<open>
  \<open>memoryRemove\<close>: while less than \<open>varSize\<close> megabytes have been moved, or all must go, take the
  next accounted packet, remove it from its session and put it into the file store. A packet of a
  session that is no longer registered is dropped from the queue only.
\<close>

definition move_packet :: "session_data \<Rightarrow> nat \<Rightarrow> world \<Rightarrow> int \<times> world" where
  "move_packet t r w =
     (case removeData r (sd_packagetid t) w of
        (data, w1) \<Rightarrow>
          (let w2 = w1\<lparr>sessionCacheData := sessionCacheData w1 - sd_len t - 16\<rparr>
           in case data of
                None \<Rightarrow> (0, w2)
              | Some bs \<Rightarrow>
                  (sd_len t,
                   w2\<lparr>fileDB := map_option (\<lambda>db. snd (fm_put
                        (packet_key (sd_sessionid t) (sd_packagetid t)) (JBytes bs) db)) (fileDB w2)\<rparr>)))"

fun memLoop :: "session_data list \<Rightarrow> int \<Rightarrow> bool \<Rightarrow> world \<Rightarrow> world" where
  "memLoop [] moved isDBAll w = w\<lparr>preCache := []\<rparr>"
| "memLoop (t # ts) moved isDBAll w =
     (if moved < varSize * 1024 * 1024 \<or> isDBAll
      then (let all' = (if sessionCacheData w < (maxMemorySize + 50) * 1000 then False else isDBAll)
            in case hashMap w (sd_sessionid t) of
                 None \<Rightarrow> memLoop ts moved all' w
               | Some r \<Rightarrow>
                   (case move_packet t r w of (n, w1) \<Rightarrow> memLoop ts (moved + n) all' w1))
      else w\<lparr>preCache := t # ts\<rparr>)"

definition memoryRemove :: "world \<Rightarrow> world" where
  "memoryRemove w =
     (memLoop (preCache w) 0 ((maxMemorySize + 50) * 1024 * 1024 < sessionCacheData w) w)
       \<lparr>isStartCache := False\<rparr>"

text \<open>\<open>fileRemove\<close>: the loop deletes queued keys while \<open>sum\<close>, which stays 0, exceeds the bound.\<close>

fun fileRemoveLoop :: "int \<Rightarrow> string list \<Rightarrow> (string, unit) file_memory option \<Rightarrow>
    string list \<times> (string, unit) file_memory option" where
  "fileRemoveLoop moved keys db =
     (if varSize < moved
      then (case keys of
              [] \<Rightarrow> ([], db)
            | k # ks \<Rightarrow> fileRemoveLoop moved ks (map_option (fm_delete k) db))
      else (keys, db))"

declare fileRemoveLoop.simps [simp del]

definition fileRemove :: "world \<Rightarrow> world" where
  "fileRemove w =
     (case fileRemoveLoop 0 (removeCache w) (fileDB w) of
        (keys, db) \<Rightarrow> w\<lparr>removeCache := keys, fileDB := db, isStartFile := False\<rparr>)"

text \<open>The task that should delete acknowledged packets from the file store deletes none: its
  loop condition compares a sum that is 0 with the bound, so the queue of keys and the store stay
  as they are, however many keys are queued.\<close>

theorem fileRemove_deletes_nothing: "fileRemove w = w\<lparr>isStartFile := False\<rparr>"
proof -
  have "fileRemoveLoop 0 keys db = (keys, db)" for keys db
    by (simp add: fileRemoveLoop.simps varSize_def)
  then show ?thesis by (simp add: fileRemove_def)
qed

section \<open>The account of unacknowledged bytes\<close>

definition pending_bytes :: "session_data list \<Rightarrow> int" where
  "pending_bytes ts = sum_list (map (\<lambda>t. sd_len t + 16) ts)"

text \<open>What the counter holds beyond the packets still in the queue.\<close>

definition leaked :: "world \<Rightarrow> int" where
  "leaked w = sessionCacheData w - pending_bytes (preCache w)"

lemma pending_bytes_simps [simp]:
  "pending_bytes [] = 0" "pending_bytes (t # ts) = sd_len t + 16 + pending_bytes ts"
  "pending_bytes (xs @ ys) = pending_bytes xs + pending_bytes ys"
  by (simp_all add: pending_bytes_def)

lemma addSessionData_leaked: "leaked (addSessionData now dir sid pid len w) = leaked w"
  by (simp add: addSessionData_def leaked_def mgr_startThread_def stratFileRemove_def Let_def)

lemma move_packet_frame:
  "move_packet t r w = (n, w') \<Longrightarrow> sessionCacheData w' = sessionCacheData w - sd_len t - 16
    \<and> hashMap w' = hashMap w \<and> preCache w' = preCache w"
  by (auto simp: move_packet_def removeData_def upd_sess_def Let_def split: option.splits)

lemma memLoop_leaked:
  "\<exists>done rest. pre = done @ rest \<and> preCache (memLoop pre moved all w) = rest
    \<and> hashMap (memLoop pre moved all w) = hashMap w
    \<and> sessionCacheData (memLoop pre moved all w) = sessionCacheData w
        - pending_bytes (filter (\<lambda>t. hashMap w (sd_sessionid t) \<noteq> None) done)"
proof (induction pre moved all w rule: memLoop.induct)
  case (2 t ts moved all w)
  show ?case
  proof (cases "moved < varSize * 1024 * 1024 \<or> all")
    case False
    then show ?thesis by (intro exI [of _ "[]"] exI [of _ "t # ts"]) simp
  next
    case True
    let ?all = "if sessionCacheData w < (maxMemorySize + 50) * 1000 then False else all"
    show ?thesis
    proof (cases "hashMap w (sd_sessionid t)")
      case None
      obtain d rest where "ts = d @ rest" "preCache (memLoop ts moved ?all w) = rest"
        "hashMap (memLoop ts moved ?all w) = hashMap w"
        "sessionCacheData (memLoop ts moved ?all w) = sessionCacheData w
          - pending_bytes (filter (\<lambda>t. hashMap w (sd_sessionid t) \<noteq> None) d)"
        using 2(1) [OF True refl None] by blast
      then show ?thesis
        using True None by (intro exI [of _ "t # d"] exI [of _ rest]) (simp add: Let_def)
    next
      case (Some r)
      obtain n w1 where m: "move_packet t r w = (n, w1)" by fastforce
      note f = move_packet_frame [OF m]
      obtain d rest where "ts = d @ rest" "preCache (memLoop ts (moved + n) ?all w1) = rest"
        "hashMap (memLoop ts (moved + n) ?all w1) = hashMap w1"
        "sessionCacheData (memLoop ts (moved + n) ?all w1) = sessionCacheData w1
          - pending_bytes (filter (\<lambda>t. hashMap w1 (sd_sessionid t) \<noteq> None) d)"
        using 2(2) [OF True refl Some m [symmetric]] by blast
      then show ?thesis
        using True Some m f by (intro exI [of _ "t # d"] exI [of _ rest]) (simp add: Let_def)
    qed
  qed
qed simp

text \<open>The account of cached bytes: adding a packet and moving packets to the file store keep the
  counter in step with the queue, except that every queued packet whose session is no longer
  registered leaves the queue without leaving the counter. Its bytes (plus 16) stay counted for
  ever, so the counter never falls below the sum of what it leaked.\<close>

theorem memory_account_leaks:
  "leaked (addSessionData now dir sid pid len w) = leaked w
    \<and> (\<exists>done. prefix done (preCache w) \<and> leaked (memoryRemove w) = leaked w
        + pending_bytes (filter (\<lambda>t. hashMap w (sd_sessionid t) = None) done))"
proof (intro conjI)
  show "leaked (addSessionData now dir sid pid len w) = leaked w" by (rule addSessionData_leaked)
  let ?all = "(maxMemorySize + 50) * 1024 * 1024 < sessionCacheData w"
  obtain d rest where d: "preCache w = d @ rest" "preCache (memLoop (preCache w) 0 ?all w) = rest"
    "sessionCacheData (memLoop (preCache w) 0 ?all w) = sessionCacheData w
      - pending_bytes (filter (\<lambda>t. hashMap w (sd_sessionid t) \<noteq> None) d)"
    using memLoop_leaked by blast
  have split: "pending_bytes ts = pending_bytes (filter P ts) + pending_bytes (filter (\<lambda>t. \<not> P t) ts)"
    for P ts by (induction ts) auto
  have "prefix d (preCache w)" using d(1) by simp
  moreover have "leaked (memoryRemove w) = leaked w
      + pending_bytes (filter (\<lambda>t. hashMap w (sd_sessionid t) = None) d)"
    using d split [of d "\<lambda>t. hashMap w (sd_sessionid t) = None"]
    by (simp add: leaked_def memoryRemove_def)
  ultimately show "\<exists>done. prefix done (preCache w) \<and> leaked (memoryRemove w) = leaked w
      + pending_bytes (filter (\<lambda>t. hashMap w (sd_sessionid t) = None) done)" by blast
qed

section \<open>What a message puts on the wire\<close>

text \<open>A session that can send to an address.\<close>

definition usable :: "net_env \<Rightarrow> string \<Rightarrow> nat \<Rightarrow> world \<Rightarrow> bool" where
  "usable env ip r w \<longleftrightarrow> resolves env ip \<and> \<not> cs_shutdown (w_sess w r)
     \<and> (case u_socket (cs_client (w_sess w r)) of None \<Rightarrow> True | Some sk \<Rightarrow> \<not> sock_closed sk)"

lemma cs_transmit_ok:
  assumes "usable env ip r w" and "sendable env (length d)"
  obtains c where "cs_transmit env r (Some ip) port (Some d) w
      = (None, upd_sess r (\<lambda>s. s\<lparr>cs_client := c\<rparr>) (w\<lparr>w_net := w_net w @ [(ip, port, d)]\<rparr>))"
    "case u_socket c of None \<Rightarrow> False | Some sk \<Rightarrow> \<not> sock_closed sk"
proof -
  obtain c where "udp_sendData env (Some ip) port (Some d) (cs_client (w_sess w r))
      = (None, [(ip, port, d)], c)"
    "case u_socket c of None \<Rightarrow> False | Some sk \<Rightarrow> \<not> sock_closed sk"
    using udp_sendData_ok [of env ip d "cs_client (w_sess w r)" port] assms
    by (auto simp: usable_def)
  then show thesis using that by (simp add: cs_transmit_def)
qed

lemma upd_sess_simps [simp]:
  "w_ids (upd_sess r f w) = w_ids w" "w_net (upd_sess r f w) = w_net w"
  "w_sess (upd_sess r f w) r = f (w_sess w r)"
  "q \<noteq> r \<Longrightarrow> w_sess (upd_sess r f w) q = w_sess w q"
  "hashMap (upd_sess r f w) = hashMap w" "fileDB (upd_sess r f w) = fileDB w"
  "removeCache (upd_sess r f w) = removeCache w"
  by (simp_all add: upd_sess_def)

lemma addSessionData_simps [simp]:
  "w_ids (addSessionData now dir sid pid len w) = w_ids w"
  "w_net (addSessionData now dir sid pid len w) = w_net w"
  "w_sess (addSessionData now dir sid pid len w) = w_sess w"
  "hashMap (addSessionData now dir sid pid len w) = hashMap w"
  by (simp_all add: addSessionData_def mgr_startThread_def stratFileRemove_def Let_def)

text \<open>One packet: its datagram goes out and into the cache.\<close>

text \<open>Whether the receiving thread was started, and runs.\<close>

definition receiving :: "nat \<Rightarrow> world \<Rightarrow> bool \<times> bool" where
  "receiving r w = (initRec (w_sess w r), recThread (w_sess w r))"

definition connected :: "nat \<Rightarrow> world \<Rightarrow> bool" where
  "connected r w \<longleftrightarrow> (case u_socket (cs_client (w_sess w r)) of None \<Rightarrow> False | Some sk \<Rightarrow> \<not> sock_closed sk)"

lemma send_packet_ok:
  assumes "usable env ip r w" and "sendable env (41 + length d)" and "length d < 2 ^ 31 - 41"
  obtains w' where "send_packet env now dir r ident (Some ip) port initseq pid sz d w = (None, w')"
    "usable env ip r w'" "w_ids w' = w_ids w" "cs_id (w_sess w' r) = cs_id (w_sess w r)"
    "w_net w' = w_net w @ [(ip, port, data_bytes ident (cs_id (w_sess w r)) initseq pid (of_int sz) d)]"
    "mapCache (w_sess w' r) = (mapCache (w_sess w r))
       (pid \<mapsto> data_bytes ident (cs_id (w_sess w r)) initseq pid (of_int sz) d)"
    "mapInitSeq (w_sess w' r) = mapInitSeq (w_sess w r)"
    "logicalClose (w_sess w' r) = logicalClose (w_sess w r)" "receiving r w' = receiving r w"
proof -
  let ?bs = "data_bytes ident (cs_id (w_sess w r)) initseq pid (of_int sz) d"
  have mk: "createNetPackaget ident (cs_id (w_sess w r)) initseq pid (of_int sz) (Some d)
      = Inr (Some ?bs)"
    using createNetPackaget_eq assms(3) by simp
  obtain c where c: "cs_transmit env r (Some ip) port (Some ?bs) w
      = (None, upd_sess r (\<lambda>s. s\<lparr>cs_client := c\<rparr>) (w\<lparr>w_net := w_net w @ [(ip, port, ?bs)]\<rparr>))"
    "case u_socket c of None \<Rightarrow> False | Some sk \<Rightarrow> \<not> sock_closed sk"
    using cs_transmit_ok [OF assms(1), of ?bs port] assms(2) by (auto simp: length_data_bytes)
  let ?w1 = "upd_sess r (\<lambda>s. s\<lparr>cs_client := c\<rparr>) (w\<lparr>w_net := w_net w @ [(ip, port, ?bs)]\<rparr>)"
  have "send_packet env now dir r ident (Some ip) port initseq pid sz d w
      = (None, addSessionData now dir (cs_id (w_sess w r)) pid (int (length ?bs))
          (upd_sess r (\<lambda>s. s\<lparr>mapCache := (mapCache s)(pid \<mapsto> ?bs)\<rparr>) ?w1))"
    using mk c(1) by (simp add: send_packet_def)
  then show thesis
    by (rule that) (use c(2) assms(1) in \<open>auto simp: usable_def receiving_def split: option.splits\<close>)
qed

text \<open>The datagrams of a message: consecutive identifiers from \<open>initseq\<close> on.\<close>

definition packets_of :: "jlong \<Rightarrow> jlong \<Rightarrow> jlong \<Rightarrow> jlong \<Rightarrow> int \<Rightarrow> jbyte list list \<Rightarrow> jbyte list list" where
  "packets_of ident sid initseq pid sz subs =
     map (\<lambda>(i, d). data_bytes ident sid initseq (pid + of_nat i) (of_int sz) d)
       (zip [0..<length subs] subs)"

lemma packets_of_Nil [simp]: "packets_of ident sid initseq pid sz [] = []"
  by (simp add: packets_of_def)

lemma packets_of_Cons:
  "packets_of ident sid initseq pid sz (d # ds) =
     data_bytes ident sid initseq pid (of_int sz) d
     # packets_of ident sid initseq (pid + 1) sz ds"
proof -
  have "zip [0..<Suc (length ds)] (d # ds)
      = (0, d) # map (\<lambda>(i, x). (Suc i, x)) (zip [0..<length ds] ds)"
    by (simp add: upt_conv_Cons zip_map1 map_Suc_upt [symmetric] del: upt_Suc)
  then show ?thesis by (simp add: packets_of_def o_def case_prod_beta add.assoc)
qed

lemma sendLoop_ok:
  "usable env ip r w \<Longrightarrow> ids_inv (w_ids w) \<Longrightarrow> subs \<noteq> [] \<Longrightarrow>
    \<forall>d \<in> set subs. sendable env (41 + length d) \<and> length d < 2 ^ 31 - 41 \<Longrightarrow>
    instance_value r (w_ids w) = pid + 1 \<Longrightarrow> index = int (length subs) \<Longrightarrow> length subs \<le> 2 ^ 64 \<Longrightarrow>
    \<exists>w'. sendLoop env now dir r ident (Some ip) port initseq pid sz index subs w = (None, w')
      \<and> usable env ip r w' \<and> cs_id (w_sess w' r) = cs_id (w_sess w r)
      \<and> w_net w' = w_net w @ map (\<lambda>b. (ip, port, b))
          (packets_of ident (cs_id (w_sess w r)) initseq pid sz subs)
      \<and> instance_value r (w_ids w') = pid + of_nat (length subs) \<and> ids_inv (w_ids w')
      \<and> mapInitSeq (w_sess w' r) = mapInitSeq (w_sess w r)
      \<and> logicalClose (w_sess w' r) = logicalClose (w_sess w r) \<and> receiving r w' = receiving r w
      \<and> (\<forall>i < length subs. mapCache (w_sess w' r) (pid + of_nat i)
          = Some (packets_of ident (cs_id (w_sess w r)) initseq pid sz subs ! i))
      \<and> (\<forall>p. (\<forall>i < length subs. p \<noteq> pid + of_nat i) \<longrightarrow>
          mapCache (w_sess w' r) p = mapCache (w_sess w r) p)"
proof (induction subs arbitrary: pid index w)
  case (Cons d ds)
  let ?sid = "cs_id (w_sess w r)"
  have d: "sendable env (41 + length d)" "length d < 2 ^ 31 - 41" using Cons.prems(4) by auto
  obtain w1 where w1: "send_packet env now dir r ident (Some ip) port initseq pid sz d w = (None, w1)"
    "usable env ip r w1" "w_ids w1 = w_ids w" "cs_id (w_sess w1 r) = ?sid"
    "w_net w1 = w_net w @ [(ip, port, data_bytes ident ?sid initseq pid (of_int sz) d)]"
    "mapCache (w_sess w1 r) = (mapCache (w_sess w r))
       (pid \<mapsto> data_bytes ident ?sid initseq pid (of_int sz) d)"
    "mapInitSeq (w_sess w1 r) = mapInitSeq (w_sess w r)"
    "logicalClose (w_sess w1 r) = logicalClose (w_sess w r)" "receiving r w1 = receiving r w"
    using send_packet_ok [OF Cons.prems(1) d] by blast
  show ?case
  proof (cases ds)
    case Nil
    then show ?thesis using w1 Cons.prems by (simp add: packets_of_Cons)
  next
    case (Cons d' ds')
    obtain p ids where g: "getInstanceID r (w_ids w1) = (p, ids)" by fastforce
    have p: "p = pid + 1" "ids_inv ids" "instance_value r ids = pid + 1 + 1"
      using getInstanceID_spec [OF _ g] w1(3) Cons.prems by auto
    let ?w1 = "w1\<lparr>w_ids := ids\<rparr>"
    have next_: "sendLoop env now dir r ident (Some ip) port initseq pid sz index (d # ds) w
        = sendLoop env now dir r ident (Some ip) port initseq (pid + 1) sz (index - 1) ds ?w1"
      using w1(1) g p(1) Cons.prems(6) Cons by simp
    have "usable env ip r ?w1" using w1(2) by (simp add: usable_def)
    from Cons.IH [OF this, of "pid + 1" "index - 1"] p Cons.prems Cons
    obtain w' where w': "sendLoop env now dir r ident (Some ip) port initseq (pid + 1) sz (index - 1)
        ds ?w1 = (None, w')" "usable env ip r w'" "cs_id (w_sess w' r) = ?sid"
      "w_net w' = w_net w1 @ map (\<lambda>b. (ip, port, b)) (packets_of ident ?sid initseq (pid + 1) sz ds)"
      "instance_value r (w_ids w') = pid + 1 + of_nat (length ds)" "ids_inv (w_ids w')"
      "mapInitSeq (w_sess w' r) = mapInitSeq (w_sess w r)"
      "\<forall>i < length ds. mapCache (w_sess w' r) (pid + 1 + of_nat i)
          = Some (packets_of ident ?sid initseq (pid + 1) sz ds ! i)"
      "\<forall>p. (\<forall>i < length ds. p \<noteq> pid + 1 + of_nat i) \<longrightarrow>
          mapCache (w_sess w' r) p = mapCache (w_sess w1 r) p"
      "logicalClose (w_sess w' r) = logicalClose (w_sess w r)" "receiving r w' = receiving r w"
      using w1(4,7,8,9) by (auto simp: receiving_def)
    have far: "pid \<noteq> pid + 1 + of_nat j" if "j < length ds" for j
    proof
      assume "pid = pid + 1 + of_nat j"
      then have "of_nat (Suc j) = (of_nat 0 :: jlong)" by (simp add: add.assoc)
      moreover have "Suc j < 2 ^ 64" using that Cons.prems(7) by simp
      ultimately show False using of_nat_inj_long [of "Suc j" 0] by simp
    qed
    have shift: "pid + of_nat (Suc j) = pid + 1 + of_nat j" for j by (simp add: ac_simps)
    show ?thesis
    proof (intro exI [of _ w'] conjI allI impI)
      show "sendLoop env now dir r ident (Some ip) port initseq pid sz index (d # ds) w = (None, w')"
        using next_ w'(1) by simp
      show "w_net w' = w_net w @ map (\<lambda>b. (ip, port, b))
          (packets_of ident ?sid initseq pid sz (d # ds))"
        using w'(4) w1(5) by (simp add: packets_of_Cons)
      show "instance_value r (w_ids w') = pid + of_nat (length (d # ds))"
        using w'(5) by (simp add: ac_simps)
    next
      fix i assume i: "i < length (d # ds)"
      show "mapCache (w_sess w' r) (pid + of_nat i)
          = Some (packets_of ident ?sid initseq pid sz (d # ds) ! i)"
      proof (cases i)
        case 0
        then show ?thesis using w'(9) far w1(6) by (simp add: packets_of_Cons)
      next
        case (Suc j)
        then show ?thesis using w'(8) i by (simp add: packets_of_Cons add.assoc)
      qed
    next
      fix p assume p: "\<forall>i < length (d # ds). p \<noteq> pid + of_nat i"
      have "p \<noteq> pid" using spec [OF p, of 0] by simp
      moreover have "\<forall>j < length ds. p \<noteq> pid + 1 + of_nat j"
      proof (intro allI impI)
        fix j assume "j < length ds"
        then show "p \<noteq> pid + 1 + of_nat j"
          using spec [OF p, of "Suc j"] by (simp add: add.assoc)
      qed
      ultimately show "mapCache (w_sess w' r) p = mapCache (w_sess w r) p"
        using w'(9) w1(6) by simp
    qed (use w' in simp_all)
  qed
qed simp

lemma request_ack_ok:
  assumes "usable env ip r w" and "sendable env 34"
  obtains w' where "request_ack env r ident (Some ip) port initseq sz w = (None, w')"
    "w_net w' = w_net w @ [(ip, port, ack_bytes (new_AckPackaget\<lparr>ackType := 0,
        ack_clientID := ident, ack_packagetNum := of_int sz, ack_sessionid := cs_id (w_sess w r),
        ack_packagetID := initseq\<rparr>))]"
    "mapCache (w_sess w' r) = mapCache (w_sess w r)"
    "mapInitSeq (w_sess w' r) = mapInitSeq (w_sess w r)"
    "logicalClose (w_sess w' r) = logicalClose (w_sess w r)"
    "instance_value q (w_ids w') = instance_value q (w_ids w)" "usable env ip r w'"
    "receiving r w' = receiving r w"
    "connected r w'"
proof -
  let ?ack = "new_AckPackaget\<lparr>ackType := 0, ack_clientID := ident, ack_packagetNum := of_int sz,
    ack_sessionid := cs_id (w_sess w r), ack_packagetID := initseq\<rparr>"
  have "length (ack_bytes ?ack) = 34" by (simp add: ack_bytes_def)
  then obtain c where c: "cs_transmit env r (Some ip) port (Some (ack_bytes ?ack)) w
      = (None, upd_sess r (\<lambda>s. s\<lparr>cs_client := c\<rparr>) (w\<lparr>w_net := w_net w @ [(ip, port, ack_bytes ?ack)]\<rparr>))"
    "case u_socket c of None \<Rightarrow> False | Some sk \<Rightarrow> \<not> sock_closed sk"
    using cs_transmit_ok [OF assms(1), of "ack_bytes ?ack" port] assms(2) by auto
  then have "request_ack env r ident (Some ip) port initseq sz w = (None,
      upd_sess r (\<lambda>s. s\<lparr>cs_client := c\<rparr>) (w\<lparr>w_net := w_net w @ [(ip, port, ack_bytes ?ack)]\<rparr>))"
    by (simp add: request_ack_def createAckPackaget_eq)
  then show thesis
    by (rule that) (use c assms(1) in \<open>auto simp: usable_def receiving_def connected_def split: option.splits\<close>)
qed

text \<open>What the receiver's parser finds in the datagrams.\<close>

lemma packets_payload:
  "\<forall>d \<in> set subs. length d < 2 ^ 31 - 41 \<Longrightarrow>
    map (\<lambda>b. rc_data (AnalysisNetPackaget (Some b))) (packets_of ident sid initseq pid sz subs)
      = map Some subs"
proof (induction subs arbitrary: pid)
  case (Cons d ds)
  then have "rc_data (AnalysisNetPackaget (Some (data_bytes ident sid initseq pid (of_int sz) d)))
      = Some d"
    by (simp add: data_bytes_def Analysis_flag parse_body_data)
  with Cons show ?case by (simp add: packets_of_Cons)
qed simp

lemma startThread_ok:
  assumes "usable env ip r w"
  obtains w' where "cs_startThread r w = (None, w')" "usable env ip r w'" "w_net w' = w_net w"
    "w_ids w' = w_ids w" "cs_id (w_sess w' r) = cs_id (w_sess w r)"
    "mapCache (w_sess w' r) = mapCache (w_sess w r)" "mapInitSeq (w_sess w' r) = mapInitSeq (w_sess w r)"
    "logicalClose (w_sess w' r) = logicalClose (w_sess w r)"
    "snd (receiving r w') = (fst (receiving r w) \<longrightarrow> snd (receiving r w))"
  by (rule that [of "snd (cs_startThread r w)"])
    (use assms in \<open>simp_all add: cs_startThread_def usable_def receiving_def\<close>)

lemma cs_sendData_ok:
  assumes "usable env ip r w" and "ids_inv (w_ids w)" and "0 < ss" and "ss < 2 ^ 31 - 41"
    and "length bs < 2 ^ 31" and "\<And>n. n \<le> nat ss \<Longrightarrow> sendable env (41 + n)" and "sendable env 34"
  obtains w' subs where
    "cs_sendData env now dir ss r ident (Some ip) port (Some bs) w = (None, w')"
    "subData ss (Some bs) = Inr (Some subs)"
    "w_net w' = w_net w @ map (\<lambda>b. (ip, port, b))
       (packets_of ident (cs_id (w_sess w r)) (instance_value r (w_ids w))
          (instance_value r (w_ids w)) (int (length subs)) subs
        @ [ack_bytes (new_AckPackaget\<lparr>ackType := 0, ack_clientID := ident,
             ack_packagetNum := of_int (int (length subs)), ack_sessionid := cs_id (w_sess w r),
             ack_packagetID := instance_value r (w_ids w)\<rparr>)])"
    "map_of (mapInitSeq (w_sess w' r)) (instance_value r (w_ids w)) = Some (int (length subs))"
    "\<forall>i < length subs. mapCache (w_sess w' r) (instance_value r (w_ids w) + of_nat i)
       = Some (packets_of ident (cs_id (w_sess w r)) (instance_value r (w_ids w))
          (instance_value r (w_ids w)) (int (length subs)) subs ! i)"
    "instance_value r (w_ids w') = instance_value r (w_ids w) + of_nat (length subs)"
    "logicalClose (w_sess w' r) = logicalClose (w_sess w r)"
    "snd (receiving r w') = (fst (receiving r w) \<longrightarrow> snd (receiving r w))"
    "connected r w'"
proof -
  obtain subs where sub: "subData ss (Some bs) = Inr (Some subs)"
    using subData_eq [OF assms(3)] by blast
  note sf = subData_facts [OF assms(3) sub]
  have small: "\<forall>d \<in> set subs. sendable env (41 + length d) \<and> length d < 2 ^ 31 - 41"
  proof
    fix d assume "d \<in> set subs"
    then have "length d \<le> nat ss" using sf(3) by blast
    then show "sendable env (41 + length d) \<and> length d < 2 ^ 31 - 41"
      using assms(4,6) by auto
  qed
  have many: "length subs \<le> 2 ^ 64"
  proof -
    have "(length bs + nat ss - 1) div nat ss \<le> length bs + nat ss - 1" by (rule div_le_dividend)
    also have "\<dots> \<le> 2 ^ 64" using assms(4,5) by simp
    finally show ?thesis unfolding sf(5) by simp
  qed
  obtain v ids where g: "getInstanceID r (w_ids w) = (v, ids)" by fastforce
  note gs = getInstanceID_spec [OF assms(2) g]
  let ?v = "instance_value r (w_ids w)" and ?sid = "cs_id (w_sess w r)" and ?n = "int (length subs)"
  let ?w1 = "upd_sess r (\<lambda>s. s\<lparr>mapInitSeq := AList.update v ?n (mapInitSeq s),
    cs_srcIP := Some ip, cs_port := port\<rparr>) (w\<lparr>w_ids := ids\<rparr>)"
  have u1: "usable env ip r ?w1" using assms(1) by (simp add: usable_def)
  obtain w2 where w2: "sendLoop env now dir r ident (Some ip) port v v ?n ?n subs ?w1 = (None, w2)"
    "usable env ip r w2" "cs_id (w_sess w2 r) = ?sid"
    "w_net w2 = w_net w @ map (\<lambda>b. (ip, port, b)) (packets_of ident ?sid v v ?n subs)"
    "instance_value r (w_ids w2) = v + of_nat (length subs)"
    "mapInitSeq (w_sess w2 r) = AList.update v ?n (mapInitSeq (w_sess w r))"
    "\<forall>i < length subs. mapCache (w_sess w2 r) (v + of_nat i)
       = Some (packets_of ident ?sid v v ?n subs ! i)"
    "logicalClose (w_sess w2 r) = logicalClose (w_sess w r)" "receiving r w2 = receiving r w"
    using sendLoop_ok [OF u1 _ sf(2) small, of v ?n now dir ident port v ?n] gs many
    by (auto simp: receiving_def)
  obtain w3 where w3: "cs_startThread r w2 = (None, w3)" "usable env ip r w3" "w_net w3 = w_net w2"
    "w_ids w3 = w_ids w2" "cs_id (w_sess w3 r) = ?sid" "mapCache (w_sess w3 r) = mapCache (w_sess w2 r)"
    "mapInitSeq (w_sess w3 r) = mapInitSeq (w_sess w2 r)"
    "logicalClose (w_sess w3 r) = logicalClose (w_sess w2 r)"
    "snd (receiving r w3) = (fst (receiving r w2) \<longrightarrow> snd (receiving r w2))"
    using startThread_ok [OF w2(2)] w2(3) by metis
  obtain w' where w': "request_ack env r ident (Some ip) port v ?n w3 = (None, w')"
    "w_net w' = w_net w3 @ [(ip, port, ack_bytes (new_AckPackaget\<lparr>ackType := 0,
        ack_clientID := ident, ack_packagetNum := of_int ?n, ack_sessionid := cs_id (w_sess w3 r),
        ack_packagetID := v\<rparr>))]"
    "mapCache (w_sess w' r) = mapCache (w_sess w3 r)"
    "mapInitSeq (w_sess w' r) = mapInitSeq (w_sess w3 r)"
    "logicalClose (w_sess w' r) = logicalClose (w_sess w3 r)"
    "instance_value r (w_ids w') = instance_value r (w_ids w3)" "receiving r w' = receiving r w3"
    "connected r w'"
    using request_ack_ok [OF w3(2) assms(7)] by metis
  have "cs_sendData env now dir ss r ident (Some ip) port (Some bs) w = (None, w')"
    using sub g w2(1) w3(1) w'(1) by (simp add: cs_sendData_def Let_def)
  then show thesis
    using that [OF _ sub] w2 w3 w' gs(1) by (simp add: update_conv')
qed


definition lan :: net_env where
  "lan = \<lparr>resolves = (\<lambda>_. True), sendable = (\<lambda>n. n \<le> 65507), free_port = 40000\<rparr>"

definition start_world :: world where
  "start_world = \<lparr>w_ids = new_ids, w_sess = (\<lambda>_. new_ClientSession 77), hashMap = (\<lambda>_. None),
     sessionCacheData = 0, preCache = [], removeCache = [], isStartCache = False,
     isStartFile = False, fileDB = None, w_fs = empty_fs, w_tasks = [], w_net = []\<rparr>"

lemma start_world_facts:
  "usable lan ip r start_world" "ids_inv (w_ids start_world)"
  "instance_value r (w_ids start_world) = 0" "cs_id (w_sess start_world r) = 77"
  "sendable lan 34" "n \<le> nat 2 \<Longrightarrow> sendable lan (41 + n)"
  by (simp_all add: usable_def lan_def start_world_def new_ClientSession_def new_UDPClient_def
      ids_inv_new) (simp add: instance_value_def new_ids_def)


section \<open>What an acknowledgement does\<close>

lemma removeData_world [simp]:
  "mapCache (w_sess (snd (removeData r p w)) r) = (mapCache (w_sess w r))(p := None)"
  "mapInitSeq (w_sess (snd (removeData r p w)) r) = mapInitSeq (w_sess w r)"
  by (simp_all add: removeData_def)

lemma evict_frame:
  "mapCache (w_sess (evict r p w) r) = (mapCache (w_sess w r))(p := None)"
  "mapInitSeq (w_sess (evict r p w) r) = mapInitSeq (w_sess w r)"
  "logicalClose (w_sess (evict r p w) r) = logicalClose (w_sess w r)"
  "w_net (evict r p w) = w_net w"
  by (auto simp: evict_def removeData_def addRemoveFile_def upd_sess_def split: option.splits)

lemma evict_fold:
  "mapCache (w_sess (fold (\<lambda>i. evict r (pid + of_int i)) is w) r) =
     (\<lambda>p. if \<exists>i \<in> set is. p = pid + of_int i then None else mapCache (w_sess w r) p)"
  "mapInitSeq (w_sess (fold (\<lambda>i. evict r (pid + of_int i)) is w) r) = mapInitSeq (w_sess w r)"
  "logicalClose (w_sess (fold (\<lambda>i. evict r (pid + of_int i)) is w) r) = logicalClose (w_sess w r)"
  "w_net (fold (\<lambda>i. evict r (pid + of_int i)) is w) = w_net w"
  by (induction "is" arbitrary: w) (auto simp: evict_frame fun_eq_iff)

lemma ack_received_effect:
  assumes "\<not> logicalClose (w_sess w r)"
  shows "\<exists>w'. ack_received env r pid w = (None, w') \<and> w_net w' = w_net w
    \<and> (case map_of (mapInitSeq (w_sess w r)) pid of
         None \<Rightarrow> w' = w
       | Some n \<Rightarrow> map_of (mapInitSeq (w_sess w' r)) = (map_of (mapInitSeq (w_sess w r)))(pid := None)
           \<and> (\<forall>p. mapCache (w_sess w' r) p =
                (if \<exists>i \<in> {0..n}. p = pid + of_int i then None else mapCache (w_sess w r) p)))"
proof (cases "map_of (mapInitSeq (w_sess w r)) pid")
  case None
  then show ?thesis by (simp add: ack_received_def)
next
  case (Some n)
  let ?w1 = "upd_sess r (\<lambda>s. s\<lparr>mapInitSeq := AList.delete pid (mapInitSeq s)\<rparr>)
    (evict_message r pid n w)"
  have "ack_received env r pid w = (None, ?w1)"
    using Some assms by (simp add: ack_received_def evict_message_def evict_fold)
  then show ?thesis
    using Some by (auto simp: evict_message_def evict_fold delete_conv)
qed

text \<open>An acknowledgement of a whole message of \<open>n\<close> packets, on a session that is not closing,
  sends nothing, forgets the message, and drops from the cache the \<open>n + 1\<close> identifiers from the
  message's first one on and no others: the message's packets, and also the identifier after them,
  which is the first packet of the next message. An acknowledgement of an unknown message does
  nothing.\<close>

theorem ack_evicts_one_too_many:
  assumes "\<not> logicalClose (w_sess w r)"
  shows "\<exists>w'. ack_received env r pid w = (None, w') \<and> w_net w' = w_net w
    \<and> (case map_of (mapInitSeq (w_sess w r)) pid of
         None \<Rightarrow> w' = w
       | Some n \<Rightarrow> map_of (mapInitSeq (w_sess w' r)) = (map_of (mapInitSeq (w_sess w r)))(pid := None)
           \<and> (\<forall>p. mapCache (w_sess w' r) p =
                (if \<exists>i \<in> {0..n}. p = pid + of_int i then None else mapCache (w_sess w r) p)))"
  by (rule ack_received_effect [OF assms])

theorem ack_evicts_one_too_many_witness:
  "\<exists>w'. ack_received lan 5 0 (upd_sess 5 (\<lambda>s. s\<lparr>mapInitSeq := [(0, 1), (1, 1)],
       mapCache := [0 \<mapsto> [1], 1 \<mapsto> [2]]\<rparr>) start_world) = (None, w')
    \<and> mapCache (w_sess w' 5) 1 = None \<and> map_of (mapInitSeq (w_sess w' 5)) 1 = Some 1"
proof -
  let ?w = "upd_sess 5 (\<lambda>s. s\<lparr>mapInitSeq := [(0, 1), (1, 1)], mapCache := [0 \<mapsto> [1], 1 \<mapsto> [2]]\<rparr>)
    start_world"
  have lc: "\<not> logicalClose (w_sess ?w 5)" by (simp add: start_world_def new_ClientSession_def)
  have m: "map_of (mapInitSeq (w_sess ?w 5)) 0 = Some 1" by simp
  from ack_evicts_one_too_many [OF lc, of lan 0]
  obtain w' where w': "ack_received lan 5 0 ?w = (None, w')"
    "map_of (mapInitSeq (w_sess w' 5)) = (map_of (mapInitSeq (w_sess ?w 5)))(0 := None)"
    "\<forall>p. mapCache (w_sess w' 5) p =
       (if \<exists>i \<in> {0..1}. p = 0 + of_int i then None else mapCache (w_sess ?w 5) p)"
    unfolding m by auto
  have "mapCache (w_sess w' 5) 1 = None"
  proof -
    have "\<exists>i \<in> {0..1 :: int}. (1 :: jlong) = 0 + of_int i" by (rule bexI [of _ 1]) simp_all
    then show ?thesis using spec [OF w'(3), of 1] by simp
  qed
  then show ?thesis using w' by auto
qed



end
