(* ===== verification/Registry.thy ===== *)
theory Registry
  imports Prelude "HOL-Library.AList"
begin

text \<open>
  The registries of the program: the session map of one source (\<open>NetPackaget/SessionMap.java\<close>), the
  bus per name (\<open>EventBus/MessageBus.java\<close>) and the receiver-side manager
  (\<open>Sessions/ServerManager.java\<close>). They share a contract, a keyed store, and a way of use: look a
  key up and create its entry when it is missing.
\<close>

section \<open>The contract of a keyed store\<close>

definition get_or_create :: "('s \<Rightarrow> 'k \<Rightarrow> 'v option) \<Rightarrow> ('k \<Rightarrow> 'v \<Rightarrow> 's \<Rightarrow> 's) \<Rightarrow> 'v \<Rightarrow> 'k \<Rightarrow> 's \<Rightarrow> 'v \<times> 's" where
  "get_or_create look store v k s =
     (case look s k of Some u \<Rightarrow> (u, s) | None \<Rightarrow> (v, store k v s))"

locale keyed_store =
  fixes look :: "'s \<Rightarrow> 'k \<Rightarrow> 'v option" and store :: "'k \<Rightarrow> 'v \<Rightarrow> 's \<Rightarrow> 's"
  assumes look_store: "look (store k v s) k' = (if k' = k then Some v else look s k')"
begin

lemma created_is_found: "get_or_create look store v k s = (u, s') \<Longrightarrow> look s' k = Some u"
  by (auto simp: get_or_create_def look_store split: option.splits)

lemma created_once:
  "get_or_create look store v k s = (u, s') \<Longrightarrow> get_or_create look store v' k s' = (u, s')"
  by (auto simp: get_or_create_def look_store split: option.splits)

lemma existing_kept:
  "get_or_create look store v k s = (u, s') \<Longrightarrow> look s k' = Some x \<Longrightarrow> look s' k' = Some x"
  by (auto simp: get_or_create_def look_store split: option.splits)

lemma others_kept:
  "get_or_create look store v k s = (u, s') \<Longrightarrow> k' \<noteq> k \<Longrightarrow> look s' k' = look s k'"
  by (auto simp: get_or_create_def look_store split: option.splits)

end

locale shrinking_store = keyed_store look store
  for look :: "'s \<Rightarrow> 'k \<Rightarrow> 'v option" and store :: "'k \<Rightarrow> 'v \<Rightarrow> 's \<Rightarrow> 's" +
  fixes forget :: "'k \<Rightarrow> 's \<Rightarrow> 's"
  assumes look_forget: "look (forget k s) k' = (if k' = k then None else look s k')"
begin

lemma forgotten_is_recreated:
  "get_or_create look store v k (forget k s) = (v, store k v (forget k s))"
  by (simp add: get_or_create_def look_forget)

end

section \<open>The session map\<close>

record ('k, 'v) session_map =
  sm_entries :: "('k \<times> 'v) list"

definition new_SessionMap :: "('k, 'v) session_map" where
  "new_SessionMap = \<lparr>sm_entries = []\<rparr>"

definition sm_put :: "'k \<Rightarrow> 'v \<Rightarrow> ('k, 'v) session_map \<Rightarrow> ('k, 'v) session_map" where
  "sm_put k v m = m\<lparr>sm_entries := AList.update k v (sm_entries m)\<rparr>"

definition sm_get :: "('k, 'v) session_map \<Rightarrow> 'k \<Rightarrow> 'v option" where
  "sm_get m k = map_of (sm_entries m) k"

definition sm_remove :: "'k \<Rightarrow> ('k, 'v) session_map \<Rightarrow> ('k, 'v) session_map" where
  "sm_remove k m = m\<lparr>sm_entries := AList.delete k (sm_entries m)\<rparr>"

definition sm_clear :: "('k, 'v) session_map \<Rightarrow> ('k, 'v) session_map" where
  "sm_clear m = m\<lparr>sm_entries := []\<rparr>"

definition sm_isEmpty :: "('k, 'v) session_map \<Rightarrow> bool" where
  "sm_isEmpty m \<longleftrightarrow> sm_entries m = []"

interpretation session_maps: shrinking_store sm_get sm_put sm_remove
  by unfold_locales (simp_all add: sm_get_def sm_put_def sm_remove_def update_conv' delete_conv')

lemma sm_isEmpty_iff: "sm_isEmpty m \<longleftrightarrow> (\<forall>k. sm_get m k = None)"
  by (cases "sm_entries m") (auto simp: sm_isEmpty_def sm_get_def split: if_splits)

lemma sm_get_new [simp]: "sm_get new_SessionMap k = None"
  by (simp add: sm_get_def new_SessionMap_def)

section \<open>Buses by name\<close>

text \<open>
  The buses themselves (\<open>com.google.common.eventbus.EventBus\<close>) are not part of the repository: a bus
  is a number, the order of its creation, and what the class asks of it is a log of calls.
\<close>

datatype ('o, 'm) bus_call = Register 'o | Unregister 'o | Post 'm

record ('o, 'm) message_bus =
  buses :: "string \<Rightarrow> nat option"
  bus_num :: nat
  bus_calls :: "(nat \<times> ('o, 'm) bus_call) list"

definition new_MessageBus :: "('o, 'm) message_bus" where
  "new_MessageBus = \<lparr>buses = (\<lambda>_. None), bus_num = 0, bus_calls = []\<rparr>"

definition bus_look :: "('o, 'm) message_bus \<Rightarrow> string \<Rightarrow> nat option" where
  "bus_look mb name = buses mb name"

definition bus_store :: "string \<Rightarrow> nat \<Rightarrow> ('o, 'm) message_bus \<Rightarrow> ('o, 'm) message_bus" where
  "bus_store name b mb = mb\<lparr>buses := (buses mb)(name \<mapsto> b), bus_num := bus_num mb + 1\<rparr>"

definition getBus :: "string \<Rightarrow> ('o, 'm) message_bus \<Rightarrow> nat \<times> ('o, 'm) message_bus" where
  "getBus name mb = get_or_create bus_look bus_store (bus_num mb) name mb"

definition bus_ask :: "('o, 'm) bus_call \<Rightarrow> string \<Rightarrow> ('o, 'm) message_bus \<Rightarrow> ('o, 'm) message_bus" where
  "bus_ask c name mb = (case getBus name mb of (b, mb1) \<Rightarrow> mb1\<lparr>bus_calls := bus_calls mb1 @ [(b, c)]\<rparr>)"

definition bus_register :: "string \<Rightarrow> 'o \<Rightarrow> ('o, 'm) message_bus \<Rightarrow> ('o, 'm) message_bus" where
  "bus_register name obj = bus_ask (Register obj) name"

definition bus_unregister :: "string \<Rightarrow> 'o \<Rightarrow> ('o, 'm) message_bus \<Rightarrow> ('o, 'm) message_bus" where
  "bus_unregister name obj = bus_ask (Unregister obj) name"

definition bus_post :: "string \<Rightarrow> 'm \<Rightarrow> ('o, 'm) message_bus \<Rightarrow> ('o, 'm) message_bus" where
  "bus_post name msg = bus_ask (Post msg) name"

text \<open>Without a name it is the bus \<open>msg\<close>.\<close>

definition msg_register :: "'o \<Rightarrow> ('o, 'm) message_bus \<Rightarrow> ('o, 'm) message_bus" where
  "msg_register = bus_register ''msg''"

definition msg_unregister :: "'o \<Rightarrow> ('o, 'm) message_bus \<Rightarrow> ('o, 'm) message_bus" where
  "msg_unregister = bus_unregister ''msg''"

definition msg_post :: "'m \<Rightarrow> ('o, 'm) message_bus \<Rightarrow> ('o, 'm) message_bus" where
  "msg_post = bus_post ''msg''"

interpretation message_buses: keyed_store bus_look bus_store
  by unfold_locales (simp add: bus_look_def bus_store_def)

text \<open>Every name has a bus of its own, and what was asked of a bus stays.\<close>

definition bus_inv :: "('o, 'm) message_bus \<Rightarrow> bool" where
  "bus_inv mb \<longleftrightarrow> (\<forall>n b. buses mb n = Some b \<longrightarrow> b < bus_num mb)
     \<and> (\<forall>n m b. buses mb n = Some b \<longrightarrow> buses mb m = Some b \<longrightarrow> n = m)"

lemma new_MessageBus_inv: "bus_inv new_MessageBus"
  by (simp add: bus_inv_def new_MessageBus_def)

lemma getBus_inv:
  assumes "bus_inv mb" and "getBus name mb = (b, mb')"
  shows "bus_inv mb' \<and> bus_look mb' name = Some b \<and> bus_calls mb' = bus_calls mb
    \<and> (\<forall>n. n \<noteq> name \<longrightarrow> bus_look mb' n \<noteq> Some b)"
proof -
  have lt: "buses mb n = Some c \<Longrightarrow> c < bus_num mb" for n c
    using assms(1) by (simp add: bus_inv_def)
  have found: "bus_look mb' name = Some b"
    using assms(2) message_buses.created_is_found unfolding getBus_def by blast
  have rest: "bus_inv mb' \<and> bus_calls mb' = bus_calls mb"
  proof (cases "buses mb name")
    case None
    then have "mb' = bus_store name (bus_num mb) mb"
      using assms(2) by (auto simp: getBus_def get_or_create_def bus_look_def)
    then show ?thesis
      using assms(1) by (auto simp: bus_inv_def bus_store_def less_Suc_eq split: if_splits dest: lt)
  next
    case (Some c)
    then show ?thesis
      using assms by (auto simp: getBus_def get_or_create_def bus_look_def)
  qed
  moreover have "\<forall>n. n \<noteq> name \<longrightarrow> bus_look mb' n \<noteq> Some b"
    using rest found by (auto simp: bus_inv_def bus_look_def)
  ultimately show ?thesis using found by blast
qed

section \<open>The manager of the receiving side\<close>

text \<open>
  The removals are done by threads of their own; they are logged as tasks, and running a task is an
  operation. \<open>ArrayList.remove(Object)\<close> removes the first occurrence.
\<close>

datatype sm_task = RemoveKeys "string list" | RemoveSession string "jlong list"

record server_manager =
  sockets :: "int \<Rightarrow> nat option"
  handQueue :: "string list"
  mapSession :: "string \<Rightarrow> jlong list option"
  sm_tasks :: "sm_task list"
  threadNum :: nat

definition new_ServerManager :: server_manager where
  "new_ServerManager = \<lparr>sockets = (\<lambda>_. None), handQueue = [], mapSession = (\<lambda>_. None),
     sm_tasks = [], threadNum = 0\<rparr>"

definition getThreadName :: "server_manager \<Rightarrow> string \<times> server_manager" where
  "getThreadName m = (''serverSession_'' @ decimal (threadNum m), m\<lparr>threadNum := threadNum m + 1\<rparr>)"

definition addSocket :: "int \<Rightarrow> nat \<Rightarrow> server_manager \<Rightarrow> server_manager" where
  "addSocket port sk m = m\<lparr>sockets := (sockets m)(port \<mapsto> sk)\<rparr>"

definition getSocket :: "server_manager \<Rightarrow> int \<Rightarrow> nat option" where
  "getSocket m port = sockets m port"

definition removeSocket :: "int \<Rightarrow> server_manager \<Rightarrow> server_manager" where
  "removeSocket port m = m\<lparr>sockets := (sockets m)(port := None)\<rparr>"

interpretation server_sockets: shrinking_store getSocket addSocket removeSocket
  by unfold_locales (simp_all add: getSocket_def addSocket_def removeSocket_def)

definition addSessionMap :: "string \<Rightarrow> server_manager \<Rightarrow> server_manager" where
  "addSessionMap key m = m\<lparr>handQueue := handQueue m @ [key]\<rparr>"

definition getSessionMap :: "server_manager \<Rightarrow> string list option \<times> server_manager" where
  "getSessionMap m =
     (if handQueue m = [] then (None, m)
      else (Some (handQueue m), m\<lparr>sm_tasks := sm_tasks m @ [RemoveKeys (handQueue m)]\<rparr>))"

definition removeKey :: "string \<Rightarrow> server_manager \<Rightarrow> server_manager" where
  "removeKey key m = m\<lparr>handQueue := remove1 key (handQueue m)\<rparr>"

text \<open>\<open>addSession\<close>: the id that creates the list of a key is not put into it.\<close>

definition addSession :: "string \<Rightarrow> jlong \<Rightarrow> server_manager \<Rightarrow> server_manager" where
  "addSession key i m =
     (case mapSession m key of
        None \<Rightarrow> m\<lparr>mapSession := (mapSession m)(key \<mapsto> [])\<rparr>
      | Some s \<Rightarrow> m\<lparr>mapSession := (mapSession m)(key \<mapsto> s @ [i])\<rparr>)"

text \<open>\<open>getSessions\<close>: the ids are collected for the task that removes them, but null is returned.\<close>

definition getSessions :: "string \<Rightarrow> server_manager \<Rightarrow> jlong list option \<times> server_manager" where
  "getSessions key m =
     (case mapSession m key of
        None \<Rightarrow> (None, m)
      | Some s \<Rightarrow> (None, m\<lparr>sm_tasks := sm_tasks m @ [RemoveSession key s]\<rparr>))"

definition run_sm_task :: "sm_task \<Rightarrow> server_manager \<Rightarrow> exn option \<times> server_manager" where
  "run_sm_task t m =
     (case t of
        RemoveKeys keys \<Rightarrow> (None, m\<lparr>handQueue := fold remove1 keys (handQueue m)\<rparr>)
      | RemoveSession key ids \<Rightarrow>
          (case mapSession m key of
             None \<Rightarrow> (if ids = [] then None else Some NullPointer, m)
           | Some s \<Rightarrow> (None, m\<lparr>mapSession := (mapSession m)(key \<mapsto> fold remove1 ids s)\<rparr>)))"

end
