(* ===== verification/Pools.thy ===== *)
theory Pools
  imports Sender Registry
begin

text \<open>
  The clients of the application (\<open>NetProtocol/judpClient.java\<close>) share sending sessions: the pool
  gives one by destination (\<open>Sessions/ClientSessionsPools.java\<close>, \<open>ControlSession.java\<close>,
  \<open>SessionFactory.java\<close>), the manager registers clients and sessions and reclaims them
  (\<open>Sessions/ClientManager.java\<close>, \<open>DataBus/CacheListener.java\<close>).
\<close>

section \<open>State\<close>

text \<open>
  \<open>next_ref\<close> is the next session object, \<open>rands\<close> the random numbers that will be drawn for session
  ids; when they are used up, a drawing has no result yet. The cache of sessions by time is not part
  of the repository: what is put into it is a log.
\<close>

record control_session =
  ctr_session :: nat
  maxNum :: int

record pools =
  pool :: "string \<Rightarrow> control_session option"
  maxClientNum :: int
  next_ref :: nat
  rands :: "jint list"
  bindPort :: "nat \<Rightarrow> int"
  createTime :: "nat \<Rightarrow> int"
  cache_puts :: "(jlong \<times> nat) list"
  hashMapClient :: "jlong \<Rightarrow> jlong option"
  isCheck :: bool
  p_world :: world

definition upd_world :: "(world \<Rightarrow> world) \<Rightarrow> pools \<Rightarrow> pools" where
  "upd_world f p = p\<lparr>p_world := f (p_world p)\<rparr>"

section \<open>Making a session\<close>

definition mgr_addSession :: "jlong \<Rightarrow> nat \<Rightarrow> world \<Rightarrow> bool \<times> world" where
  "mgr_addSession i r w =
     (if hashMap w i \<noteq> None then (False, w) else (True, w\<lparr>hashMap := (hashMap w)(i \<mapsto> r)\<rparr>))"

text \<open>Ids are drawn until one is free.\<close>

fun draw_id :: "jint list \<Rightarrow> nat \<Rightarrow> world \<Rightarrow> (jlong \<times> jint list \<times> world) option" where
  "draw_id [] r w = None"
| "draw_id (x # xs) r w =
     (case mgr_addSession (getSessionID x) r w of
        (True, w1) \<Rightarrow> Some (getSessionID x, xs, w1)
      | (False, w1) \<Rightarrow> draw_id xs r w1)"

definition createObj_client :: "int \<Rightarrow> pools \<Rightarrow> (nat \<times> pools) option" where
  "createObj_client now p =
     (let r = next_ref p
      in case draw_id (rands p) r (upd_sess r (\<lambda>_. new_ClientSession 0) (p_world p)) of
           None \<Rightarrow> None
         | Some (i, xs, w) \<Rightarrow>
             Some (r, p\<lparr>next_ref := r + 1, rands := xs, createTime := (createTime p)(r := now),
                        bindPort := (bindPort p)(r := 0),
                        p_world := upd_sess r (\<lambda>s. s\<lparr>cs_id := i\<rparr>) w\<rparr>))"

section \<open>The pool\<close>

text \<open>The text of a host in a key; a null reference gives \<open>null\<close>.\<close>

definition host_text :: "string option \<Rightarrow> string" where
  "host_text ip = (case ip of None \<Rightarrow> ''null'' | Some h \<Rightarrow> h)"

definition pool_key :: "int \<Rightarrow> string option \<Rightarrow> int \<Rightarrow> string" where
  "pool_key port ip ipPort =
     (if port = 0 then host_text ip @ int_text ipPort
      else int_text port @ host_text ip @ int_text ipPort)"

definition pool_look :: "pools \<Rightarrow> string \<Rightarrow> control_session option" where
  "pool_look p key = pool p key"

definition pool_put :: "string \<Rightarrow> control_session \<Rightarrow> pools \<Rightarrow> pools" where
  "pool_put key c p = p\<lparr>pool := (pool p)(key \<mapsto> c)\<rparr>"

definition pool_removeKey :: "string \<Rightarrow> pools \<Rightarrow> pools" where
  "pool_removeKey key p = p\<lparr>pool := (pool p)(key := None)\<rparr>"

interpretation pool_map: shrinking_store pool_look pool_put pool_removeKey
  by unfold_locales (simp_all add: pool_look_def pool_put_def pool_removeKey_def)

definition setSessionMax :: "int \<Rightarrow> pools \<Rightarrow> pools" where
  "setSessionMax n p = p\<lparr>maxClientNum := n\<rparr>"

definition new_control :: "int \<Rightarrow> pools \<Rightarrow> (control_session \<times> pools) option" where
  "new_control now p =
     map_option (\<lambda>(r, p1). (\<lparr>ctr_session = r, maxNum = maxClientNum p1\<rparr>, p1)) (createObj_client now p)"

text \<open>The entry of a key, made when it is missing.\<close>

definition pool_entry :: "int \<Rightarrow> string \<Rightarrow> pools \<Rightarrow> (control_session \<times> pools) option" where
  "pool_entry now key p =
     (case pool_look p key of
        Some c \<Rightarrow> Some (c, p)
      | None \<Rightarrow> map_option (\<lambda>(c, p1). (c, pool_put key c p1)) (new_control now p))"

text \<open>A share is counted down, and the entry removed with the last one.\<close>

definition pool_share :: "string \<Rightarrow> control_session \<Rightarrow> pools \<Rightarrow> pools" where
  "pool_share key c p =
     (let c1 = c\<lparr>maxNum := maxNum c - 1\<rparr>; p1 = pool_put key c1 p
      in if maxNum c1 = 0 then pool_removeKey key p1 else p1)"

text \<open>\<open>getSession\<close>: for a closed session a new entry is made, but the session returned is the old one.\<close>

definition pool_getSession :: "int \<Rightarrow> int \<Rightarrow> string option \<Rightarrow> int \<Rightarrow> pools \<Rightarrow> (nat \<times> pools) option" where
  "pool_getSession now port ip ipPort p =
     (let key = pool_key port ip ipPort
      in case pool_entry now key p of
           None \<Rightarrow> None
         | Some (c, p1) \<Rightarrow>
             (let p2 = pool_share key c p1; client = ctr_session c
              in if cs_isClose (w_sess (p_world p2) client)
                 then map_option (\<lambda>(c2, p3). (client, upd_world (setClientIncrement client) (pool_put key c2 p3)))
                        (new_control now (pool_removeKey key p2))
                 else Some (client, upd_world (setClientIncrement client) p2)))"

section \<open>Reclaiming\<close>

definition mgr_addCache :: "jlong \<Rightarrow> pools \<Rightarrow> pools" where
  "mgr_addCache i p =
     (case hashMap (p_world p) i of
        None \<Rightarrow> p | Some r \<Rightarrow> p\<lparr>cache_puts := cache_puts p @ [(i, r)]\<rparr>)"

text \<open>\<open>addClient\<close>: the weak reference of a client holds its session's id.\<close>

definition mgr_addClient :: "jlong \<Rightarrow> jlong \<Rightarrow> pools \<Rightarrow> pools" where
  "mgr_addClient clientID sid p =
     (mgr_addCache sid p)\<lparr>hashMapClient := (hashMapClient p)(clientID \<mapsto> sid), isCheck := True\<rparr>"

text \<open>
  \<open>removeSessionByKey\<close>, of the manager's check and of the cache listener: the pool is asked with the
  source address of the base class \<open>Session\<close>, which a client session never sets (it has fields of
  its own for the destination), so the host is null and the port 0.
\<close>

definition remove_from_pool :: "int \<Rightarrow> nat \<Rightarrow> pools \<Rightarrow> pools option" where
  "remove_from_pool now r p =
     (case pool_getSession now (bindPort p r) None 0 p of
        None \<Rightarrow> None
      | Some (q, p1) \<Rightarrow>
          Some (if cs_id (w_sess (p_world p1) q) = cs_id (w_sess (p_world p1) r)
                then pool_removeKey (pool_key (bindPort p1 r) None 0) p1 else p1))"

definition close_session :: "net_env \<Rightarrow> nat \<Rightarrow> pools \<Rightarrow> exn option \<times> pools" where
  "close_session env r p =
     (case cs_close env r (p_world p) of (e, w) \<Rightarrow> (e, p\<lparr>p_world := w\<rparr>))"

definition idle :: "nat \<Rightarrow> pools \<Rightarrow> bool" where
  "idle r p \<longleftrightarrow> clientNum (w_sess (p_world p) r) = 0 \<and> logicalClose (w_sess (p_world p) r)"

definition check_removeSession :: "net_env \<Rightarrow> int \<Rightarrow> nat \<Rightarrow> jlong \<Rightarrow> pools \<Rightarrow> exn option \<times> pools option" where
  "check_removeSession env now r i p =
     (if \<not> idle r p then (None, Some p)
      else case close_session env r p of
             (Some e, p1) \<Rightarrow> (Some e, Some p1)
           | (None, p1) \<Rightarrow>
               (None, remove_from_pool now r
                  (upd_world (\<lambda>w. w\<lparr>hashMap := (hashMap w)(i := None)\<rparr>) p1)))"

definition listener_removeSession :: "net_env \<Rightarrow> int \<Rightarrow> nat \<Rightarrow> pools \<Rightarrow> exn option \<times> pools option" where
  "listener_removeSession env now r p =
     (if \<not> idle r p then (None, Some p)
      else case close_session env r p of
             (Some e, p1) \<Rightarrow> (Some e, Some p1)
           | (None, p1) \<Rightarrow> (None, remove_from_pool now r p1))"

text \<open>One turn of the manager's check, on a reference the collector queued: the client itself is gone.\<close>

definition check_turn :: "net_env \<Rightarrow> int \<Rightarrow> jlong \<Rightarrow> jlong \<Rightarrow> pools \<Rightarrow> exn option \<times> pools option" where
  "check_turn env now okey key p =
     (case (case hashMap (p_world p) key of
              None \<Rightarrow> (None, Some p)
            | Some r \<Rightarrow> check_removeSession env now r key p) of
        (Some e, p1) \<Rightarrow> (Some e, p1)
      | (None, p1) \<Rightarrow>
          (None, map_option (\<lambda>p. p\<lparr>hashMapClient := (hashMapClient p)(okey := None)\<rparr>) p1))"

text \<open>\<open>onRemoval\<close> of the cache: \<open>value\<close> is None when the weak reference is gone.\<close>

definition checkTime :: int where
  "checkTime = 30 * 1000"

definition end_session :: "net_env \<Rightarrow> int \<Rightarrow> jlong \<Rightarrow> pools \<Rightarrow> exn option \<times> pools option" where
  "end_session env now i p =
     (case mgr_getSession i (p_world p) of
        (None, w) \<Rightarrow> (None, Some (p\<lparr>p_world := w\<rparr>))
      | (Some r, w) \<Rightarrow>
          (case close_session env r (p\<lparr>p_world := upd_sess r (\<lambda>s. s\<lparr>logicalClose := True\<rparr>) w\<rparr>) of
             (Some e, p1) \<Rightarrow> (Some e, Some p1)
           | (None, p1) \<Rightarrow> listener_removeSession env now r p1))"

definition onRemoval :: "net_env \<Rightarrow> int \<Rightarrow> jlong \<Rightarrow> nat option \<Rightarrow> pools \<Rightarrow> exn option \<times> pools option" where
  "onRemoval env now i value p =
     (case value of
        None \<Rightarrow> end_session env now i p
      | Some r \<Rightarrow>
          (if now - createTime p r < checkTime
           then (None, Some (mgr_addCache (cs_id (w_sess (p_world p) r)) p))
           else let p1 = upd_world (upd_sess r (\<lambda>s. s\<lparr>logicalClose := True\<rparr>)) p
                in if clientNum (w_sess (p_world p1) r) = 0 then end_session env now i p1
                   else (None, Some p1)))"

section \<open>The client of the application\<close>

record judp_client =
  jc_id :: jlong
  jc_session :: "nat option"
  jc_isColse :: bool

definition new_judpClient :: "pools \<Rightarrow> judp_client \<times> pools" where
  "new_judpClient p =
     (case getSequeueID (w_ids (p_world p)) of
        (i, ids) \<Rightarrow> (\<lparr>jc_id = i, jc_session = None, jc_isColse = False\<rparr>, upd_world (\<lambda>w. w\<lparr>w_ids := ids\<rparr>) p))"

definition jc_getSessionID :: "judp_client \<Rightarrow> pools \<Rightarrow> jlong" where
  "jc_getSessionID c p =
     (case jc_session c of None \<Rightarrow> -1 | Some r \<Rightarrow> cs_id (w_sess (p_world p) r))"

text \<open>The session is fetched at the first send and kept.\<close>

definition jc_fetch :: "int \<Rightarrow> int \<Rightarrow> string option \<Rightarrow> int \<Rightarrow> judp_client \<Rightarrow> pools \<Rightarrow> (nat \<times> pools) option" where
  "jc_fetch now port ip ipPort c p =
     (case jc_session c of Some r \<Rightarrow> Some (r, p) | None \<Rightarrow> pool_getSession now port ip ipPort p)"

definition jc_sendData :: "net_env \<Rightarrow> int \<Rightarrow> string \<Rightarrow> string \<Rightarrow> int \<Rightarrow> string option \<Rightarrow> int \<Rightarrow>
    jbyte list option \<Rightarrow> judp_client \<Rightarrow> pools \<Rightarrow> (exn option \<times> judp_client \<times> pools) option" where
  "jc_sendData env time now dir streamSize ip port data c p =
     (case jc_fetch time 0 ip port c p of
        None \<Rightarrow> None
      | Some (r, p1) \<Rightarrow>
          (let p2 = mgr_addClient (jc_id c) (cs_id (w_sess (p_world p1) r)) p1
           in case cs_sendData env now dir streamSize r (jc_id c) ip port data (p_world p2) of
                (e, w) \<Rightarrow> Some (e, c\<lparr>jc_session := Some r\<rparr>, p2\<lparr>p_world := w\<rparr>)))"

definition jc_sendData_from :: "net_env \<Rightarrow> int \<Rightarrow> string \<Rightarrow> string \<Rightarrow> int \<Rightarrow> string \<Rightarrow> int \<Rightarrow> string option \<Rightarrow> int \<Rightarrow>
    jbyte list option \<Rightarrow> judp_client \<Rightarrow> pools \<Rightarrow> (exn option \<times> judp_client \<times> pools) option" where
  "jc_sendData_from env time now dir streamSize localIP lport ip port data c p =
     (case jc_fetch time lport ip port c p of
        None \<Rightarrow> None
      | Some (r, p1) \<Rightarrow>
          (let p2 = (if jc_session c = None then p1\<lparr>bindPort := (bindPort p1)(r := lport)\<rparr> else p1)
           in case cs_sendData_from env now dir streamSize r (jc_id c) localIP lport ip port data (p_world p2) of
                (e, w) \<Rightarrow> Some (e, c\<lparr>jc_session := Some r\<rparr>, p2\<lparr>p_world := w\<rparr>)))"

definition jc_close :: "judp_client \<Rightarrow> pools \<Rightarrow> exn option \<times> judp_client \<times> pools" where
  "jc_close c p =
     (case jc_session c of
        None \<Rightarrow> (Some NullPointer, c, p)
      | Some r \<Rightarrow> (None, c\<lparr>jc_isColse := True\<rparr>, upd_world (setClientDecrement r) p))"

end
