(* ===== verification/RecvBuffer.thy ===== *)
theory RecvBuffer
  imports Packets "HOL-Library.Multiset"
begin

text \<open>
  The reassembly buffer of one message (\<open>BufferData/ReceiveBuffer.java\<close>) and its entries
  (\<open>BufferData/AppData.java\<close>): an array of slots indexed by sequence number modulo the
  size, a read cursor that starts at slot 0 and a counter of stored chunks that starts at -1.
  The methods hold the buffer's lock, so each is one atomic operation of the model.
\<close>

section \<open>State and operations\<close>

record app_data =
  sequenceNumber :: jlong
  intSequenceNumber :: jlong
  ad_packagetNum :: jint
  ad_data :: "jbyte list option"

definition new_AppData :: "jint \<Rightarrow> jlong \<Rightarrow> jlong \<Rightarrow> jbyte list option \<Rightarrow> app_data" where
  "new_AppData n initseq sq d =
     \<lparr>sequenceNumber = sq, intSequenceNumber = initseq, ad_packagetNum = n, ad_data = d\<rparr>"

record receive_buffer =
  rb_buffer :: "app_data option list"
  readPosition :: int
  highestReadSequenceNumber :: jlong
  numValidChunks :: int
  rb_size :: int
  initialSequenceNumber :: jlong

definition new_ReceiveBuffer :: "int \<Rightarrow> jlong \<Rightarrow> receive_buffer result" where
  "new_ReceiveBuffer sz initseq =
     (if sz < 0 then Inl NegativeArraySize
      else Inr \<lparr>rb_buffer = replicate (nat sz) None, readPosition = 0,
                highestReadSequenceNumber = -1, numValidChunks = -1, rb_size = sz,
                initialSequenceNumber = initseq\<rparr>)"

definition offer :: "app_data \<Rightarrow> receive_buffer \<Rightarrow> (bool \<times> receive_buffer) result" where
  "offer d rb =
     (if numValidChunks rb = rb_size rb then Inr (False, rb)
      else bindR (java_rem (sint (sequenceNumber d)) (rb_size rb)) (\<lambda>insert.
           bindR (array_set (rb_buffer rb) insert (Some d)) (\<lambda>buf.
             let n = (if numValidChunks rb < 0 then 0 else numValidChunks rb)
             in Inr (True, rb\<lparr>rb_buffer := buf, numValidChunks := n + 1\<rparr>))))"

definition increment :: "receive_buffer \<Rightarrow> receive_buffer result" where
  "increment rb =
     bindR (array_set (rb_buffer rb) (readPosition rb) None) (\<lambda>buf.
       let p = readPosition rb + 1
       in Inr (rb\<lparr>rb_buffer := buf, readPosition := (if p = rb_size rb then 0 else p),
                  numValidChunks := numValidChunks rb - 1\<rparr>))"

definition poll :: "receive_buffer \<Rightarrow> (app_data option \<times> receive_buffer) result" where
  "poll rb =
     (if numValidChunks rb = 0 then Inr (None, rb)
      else bindR (array_get (rb_buffer rb) (readPosition rb)) (\<lambda>r.
           case r of None \<Rightarrow> Inr (None, rb)
           | Some d \<Rightarrow>
               bindR (increment (rb\<lparr>highestReadSequenceNumber := sequenceNumber d\<rparr>))
                 (\<lambda>rb'. Inr (Some d, rb'))))"

text \<open>
  \<open>poll(timeout)\<close>: while the counter is zero the caller waits. Each element of the second
  argument is one wake-up of that wait, with the chunks other threads stored before it; the
  end of the list is the timeout. The wake-ups not consumed are returned.
\<close>

fun offerAll :: "app_data list \<Rightarrow> receive_buffer \<Rightarrow> receive_buffer result" where
  "offerAll [] rb = Inr rb"
| "offerAll (d # ds) rb = bindR (offer d rb) (\<lambda>(_, rb'). offerAll ds rb')"

fun pollTimed :: "receive_buffer \<Rightarrow> app_data list list \<Rightarrow>
    (app_data option \<times> receive_buffer \<times> app_data list list) result" where
  "pollTimed rb ws =
     (if numValidChunks rb \<noteq> 0
      then bindR (poll rb) (\<lambda>(r, rb'). Inr (r, rb', ws))
      else case ws of [] \<Rightarrow> Inr (None, rb, [])
           | w # ws' \<Rightarrow> bindR (offerAll w rb) (\<lambda>rb'. pollTimed rb' ws'))"

declare pollTimed.simps [simp del]

definition getSize :: "receive_buffer \<Rightarrow> int" where
  "getSize rb = rb_size rb"

definition isEmpty :: "receive_buffer \<Rightarrow> bool" where
  "isEmpty rb \<longleftrightarrow> numValidChunks rb = 0 \<and> highestReadSequenceNumber rb \<noteq> -1
     \<and> readPosition rb + 1 = rb_size rb"

definition waitSequenceNumber :: "receive_buffer \<Rightarrow> jlong" where
  "waitSequenceNumber rb =
     (if readPosition rb = 0 then initialSequenceNumber rb else highestReadSequenceNumber rb + 1)"

definition clear :: "receive_buffer \<Rightarrow> receive_buffer" where
  "clear rb = rb\<lparr>rb_buffer := replicate (length (rb_buffer rb)) None\<rparr>"

section \<open>The invariant of the buffer\<close>

text \<open>
  The array has the declared size, the cursor lies in it, and the counter is -1 exactly on the
  unused buffer; otherwise it lies between the number of occupied slots and the size. A
  duplicate chunk raises the counter without occupying a slot, so the two can differ.
\<close>

definition occupied :: "receive_buffer \<Rightarrow> nat" where
  "occupied rb = length (filter (\<lambda>s. s \<noteq> None) (rb_buffer rb))"

definition rb_inv :: "receive_buffer \<Rightarrow> bool" where
  "rb_inv rb \<longleftrightarrow> 0 < rb_size rb \<and> length (rb_buffer rb) = nat (rb_size rb)
     \<and> 0 \<le> readPosition rb \<and> readPosition rb < rb_size rb
     \<and> -1 \<le> numValidChunks rb \<and> numValidChunks rb \<le> rb_size rb
     \<and> (if numValidChunks rb = -1 then occupied rb = 0
        else int (occupied rb) \<le> numValidChunks rb)"

lemma filter_update_Some:
  "i < length xs \<Longrightarrow> length (filter (\<lambda>s. s \<noteq> None) (xs[i := Some d]))
     \<le> Suc (length (filter (\<lambda>s. s \<noteq> None) xs))"
  by (induction xs arbitrary: i) (auto split: nat.splits)

lemma filter_update_None:
  "i < length xs \<Longrightarrow> xs ! i \<noteq> None \<Longrightarrow>
    Suc (length (filter (\<lambda>s. s \<noteq> None) (xs[i := None]))) = length (filter (\<lambda>s. s \<noteq> None) xs)"
proof (induction xs arbitrary: i)
  case Nil
  then show ?case by simp
next
  case (Cons x xs)
  then show ?case by (cases i) auto
qed

lemma new_ReceiveBuffer_inv:
  "0 < sz \<Longrightarrow> new_ReceiveBuffer sz i = Inr rb \<Longrightarrow> rb_inv rb"
  by (auto simp: new_ReceiveBuffer_def rb_inv_def occupied_def)

lemma offer_slot:
  assumes "rb_inv rb" and "numValidChunks rb \<noteq> rb_size rb" and "0 \<le> sint (sequenceNumber d)"
  shows "offer d rb = Inr (True, rb\<lparr>rb_buffer := (rb_buffer rb)
           [nat (sint (sequenceNumber d) mod rb_size rb) := Some d],
         numValidChunks := (if numValidChunks rb < 0 then 0 else numValidChunks rb) + 1\<rparr>)"
proof -
  have "sint (sequenceNumber d) mod rb_size rb < int (length (rb_buffer rb))"
    and "0 \<le> sint (sequenceNumber d) mod rb_size rb"
    using assms by (simp_all add: rb_inv_def)
  then show ?thesis
    using assms by (simp add: offer_def result_simps rb_inv_def Let_def)
qed

lemma offer_inv:
  assumes "rb_inv rb" and "offer d rb = Inr (r, rb')"
  shows "rb_inv rb'"
proof (cases "numValidChunks rb = rb_size rb")
  case True
  with assms show ?thesis by (simp add: offer_def)
next
  case False
  from assms(2) False obtain i where i: "0 \<le> i" "nat i < length (rb_buffer rb)"
    and rb': "rb' = rb\<lparr>rb_buffer := (rb_buffer rb)[nat i := Some d],
        numValidChunks := (if numValidChunks rb < 0 then 0 else numValidChunks rb) + 1\<rparr>"
    by (auto simp: offer_def bindR_Inr_iff array_set_def Let_def split: if_splits)
  show ?thesis
    using assms(1) False filter_update_Some [OF i(2), of d]
    by (auto simp: rb' rb_inv_def occupied_def split: if_splits)
qed

lemma poll_cases:
  assumes "rb_inv rb"
  shows "poll rb = Inr (None, rb) \<and>
           (numValidChunks rb = 0 \<or> rb_buffer rb ! nat (readPosition rb) = None)
     \<or> (\<exists>d. numValidChunks rb \<noteq> 0 \<and> rb_buffer rb ! nat (readPosition rb) = Some d
         \<and> poll rb = Inr (Some d, rb\<lparr>rb_buffer := (rb_buffer rb)[nat (readPosition rb) := None],
             readPosition := (if readPosition rb + 1 = rb_size rb then 0 else readPosition rb + 1),
             highestReadSequenceNumber := sequenceNumber d,
             numValidChunks := numValidChunks rb - 1\<rparr>))"
  using assms
  by (auto simp: poll_def increment_def rb_inv_def result_simps Let_def split: option.splits)

lemma poll_inv:
  assumes "rb_inv rb" and "poll rb = Inr (r, rb')"
  shows "rb_inv rb'"
proof (cases "poll rb = Inr (None, rb)")
  case True
  with assms show ?thesis by simp
next
  case False
  let ?p = "nat (readPosition rb)"
  obtain d where s: "rb_buffer rb ! ?p = Some d" and nz: "numValidChunks rb \<noteq> 0"
    and "poll rb = Inr (Some d, rb\<lparr>rb_buffer := (rb_buffer rb)[?p := None],
             readPosition := (if readPosition rb + 1 = rb_size rb then 0 else readPosition rb + 1),
             highestReadSequenceNumber := sequenceNumber d,
             numValidChunks := numValidChunks rb - 1\<rparr>)"
    using poll_cases [OF assms(1)] False by blast
  with assms(2) have rb': "rb' = rb\<lparr>rb_buffer := (rb_buffer rb)[?p := None],
             readPosition := (if readPosition rb + 1 = rb_size rb then 0 else readPosition rb + 1),
             highestReadSequenceNumber := sequenceNumber d,
             numValidChunks := numValidChunks rb - 1\<rparr>"
    by simp
  have p: "?p < length (rb_buffer rb)" using assms(1) by (simp add: rb_inv_def)
  have occ: "Suc (length (filter (\<lambda>s. s \<noteq> None) ((rb_buffer rb)[?p := None]))) = occupied rb"
    using filter_update_None [OF p] s by (simp add: occupied_def)
  show ?thesis
    using assms(1) occ nz
    by (auto simp: rb' rb_inv_def occupied_def split: if_splits)
qed

lemma clear_inv: "rb_inv rb \<Longrightarrow> rb_inv (clear rb)"
  by (auto simp: rb_inv_def clear_def occupied_def)

section \<open>Filling and draining\<close>

definition slot_of :: "int \<Rightarrow> app_data \<Rightarrow> nat" where
  "slot_of n d = nat (sint (sequenceNumber d) mod n)"

definition stored :: "int \<Rightarrow> app_data list \<Rightarrow> app_data option list \<Rightarrow> app_data option list" where
  "stored n ds b = foldl (\<lambda>b d. b[slot_of n d := Some d]) b ds"

fun pollN :: "nat \<Rightarrow> receive_buffer \<Rightarrow> (app_data option list \<times> receive_buffer) result" where
  "pollN 0 rb = Inr ([], rb)"
| "pollN (Suc k) rb =
     bindR (poll rb) (\<lambda>(r, rb'). bindR (pollN k rb') (\<lambda>(rs, rb''). Inr (r # rs, rb'')))"

lemma stored_simps [simp]:
  "stored n [] b = b" "stored n (d # ds) b = stored n ds (b[slot_of n d := Some d])"
  by (simp_all add: stored_def)

lemma length_stored [simp]: "length (stored n ds b) = length b"
  by (induction ds arbitrary: b) auto

lemma stored_other: "k \<notin> slot_of n ` set ds \<Longrightarrow> stored n ds b ! k = b ! k"
  by (induction ds arbitrary: b) auto

lemma stored_nth:
  "distinct (map (slot_of n) ds) \<Longrightarrow> d \<in> set ds \<Longrightarrow> slot_of n d < length b \<Longrightarrow>
    stored n ds b ! slot_of n d = Some d"
proof (induction ds arbitrary: b)
  case Nil
  then show ?case by simp
next
  case (Cons x ds)
  then show ?case by (auto simp: stored_other)
qed

lemma offerAll_stored:
  assumes "rb_inv rb" and "\<forall>d \<in> set ds. 0 \<le> sint (sequenceNumber d)"
    and "max 0 (numValidChunks rb) + int (length ds) \<le> rb_size rb"
  shows "offerAll ds rb = Inr (rb\<lparr>rb_buffer := stored (rb_size rb) ds (rb_buffer rb),
      numValidChunks := (if ds = [] then numValidChunks rb
                         else max 0 (numValidChunks rb) + int (length ds))\<rparr>)"
  using assms
proof (induction ds arbitrary: rb)
  case Nil
  then show ?case by simp
next
  case (Cons d ds)
  let ?rb = "rb\<lparr>rb_buffer := (rb_buffer rb)[slot_of (rb_size rb) d := Some d],
         numValidChunks := max 0 (numValidChunks rb) + 1\<rparr>"
  have off: "offer d rb = Inr (True, ?rb)"
    using Cons.prems offer_slot [of rb d] by (auto simp: slot_of_def max_def)
  have "offerAll ds ?rb = Inr (?rb\<lparr>rb_buffer := stored (rb_size ?rb) ds (rb_buffer ?rb),
      numValidChunks := (if ds = [] then numValidChunks ?rb
                         else max 0 (numValidChunks ?rb) + int (length ds))\<rparr>)"
    by (rule Cons.IH) (use Cons.prems offer_inv [OF _ off] in auto)
  with off show ?case by simp
qed

lemma pollN_run:
  assumes "rb_inv rb" and "numValidChunks rb = int k" and "nat (readPosition rb) + k \<le> nat (rb_size rb)"
    and "\<forall>i \<in> {nat (readPosition rb)..<nat (readPosition rb) + k}. rb_buffer rb ! i \<noteq> None"
  shows "\<exists>rb'. pollN k rb
        = Inr (map (\<lambda>i. rb_buffer rb ! i) [nat (readPosition rb)..<nat (readPosition rb) + k], rb')
     \<and> rb_inv rb' \<and> numValidChunks rb' = 0 \<and> rb_size rb' = rb_size rb
     \<and> readPosition rb' = (readPosition rb + int k) mod rb_size rb
     \<and> (0 < k \<longrightarrow> highestReadSequenceNumber rb'
           = sequenceNumber (the (rb_buffer rb ! (nat (readPosition rb) + k - 1))))"
  using assms
proof (induction k arbitrary: rb)
  case 0
  then show ?case by (simp add: rb_inv_def)
next
  case (Suc k)
  let ?p = "nat (readPosition rb)"
  have bnd: "0 \<le> readPosition rb" "readPosition rb < rb_size rb"
    using Suc.prems by (auto simp: rb_inv_def)
  obtain d where d: "rb_buffer rb ! ?p = Some d" using Suc.prems(4) by force
  define rb1 where "rb1 = rb\<lparr>rb_buffer := (rb_buffer rb)[?p := None],
             readPosition := (if readPosition rb + 1 = rb_size rb then 0 else readPosition rb + 1),
             highestReadSequenceNumber := sequenceNumber d,
             numValidChunks := numValidChunks rb - 1\<rparr>"
  have pl: "poll rb = Inr (Some d, rb1)"
    using poll_cases [OF Suc.prems(1)] d Suc.prems(2) by (auto simp: rb1_def)
  have inv1: "rb_inv rb1" by (rule poll_inv [OF Suc.prems(1) pl])
  show ?case
  proof (cases "k = 0")
    case True
    then show ?thesis
      using pl d inv1 bnd Suc.prems(2) by (auto simp: rb1_def)
  next
    case False
    then have np: "readPosition rb1 = readPosition rb + 1"
      using Suc.prems(3) bnd by (auto simp: rb1_def)
    then have nt: "nat (readPosition rb1) = Suc ?p" using bnd by simp
    have "\<exists>rb'. pollN k rb1
        = Inr (map (\<lambda>i. rb_buffer rb1 ! i) [nat (readPosition rb1)..<nat (readPosition rb1) + k], rb')
     \<and> rb_inv rb' \<and> numValidChunks rb' = 0 \<and> rb_size rb' = rb_size rb1
     \<and> readPosition rb' = (readPosition rb1 + int k) mod rb_size rb1
     \<and> (0 < k \<longrightarrow> highestReadSequenceNumber rb'
           = sequenceNumber (the (rb_buffer rb1 ! (nat (readPosition rb1) + k - 1))))"
      by (rule Suc.IH) (use inv1 Suc.prems nt in \<open>auto simp: rb1_def\<close>)
    then obtain rb' where rb': "pollN k rb1
        = Inr (map (\<lambda>i. rb_buffer rb1 ! i) [Suc ?p..<Suc ?p + k], rb')"
      "rb_inv rb'" "numValidChunks rb' = 0" "rb_size rb' = rb_size rb"
      "readPosition rb' = (readPosition rb + 1 + int k) mod rb_size rb"
      "highestReadSequenceNumber rb' = sequenceNumber (the (rb_buffer rb1 ! (Suc ?p + k - 1)))"
      using False np nt by (auto simp: rb1_def)
    have keep: "\<And>i. i \<noteq> ?p \<Longrightarrow> rb_buffer rb1 ! i = rb_buffer rb ! i"
      by (simp add: rb1_def)
    have "map (\<lambda>i. rb_buffer rb1 ! i) [Suc ?p..<Suc ?p + k]
        = map (\<lambda>i. rb_buffer rb ! i) [Suc ?p..<?p + Suc k]"
      by (rule map_cong) (auto intro: keep)
    moreover have "[?p..<?p + Suc k] = ?p # [Suc ?p..<?p + Suc k]"
      by (simp add: upt_conv_Cons)
    ultimately show ?thesis
      using pl d rb' False by (simp add: keep add.assoc)
  qed
qed

lemma poll_initial: "poll rb = Inr (r, rb') \<Longrightarrow> initialSequenceNumber rb' = initialSequenceNumber rb"
  by (auto simp: poll_def increment_def bindR_Inr_iff Let_def split: if_splits option.splits)

lemma pollN_initial:
  "pollN k rb = Inr (rs, rb') \<Longrightarrow> initialSequenceNumber rb' = initialSequenceNumber rb"
  by (induction k arbitrary: rb rs) (auto simp: bindR_Inr_iff dest!: poll_initial)

text \<open>
  The chunks \<open>ds\<close> fill the slots from 0 on, each once, in any order; as many polls take them out in
  the order of their slots. The buffer then says that it is read to the end exactly when the cursor
  stands on the last slot.
\<close>

lemma fill_prefix:
  assumes n: "0 < length ds" "int (length ds) \<le> n"
    and seqs: "\<forall>d \<in> set ds. 0 \<le> sint (sequenceNumber d)"
    and dist: "distinct (map (slot_of n) ds)"
    and slots: "slot_of n ` set ds = {0..<length ds}"
  shows "\<exists>rb0 rb1 rb2 L. new_ReceiveBuffer n initseq = Inr rb0 \<and> offerAll ds rb0 = Inr rb1
     \<and> pollN (length ds) rb1 = Inr (map Some L, rb2)
     \<and> mset L = mset ds \<and> map (slot_of n) L = [0..<length ds]
     \<and> numValidChunks rb2 = 0 \<and> (isEmpty rb2 \<longleftrightarrow> int (length ds) mod n + 1 = n)
     \<and> rb_inv rb1 \<and> numValidChunks rb1 = int (length ds)
     \<and> (int (length ds) = n \<longrightarrow> waitSequenceNumber rb2 = initseq)"
proof -
  obtain rb0 where rb0: "new_ReceiveBuffer n initseq = Inr rb0"
    and st: "rb_buffer rb0 = replicate (nat n) None" "readPosition rb0 = 0"
      "numValidChunks rb0 = -1" "rb_size rb0 = n" "initialSequenceNumber rb0 = initseq"
    using n by (auto simp: new_ReceiveBuffer_def)
  have npos: "0 < n" using n by linarith
  then have inv0: "rb_inv rb0" using rb0 by (rule new_ReceiveBuffer_inv)
  define B where "B = stored n ds (rb_buffer rb0)"
  define rb1 where "rb1 = rb0\<lparr>rb_buffer := B, numValidChunks := int (length ds)\<rparr>"
  have off: "offerAll ds rb0 = Inr rb1"
    using offerAll_stored [OF inv0 seqs] st n by (auto simp: rb1_def B_def)
  have lenB: "length B = nat n" by (simp add: B_def st)
  have B: "\<exists>d \<in> set ds. slot_of n d = k \<and> B ! k = Some d" if "k < length ds" for k
  proof -
    have "k \<in> slot_of n ` set ds" unfolding slots using that by simp
    then obtain d where "d \<in> set ds" "slot_of n d = k" by blast
    moreover have "B ! slot_of n d = Some d"
      unfolding B_def using \<open>d \<in> set ds\<close> \<open>slot_of n d = k\<close> that n
      by (intro stored_nth [OF dist]) (simp_all add: st)
    ultimately show ?thesis by auto
  qed
  have inv1: "rb_inv rb1"
  proof -
    have none: "rb_buffer rb1 ! k = None" if "k \<in> {length ds..<nat n}" for k
      unfolding rb1_def B_def using that slots by (simp add: stored_other st)
    have "{k. k < length B \<and> B ! k \<noteq> None} \<subseteq> {0..<length ds}"
      using none lenB by (fastforce simp: rb1_def not_less)
    then have "card {k. k < length B \<and> B ! k \<noteq> None} \<le> length ds"
      using card_mono [of "{0..<length ds}"] by fastforce
    then have "occupied rb1 \<le> length ds"
      by (simp add: occupied_def rb1_def length_filter_conv_card)
    then show ?thesis using inv0 n npos lenB st by (simp add: rb_inv_def rb1_def)
  qed
  have "\<exists>rb'. pollN (length ds) rb1
        = Inr (map (\<lambda>i. rb_buffer rb1 ! i)
            [nat (readPosition rb1)..<nat (readPosition rb1) + length ds], rb')
     \<and> rb_inv rb' \<and> numValidChunks rb' = 0 \<and> rb_size rb' = rb_size rb1
     \<and> readPosition rb' = (readPosition rb1 + int (length ds)) mod rb_size rb1
     \<and> (0 < length ds \<longrightarrow> highestReadSequenceNumber rb'
           = sequenceNumber (the (rb_buffer rb1 ! (nat (readPosition rb1) + length ds - 1))))"
    by (rule pollN_run [OF inv1]) (use n npos st B in \<open>force simp: rb1_def\<close>)+
  then obtain rb2 where rb2: "pollN (length ds) rb1 = Inr (map (\<lambda>i. B ! i) [0..<length ds], rb2)"
    "numValidChunks rb2 = 0" "rb_size rb2 = n" "readPosition rb2 = int (length ds) mod n"
    "highestReadSequenceNumber rb2 = sequenceNumber (the (B ! (length ds - 1)))"
    using n st by (auto simp: rb1_def)
  define L where "L = map (\<lambda>i. the (B ! i)) [0..<length ds]"
  have LS: "map (\<lambda>i. B ! i) [0..<length ds] = map Some L"
    using B by (force simp: L_def)
  have keys: "map (slot_of n) L = [0..<length ds]"
    by (rule nth_equalityI) (use B in \<open>force simp: L_def\<close>)+
  have "set L \<subseteq> set ds" using B by (force simp: L_def)
  moreover have dL: "distinct L" using keys distinct_map [of "slot_of n" L] by simp
  moreover have dds: "distinct ds" using dist by (simp add: distinct_map)
  moreover have "length L = length ds" by (simp add: L_def)
  moreover have "card (set ds) = card (set L)"
    using dL dds \<open>length L = length ds\<close> by (simp add: distinct_card)
  ultimately have "set L = set ds" by (simp add: card_subset_eq)
  then have ms: "mset L = mset ds" using dL dds by (simp add: set_eq_iff_mset_eq_distinct)
  obtain d where d: "d \<in> set ds" "B ! (length ds - 1) = Some d" using B [of "length ds - 1"] n by auto
  have "sequenceNumber d \<noteq> -1" using seqs d(1) by fastforce
  then have "isEmpty rb2 \<longleftrightarrow> int (length ds) mod n + 1 = n"
    using rb2 n d by (auto simp: isEmpty_def)
  moreover have "int (length ds) = n \<longrightarrow> waitSequenceNumber rb2 = initseq"
    using pollN_initial [OF rb2(1)] rb2(4) st(5) by (simp add: waitSequenceNumber_def rb1_def)
  moreover have "numValidChunks rb1 = int (length ds)" by (simp add: rb1_def)
  moreover have "pollN (length ds) rb1 = Inr (map Some L, rb2)" using rb2(1) LS by simp
  ultimately show ?thesis using rb0 off rb2(2) ms keys inv1 by blast
qed

lemma all_slots:
  assumes "0 < length ds" and "distinct (map (slot_of (int (length ds))) ds)"
  shows "slot_of (int (length ds)) ` set ds = {0..<length ds}"
proof (rule card_subset_eq)
  show "slot_of (int (length ds)) ` set ds \<subseteq> {0..<length ds}"
    using assms(1) by (auto simp: slot_of_def nat_less_iff)
  show "card (slot_of (int (length ds)) ` set ds) = card {0..<length ds}"
    using assms(2) distinct_card [of "map (slot_of (int (length ds))) ds"] by simp
qed simp

lemma fill_and_drain:
  assumes n: "0 < length ds" "int (length ds) = n"
    and seqs: "\<forall>d \<in> set ds. 0 \<le> sint (sequenceNumber d)"
    and dist: "distinct (map (slot_of n) ds)"
  shows "\<exists>rb0 rb1 rb2 L. new_ReceiveBuffer n initseq = Inr rb0 \<and> offerAll ds rb0 = Inr rb1
     \<and> pollN (length ds) rb1 = Inr (map Some L, rb2)
     \<and> mset L = mset ds \<and> map (slot_of n) L = [0..<length ds]
     \<and> numValidChunks rb2 = 0 \<and> (isEmpty rb2 \<longleftrightarrow> length ds = 1)
     \<and> rb_inv rb1 \<and> numValidChunks rb1 = int (length ds) \<and> waitSequenceNumber rb2 = initseq"
proof -
  have "slot_of n ` set ds = {0..<length ds}" using all_slots [OF n(1)] dist n(2) by simp
  moreover have "(int (length ds) mod n + 1 = n) = (length ds = 1)" using n by auto
  ultimately show ?thesis
    using fill_prefix [OF n(1) eq_refl [OF n(2)] seqs dist, of initseq] n(2) by (simp only:) blast
qed

lemma consecutive_slots:
  assumes "set (map (\<lambda>d. sint (sequenceNumber d)) ds) = {a..<a + int (length ds)}" and "0 < length ds"
  shows "distinct (map (slot_of (int (length ds))) ds)"
    and "\<And>d. d \<in> set ds \<Longrightarrow> 0 \<le> a \<Longrightarrow>
          sint (sequenceNumber d) = a + (int (slot_of (int (length ds)) d) - a) mod int (length ds)"
proof -
  let ?n = "int (length ds)" and ?seq = "\<lambda>d. sint (sequenceNumber d)"
  have card: "card (?seq ` set ds) = length ds" using assms(1) by simp
  then have "distinct (map ?seq ds)" by (simp add: card_distinct)
  moreover have "inj_on (\<lambda>x. nat (x mod ?n)) {a..<a + ?n}"
  proof (rule inj_onI)
    fix x y assume xy: "x \<in> {a..<a + ?n}" "y \<in> {a..<a + ?n}" and "nat (x mod ?n) = nat (y mod ?n)"
    then have "x mod ?n = y mod ?n" using assms(2) by (simp add: eq_nat_nat_iff)
    then have "(x - a) mod ?n = (y - a) mod ?n" by (rule mod_diff_cong) simp
    then show "x = y" using xy by (simp add: mod_pos_pos_trivial)
  qed
  ultimately have "distinct (map (\<lambda>x. nat (x mod ?n)) (map ?seq ds))"
    using assms(1) by (simp add: distinct_map del: map_map)
  then show "distinct (map (slot_of ?n) ds)" by (simp add: slot_of_def [abs_def] comp_def)
  fix d assume d: "d \<in> set ds" "0 \<le> a"
  then have "?seq d \<in> {a..<a + ?n}" using assms(1) by auto
  then have "(?seq d - a) mod ?n = ?seq d - a" by simp
  moreover have "int (slot_of ?n d) = ?seq d mod ?n" using assms(2) by (simp add: slot_of_def)
  ultimately show "?seq d = a + (int (slot_of ?n d) - a) mod ?n" by (simp add: mod_diff_left_eq)
qed

lemma rotated_in_order_iff:
  assumes "0 < n" and "0 \<le> a" and "\<forall>k < n. L ! k = a + (int k - a) mod int n" and "length L = n"
  shows "L = map int [nat a..<nat a + n] \<longleftrightarrow> a mod int n = 0"
proof
  assume "L = map int [nat a..<nat a + n]"
  then have "L ! 0 = a" using assms(1,2) by simp
  moreover have "L ! 0 = a + (- a) mod int n" using assms by simp
  ultimately have "int n dvd - a" by (simp add: mod_eq_0_iff_dvd)
  then show "a mod int n = 0" by simp
next
  assume z: "a mod int n = 0"
  show "L = map int [nat a..<nat a + n]"
  proof (rule nth_equalityI)
    show "length L = length (map int [nat a..<nat a + n])" using assms by simp
    fix i assume i: "i < length L"
    have "(int i - a) mod int n = int i mod int n"
      using z by (metis diff_zero mod_diff_right_eq)
    then show "L ! i = map int [nat a..<nat a + n] ! i" using assms i by simp
  qed
qed

section \<open>Properties\<close>

text \<open>C5: Reassembly order, exactly. Let a message of \<open>n\<close> packets carry the sequence numbers
  \<open>a, \<dots>, a + n - 1\<close> and let them arrive in any order, each once. Then every packet is accepted
  and \<open>n\<close> polls return all of them; the \<open>k\<close>-th poll returns the packet with sequence number
  \<open>a + ((k - a) mod n)\<close>. So they come out in sending order exactly when \<open>a\<close> is a multiple of
  \<open>n\<close>: the read cursor starts at slot 0, not at the slot of the first packet.\<close>
theorem reassembly_order:
  assumes "0 < n" and "length ds = n" and "0 \<le> a"
    and "set (map (\<lambda>d. sint (sequenceNumber d)) ds) = {a..<a + int n}"
  shows "\<exists>rb0 rb1 rb2 L. new_ReceiveBuffer (int n) initseq = Inr rb0 \<and> offerAll ds rb0 = Inr rb1
     \<and> pollN n rb1 = Inr (map Some L, rb2) \<and> mset L = mset ds
     \<and> (\<forall>k < n. sint (sequenceNumber (L ! k)) = a + (int k - a) mod int n)
     \<and> (map (\<lambda>d. sint (sequenceNumber d)) L = map int [nat a..<nat a + n] \<longleftrightarrow> a mod int n = 0)"
proof -
  have set: "set (map (\<lambda>d. sint (sequenceNumber d)) ds) = {a..<a + int (length ds)}"
    and pos: "0 < length ds" using assms by simp_all
  note cs = consecutive_slots [OF set pos, unfolded assms(2)]
  have "(\<lambda>d. sint (sequenceNumber d)) ` set ds = {a..<a + int n}" using assms(4) by simp
  then have "\<forall>d \<in> set ds. 0 \<le> sint (sequenceNumber d)"
    using assms(3) by (metis atLeastLessThan_iff imageI order_trans)
  from fill_and_drain [OF pos, of "int n" initseq, unfolded assms(2), OF refl this cs(1)]
  obtain rb0 rb1 rb2 L where run: "new_ReceiveBuffer (int n) initseq = Inr rb0"
    "offerAll ds rb0 = Inr rb1" "pollN n rb1 = Inr (map Some L, rb2)"
    and L: "mset L = mset ds" "map (slot_of (int n)) L = [0..<n]"
    by blast
  have lenL: "length L = n" using L(1) assms(2) by (metis size_mset)
  have "set L = set ds" using L(1) by (metis set_mset_mset)
  moreover have "slot_of (int n) (L ! k) = k" if "k < n" for k
    using that L(2) lenL by (metis add_0 nth_map nth_upt)
  ultimately have seqL: "\<forall>k < n. sint (sequenceNumber (L ! k)) = a + (int k - a) mod int n"
    using cs(2) assms(3) lenL by (metis nth_mem)
  have "map (\<lambda>d. sint (sequenceNumber d)) L = map int [nat a..<nat a + n] \<longleftrightarrow> a mod int n = 0"
    by (rule rotated_in_order_iff) (use seqL lenL assms(1,3) in auto)
  with run L(1) seqL show ?thesis
    by (intro exI [of _ rb0] exI [of _ rb1] exI [of _ rb2] exI [of _ L] conjI)
qed

definition chunk_at :: "int \<Rightarrow> app_data" where
  "chunk_at i = new_AppData 3 5 (word_of_int i) (Some [word_of_int i])"

theorem reassembly_order_witness:
  "\<exists>rb0 rb1 rb2 L. new_ReceiveBuffer (int 3) 5 = Inr rb0
     \<and> offerAll [chunk_at 6, chunk_at 5, chunk_at 7] rb0 = Inr rb1
     \<and> pollN 3 rb1 = Inr (map Some L, rb2) \<and> mset L = mset [chunk_at 6, chunk_at 5, chunk_at 7]
     \<and> (\<forall>k < 3. sint (sequenceNumber (L ! k)) = 5 + (int k - 5) mod int 3)
     \<and> (map (\<lambda>d. sint (sequenceNumber d)) L = map int [nat 5..<nat 5 + 3] \<longleftrightarrow> 5 mod int 3 = 0)"
proof (rule reassembly_order)
  show "set (map (\<lambda>d. sint (sequenceNumber d)) [chunk_at 6, chunk_at 5, chunk_at 7]) = {5..<5 + int 3}"
    by (auto simp: chunk_at_def new_AppData_def)
qed simp_all

text \<open>When a whole message has been stored once and read out, the buffer reports itself read
  to the end only for single-packet messages: the cursor has wrapped to slot 0, while
  \<open>isEmpty\<close> asks for the last slot. For two or more packets the reader is never told that the
  message is complete.\<close>
theorem isEmpty_after_whole_message:
  assumes "0 < length ds" and "n = int (length ds)"
    and "\<forall>d \<in> set ds. 0 \<le> sint (sequenceNumber d)" and "distinct (map (slot_of n) ds)"
  shows "\<exists>rb0 rb1 rb2 L. new_ReceiveBuffer n initseq = Inr rb0 \<and> offerAll ds rb0 = Inr rb1
     \<and> pollN (length ds) rb1 = Inr (map Some L, rb2) \<and> mset L = mset ds
     \<and> numValidChunks rb2 = 0 \<and> (isEmpty rb2 \<longleftrightarrow> length ds = 1)"
  using fill_and_drain [OF assms(1) assms(2) [symmetric] assms(3,4), of initseq] by blast

theorem isEmpty_after_whole_message_witness:
  "\<exists>rb0 rb1 rb2 L. new_ReceiveBuffer 2 6 = Inr rb0 \<and> offerAll [chunk_at 7, chunk_at 6] rb0 = Inr rb1
     \<and> pollN (length [chunk_at 7, chunk_at 6]) rb1 = Inr (map Some L, rb2)
     \<and> mset L = mset [chunk_at 7, chunk_at 6]
     \<and> numValidChunks rb2 = 0 \<and> (isEmpty rb2 \<longleftrightarrow> length [chunk_at 7, chunk_at 6] = 1)"
  by (rule isEmpty_after_whole_message) (auto simp: chunk_at_def new_AppData_def slot_of_def)



end
