(* ===== verification/Receiver.thy ===== *)
theory Receiver
  imports RecvBuffer Udp
begin

text \<open>
  The receiving side of a session (\<open>Sessions/ServerSession.java\<close>): chunks arrive in reassembly
  buffers, one per message, held in 2000 slots; a reader task takes them out in slot order, asks
  for missing packets, hands messages on and acknowledges them. The buffers are objects: \<open>heap\<close>
  holds them and the fields refer to them, as the reader keeps its buffer while a slot is cleared.
  What the session tells others is a log of events.
\<close>

section \<open>State\<close>

datatype ss_event =
    Sent datagram
  | Posted int "jbyte list option"
  | Accepted int
  | Transferred "jbyte list option"
  | SessionGone string jlong

record server_session =
  ss_id :: jlong
  ss_clientID :: jlong
  ss_srcIP :: string
  ss_srcPort :: int
  ss_localIP :: string
  ss_localPort :: int
  ss_netType :: int
  ss_isClose :: bool
  ss_shutdown :: bool
  heap :: "receive_buffer list"
  buf :: "nat option list"
  buffer :: "nat option"
  preBuf :: "nat option"
  currentChunk :: "app_data option"
  readNull :: int
  isCall :: bool
  chunks :: "jbyte list list"
  readState :: int
  readLen :: int
  readOffset :: int
  lastInitSeq :: jlong
  readInitSeq :: jlong
  clientClose :: bool
  readbufIndex :: int
  bufNum :: int
  isStartData :: bool
  zeroNum :: bool
  zeroRead :: int
  consumers :: nat
  ss_out :: "ss_event list"

definition bufsize :: int where
  "bufsize = 2000"

definition new_ServerSession :: "string \<Rightarrow> int \<Rightarrow> string \<Rightarrow> int \<Rightarrow> jlong \<Rightarrow> server_session" where
  "new_ServerSession sIP sPort lIP lPort i =
     \<lparr>ss_id = i, ss_clientID = 0, ss_srcIP = sIP, ss_srcPort = sPort, ss_localIP = lIP,
      ss_localPort = lPort, ss_netType = 0, ss_isClose = False, ss_shutdown = False, heap = [], buf = replicate (nat bufsize) None,
      buffer = None, preBuf = None, currentChunk = None, readNull = 0, isCall = False, chunks = [],
      readState = 0, readLen = 0, readOffset = 0, lastInitSeq = -1, readInitSeq = 0,
      clientClose = False, readbufIndex = 0, bufNum = 0, isStartData = False, zeroNum = True,
      zeroRead = 0, consumers = 0, ss_out = []\<rparr>"

definition emit :: "ss_event \<Rightarrow> server_session \<Rightarrow> server_session" where
  "emit ev s = s\<lparr>ss_out := ss_out s @ [ev]\<rparr>"

section \<open>Arrival of packets\<close>

text \<open>
  \<open>startThread\<close>: the reader's task (\<open>readerTask\<close> below) is given to the session's thread pool,
  which refuses tasks once it was shut down; the flag is set before.
\<close>

definition ss_startThread :: "server_session \<Rightarrow> exn option \<times> server_session" where
  "ss_startThread s =
     (if isStartData s then (None, s)
      else (if ss_shutdown s then Some RejectedExecution else None, s\<lparr>isStartData := True\<rparr>))"

definition intBuffer :: "jint \<Rightarrow> jlong \<Rightarrow> server_session \<Rightarrow> exn option \<times> server_session" where
  "intBuffer num initSeq s =
     (if num = -1 \<or> initSeq = -1 then (None, s)
      else case bindR (java_rem (sint initSeq) bufsize) (\<lambda>i. bindR (array_get (buf s) i)
                  (\<lambda>b. Inr (nat i, b))) of
             Inl e \<Rightarrow> (Some e, s)
           | Inr (i, Some b) \<Rightarrow> ss_startThread (s\<lparr>preBuf := Some b\<rparr>)
           | Inr (i, None) \<Rightarrow>
               (case new_ReceiveBuffer (sint num) initSeq of
                  Inl e \<Rightarrow> (Some e, s\<lparr>preBuf := None\<rparr>)
                | Inr rb \<Rightarrow>
                    let b = length (heap s)
                    in ss_startThread (s\<lparr>heap := heap s @ [rb], preBuf := Some b,
                         buf := (buf s)[i := Some b], bufNum := bufNum s + 1\<rparr>)))"

definition setData :: "app_data \<Rightarrow> server_session \<Rightarrow> exn option \<times> server_session" where
  "setData d s =
     (case bindR (java_rem (sint (intSequenceNumber d)) bufsize) (array_get (buf s)) of
        Inl e \<Rightarrow> (Some e, s)
      | Inr None \<Rightarrow> (Some NullPointer, s)
      | Inr (Some b) \<Rightarrow>
          (case offer d (heap s ! b) of
             Inl e \<Rightarrow> (Some e, s)
           | Inr (_, rb) \<Rightarrow> (None, s\<lparr>heap := (heap s)[b := rb]\<rparr>)))"

definition ss_addData :: "return_code \<Rightarrow> server_session \<Rightarrow> exn option \<times> server_session" where
  "ss_addData rc s =
     (case intBuffer (packagetNum rc) (InitSeq rc) s of
        (Some e, s1) \<Rightarrow> (Some e, s1)
      | (None, s1) \<Rightarrow>
          (if ss_isClose s1 then (None, s1)
           else if isAck rc
           then (case ackPackaget rc of
                   None \<Rightarrow> (Some NullPointer, s1)
                 | Some a \<Rightarrow> (None, if ackType a = 3 then s1\<lparr>clientClose := True\<rparr> else s1))
           else setData (new_AppData (packagetNum rc) (InitSeq rc) (PackagetID rc) (rc_data rc)) s1))"

text \<open>
  What arrives while the reader runs is a schedule: a list of batches, each of which arrives before
  the reader's next look at a buffer or during its next wait. The empty schedule is silence. An
  exception in a batch stays in the thread of the listener.
\<close>

datatype arrival = Packet return_code | SetCall

type_synonym schedule = "arrival list list"

definition arrive1 :: "arrival \<Rightarrow> server_session \<Rightarrow> server_session" where
  "arrive1 a s = (case a of Packet rc \<Rightarrow> snd (ss_addData rc s) | SetCall \<Rightarrow> s\<lparr>isCall := True\<rparr>)"

definition arrive :: "arrival list \<Rightarrow> server_session \<Rightarrow> server_session" where
  "arrive w s = fold arrive1 w s"

fun tick :: "schedule \<Rightarrow> server_session \<Rightarrow> schedule \<times> server_session" where
  "tick [] s = ([], s)"
| "tick (w # ws) s = (ws, arrive w s)"

section \<open>Taking chunks out\<close>

text \<open>
  The timed \<open>poll\<close> of a buffer waits until its counter is not zero or the time is over, so it is
  what arrives, followed by the poll without a wait.
\<close>

definition timedPoll :: "nat \<Rightarrow> schedule \<Rightarrow> server_session \<Rightarrow>
    (app_data option \<times> schedule \<times> server_session) result" where
  "timedPoll b ws s =
     (case tick ws s of (ws1, s1) \<Rightarrow>
        bindR (poll (heap s1 ! b)) (\<lambda>(r, rb). Inr (r, ws1, s1\<lparr>heap := (heap s1)[b := rb]\<rparr>)))"

text \<open>The request for a missing packet, sent from a socket of its own.\<close>

definition request_missing :: "net_env \<Rightarrow> nat \<Rightarrow> server_session \<Rightarrow> server_session result" where
  "request_missing env b s =
     bindR (createAckPackaget (new_AckPackaget\<lparr>ack_packagetID := waitSequenceNumber (heap s ! b),
              ack_sessionid := ss_id s, ackType := 2, ack_clientID := ss_clientID s\<rparr>)) (\<lambda>data.
       case udp_sendData env (Some (ss_srcIP s)) (ss_srcPort s) (Some data) new_UDPClient of
         (Some e, _, _) \<Rightarrow> Inl e
       | (None, out, _) \<Rightarrow> Inr (s\<lparr>ss_out := ss_out s @ map Sent out\<rparr>))"

lemma intBuffer_readNull: "intBuffer num i s = (e, s') \<Longrightarrow> readNull s' = readNull s"
  by (auto simp: intBuffer_def ss_startThread_def Let_def
      split: if_splits sum.splits option.splits prod.splits)

lemma setData_readNull: "setData d s = (e, s') \<Longrightarrow> readNull s' = readNull s"
  by (auto simp: setData_def split: sum.splits option.splits prod.splits)

lemma addData_readNull: "readNull (snd (ss_addData rc s)) = readNull s"
proof -
  obtain e s1 where i: "intBuffer (packagetNum rc) (InitSeq rc) s = (e, s1)" by fastforce
  obtain e2 s2 where d: "setData (new_AppData (packagetNum rc) (InitSeq rc) (PackagetID rc)
      (rc_data rc)) s1 = (e2, s2)" by fastforce
  show ?thesis
    using intBuffer_readNull [OF i] setData_readNull [OF d]
    by (simp add: ss_addData_def i d split: option.split)
qed

lemma arrive_readNull: "readNull (arrive w s) = readNull s"
  by (induction w arbitrary: s)
    (simp_all add: arrive_def arrive1_def addData_readNull split: arrival.split)

lemma tick_readNull: "tick ws s = (ws', s') \<Longrightarrow> readNull s' = readNull s"
  by (cases ws) (auto simp: arrive_readNull)

lemma timedPoll_readNull: "timedPoll b ws s = Inr (r, ws', s') \<Longrightarrow> readNull s' = readNull s"
  by (auto simp: timedPoll_def bindR_Inr_iff split: prod.splits dest: tick_readNull)

lemma request_missing_eq:
  "request_missing env b s =
     (case udp_sendData env (Some (ss_srcIP s)) (ss_srcPort s) (Some (ack_bytes
             (new_AckPackaget\<lparr>ack_packagetID := waitSequenceNumber (heap s ! b),
                ack_sessionid := ss_id s, ackType := 2, ack_clientID := ss_clientID s\<rparr>)))
           new_UDPClient of
        (Some e, _, _) \<Rightarrow> Inl e
      | (None, out, _) \<Rightarrow> Inr (s\<lparr>ss_out := ss_out s @ map Sent out\<rparr>))"
  by (simp add: request_missing_def createAckPackaget_eq)

lemma request_missing_readNull: "request_missing env b s = Inr s' \<Longrightarrow> readNull s' = readNull s"
  by (auto simp: request_missing_eq split: prod.splits option.splits)

text \<open>The inner loop of the blocking read: at most eleven tries without a chunk.\<close>

function waitChunk :: "net_env \<Rightarrow> nat \<Rightarrow> schedule \<Rightarrow> server_session \<Rightarrow>
    (schedule \<times> server_session) result" where
  "waitChunk env b ws s =
     (case timedPoll b ws s of
        Inl e \<Rightarrow> Inl e
      | Inr (Some d, ws1, s1) \<Rightarrow> Inr (ws1, s1\<lparr>currentChunk := Some d\<rparr>)
      | Inr (None, ws1, s1) \<Rightarrow>
          (case request_missing env b (s1\<lparr>readNull := readNull s1 + 1\<rparr>) of
             Inl e \<Rightarrow> Inl e
           | Inr s2 \<Rightarrow> if 10 < readNull s2 then Inr (ws1, s2) else waitChunk env b ws1 s2))"
  by pat_completeness auto

termination
  by (relation "measure (\<lambda>(env, b, ws, s). nat (11 - readNull s))")
    (auto dest!: timedPoll_readNull request_missing_readNull)

declare waitChunk.simps [simp del]

definition updateCurrentChunk :: "net_env \<Rightarrow> bool \<Rightarrow> nat \<Rightarrow> schedule \<Rightarrow> server_session \<Rightarrow>
    (schedule \<times> server_session) result" where
  "updateCurrentChunk env block b ws s =
     (if currentChunk s \<noteq> None then Inr (ws, s)
      else case timedPoll b ws s of
             Inl e \<Rightarrow> Inl e
           | Inr (r, ws1, s1) \<Rightarrow>
               (if \<not> block
                then Inr (ws1, s1\<lparr>currentChunk := r, zeroRead := zeroRead s1 + 1\<rparr>)
                else case r of
                       Some d \<Rightarrow> Inr (ws1, s1\<lparr>currentChunk := Some d\<rparr>)
                     | None \<Rightarrow> waitChunk env b ws1 s1))"

section \<open>Reading a message\<close>

text \<open>
  The loops of the reader need not end, so they take fuel: None is that it ran out. The exception
  of a result ends the reader's thread. \<open>findBuffer\<close> looks for the next slot that holds a buffer.
\<close>

definition load_buffer :: "server_session \<Rightarrow> server_session" where
  "load_buffer s = s\<lparr>buffer := buf s ! nat (readbufIndex s mod bufsize)\<rparr>"

fun findBuffer :: "nat \<Rightarrow> bool \<Rightarrow> schedule \<Rightarrow> server_session \<Rightarrow>
    (nat option \<times> schedule \<times> server_session) option" where
  "findBuffer 0 isWait ws s = None"
| "findBuffer (Suc n) isWait ws s =
     (case buffer s of
        Some b \<Rightarrow> Some (Some b, ws, s)
      | None \<Rightarrow>
          (if bufNum s = 0 then Some (None, ws, s)
           else if isWait
           then findBuffer n False ws (load_buffer (s\<lparr>readbufIndex := readbufIndex s + 1\<rparr>))
           else case tick ws s of (ws1, s1) \<Rightarrow> findBuffer n True ws1 (load_buffer s1)))"

definition take_chunk :: "app_data \<Rightarrow> jbyte list \<Rightarrow> server_session \<Rightarrow> server_session" where
  "take_chunk d data s =
     s\<lparr>chunks := chunks s @ [data], readLen := readLen s + int (length data),
       readInitSeq := intSequenceNumber d, currentChunk := None, readNull := 0, zeroNum := False\<rparr>"

fun drain :: "nat \<Rightarrow> net_env \<Rightarrow> nat \<Rightarrow> schedule \<Rightarrow> server_session \<Rightarrow> int \<Rightarrow>
    (schedule \<times> server_session \<times> int) result option" where
  "drain 0 env b ws s len = None"
| "drain (Suc n) env b ws s len =
     (case currentChunk s of
        None \<Rightarrow> Some (Inr (ws, s, len))
      | Some d \<Rightarrow>
          (case ad_data d of
             None \<Rightarrow> Some (Inl NullPointer)
           | Some data \<Rightarrow>
               (case tick ws (take_chunk d data s) of
                  (ws1, s1) \<Rightarrow>
                    (let len1 = len + int (length data)
                     in if isEmpty (heap s1 ! b) then Some (Inr (ws1, s1, len1))
                        else case updateCurrentChunk env True b ws1 s1 of
                               Inl e \<Rightarrow> Some (Inl e)
                             | Inr (ws2, s2) \<Rightarrow> drain n env b ws2 s2 len1))))"

text \<open>The chunks are copied one behind the other into an array of the length counted.\<close>

fun copyAll :: "jbyte list list \<Rightarrow> int \<Rightarrow> jbyte list \<Rightarrow> jbyte list result" where
  "copyAll [] offset all = Inr all"
| "copyAll (tmp # rest) offset all =
     bindR (arraycopy tmp 0 all offset (int (length tmp))) (\<lambda>all1.
       copyAll rest (offset + int (length tmp)) all1)"

definition assemble :: "int \<Rightarrow> jbyte list list \<Rightarrow> jbyte list result" where
  "assemble len xs = bindR (new_bytes len) (copyAll xs 0)"

definition clear_buffer :: "nat \<Rightarrow> server_session \<Rightarrow> server_session" where
  "clear_buffer b s = s\<lparr>heap := (heap s)[b := clear (heap s ! b)]\<rparr>"

fun readLoop :: "nat \<Rightarrow> net_env \<Rightarrow> nat \<Rightarrow> schedule \<Rightarrow> server_session \<Rightarrow> int \<Rightarrow>
    (jbyte list option \<times> schedule \<times> server_session) result option" where
  "readLoop 0 env b ws s len = None"
| "readLoop (Suc n) env b ws s len =
     (if isCall s then Some (Inr (None, ws, clear_buffer b (s\<lparr>chunks := []\<rparr>)))
      else case updateCurrentChunk env False b ws s of
             Inl e \<Rightarrow> Some (Inl e)
           | Inr (ws1, s1) \<Rightarrow>
               (case drain (Suc n) env b ws1 s1 len of
                  None \<Rightarrow> None
                | Some (Inl e) \<Rightarrow> Some (Inl e)
                | Some (Inr (ws2, s2, len2)) \<Rightarrow>
                    (if 10 < readNull s2
                     then Some (Inr (None, ws2,
                            clear_buffer b (s2\<lparr>ss_isClose := True, chunks := []\<rparr>)))
                     else case tick ws2 s2 of
                            (ws3, s3) \<Rightarrow>
                              (if isEmpty (heap s3 ! b)
                               then Some (bindR (assemble len2 (chunks s3)) (\<lambda>all.
                                      Inr (Some all, ws3, s3\<lparr>chunks := []\<rparr>)))
                               else readLoop n env b ws3 s3 len2))))"

definition readAll :: "nat \<Rightarrow> net_env \<Rightarrow> schedule \<Rightarrow> server_session \<Rightarrow>
    (jbyte list option \<times> schedule \<times> server_session) result option" where
  "readAll n env ws s =
     (case findBuffer n False ws (load_buffer (s\<lparr>chunks := [], readLen := 0\<rparr>)) of
        None \<Rightarrow> None
      | Some (None, ws1, s1) \<Rightarrow> Some (Inr (None, ws1, s1))
      | Some (Some b, ws1, s1) \<Rightarrow>
          readLoop n env b ws1 (s1\<lparr>bufNum := bufNum s1 - 1\<rparr>) 0)"

section \<open>Handing a message on\<close>

text \<open>
  The completion acknowledgement, sent when the sequence number last read is new; an exception of
  the send is caught.
\<close>

definition acknowledge :: "net_env \<Rightarrow> server_session \<Rightarrow> server_session" where
  "acknowledge env s =
     (if lastInitSeq s = readInitSeq s then s
      else case createAckPackaget (new_AckPackaget\<lparr>ack_packagetID := readInitSeq s,
                  ack_sessionid := ss_id s, ackType := 1, ack_clientID := ss_clientID s\<rparr>) of
             Inl e \<Rightarrow> s
           | Inr data \<Rightarrow>
               (case udp_sendData env (Some (ss_srcIP s)) (ss_srcPort s) (Some data) new_UDPClient of
                  (Some e, _, _) \<Rightarrow> s
                | (None, out, _) \<Rightarrow>
                    s\<lparr>ss_out := ss_out s @ map Sent out, lastInitSeq := readInitSeq s\<rparr>))"

text \<open>The slot is freed, and a session that the sender closed ends when no buffer is left.\<close>

definition free_slot :: "server_session \<Rightarrow> server_session" where
  "free_slot s =
     (let s1 = s\<lparr>buf := (buf s)[nat (readbufIndex s mod bufsize) := None]\<rparr>;
          s2 = (case buffer s1 of None \<Rightarrow> s1 | Some b \<Rightarrow> clear_buffer b s1);
          s3 = s2\<lparr>readbufIndex := readbufIndex s2 + 1\<rparr>
      in if bufNum s3 \<le> 0 \<and> clientClose s3
         then emit (SessionGone (ss_srcIP s3 @ int_text (ss_srcPort s3)) (ss_id s3))
                (s3\<lparr>bufNum := 0, ss_isClose := True, ss_shutdown := True\<rparr>)
         else s3)"

text \<open>
  A message goes to the bus, to one of the threads that wait in \<open>read\<close> (\<open>consumers\<close> of them), and
  the session to the server of its port. \<open>servers\<close> are the ports on which a \<open>judpServer\<close> runs.
\<close>

definition hand_on :: "(int \<Rightarrow> bool) \<Rightarrow> jbyte list option \<Rightarrow> server_session \<Rightarrow> server_session" where
  "hand_on servers all s =
     (let s1 = emit (Posted (ss_localPort s) all) (s\<lparr>readState := readState s + 1\<rparr>);
          s2 = (if consumers s1 = 0 then s1
                else emit (Transferred all) (s1\<lparr>consumers := consumers s1 - 1\<rparr>))
      in if servers (ss_localPort s2) then emit (Accepted (ss_localPort s2)) s2 else s2)"

text \<open>One round of the reader; after a message that is null it sleeps for three seconds.\<close>

definition checkRecvice :: "nat \<Rightarrow> net_env \<Rightarrow> (int \<Rightarrow> bool) \<Rightarrow> schedule \<Rightarrow> server_session \<Rightarrow>
    (schedule \<times> server_session) result option" where
  "checkRecvice n env servers ws s =
     (case readAll n env ws s of
        None \<Rightarrow> None
      | Some (Inl e) \<Rightarrow> Some (Inl e)
      | Some (Inr (all, ws1, s1)) \<Rightarrow>
          (case (if all = None then tick ws1 (hand_on servers all s1)
                 else (ws1, hand_on servers all s1)) of
             (ws2, s2) \<Rightarrow> Some (Inr (ws2, free_slot (acknowledge env s2)))))"

text \<open>The reader's task: until no buffer is left, or the session is closed.\<close>

fun readerRun :: "nat \<Rightarrow> net_env \<Rightarrow> (int \<Rightarrow> bool) \<Rightarrow> schedule \<Rightarrow> server_session \<Rightarrow>
    (schedule \<times> server_session) result option" where
  "readerRun 0 env servers ws s = None"
| "readerRun (Suc n) env servers ws s =
     (case checkRecvice (Suc n) env servers ws s of
        None \<Rightarrow> None
      | Some (Inl e) \<Rightarrow> Some (Inl e)
      | Some (Inr (ws1, s1)) \<Rightarrow>
          (if bufNum s1 = 0
           then (case tick ws1 s1 of
                   (ws2, s2) \<Rightarrow> if 0 < bufNum s2 then readerRun n env servers ws2 s2
                               else Some (Inr (ws2, s2\<lparr>isStartData := False\<rparr>)))
           else if ss_isClose s1 then Some (Inr (ws1, s1\<lparr>isStartData := False\<rparr>))
           else readerRun n env servers ws1 s1))"

text \<open>The task first gives a packet 100 ms to arrive when no buffer is there.\<close>

definition readerTask :: "nat \<Rightarrow> net_env \<Rightarrow> (int \<Rightarrow> bool) \<Rightarrow> schedule \<Rightarrow> server_session \<Rightarrow>
    (schedule \<times> server_session) result option" where
  "readerTask n env servers ws s =
     (case (if bufNum s = 0 then tick ws s else (ws, s)) of
        (ws1, s1) \<Rightarrow> readerRun n env servers ws1 s1)"

section \<open>The operations of the application\<close>

definition ss_setCall :: "server_session \<Rightarrow> server_session" where
  "ss_setCall s = s\<lparr>isCall := True\<rparr>"

definition ss_close :: "server_session \<Rightarrow> server_session" where
  "ss_close s = s\<lparr>ss_isClose := True\<rparr>"

definition ss_read_wait :: "server_session \<Rightarrow> server_session" where
  "ss_read_wait s = s\<lparr>consumers := consumers s + 1\<rparr>"

text \<open>After a minute without a message the wait ends.\<close>

definition ss_read_timeout :: "server_session \<Rightarrow> server_session" where
  "ss_read_timeout s = s\<lparr>consumers := consumers s - 1\<rparr>"

text \<open>
  \<open>read(len)\<close> copies chunks into an array of the wanted length. A chunk that does not fit is split:
  its rest replaces the chunk that is now first in the list, and the index stays. The loop ends as
  a split shortens a chunk and a chunk that fits leaves the list.
\<close>

function readCopy :: "bool \<Rightarrow> int \<Rightarrow> int \<Rightarrow> int \<Rightarrow> jbyte list \<Rightarrow> jbyte list list \<Rightarrow>
    (jbyte list \<times> jbyte list list) result" where
  "readCopy stop bound len index out list =
     (if \<not> index < bound then Inr (out, list)
      else case list of
             [] \<Rightarrow> if stop then Inr (out, []) else Inl IndexOutOfBounds
           | rData # rest \<Rightarrow>
               (let curLen = len - index
                in if int (length rData) \<le> curLen
                   then (case arraycopy rData 0 out index (int (length rData)) of
                           Inl e \<Rightarrow> Inl e
                         | Inr out1 \<Rightarrow>
                             readCopy stop bound len (index + int (length rData)) out1 rest)
                   else (case arraycopy rData 0 out index curLen of
                           Inl e \<Rightarrow> Inl e
                         | Inr out1 \<Rightarrow>
                             (case rest of
                                [] \<Rightarrow> Inl IndexOutOfBounds
                              | _ # rest1 \<Rightarrow>
                                  readCopy stop bound len index out1 (drop (nat curLen) rData # rest1)))))"
  by pat_completeness auto

termination
  by (relation "measure (\<lambda>(stop, bound, len, index, out, list). length list)") auto

declare readCopy.simps [simp del]

text \<open>The array read and the length reported; -1 when a message is complete and nothing is left.\<close>

definition ss_read_len :: "int \<Rightarrow> server_session \<Rightarrow> (jbyte list option \<times> int \<times> server_session) result" where
  "ss_read_len len s =
     (if readOffset s < readLen s
      then let dataLen = readLen s - readOffset s;
               want = (if len \<le> dataLen then len else dataLen)
           in bindR (if want < 0 then Inl NegativeArraySize else Inr (replicate (nat want) 0)) (\<lambda>bytedata.
              bindR (readCopy (dataLen < len) want len 0 bytedata (chunks s)) (\<lambda>(out, list).
                Inr (Some out, int (length out),
                     s\<lparr>chunks := list, readOffset := readOffset s + want\<rparr>)))
      else if 0 < readState s then Inr (None, -1, s\<lparr>readOffset := 0\<rparr>)
      else Inr (Some [], 0, s))"

end
