(* ===== verification/Listener.thy ===== *)
theory Listener
  imports Receiver Registry Ids
begin

text \<open>
  The listener (\<open>NetProtocol/ListenerData.java\<close>): datagrams are queued, a thread takes them one by
  one, parses them and gives them to the session of their source, which is created when it is
  missing (\<open>Sessions/SessionFactory.java\<close>). The sessions are objects, \<open>sessions\<close> holds them. The
  listener of a client session gives it the acknowledgements: \<open>client\<close> is its \<open>addData\<close> on a state
  of its own, None for the listener of a server.
\<close>

section \<open>State\<close>

record data_model =
  dm_srcIP :: string
  dm_srcPort :: int
  dm_localIP :: string
  dm_localPort :: int
  dm_data :: "jbyte list option"
  dm_netType :: int

text \<open>The thread: not started, about to poll, after its wait, about to clear the flag, ended by an
  exception.\<close>

datatype thread_pc = Stopped | Polling | Waited | Leaving | Dead

type_synonym 'w client = "(return_code \<Rightarrow> 'w \<Rightarrow> exn option \<times> 'w) option"

record 'w listener =
  queue :: "data_model list"
  isStart :: bool
  thread :: thread_pc
  taken_num :: nat
  hashOffer :: "string \<Rightarrow> (jlong, nat) session_map option"
  sessions :: "server_session list"
  manager :: server_manager
  raw_posts :: "data_model list"
  own :: 'w

definition new_ListenerData :: "server_manager \<Rightarrow> 'w \<Rightarrow> 'w listener" where
  "new_ListenerData m w = \<lparr>queue = [], isStart = False, thread = Stopped, taken_num = 0,
     hashOffer = (\<lambda>_. None), sessions = [], manager = m, raw_posts = [], own = w\<rparr>"

definition li_startThread :: "'w listener \<Rightarrow> 'w listener" where
  "li_startThread n = (if isStart n then n else n\<lparr>isStart := True, thread := Polling, taken_num := 0\<rparr>)"

definition monitorServer :: "data_model \<Rightarrow> 'w listener \<Rightarrow> 'w listener" where
  "monitorServer d n = li_startThread (n\<lparr>queue := queue n @ [d]\<rparr>)"

definition li_remove :: "string \<Rightarrow> 'w listener \<Rightarrow> 'w listener" where
  "li_remove key n = n\<lparr>hashOffer := (hashOffer n)(key := None)\<rparr>"

section \<open>Sessions by source\<close>

text \<open>The key of a source is the host followed by the port, with nothing between.\<close>

definition source_key :: "string \<Rightarrow> int \<Rightarrow> string" where
  "source_key ip port = ip @ int_text port"

definition hash_look :: "'w listener \<Rightarrow> string \<Rightarrow> (jlong, nat) session_map option" where
  "hash_look n key = hashOffer n key"

definition hash_store :: "string \<Rightarrow> (jlong, nat) session_map \<Rightarrow> 'w listener \<Rightarrow> 'w listener" where
  "hash_store key single n = n\<lparr>hashOffer := (hashOffer n)(key \<mapsto> single)\<rparr>"

interpretation sources: shrinking_store hash_look hash_store li_remove
  by unfold_locales (simp_all add: hash_look_def hash_store_def li_remove_def)

definition createcreateSessionMap :: "string \<Rightarrow> 'w listener \<Rightarrow> (jlong, nat) session_map \<times> 'w listener" where
  "createcreateSessionMap key n = get_or_create hash_look hash_store new_SessionMap key n"

text \<open>\<open>rnd\<close> is the random number behind the session id that the factory draws.\<close>

definition createObj :: "jint \<Rightarrow> string \<Rightarrow> int \<Rightarrow> string \<Rightarrow> int \<Rightarrow> server_session" where
  "createObj rnd sIP sPort lIP lPort =
     (new_ServerSession sIP sPort lIP lPort 0)\<lparr>ss_id := getSessionID rnd\<rparr>"

text \<open>\<open>createSession\<close>: the map of the source is an object that the listener's map refers to.\<close>

definition createSession :: "jint \<Rightarrow> string \<Rightarrow> (jlong, nat) session_map \<Rightarrow> data_model \<Rightarrow> jlong \<Rightarrow>
    'w listener \<Rightarrow> nat \<times> 'w listener" where
  "createSession rnd key single d i n =
     (case sm_get single i of
        Some r \<Rightarrow> (r, n)
      | None \<Rightarrow>
          (let s = (createObj rnd (dm_srcIP d) (dm_srcPort d) (dm_localIP d) (dm_localPort d))
                     \<lparr>ss_id := i, ss_netType := dm_netType d\<rparr>;
               r = length (sessions n)
           in (r, hash_store key (sm_put i r single) (n\<lparr>sessions := sessions n @ [s]\<rparr>))))"

definition upd_session :: "nat \<Rightarrow> server_session \<Rightarrow> 'w listener \<Rightarrow> 'w listener" where
  "upd_session r s n = n\<lparr>sessions := (sessions n)[r := s]\<rparr>"

section \<open>A datagram\<close>

text \<open>The clearing of sessions that ended, for every key the manager lists.\<close>

fun cleanKeys :: "string list \<Rightarrow> 'w listener \<Rightarrow> exn option \<times> 'w listener" where
  "cleanKeys [] n = (None, n)"
| "cleanKeys (key # keys) n =
     (case getSessions key (manager n) of
        (ids, m) \<Rightarrow>
          (case hash_look n key of
             None \<Rightarrow> (Some NullPointer, n\<lparr>manager := m\<rparr>)
           | Some single \<Rightarrow>
               (let single1 = fold sm_remove (case ids of None \<Rightarrow> [] | Some js \<Rightarrow> js) single;
                    n1 = hash_store key single1 (n\<lparr>manager := m\<rparr>);
                    n2 = (if sm_isEmpty single1 then li_remove key n1 else n1)
                in cleanKeys keys (n2\<lparr>manager := removeKey key (manager n2)\<rparr>))))"

definition first_clean :: "'w listener \<Rightarrow> exn option \<times> 'w listener" where
  "first_clean n =
     (case getSessionMap (manager n) of
        (None, m) \<Rightarrow> (None, n\<lparr>manager := m\<rparr>)
      | (Some keys, m) \<Rightarrow> cleanKeys keys (n\<lparr>manager := m\<rparr>))"

text \<open>
  The session of a datagram: looked up under the session id of the acknowledgement, if it is one,
  and otherwise under that of the packet; created under the latter.
\<close>

definition session_of :: "jint \<Rightarrow> data_model \<Rightarrow> return_code \<Rightarrow> 'w listener \<Rightarrow> nat result \<times> 'w listener" where
  "session_of rnd d rc n =
     (let key = source_key (dm_srcIP d) (dm_srcPort d)
      in case createcreateSessionMap key n of
           (single, n1) \<Rightarrow>
             (case (if isAck rc then map_option ack_sessionid (ackPackaget rc) else Some (SessionID rc)) of
                None \<Rightarrow> (Inl NullPointer, n1)
              | Some i \<Rightarrow>
                  (let known = (case sm_get single i of
                                  None \<Rightarrow> None
                                | Some r \<Rightarrow> if ss_isClose (sessions n1 ! r) then None else Some r)
                   in case known of
                        Some r \<Rightarrow> (Inr r, n1)
                      | None \<Rightarrow>
                          (case createSession rnd key single d (SessionID rc) n1 of
                             (r, n2) \<Rightarrow>
                               (Inr r, upd_session r ((sessions n2 ! r)\<lparr>ss_clientID := clientid rc\<rparr>) n2)))))"

definition route :: "jint \<Rightarrow> data_model \<Rightarrow> return_code \<Rightarrow> 'w listener \<Rightarrow> exn option \<times> 'w listener" where
  "route rnd d rc n =
     (case session_of rnd d rc n of
        (Inl e, n1) \<Rightarrow> (Some e, n1)
      | (Inr r, n1) \<Rightarrow>
          (case ss_addData rc (sessions n1 ! r) of (e, s) \<Rightarrow> (e, upd_session r s n1)))"

definition processData :: "'w client \<Rightarrow> jint \<Rightarrow> data_model \<Rightarrow> 'w listener \<Rightarrow> exn option \<times> 'w listener" where
  "processData client rnd d n =
     (let rc = AnalysisNetPackaget (dm_data d)
      in case (if isAck rc then client else None) of
           Some addData \<Rightarrow> (case addData rc (own n) of (e, w) \<Rightarrow> (e, n\<lparr>own := w\<rparr>))
         | None \<Rightarrow>
             (if SessionID rc = 0 \<and> packagetNum rc = 0
              then (None, n\<lparr>raw_posts := raw_posts n @ [d\<lparr>dm_data := rc_data rc\<rparr>]\<rparr>)
              else case first_clean n of
                     (Some e, n1) \<Rightarrow> (Some e, n1)
                   | (None, n1) \<Rightarrow> route rnd d rc n1))"

section \<open>The thread\<close>

definition take_one :: "'w client \<Rightarrow> jint \<Rightarrow> 'w listener \<Rightarrow> 'w listener" where
  "take_one client rnd n =
     (case queue n of
        [] \<Rightarrow> n\<lparr>taken_num := 0, thread := Waited\<rparr>
      | d # ds \<Rightarrow>
          (let n1 = n\<lparr>queue := ds, taken_num := (if 1000 < taken_num n then 0 else taken_num n) + 1\<rparr>
           in case processData client rnd d n1 of
                (Some e, n2) \<Rightarrow> n2\<lparr>thread := Dead\<rparr>
              | (None, n2) \<Rightarrow> n2))"

definition look_again :: "'w listener \<Rightarrow> 'w listener" where
  "look_again n = (if queue n = [] then n\<lparr>thread := Leaving\<rparr> else n\<lparr>thread := Polling\<rparr>)"

definition leave :: "'w listener \<Rightarrow> 'w listener" where
  "leave n = n\<lparr>isStart := False, thread := Stopped\<rparr>"

text \<open>
  What a session's reader did comes back as the session's new state; of its events, the end of the
  session is noted in the manager. A task of the manager is done by a thread of its own.
\<close>

definition note_gone :: "ss_event \<Rightarrow> server_manager \<Rightarrow> server_manager" where
  "note_gone ev m =
     (case ev of SessionGone key i \<Rightarrow> addSession key i (addSessionMap key m) | _ \<Rightarrow> m)"

definition reader_done :: "nat \<Rightarrow> server_session \<Rightarrow> 'w listener \<Rightarrow> 'w listener" where
  "reader_done r s n =
     (upd_session r s n)\<lparr>manager :=
        fold note_gone (drop (length (ss_out (sessions n ! r))) (ss_out s)) (manager n)\<rparr>"

definition tidy :: "sm_task \<Rightarrow> 'w listener \<Rightarrow> 'w listener" where
  "tidy t n = n\<lparr>manager := snd (run_sm_task t
     ((manager n)\<lparr>sm_tasks := remove1 t (sm_tasks (manager n))\<rparr>))\<rparr>"

text \<open>The steps: a datagram arrives, the thread moves, a reader runs, a task runs, a session is closed.\<close>

inductive li_step :: "'w client \<Rightarrow> 'w listener \<Rightarrow> 'w listener \<Rightarrow> bool" for client where
  Arrives: "li_step client n (monitorServer d n)"
| Takes: "thread n = Polling \<Longrightarrow> li_step client n (take_one client rnd n)"
| Looks: "thread n = Waited \<Longrightarrow> li_step client n (look_again n)"
| Leaves: "thread n = Leaving \<Longrightarrow> li_step client n (leave n)"
| Reads: "r < length (sessions n) \<Longrightarrow>
    readerTask fuel env servers ws (sessions n ! r) = Some (Inr (ws', s)) \<Longrightarrow>
    li_step client n (reader_done r s n)"
| Tidies: "t \<in> set (sm_tasks (manager n)) \<Longrightarrow> li_step client n (tidy t n)"
| Closes: "r < length (sessions n) \<Longrightarrow> li_step client n (upd_session r (ss_close (sessions n ! r)) n)"

inductive_cases li_stepE: "li_step client n n'"

inductive li_reach :: "'w client \<Rightarrow> 'w listener \<Rightarrow> 'w listener \<Rightarrow> bool" for client n0 where
  Init: "li_reach client n0 n0"
| Step: "li_reach client n0 n \<Longrightarrow> li_step client n n' \<Longrightarrow> li_reach client n0 n'"

section \<open>What the application asks\<close>

text \<open>
  \<open>getDataLen\<close> gives the session of a source and id; \<open>getData\<close> waits for its next message
  (\<open>getData_call\<close>), then tells it that no more is read and forgets the source (\<open>getData_return\<close>).
\<close>

definition getDataLen :: "jint \<Rightarrow> data_model \<Rightarrow> jlong \<Rightarrow> 'w listener \<Rightarrow> nat \<times> 'w listener" where
  "getDataLen rnd d i n =
     (let key = source_key (dm_srcIP d) (dm_srcPort d)
      in case createcreateSessionMap key n of
           (single, n1) \<Rightarrow>
             (case sm_get single i of
                Some r \<Rightarrow> (r, n1)
              | None \<Rightarrow> createSession rnd key single d i n1))"

definition getData_call :: "jint \<Rightarrow> data_model \<Rightarrow> jlong \<Rightarrow> 'w listener \<Rightarrow> nat \<times> 'w listener" where
  "getData_call rnd d i n =
     (case getDataLen rnd d i n of
        (r, n1) \<Rightarrow> (r, upd_session r (ss_read_wait (sessions n1 ! r)) n1))"

definition getData_return :: "data_model \<Rightarrow> nat \<Rightarrow> 'w listener \<Rightarrow> 'w listener" where
  "getData_return d r n =
     li_remove (source_key (dm_srcIP d) (dm_srcPort d))
       (upd_session r (ss_setCall (sessions n ! r)) n)"

text \<open>
  \<open>ClientSession.read\<close> asks its listener with the source address of the base class \<open>Session\<close>, which a
  client session never sets: the host is null, whose text is \<open>null\<close>, and the port 0.
\<close>

definition unset_source :: "string \<Rightarrow> int \<Rightarrow> data_model" where
  "unset_source lIP lPort = \<lparr>dm_srcIP = ''null'', dm_srcPort = 0, dm_localIP = lIP,
     dm_localPort = lPort, dm_data = None, dm_netType = 0\<rparr>"

definition cs_read :: "jint \<Rightarrow> string \<Rightarrow> int \<Rightarrow> jlong \<Rightarrow> 'w listener \<Rightarrow> nat \<times> 'w listener" where
  "cs_read rnd lIP lPort i n = getData_call rnd (unset_source lIP lPort) i n"

end
