(* ===== verification/ClientSide.thy ===== *)
theory ClientSide
  imports Pools Listener
begin

text \<open>
  A sending session at work: what it sends, its thread that receives datagrams
  (\<open>Sessions/ClientSession.java\<close>) and gives them to its own listener, and the reads of the
  application (\<open>NetProtocol/judpClient.java\<close>). The listener's own state is the static state of the
  sending side.
\<close>

section \<open>State\<close>

text \<open>What the environment is: the network, the clock, the data directory, the packet size, the
  deserialisation of stored values.\<close>

record client_env =
  ce_net :: net_env
  ce_now :: string
  ce_dir :: string
  ce_stream :: int
  ce_deser :: "jbyte list \<Rightarrow> unit jval option"

record client_side =
  cl_ref :: nat
  cl_listener :: "world listener"
  cl_localIP :: "string option"
  cl_localPort :: int

definition new_client_side :: "nat \<Rightarrow> world \<Rightarrow> client_side" where
  "new_client_side r w = \<lparr>cl_ref = r, cl_listener = new_ListenerData new_ServerManager w,
     cl_localIP = None, cl_localPort = 0\<rparr>"

definition cl_world :: "client_side \<Rightarrow> world" where
  "cl_world c = own (cl_listener c)"

definition cl_session :: "client_side \<Rightarrow> client_session" where
  "cl_session c = w_sess (cl_world c) (cl_ref c)"

definition upd_listener :: "(world listener \<Rightarrow> world listener) \<Rightarrow> client_side \<Rightarrow> client_side" where
  "upd_listener f c = c\<lparr>cl_listener := f (cl_listener c)\<rparr>"

definition upd_own :: "(world \<Rightarrow> world) \<Rightarrow> client_side \<Rightarrow> client_side" where
  "upd_own f = upd_listener (\<lambda>n. n\<lparr>own := f (own n)\<rparr>)"

text \<open>The listener of a client session gives it the acknowledgements.\<close>

definition client_of :: "client_env \<Rightarrow> nat \<Rightarrow> world client" where
  "client_of ce r = Some (\<lambda>rc w. cs_addData (ce_net ce) (ce_now ce) (ce_dir ce) (ce_stream ce) (ce_deser ce) r rc w)"

section \<open>Receiving\<close>

text \<open>A received datagram: of the model's fields only the source and the data are set.\<close>

definition recCall_model :: "datagram \<Rightarrow> data_model" where
  "recCall_model g = (case g of (a, p, d) \<Rightarrow>
     \<lparr>dm_srcIP = a, dm_srcPort = p, dm_localIP = ''null'', dm_localPort = 0, dm_data = Some d, dm_netType = 0\<rparr>)"

definition recCall :: "datagram option \<Rightarrow> client_side \<Rightarrow> exn option \<times> client_side" where
  "recCall incoming c =
     (let s = cl_session c
      in case getCallData incoming (cs_client s) of
           Inl e \<Rightarrow> (Some e, c)
         | Inr None \<Rightarrow> (None, c)
         | Inr (Some g) \<Rightarrow>
             (let c1 = c\<lparr>cl_localIP := localAddr (cs_client s), cl_localPort := localPort (cs_client s)\<rparr>
              in if recData s then (None, upd_listener (monitorServer (recCall_model g)) c1)
                 else (Some NullPointer, c1)))"

definition stop_receiving :: "client_side \<Rightarrow> client_side" where
  "stop_receiving c = upd_own (upd_sess (cl_ref c) (\<lambda>s. s\<lparr>recThread := False\<rparr>)) c"

text \<open>A turn of the thread; an exception ends it.\<close>

definition receive_turn :: "datagram option \<Rightarrow> client_side \<Rightarrow> client_side" where
  "receive_turn incoming c =
     (if cs_isClose (cl_session c) then stop_receiving c
      else case recCall incoming c of
             (Some _, c1) \<Rightarrow> stop_receiving c1
           | (None, c1) \<Rightarrow> c1)"

section \<open>Reading\<close>

text \<open>The address a client session asks its listener for: never set, and its local address.\<close>

definition asked_source :: "client_side \<Rightarrow> data_model" where
  "asked_source c = unset_source (host_text (cl_localIP c)) (cl_localPort c)"

text \<open>\<open>read\<close>: the call waits at a session of the listener; it returns with what was handed, or null after
  a minute.\<close>

definition client_read :: "jint \<Rightarrow> client_side \<Rightarrow> nat result \<times> client_side" where
  "client_read rnd c =
     (if \<not> recData (cl_session c) then (Inl NullPointer, c)
      else case cs_read rnd (host_text (cl_localIP c)) (cl_localPort c) (cs_id (cl_session c)) (cl_listener c) of
             (q, n) \<Rightarrow> (Inr q, c\<lparr>cl_listener := n\<rparr>))"

definition client_read_return :: "nat \<Rightarrow> client_side \<Rightarrow> client_side" where
  "client_read_return q c = upd_listener (getData_return (asked_source c) q) c"

definition client_read_timeout :: "nat \<Rightarrow> client_side \<Rightarrow> client_side" where
  "client_read_timeout q c =
     client_read_return q (upd_listener (\<lambda>n. upd_session q (ss_read_timeout (sessions n ! q)) n) c)"

text \<open>\<open>read(len)\<close>: the data and their length; at the end of a message the session is told, and forgotten
  with its source.\<close>

definition cs_read_len :: "jint \<Rightarrow> int \<Rightarrow> client_side \<Rightarrow> (jbyte list option \<times> int) result \<times> client_side" where
  "cs_read_len rnd len c =
     (if \<not> recData (cl_session c) then (Inl NullPointer, c)
      else case getDataLen rnd (asked_source c) (cs_id (cl_session c)) (cl_listener c) of
             (q, n) \<Rightarrow>
               (case ss_read_len len (sessions n ! q) of
                  Inl e \<Rightarrow> (Inl e, c\<lparr>cl_listener := n\<rparr>)
                | Inr (data, l, s) \<Rightarrow>
                    (Inr (data, l), c\<lparr>cl_listener :=
                       (if l = -1
                        then li_remove (source_key (ss_srcIP s) (ss_srcPort s)) (upd_session q (ss_setCall s) n)
                        else upd_session q s n)\<rparr>)))"

section \<open>The application\<close>

text \<open>\<open>getCallBackData()\<close>: the call, and its result from what \<open>read\<close> returned, None for null.\<close>

definition jc_getCallBackData :: "judp_client \<Rightarrow> jint \<Rightarrow> client_side \<Rightarrow> nat result \<times> client_side" where
  "jc_getCallBackData jc rnd c =
     (case jc_session jc of None \<Rightarrow> (Inl NullPointer, c) | Some _ \<Rightarrow> client_read rnd c)"

definition jc_callBack_result :: "jbyte list option option \<Rightarrow> jbyte list option" where
  "jc_callBack_result handed = (case handed of None \<Rightarrow> None | Some netData \<Rightarrow> netData)"

text \<open>\<open>getCallBackData(data)\<close>: the number of bytes and the array. At the end of a message the data are null.\<close>

definition jc_getCallBackData_into :: "judp_client \<Rightarrow> jint \<Rightarrow> jbyte list option \<Rightarrow> client_side \<Rightarrow>
    (int \<times> jbyte list option) result \<times> client_side" where
  "jc_getCallBackData_into jc rnd dst c =
     (case dst of
        None \<Rightarrow> (Inr (0, dst), c)
      | Some [] \<Rightarrow> (Inr (0, dst), c)
      | Some bs \<Rightarrow>
          (case jc_session jc of
             None \<Rightarrow> (Inl NullPointer, c)
           | Some _ \<Rightarrow>
               (case cs_read_len rnd (int (length bs)) c of
                  (Inl e, c1) \<Rightarrow> (Inl e, c1)
                | (Inr (None, _), c1) \<Rightarrow> (Inl NullPointer, c1)
                | (Inr (Some d, _), c1) \<Rightarrow>
                    (bindR (arraycopy d 0 bs 0 (int (length d))) (\<lambda>bs1. Inr (int (length d), Some bs1)), c1))))"

section \<open>The steps of a client\<close>

definition client_send :: "client_env \<Rightarrow> jlong \<Rightarrow> string option \<Rightarrow> int \<Rightarrow> jbyte list option \<Rightarrow> client_side \<Rightarrow>
    exn option \<times> client_side" where
  "client_send ce ident ip port data c =
     (case cs_sendData (ce_net ce) (ce_now ce) (ce_dir ce) (ce_stream ce) (cl_ref c) ident ip port data (cl_world c) of
        (e, w) \<Rightarrow> (e, upd_own (\<lambda>_. w) c))"

text \<open>The hosts of datagrams are addresses, whose text does not begin with a letter n.\<close>

definition address_text :: "string \<Rightarrow> bool" where
  "address_text a \<longleftrightarrow> (case a of [] \<Rightarrow> False | ch # _ \<Rightarrow> ch \<noteq> CHR ''n'')"

inductive cl_step :: "client_env \<Rightarrow> client_side \<Rightarrow> client_side \<Rightarrow> bool" for ce where
  Sends: "cl_step ce c (snd (client_send ce ident ip port data c))"
| Closes: "cl_step ce c (upd_own (\<lambda>w. snd (cs_close (ce_net ce) (cl_ref c) w)) c)"
| Expires: "cl_step ce c (upd_own (upd_sess (cl_ref c) (\<lambda>s. s\<lparr>logicalClose := True\<rparr>)) c)"
| Bounds: "cl_step ce c (upd_own memoryRemove c)"
| Receives: "recThread (cl_session c) \<Longrightarrow> (case incoming of None \<Rightarrow> True | Some (a, _) \<Rightarrow> address_text a) \<Longrightarrow>
    cl_step ce c (receive_turn incoming c)"
| Takes: "thread (cl_listener c) = Polling \<Longrightarrow>
    cl_step ce c (upd_listener (take_one (client_of ce (cl_ref c)) rnd) c)"
| Looks: "thread (cl_listener c) = Waited \<Longrightarrow> cl_step ce c (upd_listener look_again c)"
| Leaves: "thread (cl_listener c) = Leaving \<Longrightarrow> cl_step ce c (upd_listener leave c)"
| Reads: "q < length (sessions (cl_listener c)) \<Longrightarrow> isStartData (sessions (cl_listener c) ! q) \<Longrightarrow>
    readerTask fuel env servers ws (sessions (cl_listener c) ! q) = Some (Inr (ws', s)) \<Longrightarrow>
    cl_step ce c (upd_listener (reader_done q s) c)"
| Tidies: "t \<in> set (sm_tasks (manager (cl_listener c))) \<Longrightarrow> cl_step ce c (upd_listener (tidy t) c)"
| Asks: "cl_step ce c (snd (jc_getCallBackData jc rnd c))"
| Returns: "q < length (sessions (cl_listener c)) \<Longrightarrow> cl_step ce c (client_read_return q c)"
| Times_out: "q < length (sessions (cl_listener c)) \<Longrightarrow> cl_step ce c (client_read_timeout q c)"
| Asks_len: "cl_step ce c (snd (jc_getCallBackData_into jc rnd dst c))"

inductive cl_reach :: "client_env \<Rightarrow> client_side \<Rightarrow> client_side \<Rightarrow> bool" for ce c0 where
  Init: "cl_reach ce c0 c0"
| Step: "cl_reach ce c0 c \<Longrightarrow> cl_step ce c c' \<Longrightarrow> cl_reach ce c0 c'"

end
