(* ===== verification/SenderFrame.thy ===== *)
theory SenderFrame
  imports Sender
begin

text \<open>
  What sending leaves alone: a relation between worlds that the steps of sending keep is kept by a
  whole message, and by the answer to a request for a missing packet. The contract is interpreted on
  two relations: a closed socket stays closed and puts nothing on the wire, and the flags of the
  session and all other sessions stay as they are.
\<close>

section \<open>The contract\<close>

text \<open>The updates of a session that sending makes: of its caches and its destination only.\<close>

definition book :: "(client_session \<Rightarrow> client_session) \<Rightarrow> bool" where
  "book f \<longleftrightarrow> (\<forall>s. \<exists>c q ip p. f s = s\<lparr>mapCache := c, mapInitSeq := q, cs_srcIP := ip, cs_port := p\<rparr>)"

lemma bookI:
  "(\<And>s. f s = s\<lparr>mapCache := mapCache (f s), mapInitSeq := mapInitSeq (f s), cs_srcIP := cs_srcIP (f s),
     cs_port := cs_port (f s)\<rparr>) \<Longrightarrow> book f"
  unfolding book_def by blast

lemma book_keeps:
  assumes "book f"
  shows "cs_id (f s) = cs_id s" "clientNum (f s) = clientNum s" "cs_client (f s) = cs_client s"
    "initRec (f s) = initRec s" "cs_isClose (f s) = cs_isClose s" "logicalClose (f s) = logicalClose s"
    "recData (f s) = recData s" "cs_shutdown (f s) = cs_shutdown s" "recThread (f s) = recThread s"
proof -
  obtain c q ip p where "f s = s\<lparr>mapCache := c, mapInitSeq := q, cs_srcIP := ip, cs_port := p\<rparr>"
    using assms unfolding book_def by blast
  then show "cs_id (f s) = cs_id s" "clientNum (f s) = clientNum s" "cs_client (f s) = cs_client s"
    "initRec (f s) = initRec s" "cs_isClose (f s) = cs_isClose s" "logicalClose (f s) = logicalClose s"
    "recData (f s) = recData s" "cs_shutdown (f s) = cs_shutdown s" "recThread (f s) = recThread s" by simp_all
qed

locale sending_relation =
  fixes R :: "nat \<Rightarrow> world \<Rightarrow> world \<Rightarrow> bool"
  assumes same: "R r w w"
    and then_: "R r w w1 \<Longrightarrow> R r w1 w2 \<Longrightarrow> R r w w2"
    and transmit: "cs_transmit env r ip port data w = (e, w') \<Longrightarrow> R r w w'"
    and start: "cs_startThread r w = (e, w') \<Longrightarrow> R r w w'"
    and books: "book f \<Longrightarrow> R r w (upd_sess r f w)"
    and account: "R r w (addSessionData now dir sid pid len w)"
    and number: "R r w (w\<lparr>w_ids := ids\<rparr>)"
begin

lemma packet_kept:
  assumes "send_packet env now dir r ident ip port initseq pid sz d w = (e, w')"
  shows "R r w w'"
proof (cases "createNetPackaget ident (cs_id (w_sess w r)) initseq pid (of_int sz) (Some d)")
  case (Inl x)
  then show ?thesis using assms same by (simp add: send_packet_def)
next
  case (Inr bytes)
  obtain e1 w1 where t: "cs_transmit env r ip port bytes w = (e1, w1)" by fastforce
  note k = transmit [OF t]
  show ?thesis
  proof (cases "e1 = None \<and> bytes \<noteq> None")
    case False
    then show ?thesis using assms Inr t k by (cases e1; cases bytes) (auto simp: send_packet_def)
  next
    case True
    then obtain bs where bs: "bytes = Some bs" by blast
    let ?f = "\<lambda>s. s\<lparr>mapCache := (mapCache s)(pid \<mapsto> bs)\<rparr>"
    have "book ?f" by (rule bookI) simp
    moreover have "w' = addSessionData now dir (cs_id (w_sess w1 r)) pid (int (length bs)) (upd_sess r ?f w1)"
      using assms Inr t True bs by (simp add: send_packet_def)
    ultimately show ?thesis using then_ [OF then_ [OF k books] account] by simp
  qed
qed

lemma loop_kept:
  "sendLoop env now dir r ident ip port initseq pid sz index subs w = (e, w') \<Longrightarrow> R r w w'"
proof (induction subs arbitrary: pid index w)
  case Nil
  then show ?case by (simp add: same)
next
  case (Cons d ds)
  obtain e1 w1 where p: "send_packet env now dir r ident ip port initseq pid sz d w = (e1, w1)" by fastforce
  note k = packet_kept [OF p]
  show ?case
  proof (cases "e1 = None \<and> 0 < index - 1")
    case True
    obtain q ids where g: "getInstanceID r (w_ids w1) = (q, ids)" by fastforce
    have "R r (w1\<lparr>w_ids := ids\<rparr>) w'" using Cons.IH [of q "index - 1"] Cons.prems p g True by simp
    then show ?thesis using then_ [OF then_ [OF k number]] by blast
  next
    case False
    then show ?thesis using Cons.prems p k by (cases e1) auto
  qed
qed

lemma request_kept:
  assumes "request_ack env r ident ip port initseq sz w = (e, w')"
  shows "R r w w'"
  using assms transmit by (auto simp: request_ack_def createAckPackaget_eq)

lemma sendData_kept:
  assumes "cs_sendData env now dir ss r ident ip port data w = (e, w')"
  shows "R r w w'"
proof (cases "\<exists>subs. subData ss data = Inr (Some subs) \<and> data \<noteq> None")
  case False
  then have "w' = w" using assms by (auto simp: cs_sendData_def split: option.splits sum.splits)
  then show ?thesis using same by simp
next
  case True
  then obtain subs where subs: "subData ss data = Inr (Some subs)" "data \<noteq> None" by blast
  obtain v ids where g: "getInstanceID r (w_ids w) = (v, ids)" by fastforce
  let ?n = "int (length subs)"
  let ?f = "\<lambda>s. s\<lparr>mapInitSeq := AList.update v ?n (mapInitSeq s), cs_srcIP := ip, cs_port := port\<rparr>"
  let ?w = "upd_sess r ?f (w\<lparr>w_ids := ids\<rparr>)"
  have "book ?f" by (rule bookI) simp
  then have k: "R r w ?w" using then_ [OF number books] by blast
  obtain e2 w2 where l: "sendLoop env now dir r ident ip port v v ?n ?n subs ?w = (e2, w2)" by fastforce
  note k2 = then_ [OF k loop_kept [OF l]]
  obtain e3 w3 where t: "cs_startThread r w2 = (e3, w3)" by fastforce
  note k3 = then_ [OF k2 start [OF t]]
  show ?thesis
  proof (cases "e2 = None \<and> e3 = None")
    case True
    then have "request_ack env r ident ip port v ?n w3 = (e, w')"
      using assms subs g l t by (auto simp: cs_sendData_def Let_def)
    then show ?thesis using then_ [OF k3 request_kept] by blast
  next
    case False
    then have "w' = w2 \<or> w' = w3" using assms subs g l t
      by (cases e2; cases e3) (auto simp: cs_sendData_def Let_def)
    then show ?thesis using k2 k3 by blast
  qed
qed

lemma missing_kept:
  assumes "ack_missing env now dir ss deser r ident pid w = (e, w')"
  shows "R r w w'"
  using assms same sendData_kept by (auto simp: ack_missing_def Let_def split: sum.splits)

end

section \<open>A closed socket\<close>

definition shut :: "nat \<Rightarrow> world \<Rightarrow> bool" where
  "shut r w \<longleftrightarrow> (case u_socket (cs_client (w_sess w r)) of None \<Rightarrow> False | Some sk \<Rightarrow> sock_closed sk)"

definition silent :: "nat \<Rightarrow> world \<Rightarrow> world \<Rightarrow> bool" where
  "silent r w w' \<longleftrightarrow> (shut r w \<longrightarrow> shut r w' \<and> w_net w' = w_net w)"

lemma shut_cong: "w_sess w r = w_sess w' r \<Longrightarrow> shut r w = shut r w'"
  by (simp add: shut_def)

lemma udp_closed:
  assumes "u_socket c = Some sk" and "sock_closed sk" and "udp_sendData env ip port data c = (e, out, c')"
  shows "out = [] \<and> c' = c"
  using assms by (auto simp: udp_sendData_def open_socket_def Let_def split: option.splits if_splits)

lemma cs_transmit_silent:
  assumes "cs_transmit env r ip port data w = (e, w')"
  shows "silent r w w'"
  unfolding silent_def
proof
  assume "shut r w"
  then obtain sk where sk: "u_socket (cs_client (w_sess w r)) = Some sk" "sock_closed sk"
    by (auto simp: shut_def split: option.splits)
  obtain e' out c where u: "udp_sendData env ip port data (cs_client (w_sess w r)) = (e', out, c)"
    by (cases "udp_sendData env ip port data (cs_client (w_sess w r))")
  note c = udp_closed [OF sk u]
  show "shut r w' \<and> w_net w' = w_net w" using assms u c sk by (auto simp: cs_transmit_def shut_def)
qed

interpretation closed_socket: sending_relation silent
proof
  show "silent r w (upd_sess r f w)" if "book f" for f r w
    using book_keeps [OF that] by (simp add: silent_def shut_def)
  show "silent r w w'" if "cs_startThread r w = (e, w')" for r w e w'
    using that by (auto simp: silent_def shut_def cs_startThread_def split: if_splits)
  show "silent r w w'" if "cs_transmit env r ip port data w = (e, w')" for env r ip port data w e w'
    using that by (rule cs_transmit_silent)
qed (auto simp: silent_def shut_def)

section \<open>The flags of the session\<close>

text \<open>What the flags are: id, closing, the listener, the pool, the closed mark of the socket.\<close>

definition flags :: "nat \<Rightarrow> world \<Rightarrow> jlong \<times> bool \<times> bool \<times> bool \<times> bool \<times> bool \<times> int" where
  "flags r w = (let s = w_sess w r in (cs_id s, cs_isClose s, logicalClose s, recData s, cs_shutdown s,
     isColse (cs_client s), clientNum s))"

definition flags_kept :: "nat \<Rightarrow> world \<Rightarrow> world \<Rightarrow> bool" where
  "flags_kept r w w' \<longleftrightarrow> flags r w' = flags r w \<and> (initRec (w_sess w r) \<longrightarrow> initRec (w_sess w' r))
     \<and> (recThread (w_sess w r) \<longrightarrow> recThread (w_sess w' r))
     \<and> (\<forall>q. q \<noteq> r \<longrightarrow> w_sess w' q = w_sess w q) \<and> hashMap w' = hashMap w"

lemma udp_flag:
  assumes "udp_sendData env ip port data c = (e, out, c')"
  shows "isColse c' = isColse c"
  using assms by (auto simp: udp_sendData_def open_socket_def Let_def split: option.splits if_splits)

lemma cs_transmit_flags:
  assumes "cs_transmit env r ip port data w = (e, w')"
  shows "flags_kept r w w'"
proof -
  obtain e' out c where u: "udp_sendData env ip port data (cs_client (w_sess w r)) = (e', out, c)"
    by (cases "udp_sendData env ip port data (cs_client (w_sess w r))")
  show ?thesis using assms u udp_flag [OF u] by (auto simp: cs_transmit_def flags_kept_def flags_def Let_def)
qed

interpretation session_flags: sending_relation flags_kept
proof
  show "flags_kept r w w2" if "flags_kept r w w1" "flags_kept r w1 w2" for r w w1 w2
    using that by (auto simp: flags_kept_def)
  show "flags_kept r w (upd_sess r f w)" if "book f" for f r w
    using book_keeps [OF that] by (simp add: flags_kept_def flags_def Let_def)
  show "flags_kept r w w'" if "cs_startThread r w = (e, w')" for r w e w'
    using that by (auto simp: flags_kept_def flags_def cs_startThread_def Let_def split: if_splits)
  show "flags_kept r w w'" if "cs_transmit env r ip port data w = (e, w')" for env r ip port data w e w'
    using that by (rule cs_transmit_flags)
qed (auto simp: flags_kept_def flags_def)

end
