(* ===== verification/UdpServer.thy ===== *)
theory UdpServer
  imports Udp
begin

text \<open>
  The socket of a server (\<open>JNetSocket/UDPServerSocket.java\<close>). \<open>InitServer\<close> opens a socket and starts a
  thread, whose first action is to close that socket: it receives from a channel of its own.
\<close>

section \<open>State\<close>

text \<open>\<open>bindable\<close>: whether a local address, None for all of them, and a port can be bound. \<open>us_channel\<close>: the
  channel is open, bound and registered with the selector.\<close>

record bind_env =
  b_resolves :: "string \<Rightarrow> bool"
  bindable :: "string option \<Rightarrow> int \<Rightarrow> bool"

record udp_server_socket =
  us_socket :: "socket option"
  us_isRuning :: bool
  us_host :: "string option"
  us_port :: int
  us_thread :: bool
  us_channel :: bool

definition new_UDPServerSocket :: udp_server_socket where
  "new_UDPServerSocket = \<lparr>us_socket = None, us_isRuning = True, us_host = None, us_port = 0,
     us_thread = False, us_channel = False\<rparr>"

section \<open>Opening and closing\<close>

definition all_addresses :: "string option \<Rightarrow> bool" where
  "all_addresses host \<longleftrightarrow> host = None \<or> host = Some [] \<or> host = Some ''host''"

definition uss_InitServer :: "bind_env \<Rightarrow> string option \<Rightarrow> int \<Rightarrow> udp_server_socket \<Rightarrow> bool \<times> udp_server_socket" where
  "uss_InitServer env host port s =
     (let opened = s\<lparr>us_socket := Some (Socket port False), us_host := host, us_port := port, us_thread := True\<rparr>
      in if all_addresses host
         then (if bindable env None port then (True, opened) else (False, s))
         else if \<not> b_resolves env (the host) then (False, s)
         else if bindable env host port then (True, opened) else (False, s))"

text \<open>The start of \<open>recviceChannel\<close>. Without a selector, its loop does nothing but print exceptions.\<close>

definition uss_start :: "bind_env \<Rightarrow> udp_server_socket \<Rightarrow> udp_server_socket" where
  "uss_start env s =
     (let s1 = s\<lparr>us_socket := map_option (\<lambda>sk. Socket (sock_port sk) True) (us_socket s)\<rparr>
      in if all_addresses (us_host s)
         then s1\<lparr>us_channel := bindable env None (us_port s)\<rparr>
         else if b_resolves env (the (us_host s))
         then s1\<lparr>us_channel := bindable env (us_host s) (us_port s)\<rparr> else s1)"

text \<open>\<open>close\<close> closes the socket, not the channel, whose loop does not look at \<open>isRuning\<close>.\<close>

definition uss_close :: "udp_server_socket \<Rightarrow> exn option \<times> udp_server_socket" where
  "uss_close s =
     (case us_socket s of
        None \<Rightarrow> (Some NullPointer, s\<lparr>us_isRuning := False\<rparr>)
      | Some sk \<Rightarrow> (None, s\<lparr>us_isRuning := False, us_socket := Some (Socket (sock_port sk) True)\<rparr>))"

section \<open>Sending\<close>

definition uss_sendData :: "net_env \<Rightarrow> string option \<Rightarrow> int \<Rightarrow> jbyte list option \<Rightarrow> udp_server_socket \<Rightarrow>
    exn option \<times> datagram list" where
  "uss_sendData env host port data s =
     (case us_socket s of
        None \<Rightarrow> (None, [])
      | Some sk \<Rightarrow>
          (let h = (case host of None \<Rightarrow> ''localhost'' | Some a \<Rightarrow> a)
           in if \<not> resolves env h then (None, [])
              else case data of
                     None \<Rightarrow> (Some NullPointer, [])
                   | Some d \<Rightarrow>
                       (None, if sock_closed sk \<or> \<not> sendable env (length d) then [] else [(h, port, d)])))"

definition uss_sendData_to :: "net_env \<Rightarrow> (string \<times> int) option \<Rightarrow> jbyte list option \<Rightarrow> udp_server_socket \<Rightarrow>
    exn option \<times> datagram list" where
  "uss_sendData_to env addr data s =
     (case us_socket s of
        None \<Rightarrow> (None, [])
      | Some sk \<Rightarrow>
          (case data of
             None \<Rightarrow> (Some NullPointer, [])
           | Some d \<Rightarrow>
               (case addr of
                  None \<Rightarrow> (Some IllegalArgument, [])
                | Some (a, port) \<Rightarrow>
                    (None, if sock_closed sk \<or> \<not> sendable env (length d) then [] else [(a, port, d)]))))"

section \<open>What becomes of a server socket\<close>

inductive uss_step :: "bind_env \<Rightarrow> udp_server_socket \<Rightarrow> udp_server_socket \<Rightarrow> bool" for env where
  Starts: "us_thread s \<Longrightarrow> uss_step env s (uss_start env s)"
| Closes: "uss_step env s (snd (uss_close s))"

inductive uss_reach :: "bind_env \<Rightarrow> udp_server_socket \<Rightarrow> udp_server_socket \<Rightarrow> bool" for env s0 where
  Init: "uss_reach env s0 s0"
| Step: "uss_reach env s0 s \<Longrightarrow> uss_step env s s' \<Longrightarrow> uss_reach env s0 s'"

inductive_cases uss_stepE: "uss_step env s s'"

lemma uss_start_socket [simp]:
  "us_socket (uss_start env s) = map_option (\<lambda>sk. Socket (sock_port sk) True) (us_socket s)"
  by (simp add: uss_start_def Let_def)

definition dead_socket :: "udp_server_socket \<Rightarrow> bool" where
  "dead_socket s \<longleftrightarrow> (case us_socket s of None \<Rightarrow> True | Some sk \<Rightarrow> sock_closed sk)"

lemma dead_socket_kept:
  "uss_reach env s0 s \<Longrightarrow> dead_socket s0 \<Longrightarrow> dead_socket s"
proof (induction rule: uss_reach.induct)
  case (Step s s')
  then show ?case
    by (auto elim!: uss_stepE simp: dead_socket_def uss_close_def split: option.splits)
qed

lemma dead_socket_silent:
  "dead_socket s \<Longrightarrow> snd (uss_sendData env host port data s) = [] \<and> snd (uss_sendData_to env addr data s) = []"
  by (auto simp: dead_socket_def uss_sendData_def uss_sendData_to_def Let_def split: option.splits)

text \<open>A server socket cannot send: once its thread has started, nothing that it is asked to send goes
  out, in any later state; nor before \<open>InitServer\<close>. And closing it does not stop its receiving: a
  channel that is open stays open.\<close>

theorem server_socket_only_receives:
  assumes "uss_reach env (uss_start env s0) s"
  shows "snd (uss_sendData nenv host port data s) = [] \<and> snd (uss_sendData_to nenv addr data s) = []
    \<and> snd (uss_sendData nenv host port data new_UDPServerSocket) = []
    \<and> us_channel (snd (uss_close s)) = us_channel s"
proof -
  have "dead_socket (uss_start env s0)"
    by (auto simp: dead_socket_def split: option.splits)
  then have d: "dead_socket s" "dead_socket new_UDPServerSocket"
    using dead_socket_kept [OF assms] by (simp_all add: dead_socket_def new_UDPServerSocket_def)
  moreover have "us_channel (snd (uss_close s)) = us_channel s"
    by (auto simp: uss_close_def split: option.splits)
  ultimately show ?thesis using dead_socket_silent by blast
qed

definition open_binds :: bind_env where
  "open_binds = \<lparr>b_resolves = (\<lambda>_. True), bindable = (\<lambda>_ _. True)\<rparr>"

theorem server_socket_only_receives_witness:
  "\<exists>s. uss_reach open_binds (uss_start open_binds (snd (uss_InitServer open_binds None 6000 new_UDPServerSocket))) s
    \<and> us_channel s \<and> us_isRuning s = False
    \<and> snd (uss_sendData \<lparr>resolves = (\<lambda>_. True), sendable = (\<lambda>_. True), free_port = 1\<rparr> None 5 (Some [1]) s) = []"
proof -
  let ?s = "uss_start open_binds (snd (uss_InitServer open_binds None 6000 new_UDPServerSocket))"
  have r: "uss_reach open_binds ?s (snd (uss_close ?s))" by (rule uss_reach.Step [OF uss_reach.Init uss_step.Closes])
  have "us_channel (snd (uss_close ?s)) \<and> us_isRuning (snd (uss_close ?s)) = False"
    by (simp add: uss_start_def uss_InitServer_def all_addresses_def open_binds_def new_UDPServerSocket_def uss_close_def)
  with server_socket_only_receives [OF r] r show ?thesis by blast
qed

end
