(* ===== verification/Server.thy ===== *)
theory Server
  imports Listener UdpServer
begin

text \<open>
  The servers of a process (\<open>NetProtocol/judpServer.java\<close>, \<open>judpSocket.java\<close>) and the sockets they
  receive from (\<open>JNetSocket/UDPServerSocket.java\<close>). Every socket posts its datagrams on one bus, on
  which every server registers a listener of its own; a session that has handed a message on is
  accepted by the server of its port. The event bus is not part of the repository: \<open>delivery\<close> says
  which registered objects a post reaches, given the calls that were made.
\<close>

section \<open>Receiving\<close>

text \<open>\<open>String.split\<close> at a colon: trailing empty parts are dropped, unless there is no colon.\<close>

fun pieces :: "string \<Rightarrow> string list" where
  "pieces [] = [[]]"
| "pieces (c # cs) =
     (if c = CHR '':'' then [] # pieces cs
      else case pieces cs of p # ps \<Rightarrow> (c # p) # ps | [] \<Rightarrow> [[c]])"

definition split_colon :: "string \<Rightarrow> string list" where
  "split_colon s =
     (if CHR '':'' \<in> set s then rev (dropWhile (\<lambda>p. p = []) (rev (pieces s))) else [s])"

text \<open>\<open>Integer.valueOf\<close> of ASCII text, None where it throws.\<close>

fun digits_value :: "nat \<Rightarrow> string \<Rightarrow> nat option" where
  "digits_value acc [] = Some acc"
| "digits_value acc (c # cs) =
     (let k = of_char c in if 48 \<le> k \<and> k \<le> 57 then digits_value (10 * acc + (k - 48)) cs else None)"

definition parse_int :: "string \<Rightarrow> int option" where
  "parse_int s =
     (let (neg, ds) = (case s of [] \<Rightarrow> (False, [])
                       | c # cs \<Rightarrow> if c = CHR ''-'' then (True, cs)
                                   else if c = CHR ''+'' then (False, cs) else (False, s))
      in if ds = [] then None
         else case digits_value 0 ds of
                None \<Rightarrow> None
              | Some n \<Rightarrow>
                  (let i = (if neg then - int n else int n)
                   in if - (2 ^ 31) \<le> i \<and> i < 2 ^ 31 then Some i else None))"

text \<open>
  One turn of \<open>recviceChannel\<close>: the source is read from the text of its address. An exception is
  printed, and the datagram is gone.
\<close>

definition recviceChannel :: "int \<Rightarrow> string \<Rightarrow> string \<Rightarrow> jbyte list \<Rightarrow> data_model option" where
  "recviceChannel port curIP address data =
     (case split_colon (filter (\<lambda>c. c \<noteq> CHR ''/'') address) of
        clientAddress # clientPost # _ \<Rightarrow>
          map_option (\<lambda>p. \<lparr>dm_srcIP = clientAddress, dm_srcPort = p, dm_localIP = curIP,
              dm_localPort = port, dm_data = Some data, dm_netType = 1\<rparr>) (parse_int clientPost)
      | _ \<Rightarrow> None)"

section \<open>The servers\<close>

text \<open>
  A session is named by its listener and its place there; a \<open>judpSocket\<close> holds a session.
\<close>

type_synonym session_ref = "nat \<times> nat"

record judp_server =
  srv_port :: int
  srv_server :: "udp_server_socket option"
  srv_listener :: "nat option"
  srv_queue :: "session_ref list"

record 'w server_world =
  sw_bus :: "(nat, data_model) message_bus"
  sw_manager :: server_manager
  sw_listeners :: "'w listener list"
  sw_servers :: "judp_server list"

type_synonym delivery = "(nat \<times> (nat, data_model) bus_call) list \<Rightarrow> nat \<Rightarrow> nat list"

definition new_judpServer :: judp_server where
  "new_judpServer = \<lparr>srv_port = 0, srv_server = None, srv_listener = None, srv_queue = []\<rparr>"

definition new_world :: "'w server_world" where
  "new_world = \<lparr>sw_bus = new_MessageBus, sw_manager = new_ServerManager, sw_listeners = [], sw_servers = []\<rparr>"

definition srv_addData :: "session_ref \<Rightarrow> judp_server \<Rightarrow> judp_server" where
  "srv_addData x s = s\<lparr>srv_queue := srv_queue s @ [x]\<rparr>"

text \<open>\<open>accept\<close> waits while nothing is there.\<close>

definition srv_accept :: "judp_server \<Rightarrow> (session_ref \<times> judp_server) option" where
  "srv_accept s = (case srv_queue s of [] \<Rightarrow> None | x # xs \<Rightarrow> Some (x, s\<lparr>srv_queue := xs\<rparr>))"

text \<open>\<open>InitServer\<close>: the result is true also when the socket could not be opened.\<close>

definition srv_InitServer :: "'w \<Rightarrow> bind_env \<Rightarrow> string option \<Rightarrow> int \<Rightarrow> nat \<Rightarrow> 'w server_world \<Rightarrow>
    bool \<times> 'w server_world" where
  "srv_InitServer own0 env host port k w =
     (let s = sw_servers w ! k
      in if srv_server s \<noteq> None then (True, w)
         else case uss_InitServer env host port new_UDPServerSocket of
                (ok, sock) \<Rightarrow>
                  (let s1 = s\<lparr>srv_port := port, srv_server := Some sock\<rparr>
                   in if \<not> ok then (True, w\<lparr>sw_servers := (sw_servers w)[k := s1]\<rparr>)
                      else let i = length (sw_listeners w)
                           in (True, w\<lparr>sw_listeners := sw_listeners w @ [new_ListenerData (sw_manager w) own0],
                                       sw_bus := bus_register ''udp'' i (sw_bus w),
                                       sw_manager := addSocket port k (sw_manager w),
                                       sw_servers := (sw_servers w)[k := s1\<lparr>srv_listener := Some i\<rparr>]\<rparr>)))"

text \<open>\<open>close\<close> takes the server off its port and closes its socket; the listener stays registered.\<close>

definition srv_close :: "nat \<Rightarrow> 'w server_world \<Rightarrow> exn option \<times> 'w server_world" where
  "srv_close k w =
     (let s = sw_servers w ! k; w1 = w\<lparr>sw_manager := removeSocket (srv_port s) (sw_manager w)\<rparr>
      in case srv_server s of
           None \<Rightarrow> (None, w1)
         | Some sock \<Rightarrow>
             (case uss_close sock of
                (e, sock1) \<Rightarrow> (e, w1\<lparr>sw_servers := (sw_servers w)[k := s\<lparr>srv_server := Some sock1\<rparr>]\<rparr>)))"

text \<open>
  The contract of a queue between threads: what is put in comes out in the order of the puts, and
  nothing comes out of an empty queue.
\<close>

fun take_n :: "('s \<Rightarrow> ('a \<times> 's) option) \<Rightarrow> nat \<Rightarrow> 's \<Rightarrow> ('a list \<times> 's) option" where
  "take_n out 0 s = Some ([], s)"
| "take_n out (Suc n) s =
     (case out s of None \<Rightarrow> None | Some (x, s1) \<Rightarrow> map_option (\<lambda>(xs, s2). (x # xs, s2)) (take_n out n s1))"

locale fifo =
  fixes items :: "'s \<Rightarrow> 'a list" and enter :: "'a \<Rightarrow> 's \<Rightarrow> 's" and out :: "'s \<Rightarrow> ('a \<times> 's) option"
  assumes items_enter: "items (enter x s) = items s @ [x]"
    and out_empty: "out s = None \<longleftrightarrow> items s = []"
    and items_out: "out s = Some (x, s') \<Longrightarrow> items s = x # items s'"
begin

lemma items_enter_all: "items (fold enter xs s) = items s @ xs"
  by (induction xs arbitrary: s) (simp_all add: items_enter)

lemma take_n_items: "n \<le> length (items s) \<Longrightarrow>
    \<exists>s'. take_n out n s = Some (take n (items s), s') \<and> items s' = drop n (items s)"
proof (induction n arbitrary: s)
  case (Suc n)
  then obtain x s1 where o: "out s = Some (x, s1)" using out_empty by (cases "out s") auto
  then have "items s = x # items s1" by (rule items_out)
  with Suc.prems Suc.IH [of s1] o show ?case by auto
qed simp

lemma out_in_order: "\<exists>s'. take_n out (length (items s) + length xs) (fold enter xs s)
    = Some (items s @ xs, s') \<and> items s' = []"
  using take_n_items [of "length (items s) + length xs" "fold enter xs s"] by (simp add: items_enter_all)

end

interpretation accept_queue: fifo srv_queue srv_addData srv_accept
  by unfold_locales (auto simp: srv_addData_def srv_accept_def split: list.splits)

section \<open>Datagrams and sessions\<close>

text \<open>A post on the bus reaches its listeners one after the other.\<close>

definition post_udp :: "delivery \<Rightarrow> data_model \<Rightarrow> 'w server_world \<Rightarrow> 'w server_world" where
  "post_udp delivery d w =
     (let (b, _) = getBus ''udp'' (sw_bus w); mb = bus_post ''udp'' d (sw_bus w)
      in w\<lparr>sw_bus := mb,
           sw_listeners := fold (\<lambda>i ls. ls[i := monitorServer d (ls ! i)]) (delivery (bus_calls mb) b)
             (sw_listeners w)\<rparr>)"

definition receive :: "delivery \<Rightarrow> int \<Rightarrow> string \<Rightarrow> string \<Rightarrow> jbyte list \<Rightarrow> 'w server_world \<Rightarrow> 'w server_world" where
  "receive delivery port curIP address data w =
     (case recviceChannel port curIP address data of None \<Rightarrow> w | Some d \<Rightarrow> post_udp delivery d w)"

text \<open>The manager is static: every listener works on the one manager.\<close>

definition listener_at :: "nat \<Rightarrow> 'w server_world \<Rightarrow> 'w listener" where
  "listener_at i w = (sw_listeners w ! i)\<lparr>manager := sw_manager w\<rparr>"

definition put_listener :: "nat \<Rightarrow> 'w listener \<Rightarrow> 'w server_world \<Rightarrow> 'w server_world" where
  "put_listener i n w = w\<lparr>sw_listeners := (sw_listeners w)[i := n], sw_manager := manager n\<rparr>"

definition known_port :: "'w server_world \<Rightarrow> int \<Rightarrow> bool" where
  "known_port w port \<longleftrightarrow> getSocket (sw_manager w) port \<noteq> None"

text \<open>What a session's reader did: its server, if there is one, gets the session once per message.\<close>

definition accept_event :: "session_ref \<Rightarrow> ss_event \<Rightarrow> 'w server_world \<Rightarrow> 'w server_world" where
  "accept_event x ev w =
     (case ev of
        Accepted port \<Rightarrow>
          (case getSocket (sw_manager w) port of
             None \<Rightarrow> w
           | Some k \<Rightarrow> w\<lparr>sw_servers := (sw_servers w)[k := srv_addData x (sw_servers w ! k)]\<rparr>)
      | _ \<Rightarrow> w)"

definition world_reader_done :: "nat \<Rightarrow> nat \<Rightarrow> server_session \<Rightarrow> 'w server_world \<Rightarrow> 'w server_world" where
  "world_reader_done i r s w =
     fold (accept_event (i, r)) (drop (length (ss_out (sessions (sw_listeners w ! i) ! r))) (ss_out s))
       (put_listener i (reader_done r s (listener_at i w)) w)"

text \<open>\<open>judpSocket\<close>: both reads wait for the session's next message; the wanted length is ignored.\<close>

definition socket_read :: "session_ref \<Rightarrow> 'w server_world \<Rightarrow> 'w server_world" where
  "socket_read x w =
     (case x of (i, r) \<Rightarrow>
        let n = sw_listeners w ! i
        in w\<lparr>sw_listeners := (sw_listeners w)[i := upd_session r (ss_read_wait (sessions n ! r)) n]\<rparr>)"

definition socket_read_timeout :: "session_ref \<Rightarrow> 'w server_world \<Rightarrow> 'w server_world" where
  "socket_read_timeout x w =
     (case x of (i, r) \<Rightarrow>
        let n = sw_listeners w ! i
        in w\<lparr>sw_listeners := (sw_listeners w)[i := upd_session r (ss_read_timeout (sessions n ! r)) n]\<rparr>)"

section \<open>The steps of the process\<close>

inductive sw_step :: "delivery \<Rightarrow> 'w server_world \<Rightarrow> 'w server_world \<Rightarrow> bool" for delivery where
  Constructs: "sw_step delivery w (w\<lparr>sw_servers := sw_servers w @ [new_judpServer]\<rparr>)"
| Inits: "k < length (sw_servers w) \<Longrightarrow> sw_step delivery w (snd (srv_InitServer own0 env host port k w))"
| Closes_server: "k < length (sw_servers w) \<Longrightarrow> sw_step delivery w (snd (srv_close k w))"
| Starts_socket: "k < length (sw_servers w) \<Longrightarrow> srv_server (sw_servers w ! k) = Some sock \<Longrightarrow> us_thread sock \<Longrightarrow>
    sw_step delivery w (w\<lparr>sw_servers := (sw_servers w)[k :=
      (sw_servers w ! k)\<lparr>srv_server := Some (uss_start env sock)\<rparr>]\<rparr>)"
| Accepts: "k < length (sw_servers w) \<Longrightarrow> srv_accept (sw_servers w ! k) = Some (x, s) \<Longrightarrow>
    sw_step delivery w (w\<lparr>sw_servers := (sw_servers w)[k := s]\<rparr>)"
| Receives: "sw_step delivery w (receive delivery port curIP address data w)"
| Takes: "i < length (sw_listeners w) \<Longrightarrow> thread (sw_listeners w ! i) = Polling \<Longrightarrow>
    sw_step delivery w (put_listener i (take_one None rnd (listener_at i w)) w)"
| Looks: "i < length (sw_listeners w) \<Longrightarrow> thread (sw_listeners w ! i) = Waited \<Longrightarrow>
    sw_step delivery w (put_listener i (look_again (listener_at i w)) w)"
| Leaves: "i < length (sw_listeners w) \<Longrightarrow> thread (sw_listeners w ! i) = Leaving \<Longrightarrow>
    sw_step delivery w (put_listener i (leave (listener_at i w)) w)"
| Reads: "i < length (sw_listeners w) \<Longrightarrow> r < length (sessions (sw_listeners w ! i)) \<Longrightarrow>
    readerTask fuel env (known_port w) ws (sessions (sw_listeners w ! i) ! r) = Some (Inr (ws', s)) \<Longrightarrow>
    sw_step delivery w (world_reader_done i r s w)"
| Tidies: "t \<in> set (sm_tasks (sw_manager w)) \<Longrightarrow>
    sw_step delivery w (w\<lparr>sw_manager := snd (run_sm_task t
      ((sw_manager w)\<lparr>sm_tasks := remove1 t (sm_tasks (sw_manager w))\<rparr>))\<rparr>)"
| Reads_socket: "i < length (sw_listeners w) \<Longrightarrow> r < length (sessions (sw_listeners w ! i)) \<Longrightarrow>
    sw_step delivery w (socket_read (i, r) w)"
| Times_out: "i < length (sw_listeners w) \<Longrightarrow> r < length (sessions (sw_listeners w ! i)) \<Longrightarrow>
    sw_step delivery w (socket_read_timeout (i, r) w)"

inductive sw_reach :: "delivery \<Rightarrow> 'w server_world \<Rightarrow> 'w server_world \<Rightarrow> bool" for delivery w0 where
  Init: "sw_reach delivery w0 w0"
| Step: "sw_reach delivery w0 w \<Longrightarrow> sw_step delivery w w' \<Longrightarrow> sw_reach delivery w0 w'"

end
