(* ===== verification/SessionFrame.thy ===== *)
theory SessionFrame
  imports Receiver "HOL-Library.Sublist"
begin

text \<open>
  What the reader of a session cannot change. A relation between session states that is a preorder
  and contains the elementary changes (arrivals, and the fields the reader works with) contains a
  whole run of the reader's task; the proof is done once, in a locale, and used for the identity of
  the session and for its closing flags.
\<close>

section \<open>Relations that hold along a run\<close>

locale session_relation =
  fixes R :: "server_session \<Rightarrow> server_session \<Rightarrow> bool"
  assumes stay: "R s s"
    and chain: "R s t \<Longrightarrow> R t u \<Longrightarrow> R s u"
    and arrive1: "R s (arrive1 a s)"
    and heap: "R s (s\<lparr>heap := h\<rparr>)"
    and buf: "R s (s\<lparr>buf := bs\<rparr>)"
    and buffer: "R s (s\<lparr>buffer := b\<rparr>)"
    and chunk: "R s (s\<lparr>currentChunk := c\<rparr>)"
    and chunks: "R s (s\<lparr>chunks := cs\<rparr>)"
    and null: "R s (s\<lparr>readNull := k\<rparr>)"
    and zero: "R s (s\<lparr>zeroRead := k\<rparr>)"
    and zeroNum: "R s (s\<lparr>zeroNum := z\<rparr>)"
    and len: "R s (s\<lparr>readLen := k\<rparr>)"
    and index: "R s (s\<lparr>readbufIndex := k\<rparr>)"
    and num: "R s (s\<lparr>bufNum := k\<rparr>)"
    and state: "R s (s\<lparr>readState := k\<rparr>)"
    and initseq: "R s (s\<lparr>readInitSeq := i\<rparr>)"
    and lastseq: "R s (s\<lparr>lastInitSeq := i\<rparr>)"
    and wait: "R s (s\<lparr>consumers := n\<rparr>)"
    and data: "R s (s\<lparr>isStartData := z\<rparr>)"
    and out: "R s (s\<lparr>ss_out := ss_out s @ evs\<rparr>)"
    and closed: "R s (s\<lparr>ss_isClose := True\<rparr>)"
    and shut: "R s (s\<lparr>ss_shutdown := True\<rparr>)"
begin

lemmas fields = heap buf buffer chunk chunks null zero zeroNum len index num state initseq lastseq
  wait data closed shut

lemma arrive: "R s (arrive w s)"
  by (induction w arbitrary: s) (auto simp: arrive_def stay intro: chain [OF arrive1])

lemma tick: "tick ws s = (ws', s') \<Longrightarrow> R s s'"
  by (cases ws) (auto simp: stay arrive)

lemma timedPoll: "timedPoll b ws s = Inr (r, ws', s') \<Longrightarrow> R s s'"
  by (auto simp: timedPoll_def bindR_Inr_iff split: prod.splits intro: chain [OF tick heap])

lemma request_missing: "request_missing env b s = Inr s' \<Longrightarrow> R s s'"
  by (auto simp: request_missing_eq stay intro: out split: prod.splits option.splits)

lemma waitChunk: "waitChunk env b ws s = Inr (ws', s') \<Longrightarrow> R s s'"
proof (induction env b ws s rule: waitChunk.induct)
  case (1 env b ws s)
  obtain r ws1 s1 where tp: "timedPoll b ws s = Inr (r, ws1, s1)"
    using "1.prems" by (subst (asm) waitChunk.simps) (auto split: sum.splits)
  note s1 = timedPoll [OF tp]
  show ?case
  proof (cases r)
    case (Some d)
    then show ?thesis
      using "1.prems" tp chain [OF s1 chunk] by (subst (asm) waitChunk.simps) auto
  next
    case None
    obtain s2 where rm: "request_missing env b (s1\<lparr>readNull := readNull s1 + 1\<rparr>) = Inr s2"
      using "1.prems" tp None by (subst (asm) waitChunk.simps) (auto split: sum.splits)
    have s2: "R s s2" using chain [OF chain [OF s1 null] request_missing [OF rm]] .
    show ?thesis
    proof (cases "10 < readNull s2")
      case True
      then show ?thesis using "1.prems" tp None rm s2 by (subst (asm) waitChunk.simps) auto
    next
      case False
      then have "waitChunk env b ws1 s2 = Inr (ws', s')"
        using "1.prems" tp None rm by (subst (asm) waitChunk.simps) auto
      then have "R s2 s'" using "1.IH" tp None rm False by blast
      then show ?thesis using s2 chain by blast
    qed
  qed
qed

lemma updateCurrentChunk: "updateCurrentChunk env block b ws s = Inr (ws', s') \<Longrightarrow> R s s'"
proof -
  assume u: "updateCurrentChunk env block b ws s = Inr (ws', s')"
  show ?thesis
  proof (cases "currentChunk s")
    case None
    then obtain r ws1 s1 where t: "timedPoll b ws s = Inr (r, ws1, s1)"
      using u by (auto simp: updateCurrentChunk_def split: sum.splits)
    note s1 = timedPoll [OF t]
    have "R s1 (s1\<lparr>currentChunk := r, zeroRead := zeroRead s1 + 1\<rparr>)" by (rule chain [OF chunk zero])
    then show ?thesis
      using u None t s1 chain [OF s1] chunk waitChunk
      by (auto simp: updateCurrentChunk_def split: if_splits option.splits)
  qed (use u stay in \<open>simp add: updateCurrentChunk_def\<close>)
qed

lemma take_chunk: "R s (take_chunk d data s)"
proof -
  let ?a = "s\<lparr>chunks := chunks s @ [data]\<rparr>"
  let ?b = "?a\<lparr>readLen := readLen s + int (length data)\<rparr>"
  let ?c = "?b\<lparr>readInitSeq := intSequenceNumber d\<rparr>"
  let ?d = "?c\<lparr>currentChunk := None\<rparr>"
  let ?e = "?d\<lparr>readNull := 0\<rparr>"
  have "R s ?b" by (rule chain [OF chunks len])
  from chain [OF this chain [OF initseq chunk]] have "R s ?d" .
  from chain [OF this chain [OF null zeroNum]] show ?thesis unfolding take_chunk_def .
qed

lemma drain: "drain n env b ws s len = Some (Inr (ws', s', len')) \<Longrightarrow> R s s'"
proof (induction n arbitrary: ws s len)
  case (Suc n)
  show ?case
  proof (cases "currentChunk s")
    case (Some d)
    obtain data where data: "ad_data d = Some data"
      using Suc.prems Some by (auto split: option.splits)
    obtain ws1 s1 where t: "Receiver.tick ws (Receiver.take_chunk d data s) = (ws1, s1)" by fastforce
    have s1: "R s s1" by (rule chain [OF take_chunk tick [OF t]])
    show ?thesis
    proof (cases "isEmpty (heap s1 ! b)")
      case True
      then show ?thesis using Suc.prems Some data t s1 by (simp add: Let_def)
    next
      case False
      then obtain ws2 s2 where u: "Receiver.updateCurrentChunk env True b ws1 s1 = Inr (ws2, s2)"
        "Receiver.drain n env b ws2 s2 (len + int (length data)) = Some (Inr (ws', s', len'))"
        using Suc.prems Some data t by (auto simp: Let_def split: sum.splits)
      show ?thesis by (rule chain [OF chain [OF s1 updateCurrentChunk [OF u(1)]] Suc.IH [OF u(2)]])
    qed
  qed (use Suc.prems stay in simp)
qed simp

lemma clear_buffer: "R s (clear_buffer b s)"
  by (simp add: clear_buffer_def heap)

lemma readLoop: "readLoop n env b ws s len = Some (Inr (r, ws', s')) \<Longrightarrow> R s s'"
proof (induction n arbitrary: ws s len)
  case (Suc n)
  show ?case
  proof (cases "isCall s")
    case True
    have "R s (Receiver.clear_buffer b (s\<lparr>chunks := []\<rparr>))" by (rule chain [OF chunks clear_buffer])
    then show ?thesis using Suc.prems True by simp
  next
    case False
    then obtain ws1 s1 ws2 s2 len2 where u: "Receiver.updateCurrentChunk env False b ws s = Inr (ws1, s1)"
      "Receiver.drain (Suc n) env b ws1 s1 len = Some (Inr (ws2, s2, len2))"
      using Suc.prems by (simp split: sum.splits option.splits prod.splits del: drain.simps)
    have s2: "R s s2" by (rule chain [OF updateCurrentChunk [OF u(1)] drain [OF u(2)]])
    obtain ws3 s3 where t: "Receiver.tick ws2 s2 = (ws3, s3)" by fastforce
    have s3: "R s s3" by (rule chain [OF s2 tick [OF t]])
    have lost: "R s (Receiver.clear_buffer b (s2\<lparr>ss_isClose := True, chunks := []\<rparr>))"
      by (rule chain [OF chain [OF chain [OF s2 closed] chunks] clear_buffer])
    have all: "R s (s3\<lparr>chunks := []\<rparr>)" by (rule chain [OF s3 chunks])
    show ?thesis
    proof (cases "10 < readNull s2 \<or> isEmpty (heap s3 ! b)")
      case True
      then show ?thesis
        using Suc.prems False u t lost all
        by (auto simp: bindR_Inr_iff simp del: drain.simps split: if_splits)
    next
      case more: False
      then have "Receiver.readLoop n env b ws3 s3 len2 = Some (Inr (r, ws', s'))"
        using Suc.prems False u t by (simp del: drain.simps)
      then show ?thesis using chain [OF s3 Suc.IH] by blast
    qed
  qed
qed simp

lemma load_buffer: "R s (load_buffer s)"
  by (simp add: load_buffer_def buffer)

lemma findBuffer: "findBuffer n w ws s = Some (r, ws', s') \<Longrightarrow> R s s'"
proof (induction n arbitrary: w ws s)
  case (Suc n)
  obtain ws1 s1 where t: "Receiver.tick ws s = (ws1, s1)" by fastforce
  let ?next = "Receiver.load_buffer (s\<lparr>readbufIndex := readbufIndex s + 1\<rparr>)"
  have s1: "R s (Receiver.load_buffer s1)" by (rule chain [OF tick [OF t] load_buffer])
  have next_: "R s ?next" by (rule chain [OF index load_buffer])
  consider "s' = s" | "Receiver.findBuffer n False ws ?next = Some (r, ws', s')"
    | "Receiver.findBuffer n True ws1 (Receiver.load_buffer s1) = Some (r, ws', s')"
    using Suc.prems t by (auto split: option.splits if_splits)
  then show ?case
    by cases (use stay chain [OF s1 Suc.IH] chain [OF next_ Suc.IH] in blast)+
qed simp

lemma readAll:
  assumes "readAll n env ws s = Some (Inr (r, ws', s'))"
  shows "R s s'"
proof -
  let ?s = "s\<lparr>chunks := [], readLen := 0\<rparr>"
  have l: "R s (Receiver.load_buffer ?s)" by (rule chain [OF chain [OF chunks len] load_buffer])
  obtain f ws1 s1 where f: "Receiver.findBuffer n False ws (Receiver.load_buffer ?s) = Some (f, ws1, s1)"
    using assms by (auto simp: readAll_def split: option.splits prod.splits)
  have s1: "R s s1" by (rule chain [OF l findBuffer [OF f]])
  show ?thesis
  proof (cases f)
    case None
    then show ?thesis using assms f s1 by (simp add: readAll_def)
  next
    case (Some b)
    then have "Receiver.readLoop n env b ws1 (s1\<lparr>bufNum := bufNum s1 - 1\<rparr>) 0 = Some (Inr (r, ws', s'))"
      using assms f by (simp add: readAll_def)
    from chain [OF chain [OF s1 num] readLoop [OF this]] show ?thesis .
  qed
qed

lemma emit: "R s (emit ev s)"
  by (simp add: emit_def out)

lemma hand_on: "R s (hand_on servers all s)"
proof -
  define s1 where "s1 = Receiver.emit (Posted (ss_localPort s) all) (s\<lparr>readState := readState s + 1\<rparr>)"
  define s2 where "s2 = (if consumers s1 = 0 then s1
    else Receiver.emit (Transferred all) (s1\<lparr>consumers := consumers s1 - 1\<rparr>))"
  have s1: "R s s1" unfolding s1_def by (rule chain [OF state emit])
  have "R s s2" unfolding s2_def using s1 chain [OF s1 chain [OF wait emit]] by simp
  from this chain [OF this emit] show ?thesis
    unfolding hand_on_def Let_def s1_def [symmetric] s2_def [symmetric] by simp
qed

lemma acknowledge: "R s (acknowledge env s)"
  by (auto simp: acknowledge_def createAckPackaget_eq stay intro: chain [OF out lastseq]
      split: prod.split option.split)

lemma free_slot: "R s (free_slot s)"
proof -
  define s1 where "s1 = s\<lparr>buf := (buf s)[nat (readbufIndex s mod bufsize) := None]\<rparr>"
  define s2 where "s2 = (case buffer s1 of None \<Rightarrow> s1 | Some b \<Rightarrow> Receiver.clear_buffer b s1)"
  define s3 where "s3 = s2\<lparr>readbufIndex := readbufIndex s2 + 1\<rparr>"
  have "R s s1" unfolding s1_def by (rule buf)
  moreover have "R s1 s2" unfolding s2_def by (simp add: stay clear_buffer split: option.split)
  moreover have "R s2 s3" unfolding s3_def by (rule index)
  ultimately have s3: "R s s3" using chain by blast
  have "R s (s3\<lparr>bufNum := 0, ss_isClose := True, ss_shutdown := True\<rparr>)"
    by (rule chain [OF chain [OF chain [OF s3 num] closed] shut])
  from chain [OF this out] show ?thesis
    using s3 unfolding free_slot_def Let_def s1_def [symmetric] s2_def [symmetric] s3_def [symmetric]
      emit_def by simp
qed

lemma checkRecvice:
  assumes "checkRecvice n env servers ws s = Some (Inr (ws', s'))"
  shows "R s s'"
proof -
  obtain all ws1 s1 where r: "Receiver.readAll n env ws s = Some (Inr (all, ws1, s1))"
    using assms by (auto simp: checkRecvice_def split: option.splits sum.splits)
  let ?h = "Receiver.hand_on servers all s1"
  have h: "R s ?h" by (rule chain [OF readAll [OF r] hand_on])
  obtain ws2 s2 where t: "(if all = None then Receiver.tick ws1 ?h else (ws1, ?h)) = (ws2, s2)"
    by fastforce
  then have "R s s2" using h chain [OF h tick] by (auto split: if_splits)
  from chain [OF this chain [OF acknowledge free_slot]] show ?thesis
    using assms r t by (auto simp: checkRecvice_def)
qed

lemma readerRun: "readerRun n env servers ws s = Some (Inr (ws', s')) \<Longrightarrow> R s s'"
proof (induction n arbitrary: ws s)
  case (Suc n)
  obtain ws1 s1 where c: "Receiver.checkRecvice (Suc n) env servers ws s = Some (Inr (ws1, s1))"
    using Suc.prems by (auto split: option.splits sum.splits)
  note s1 = checkRecvice [OF c]
  obtain ws2 s2 where t: "Receiver.tick ws1 s1 = (ws2, s2)" by fastforce
  note s2 = chain [OF s1 tick [OF t]]
  consider "s' = s2\<lparr>isStartData := False\<rparr>" | "s' = s1\<lparr>isStartData := False\<rparr>"
    | "Receiver.readerRun n env servers ws2 s2 = Some (Inr (ws', s'))"
    | "Receiver.readerRun n env servers ws1 s1 = Some (Inr (ws', s'))"
    using Suc.prems c t by (auto split: if_splits)
  then show ?case
    by cases (use chain [OF s1 data] chain [OF s2 data] chain [OF s1 Suc.IH] chain [OF s2 Suc.IH] in blast)+
qed simp

lemma readerTask:
  assumes "readerTask n env servers ws s = Some (Inr (ws', s'))"
  shows "R s s'"
proof (cases "bufNum s = 0")
  case True
  obtain ws1 s1 where t: "Receiver.tick ws s = (ws1, s1)" by fastforce
  show ?thesis using assms True t chain [OF tick [OF t] readerRun] by (simp add: readerTask_def)
qed (use assms readerRun in \<open>simp add: readerTask_def\<close>)

end

section \<open>Who the session is, and that it ended\<close>

text \<open>
  The session's identity stays, a flag of its end is not taken back, and the log only grows.
\<close>

definition same_session :: "server_session \<Rightarrow> server_session \<Rightarrow> bool" where
  "same_session s t \<longleftrightarrow> ss_id t = ss_id s \<and> ss_clientID t = ss_clientID s \<and> ss_srcIP t = ss_srcIP s
     \<and> ss_srcPort t = ss_srcPort s \<and> ss_localIP t = ss_localIP s \<and> ss_localPort t = ss_localPort s
     \<and> (ss_isClose s \<longrightarrow> ss_isClose t) \<and> (ss_shutdown s \<longrightarrow> ss_shutdown t)
     \<and> (clientClose s \<longrightarrow> clientClose t) \<and> prefix (ss_out s) (ss_out t)"

lemma intBuffer_same: "intBuffer num i s = (e, t) \<Longrightarrow> same_session s t"
  by (auto simp: intBuffer_def ss_startThread_def same_session_def Let_def
      split: if_splits sum.splits option.splits prod.splits)

lemma setData_same: "setData d s = (e, t) \<Longrightarrow> same_session s t"
  by (auto simp: setData_def same_session_def split: sum.splits option.splits prod.splits)

lemma same_session_trans: "same_session s t \<Longrightarrow> same_session t u \<Longrightarrow> same_session s u"
  unfolding same_session_def by (auto intro: prefix_order.trans)

lemma addData_same: "same_session s (snd (ss_addData rc s))"
proof -
  obtain e s1 where i: "intBuffer (packagetNum rc) (InitSeq rc) s = (e, s1)" by fastforce
  obtain e2 s2 where d: "setData (new_AppData (packagetNum rc) (InitSeq rc) (PackagetID rc)
      (rc_data rc)) s1 = (e2, s2)" by fastforce
  note s1 = intBuffer_same [OF i]
  have "same_session s1 (s1\<lparr>clientClose := True\<rparr>)" by (simp add: same_session_def)
  then show ?thesis
    using s1 same_session_trans [OF s1] setData_same [OF d]
    by (auto simp: ss_addData_def i d split: option.split)
qed

interpretation same: session_relation same_session
proof
  fix s a
  show "same_session s (arrive1 a s)"
    using addData_same by (cases a) (simp_all add: arrive1_def, simp add: same_session_def)
next
  fix s t u
  show "same_session s t \<Longrightarrow> same_session t u \<Longrightarrow> same_session s u" by (rule same_session_trans)
qed (simp_all add: same_session_def)

end
