(* ===== verification/ListenerFacts.thy ===== *)
theory ListenerFacts
  imports Listener SessionFrame
begin

text \<open>
  What the listener does with the datagrams: the invariant of its sessions, a datagram as an update
  of one session, and the runs in which a datagram ends the listener's thread or is left lying.
\<close>

section \<open>The invariant of the sessions\<close>

text \<open>
  An entry of a source refers to a session of that source with the entry's id, so no session is
  under two entries.
\<close>

definition entry :: "'w listener \<Rightarrow> string \<Rightarrow> jlong \<Rightarrow> nat option" where
  "entry n key i = (case hashOffer n key of None \<Rightarrow> None | Some single \<Rightarrow> sm_get single i)"

definition owner_of :: "server_session \<Rightarrow> string \<times> jlong" where
  "owner_of s = (source_key (ss_srcIP s) (ss_srcPort s), ss_id s)"

definition li_inv :: "'w listener \<Rightarrow> bool" where
  "li_inv n \<longleftrightarrow> (\<forall>key i r. entry n key i = Some r \<longrightarrow>
     r < length (sessions n) \<and> owner_of (sessions n ! r) = (key, i))"

text \<open>What the handling of a datagram by a session leaves alone.\<close>

definition rest :: "'w listener \<Rightarrow>
    server_manager \<times> 'w \<times> data_model list \<times> thread_pc \<times> bool \<times> data_model list" where
  "rest n = (manager n, own n, queue n, thread n, isStart n, raw_posts n)"

lemma li_inv_unique: "li_inv n \<Longrightarrow> entry n k i = Some r \<Longrightarrow> entry n k' i' = Some r \<Longrightarrow> k = k' \<and> i = i'"
  unfolding li_inv_def by (metis prod.inject)

lemma entry_frame:
  "hashOffer n' = hashOffer n \<Longrightarrow> entry n' k i = entry n k i"
  by (simp add: entry_def)

lemma upd_session_simps [simp]:
  "entry (upd_session r s n) = entry n" "sessions (upd_session r s n) = (sessions n)[r := s]"
  "rest (upd_session r s n) = rest n" "hashOffer (upd_session r s n) = hashOffer n"
  by (simp_all add: entry_def upd_session_def fun_eq_iff rest_def)

lemma li_inv_frame: "li_inv n \<Longrightarrow> hashOffer n' = hashOffer n \<Longrightarrow> sessions n' = sessions n \<Longrightarrow> li_inv n'"
  by (simp add: li_inv_def entry_def)

lemma li_inv_upd:
  assumes "li_inv n" and "r < length (sessions n) \<Longrightarrow> owner_of s = owner_of (sessions n ! r)"
  shows "li_inv (upd_session r s n)"
  unfolding li_inv_def
proof (intro allI impI)
  fix key i q assume "entry (upd_session r s n) key i = Some q"
  then have q: "q < length (sessions n)" "owner_of (sessions n ! q) = (key, i)"
    using assms(1) by (auto simp: li_inv_def)
  then show "q < length (sessions (upd_session r s n))
      \<and> owner_of (sessions (upd_session r s n) ! q) = (key, i)"
    using assms(2) by (cases "q = r") simp_all
qed

lemma li_inv_remove: "li_inv n \<Longrightarrow> li_inv (li_remove key n)"
  by (auto simp: li_inv_def li_remove_def entry_def split: if_splits)

lemma same_owner: "same_session s t \<Longrightarrow> owner_of t = owner_of s"
  by (simp add: same_session_def owner_of_def)

lemma entry_store: "entry (hash_store key single n) =
    (\<lambda>k i. if k = key then sm_get single i else entry n k i)"
  by (simp add: entry_def hash_store_def fun_eq_iff)

text \<open>The map of a source, created when it is missing, changes no entry.\<close>

lemma createMap:
  assumes "createcreateSessionMap key n = (single, n1)"
  shows "entry n1 = entry n" "hash_look n1 key = Some single" "sm_get single = entry n key"
    "sessions n1 = sessions n" "rest n1 = rest n"
proof -
  have "entry n1 = entry n \<and> sm_get single = entry n key \<and> sessions n1 = sessions n \<and> rest n1 = rest n"
  proof (cases "hashOffer n key")
    case None
    then have e: "single = new_SessionMap" "n1 = hash_store key new_SessionMap n"
      using assms by (auto simp: createcreateSessionMap_def get_or_create_def hash_look_def)
    have none: "entry n key i = None" for i using None by (simp add: entry_def)
    show ?thesis
      unfolding e(2) entry_store using none by (auto simp: e(1) fun_eq_iff hash_store_def rest_def)
  next
    case (Some single1)
    then have e: "single = single1" "n1 = n"
      using assms by (auto simp: createcreateSessionMap_def get_or_create_def hash_look_def)
    then show ?thesis using e Some by (auto simp: entry_def fun_eq_iff)
  qed
  then show "entry n1 = entry n" "sm_get single = entry n key" "sessions n1 = sessions n" "rest n1 = rest n"
    by blast+
  show "hash_look n1 key = Some single"
    using assms sources.created_is_found unfolding createcreateSessionMap_def by blast
qed

definition fresh :: "data_model \<Rightarrow> jlong \<Rightarrow> server_session" where
  "fresh d i = (new_ServerSession (dm_srcIP d) (dm_srcPort d) (dm_localIP d) (dm_localPort d) i)
     \<lparr>ss_netType := dm_netType d\<rparr>"

lemma createSession_eq:
  "createSession rnd key single d i n =
     (case sm_get single i of
        Some r \<Rightarrow> (r, n)
      | None \<Rightarrow> (length (sessions n),
          hash_store key (sm_put i (length (sessions n)) single) (n\<lparr>sessions := sessions n @ [fresh d i]\<rparr>)))"
proof -
  have "(createObj rnd (dm_srcIP d) (dm_srcPort d) (dm_localIP d) (dm_localPort d))
      \<lparr>ss_id := i, ss_netType := dm_netType d\<rparr> = fresh d i"
    by (simp add: createObj_def fresh_def new_ServerSession_def)
  then show ?thesis by (simp add: createSession_def Let_def split: option.split)
qed

section \<open>A datagram as an update of a table\<close>

text \<open>The sessions as a table from source and id to session states.\<close>

definition table :: "'w listener \<Rightarrow> string \<times> jlong \<Rightarrow> server_session option" where
  "table n = (\<lambda>(key, i). map_option (\<lambda>r. sessions n ! r) (entry n key i))"

definition packet_id :: "return_code \<Rightarrow> jlong option" where
  "packet_id rc = (if isAck rc then map_option ack_sessionid (ackPackaget rc) else Some (SessionID rc))"

text \<open>
  What a datagram does to the table: its session, if there is one that is open, else the session of
  the packet's own id, created when it is missing, takes it.
\<close>

definition addressed :: "data_model \<Rightarrow> return_code \<Rightarrow> jlong \<Rightarrow>
    (string \<times> jlong \<Rightarrow> server_session option) \<Rightarrow> jlong \<times> server_session" where
  "addressed d rc j t =
     (let key = source_key (dm_srcIP d) (dm_srcPort d); i = SessionID rc;
          other = (i, (case t (key, i) of None \<Rightarrow> fresh d i | Some s \<Rightarrow> s)\<lparr>ss_clientID := clientid rc\<rparr>)
      in case t (key, j) of
           None \<Rightarrow> other
         | Some s \<Rightarrow> if ss_isClose s then other else (j, s))"

lemma table_upd:
  assumes "li_inv n" and "entry n key i = Some r"
  shows "table (upd_session r s n) = (table n)((key, i) \<mapsto> s)"
proof
  fix ki :: "string \<times> jlong" obtain k j where ki: "ki = (k, j)" by (cases ki)
  have r: "r < length (sessions n)" using assms by (auto simp: li_inv_def)
  show "table (upd_session r s n) ki = ((table n)((key, i) \<mapsto> s)) ki"
  proof (cases "entry n k j = Some r")
    case True
    then have "k = key \<and> j = i" using li_inv_unique [OF assms(1)] assms(2) by blast
    then show ?thesis using assms(2) r by (simp add: ki table_def)
  next
    case False
    then have "(k, j) \<noteq> (key, i)" using assms(2) by auto
    then show ?thesis
      using False by (cases "entry n k j") (auto simp: ki table_def)
  qed
qed

lemma fresh_owner: "owner_of (fresh d i) = (source_key (dm_srcIP d) (dm_srcPort d), i)"
  by (simp add: owner_of_def fresh_def new_ServerSession_def)

lemma createSession_table:
  assumes "li_inv n" and "hash_look n key = Some single" and "sm_get single = entry n key"
    and "key = source_key (dm_srcIP d) (dm_srcPort d)" and "createSession rnd key single d i n = (r, n2)"
  shows "entry n2 key i = Some r" "li_inv n2"
    "table n2 = (table n)((key, i) \<mapsto> (case table n (key, i) of None \<Rightarrow> fresh d i | Some s \<Rightarrow> s))"
    "rest n2 = rest n"
proof -
  have "entry n2 key i = Some r \<and> li_inv n2
    \<and> table n2 = (table n)((key, i) \<mapsto> (case table n (key, i) of None \<Rightarrow> fresh d i | Some s \<Rightarrow> s))
    \<and> rest n2 = rest n"
  proof (cases "entry n key i")
    case (Some q)
    then have "r = q" "n2 = n" using assms(3,5) by (auto simp: createSession_eq)
    then show ?thesis
      using Some assms(1) by (auto simp: table_def fun_eq_iff)
  next
    case None
    let ?m = "n\<lparr>sessions := sessions n @ [fresh d i]\<rparr>"
    have n2: "r = length (sessions n)" "n2 = hash_store key (sm_put i r single) ?m"
      using None assms(3,5) by (auto simp: createSession_eq)
    have e: "entry n2 k j = (if k = key \<and> j = i then Some r else entry n k j)" for k j
      unfolding n2(2) entry_store using assms(3)
      by (auto simp: session_maps.look_store) (simp add: entry_def)
    have ss: "sessions n2 = sessions n @ [fresh d i]" by (simp add: n2(2) hash_store_def)
    have old: "q < length (sessions n)" if "entry n k j = Some q" for k j q
      using assms(1) that by (auto simp: li_inv_def)
    have "li_inv n2"
      unfolding li_inv_def e ss using assms(1) fresh_owner [of d i] assms(4) n2(1)
      by (auto simp: li_inv_def nth_append less_Suc_eq)
    moreover have "table n2 = (table n)((key, i) \<mapsto> fresh d i)"
    proof
      fix ki :: "string \<times> jlong" obtain k j where ki: "ki = (k, j)" by (cases ki)
      show "table n2 ki = ((table n)((key, i) \<mapsto> fresh d i)) ki"
        using old [of k j] n2(1)
        by (cases "entry n k j") (auto simp: ki table_def e ss nth_append)
    qed
    moreover have "table n (key, i) = None" using None by (simp add: table_def)
    moreover have "rest n2 = rest n"
      by (simp add: n2(2) hash_store_def rest_def)
    ultimately show ?thesis using e by simp
  qed
  then show "entry n2 key i = Some r" "li_inv n2"
    "table n2 = (table n)((key, i) \<mapsto> (case table n (key, i) of None \<Rightarrow> fresh d i | Some s \<Rightarrow> s))"
    "rest n2 = rest n" by blast+
qed

lemma session_of_table:
  assumes "li_inv n" and "packet_id rc = Some j" and "addressed d rc j (table n) = (i, s)"
  shows "\<exists>r n1. session_of rnd d rc n = (Inr r, n1) \<and> li_inv n1 \<and> rest n1 = rest n
    \<and> entry n1 (source_key (dm_srcIP d) (dm_srcPort d)) i = Some r \<and> sessions n1 ! r = s
    \<and> table n1 = (table n)((source_key (dm_srcIP d) (dm_srcPort d), i) \<mapsto> s)"
proof -
  let ?key = "source_key (dm_srcIP d) (dm_srcPort d)"
  obtain single n0 where c: "createcreateSessionMap ?key n = (single, n0)" by fastforce
  note c0 = createMap [OF c]
  have inv0: "li_inv n0" using assms(1) c0(1,4) by (simp add: li_inv_def)
  have t0: "table n0 = table n" using c0(1,4) by (simp add: table_def)
  have id: "(if isAck rc then map_option ack_sessionid (ackPackaget rc) else Some (SessionID rc)) = Some j"
    using assms(2) by (simp add: packet_id_def)
  show ?thesis
  proof (cases "\<exists>r. entry n ?key j = Some r \<and> \<not> ss_isClose (sessions n ! r)")
    case True
    then obtain r where r: "entry n ?key j = Some r" "\<not> ss_isClose (sessions n ! r)" by blast
    then have is_: "i = j" "s = sessions n ! r"
      using assms(3) by (auto simp: addressed_def table_def Let_def)
    have "session_of rnd d rc n = (Inr r, n0)"
      using r c0(3,4) by (simp add: session_of_def c id Let_def)
    moreover have "table n0 = (table n)((?key, i) \<mapsto> s)"
      unfolding t0 using r by (auto simp: is_ table_def fun_eq_iff)
    ultimately show ?thesis using inv0 c0 r is_ by auto
  next
    case False
    let ?i = "SessionID rc"
    let ?t = "case table n (?key, ?i) of None \<Rightarrow> fresh d ?i | Some s \<Rightarrow> s"
    have is_: "i = ?i" "s = ?t\<lparr>ss_clientID := clientid rc\<rparr>"
      using False assms(3) by (auto simp: addressed_def table_def Let_def split: option.splits if_splits)
    obtain r n2 where cs: "createSession rnd ?key single d ?i n0 = (r, n2)" by fastforce
    note s2 = createSession_table [OF inv0 c0(2) _ refl cs]
    have e: "sm_get single = entry n0 ?key" using c0(1,3) by simp
    note s2 = s2 [OF e]
    have at: "sessions n2 ! r = ?t"
      using s2(1) fun_cong [OF s2(3), of "(?key, ?i)"] by (simp add: table_def t0 [unfolded table_def])
    let ?n3 = "upd_session r ((sessions n2 ! r)\<lparr>ss_clientID := clientid rc\<rparr>) n2"
    have "session_of rnd d rc n = (Inr r, ?n3)"
      using False c0(3,4) cs by (auto simp: session_of_def c id Let_def split: option.splits)
    moreover have "li_inv ?n3" by (rule li_inv_upd [OF s2(2)]) (simp add: owner_of_def)
    moreover have "table ?n3 = (table n)((?key, i) \<mapsto> s)"
      using table_upd [OF s2(2,1)] s2(3) by (simp add: at is_ t0)
    moreover have "r < length (sessions n2)" using s2(1,2) by (auto simp: li_inv_def)
    ultimately show ?thesis using s2(1,4) c0(5) is_ at by auto
  qed
qed

lemma route_table:
  assumes "li_inv n" and "packet_id rc = Some j" and "addressed d rc j (table n) = (i, s)"
  shows "\<exists>n1. route rnd d rc n = (fst (ss_addData rc s), n1) \<and> li_inv n1 \<and> rest n1 = rest n
    \<and> table n1 = (table n)((source_key (dm_srcIP d) (dm_srcPort d), i) \<mapsto> snd (ss_addData rc s))"
proof -
  obtain r n1 where r: "session_of rnd d rc n = (Inr r, n1)" "li_inv n1" "rest n1 = rest n"
    "entry n1 (source_key (dm_srcIP d) (dm_srcPort d)) i = Some r" "sessions n1 ! r = s"
    "table n1 = (table n)((source_key (dm_srcIP d) (dm_srcPort d), i) \<mapsto> s)"
    using session_of_table [OF assms] by blast
  obtain e s' where a: "ss_addData rc s = (e, s')" by fastforce
  have "same_session s s'" using addData_same [of s rc] a by simp
  then have "li_inv (upd_session r s' n1)" by (intro li_inv_upd [OF r(2)]) (simp add: r(5) same_owner)
  then show ?thesis
    using r a table_upd [OF r(2,4), of s'] by (simp add: route_def)
qed

section \<open>The clearing of sessions that ended\<close>

text \<open>The keys the manager lists are sources of this listener, with a session each.\<close>

definition keys_known :: "'w listener \<Rightarrow> bool" where
  "keys_known n \<longleftrightarrow> (\<forall>key \<in> set (handQueue (manager n)). \<exists>i. entry n key i \<noteq> None)"

definition but_manager :: "'w listener \<Rightarrow> (string \<Rightarrow> (jlong, nat) session_map option) \<times> server_session list
    \<times> 'w \<times> data_model list \<times> thread_pc \<times> bool \<times> data_model list" where
  "but_manager n = (hashOffer n, sessions n, own n, queue n, thread n, isStart n, raw_posts n)"

lemma getSessions_null: "fst (getSessions key m) = None"
  by (simp add: getSessions_def split: option.split)

text \<open>\<open>getSessions\<close> gives null, so no session is ever removed.\<close>

lemma cleanKeys_known:
  "\<forall>key \<in> set keys. \<exists>i. entry n key i \<noteq> None \<Longrightarrow>
    \<exists>n'. cleanKeys keys n = (None, n') \<and> but_manager n' = but_manager n"
proof (induction keys arbitrary: n)
  case (Cons key keys)
  obtain single i r where e: "hashOffer n key = Some single" "sm_get single i = Some r"
    using Cons.prems by (auto simp: entry_def split: option.splits)
  have ne: "\<not> sm_isEmpty single" using e(2) by (auto simp: sm_isEmpty_iff)
  obtain m where m: "getSessions key (manager n) = (None, m)"
    using getSessions_null by (metis prod.collapse)
  let ?n = "hash_store key single (n\<lparr>manager := m\<rparr>)"
  let ?n1 = "?n\<lparr>manager := removeKey key (manager ?n)\<rparr>"
  have same: "hashOffer ?n1 = hashOffer n" "but_manager ?n1 = but_manager n"
    using e(1) by (auto simp: hash_store_def but_manager_def fun_eq_iff)
  have "cleanKeys (key # keys) n = cleanKeys keys ?n1"
    using e ne m by (simp add: hash_look_def Let_def)
  moreover have "\<exists>n'. cleanKeys keys ?n1 = (None, n') \<and> but_manager n' = but_manager ?n1"
    by (rule Cons.IH) (use Cons.prems same(1) in \<open>simp add: entry_def\<close>)
  ultimately show ?case using same(2) by simp
qed simp

lemma cleanKeys_unknown:
  "key \<in> set keys \<Longrightarrow> hashOffer n key = None \<Longrightarrow>
    \<exists>n'. cleanKeys keys n = (Some NullPointer, n') \<and> sessions n' = sessions n \<and> own n' = own n
      \<and> queue n' = queue n \<and> isStart n' = isStart n \<and> raw_posts n' = raw_posts n"
proof (induction keys arbitrary: n)
  case (Cons k keys)
  obtain m where m: "getSessions k (manager n) = (None, m)"
    using getSessions_null by (metis prod.collapse)
  show ?case
  proof (cases "hashOffer n k")
    case None
    then show ?thesis using m by (simp add: hash_look_def)
  next
    case (Some single)
    then have ne: "k \<noteq> key" using Cons.prems(2) by auto
    let ?n1 = "hash_store k single (n\<lparr>manager := m\<rparr>)"
    let ?n2 = "if sm_isEmpty single then li_remove k ?n1 else ?n1"
    let ?n3 = "?n2\<lparr>manager := removeKey k (manager ?n2)\<rparr>"
    have "cleanKeys (k # keys) n = cleanKeys keys ?n3"
      using Some m by (simp add: hash_look_def Let_def)
    moreover have "hashOffer ?n3 key = None"
      using ne Cons.prems(2) by (simp add: hash_store_def li_remove_def)
    moreover have "sessions ?n3 = sessions n" "own ?n3 = own n" "queue ?n3 = queue n"
      "isStart ?n3 = isStart n" "raw_posts ?n3 = raw_posts n"
      by (simp_all add: hash_store_def li_remove_def)
    ultimately show ?thesis using Cons.IH [of ?n3] Cons.prems(1) ne by auto
  qed
qed simp

lemma first_clean_known:
  assumes "keys_known n"
  shows "\<exists>n'. first_clean n = (None, n') \<and> but_manager n' = but_manager n"
proof (cases "handQueue (manager n) = []")
  case True
  then have "first_clean n = (None, n\<lparr>manager := manager n\<rparr>)"
    by (simp add: first_clean_def getSessionMap_def)
  then show ?thesis by (simp add: but_manager_def)
next
  case False
  let ?n = "n\<lparr>manager := (manager n)\<lparr>sm_tasks := sm_tasks (manager n) @ [RemoveKeys (handQueue (manager n))]\<rparr>\<rparr>"
  have "\<exists>n'. cleanKeys (handQueue (manager n)) ?n = (None, n') \<and> but_manager n' = but_manager ?n"
    by (rule cleanKeys_known) (use assms in \<open>simp add: keys_known_def entry_def\<close>)
  then show ?thesis
    using False by (simp add: first_clean_def getSessionMap_def but_manager_def)
qed

lemma but_manager_table:
  assumes "but_manager n' = but_manager n"
  shows "table n' = table n" "li_inv n' = li_inv n" "entry n' = entry n"
proof -
  have "hashOffer n' = hashOffer n" "sessions n' = sessions n" using assms by (simp_all add: but_manager_def)
  then show "table n' = table n" "li_inv n' = li_inv n" "entry n' = entry n"
    by (simp_all add: table_def li_inv_def entry_def fun_eq_iff)
qed

text \<open>A datagram that is for a session of this listener.\<close>

definition for_session :: "'w client \<Rightarrow> data_model \<Rightarrow> return_code \<Rightarrow> bool" where
  "for_session client d rc \<longleftrightarrow> rc = AnalysisNetPackaget (dm_data d) \<and> (isAck rc \<longrightarrow> client = None)
     \<and> \<not> (SessionID rc = 0 \<and> packagetNum rc = 0)"

lemma processData_for_session:
  assumes "for_session client d rc"
  shows "processData client rnd d n =
    (case first_clean n of (Some e, n1) \<Rightarrow> (Some e, n1) | (None, n1) \<Rightarrow> route rnd d rc n1)"
  using assms by (auto simp: processData_def for_session_def Let_def)

lemma processData_table:
  assumes "li_inv n" and "keys_known n" and "for_session client d rc" and "packet_id rc = Some j"
    and "addressed d rc j (table n) = (i, s)"
  shows "\<exists>n1. processData client rnd d n = (fst (ss_addData rc s), n1) \<and> li_inv n1
    \<and> table n1 = (table n)((source_key (dm_srcIP d) (dm_srcPort d), i) \<mapsto> snd (ss_addData rc s))
    \<and> own n1 = own n \<and> queue n1 = queue n \<and> isStart n1 = isStart n \<and> thread n1 = thread n
    \<and> raw_posts n1 = raw_posts n"
proof -
  obtain n0 where f: "first_clean n = (None, n0)" "but_manager n0 = but_manager n"
    using first_clean_known [OF assms(2)] by blast
  note b = but_manager_table [OF f(2)]
  obtain n1 where r: "route rnd d rc n0 = (fst (ss_addData rc s), n1)" "li_inv n1" "rest n1 = rest n0"
    "table n1 = (table n0)((source_key (dm_srcIP d) (dm_srcPort d), i) \<mapsto> snd (ss_addData rc s))"
    using route_table [of n0 rc j d i s rnd] assms(1,4,5) b by auto
  then show ?thesis
    using processData_for_session [OF assms(3)] f b
    by (simp add: rest_def but_manager_def)
qed

end
