(* ===== verification/ListenerRuns.thy ===== *)
theory ListenerRuns
  imports ListenerFacts
begin

text \<open>
  The listener over time: the invariant of its sessions under every interleaving of datagrams,
  readers and tasks, and the datagrams after which its thread is gone.
\<close>

section \<open>Sessions stay, and stay closed\<close>

definition no_reopening :: "'w listener \<Rightarrow> 'w listener \<Rightarrow> bool" where
  "no_reopening n n' \<longleftrightarrow> (\<forall>ki s. table n ki = Some s \<longrightarrow> (\<exists>s'. table n' ki = Some s'
     \<and> (ss_isClose s \<longrightarrow> ss_isClose s') \<and> (ss_shutdown s \<longrightarrow> ss_shutdown s')))"

lemma no_reopening_same: "table n' = table n \<Longrightarrow> no_reopening n n'"
  by (simp add: no_reopening_def)

lemma no_reopening_trans: "no_reopening n m \<Longrightarrow> no_reopening m k \<Longrightarrow> no_reopening n k"
  unfolding no_reopening_def by metis

lemma no_reopening_update:
  assumes "table n' = (table n)(ki \<mapsto> s')"
    and "\<And>s. table n ki = Some s \<Longrightarrow> (ss_isClose s \<longrightarrow> ss_isClose s') \<and> (ss_shutdown s \<longrightarrow> ss_shutdown s')"
  shows "no_reopening n n'"
  using assms by (simp add: no_reopening_def)

lemma table_frame:
  assumes "hashOffer n' = hashOffer n" and "sessions n' = sessions n"
  shows "table n' = table n" "li_inv n' = li_inv n"
  using assms by (simp_all add: table_def li_inv_def entry_def fun_eq_iff)

lemma cleanKeys_entry:
  "cleanKeys keys n = (e, n') \<Longrightarrow> entry n' = entry n \<and> sessions n' = sessions n"
proof (induction keys arbitrary: n)
  case (Cons k keys)
  obtain m where m: "getSessions k (manager n) = (None, m)"
    using getSessions_null by (metis prod.collapse)
  show ?case
  proof (cases "hashOffer n k")
    case None
    then have "n' = n\<lparr>manager := m\<rparr>" using Cons.prems m by (simp add: hash_look_def)
    then show ?thesis by (simp add: entry_def fun_eq_iff)
  next
    case (Some single)
    let ?n1 = "hash_store k single (n\<lparr>manager := m\<rparr>)"
    let ?n2 = "if sm_isEmpty single then li_remove k ?n1 else ?n1"
    let ?n3 = "?n2\<lparr>manager := removeKey k (manager ?n2)\<rparr>"
    have "cleanKeys (k # keys) n = cleanKeys keys ?n3"
      using Some m by (simp add: hash_look_def Let_def)
    with Cons.prems have "cleanKeys keys ?n3 = (e, n')" by simp
    then have "entry n' = entry ?n3 \<and> sessions n' = sessions ?n3" by (rule Cons.IH)
    moreover have "entry ?n3 = entry n"
      using Some by (auto simp: entry_def hash_store_def li_remove_def fun_eq_iff sm_isEmpty_iff)
    moreover have "sessions ?n3 = sessions n" by (simp add: hash_store_def li_remove_def)
    ultimately show ?thesis by simp
  qed
qed simp

lemma first_clean_entry: "first_clean n = (e, n') \<Longrightarrow> entry n' = entry n \<and> sessions n' = sessions n"
  using cleanKeys_entry
  by (fastforce simp: first_clean_def getSessionMap_def entry_def fun_eq_iff split: if_splits)

lemma route_kept:
  assumes "li_inv n" and "route rnd d rc n = (e, n')"
  shows "li_inv n' \<and> no_reopening n n'"
proof (cases "packet_id rc")
  case (Some j)
  obtain i s where a: "addressed d rc j (table n) = (i, s)" by fastforce
  have "table n' = (table n)((source_key (dm_srcIP d) (dm_srcPort d), i) \<mapsto> snd (ss_addData rc s))"
    "li_inv n'"
    using route_table [OF assms(1) Some a, of rnd] assms(2) by auto
  moreover have "same_session s (snd (ss_addData rc s))" by (rule addData_same)
  moreover have "(ss_isClose s0 \<longrightarrow> ss_isClose s) \<and> (ss_shutdown s0 \<longrightarrow> ss_shutdown s)"
    if "table n (source_key (dm_srcIP d) (dm_srcPort d), i) = Some s0" for s0
    using a that by (auto simp: addressed_def Let_def split: option.splits if_splits)
  ultimately show ?thesis by (auto simp: same_session_def intro!: no_reopening_update)
next
  case None
  obtain single n0 where c: "createcreateSessionMap (source_key (dm_srcIP d) (dm_srcPort d)) n = (single, n0)"
    by fastforce
  have "n' = n0" using assms(2) None c
    by (simp add: route_def session_of_def packet_id_def [symmetric] Let_def)
  moreover have "table n0 = table n" "li_inv n0 = li_inv n"
    using createMap [OF c] by (simp_all add: table_def li_inv_def)
  ultimately show ?thesis using assms(1) no_reopening_same by simp
qed

lemma processData_kept:
  assumes "li_inv n" and "processData client rnd d n = (e, n')"
  shows "li_inv n' \<and> no_reopening n n'"
proof -
  define rc where "rc = AnalysisNetPackaget (dm_data d)"
  consider (own) w where "n' = n\<lparr>own := w\<rparr>"
    | (raw) p where "n' = n\<lparr>raw_posts := p\<rparr>"
    | (session) "(case first_clean n of (Some e, n1) \<Rightarrow> (Some e, n1) | (None, n1) \<Rightarrow> route rnd d rc n1) = (e, n')"
    using assms(2) by (auto simp: processData_def rc_def Let_def split: if_splits option.splits prod.splits)
  then show ?thesis
  proof cases
    case session
    obtain f n0 where f: "first_clean n = (f, n0)" by fastforce
    have n0: "table n0 = table n" "li_inv n0"
      using first_clean_entry [OF f] assms(1) by (simp_all add: table_def li_inv_def)
    show ?thesis
    proof (cases f)
      case None
      then have "route rnd d rc n0 = (e, n')" using session f by simp
      from route_kept [OF n0(2) this] show ?thesis using n0(1) by (simp add: no_reopening_def)
    qed (use session f n0 no_reopening_same in simp)
  qed (use assms(1) table_frame [of n' n] no_reopening_same [of n' n] in simp_all)
qed

lemma upd_kept:
  assumes "li_inv n" and "r < length (sessions n)" and "same_session (sessions n ! r) s"
  shows "li_inv (upd_session r s n) \<and> no_reopening n (upd_session r s n)"
proof
  show "li_inv (upd_session r s n)" using assms by (intro li_inv_upd) (simp_all add: same_owner)
  show "no_reopening n (upd_session r s n)"
    unfolding no_reopening_def
  proof (intro allI impI)
    fix ki :: "string \<times> jlong" and q assume q: "table n ki = Some q"
    obtain k i where ki: "ki = (k, i)" by (cases ki)
    obtain p where p: "entry n k i = Some p" "q = sessions n ! p" using q by (auto simp: ki table_def)
    then show "\<exists>s'. table (upd_session r s n) ki = Some s'
        \<and> (ss_isClose q \<longrightarrow> ss_isClose s') \<and> (ss_shutdown q \<longrightarrow> ss_shutdown s')"
      using assms(2,3) by (cases "p = r") (auto simp: ki table_def same_session_def)
  qed
qed

lemma li_step_kept:
  assumes "li_inv n" and "li_step client n n'"
  shows "li_inv n' \<and> no_reopening n n'"
  using assms(2)
proof cases
  case (Arrives d)
  then have "hashOffer n' = hashOffer n" "sessions n' = sessions n"
    by (simp_all add: monitorServer_def li_startThread_def)
  from table_frame [OF this] show ?thesis using assms(1) no_reopening_same by simp
next
  case (Takes rnd)
  show ?thesis
  proof (cases "queue n")
    case Nil
    then have "hashOffer n' = hashOffer n" "sessions n' = sessions n"
      using Takes by (simp_all add: take_one_def)
    from table_frame [OF this] show ?thesis using assms(1) no_reopening_same by simp
  next
    case (Cons d ds)
    let ?n1 = "n\<lparr>queue := ds, taken_num := (if 1000 < taken_num n then 0 else taken_num n) + 1\<rparr>"
    obtain e n2 where p: "processData client rnd d ?n1 = (e, n2)" by fastforce
    have n1: "table ?n1 = table n" "li_inv ?n1" using assms(1) table_frame [of ?n1 n] by simp_all
    have "table n' = table n2" "li_inv n' = li_inv n2"
      using Takes Cons p table_frame [of n' n2]
      by (simp_all add: take_one_def Let_def split: option.splits)
    then show ?thesis using processData_kept [OF n1(2) p] n1(1) by (simp add: no_reopening_def)
  qed
next
  case Looks
  then have "hashOffer n' = hashOffer n" "sessions n' = sessions n" by (simp_all add: look_again_def)
  from table_frame [OF this] show ?thesis using assms(1) no_reopening_same by simp
next
  case Leaves
  then have "hashOffer n' = hashOffer n" "sessions n' = sessions n" by (simp_all add: leave_def)
  from table_frame [OF this] show ?thesis using assms(1) no_reopening_same by simp
next
  case (Reads r fuel env servers ws ws' s)
  have "table n' = table (upd_session r s n)" "li_inv n' = li_inv (upd_session r s n)"
    using table_frame [of n' "upd_session r s n"] Reads(1) by (simp_all add: reader_done_def)
  then show ?thesis
    using upd_kept [OF assms(1) Reads(2) same.readerTask [OF Reads(3)]] by (simp add: no_reopening_def)
next
  case (Tidies t)
  then have "hashOffer n' = hashOffer n" "sessions n' = sessions n" by (simp_all add: tidy_def)
  from table_frame [OF this] show ?thesis using assms(1) no_reopening_same by simp
next
  case (Closes r)
  have "same_session (sessions n ! r) (ss_close (sessions n ! r))"
    by (simp add: same_session_def ss_close_def)
  with upd_kept [OF assms(1) Closes(2)] show ?thesis using Closes(1) by simp
qed

lemma li_reach_kept:
  "li_reach client n n' \<Longrightarrow> li_inv n \<Longrightarrow> li_inv n' \<and> no_reopening n n'"
proof (induction rule: li_reach.induct)
  case Init
  then show ?case using no_reopening_same [OF refl] by blast
next
  case (Step m m')
  then show ?case using li_step_kept no_reopening_trans by blast
qed

lemma li_inv_new: "li_inv (new_ListenerData m w)"
  by (simp add: li_inv_def entry_def new_ListenerData_def)

text \<open>C11: Whatever arrives and whatever the readers do, in any interleaving: no session is under two
  entries and each is under its own source and id; and a session that is closed is never replaced
  nor opened again, so its source and id stay closed for the life of the listener.\<close>

theorem closed_sessions_stay:
  assumes "li_reach client (new_ListenerData m w) n" and "li_reach client n n'"
    and "table n (key, i) = Some s" and "ss_isClose s"
  shows "li_inv n' \<and> (\<exists>s'. table n' (key, i) = Some s' \<and> ss_isClose s'
    \<and> owner_of s' = (key, i) \<and> (ss_shutdown s \<longrightarrow> ss_shutdown s'))"
proof -
  have inv: "li_inv n" using li_reach_kept [OF assms(1) li_inv_new] by blast
  note k = li_reach_kept [OF assms(2) inv]
  obtain s' where s': "table n' (key, i) = Some s'" "ss_isClose s'" "ss_shutdown s \<longrightarrow> ss_shutdown s'"
    using k assms(3,4) unfolding no_reopening_def by blast
  have "owner_of s' = (key, i)" using k s'(1) by (auto simp: table_def li_inv_def)
  then show ?thesis using k s' by blast
qed


section \<open>The thread is gone\<close>

text \<open>Once an exception ended the thread, datagrams are only queued.\<close>

definition deaf :: "'w listener \<Rightarrow> 'w listener \<Rightarrow> bool" where
  "deaf n n' \<longleftrightarrow> thread n' = Dead \<and> isStart n' \<and> prefix (queue n) (queue n')
     \<and> own n' = own n \<and> raw_posts n' = raw_posts n \<and> hashOffer n' = hashOffer n
     \<and> length (sessions n') = length (sessions n)"

lemma deaf_step: "deaf n m \<Longrightarrow> li_step client m m' \<Longrightarrow> deaf n m'"
  by (erule li_step.cases)
    (auto simp: deaf_def monitorServer_def li_startThread_def reader_done_def tidy_def upd_session_def
      intro: prefix_order.trans)

lemma deaf_reach: "li_reach client n n' \<Longrightarrow> thread n = Dead \<Longrightarrow> isStart n \<Longrightarrow> deaf n n'"
  by (induction rule: li_reach.induct) (simp add: deaf_def, blast intro: deaf_step)

lemma take_one_dies:
  assumes "queue n = d # ds"
    and "processData client rnd d (n\<lparr>queue := ds, taken_num :=
           (if 1000 < taken_num n then 0 else taken_num n) + 1\<rparr>) = (Some e, n1)"
  shows "take_one client rnd n = n1\<lparr>thread := Dead\<rparr>"
  using assms by (simp add: take_one_def Let_def)

text \<open>A datagram whose handling by its session raises an exception ends the thread.\<close>

lemma session_kills:
  assumes "li_inv n" and "keys_known n" and "queue n = d # ds" and "isStart n"
    and "for_session client d rc" and "packet_id rc = Some j"
    and "addressed d rc j (table n) = (i, s)" and "fst (ss_addData rc s) = Some e"
    and "li_reach client (take_one client rnd n) n'"
  shows "deaf (take_one client rnd n) n' \<and> queue (take_one client rnd n) = ds
    \<and> own n' = own n \<and> raw_posts n' = raw_posts n"
proof -
  let ?n = "n\<lparr>queue := ds, taken_num := (if 1000 < taken_num n then 0 else taken_num n) + 1\<rparr>"
  have t: "table ?n = table n" "li_inv ?n" "keys_known ?n"
    using table_frame [of ?n n] assms(1,2) by (simp_all add: keys_known_def entry_def)
  obtain n1 where p: "processData client rnd d ?n = (Some e, n1)" "queue n1 = ds" "isStart n1 = isStart n"
    "own n1 = own n" "raw_posts n1 = raw_posts n"
    using processData_table [OF t(2,3) assms(5,6), of i s rnd] assms(7,8) t(1) by auto
  note dies = take_one_dies [OF assms(3) p(1)]
  have "deaf (take_one client rnd n) n'"
    by (rule deaf_reach [OF assms(9)]) (simp_all add: dies p assms(4))
  then show ?thesis using p by (simp add: dies deaf_def)
qed

text \<open>A datagram of something else: what the parser makes of it.\<close>

lemma parse_foreign:
  "length myFlage \<le> length bs \<Longrightarrow> take (length myFlage) bs \<noteq> myFlage \<Longrightarrow>
    AnalysisNetPackaget (Some bs) = new_ReturnCode\<lparr>rc_data := Some bs\<rparr>"
  by (simp add: AnalysisNetPackaget_def)

lemma fresh_simps [simp]:
  "ss_isClose (fresh d i) = False" "buf (fresh d i) = replicate (nat bufsize) None"
  by (simp_all add: fresh_def new_ServerSession_def)

text \<open>C24: One datagram from a program that does not speak the protocol ends reception for good: it is
  taken for a data packet of session 0, whose handling raises a null pointer exception in the
  listener's thread; the flag that a thread runs stays set, so in every later state datagrams are
  only queued, whoever sends them.\<close>

theorem foreign_datagram_kills:
  assumes "li_inv n" and "keys_known n" and "queue n = d # ds" and "isStart n"
    and "dm_data d = Some bs" and "length myFlage \<le> length bs" and "take (length myFlage) bs \<noteq> myFlage"
    and "table n (source_key (dm_srcIP d) (dm_srcPort d), 0) = None"
    and "li_reach client (take_one client rnd n) n'"
  shows "thread n' = Dead \<and> isStart n' \<and> prefix ds (queue n') \<and> own n' = own n
    \<and> raw_posts n' = raw_posts n"
proof -
  let ?rc = "new_ReturnCode\<lparr>rc_data := Some bs\<rparr>"
  let ?s = "(fresh d 0)\<lparr>ss_clientID := 0\<rparr>"
  have f: "for_session client d ?rc" "packet_id ?rc = Some 0"
    using parse_foreign [OF assms(6,7)] assms(5)
    by (simp_all add: for_session_def packet_id_def new_ReturnCode_def)
  have a: "addressed d ?rc 0 (table n) = (0, ?s)"
    using assms(8) by (simp add: addressed_def new_ReturnCode_def)
  have "fst (ss_addData ?rc ?s) = Some NullPointer"
    by (simp add: ss_addData_def intBuffer_def setData_def new_ReturnCode_def new_AppData_def
        java_rem_def array_get_def bufsize_def)
  from session_kills [OF assms(1-4) f a this assms(9)] show ?thesis by (auto simp: deaf_def)
qed

lemma startThread_refused:
  assumes "0 \<le> sint num" and "0 \<le> sint i" and "length (buf s) = nat bufsize"
    and "ss_shutdown s" and "\<not> isStartData s"
  shows "fst (intBuffer num i s) = Some RejectedExecution"
proof -
  have ne: "num \<noteq> -1" "i \<noteq> -1" using assms(1,2) by auto
  have ix: "0 \<le> sint i mod bufsize" "sint i mod bufsize < int (length (buf s))"
    using assms(3) by (simp_all add: bufsize_def)
  have look: "bindR (java_rem (sint i) bufsize) (\<lambda>i. bindR (array_get (buf s) i) (\<lambda>b. Inr (nat i, b)))
      = Inr (nat (sint i mod bufsize), buf s ! nat (sint i mod bufsize))"
    using ix assms(2) by (simp add: java_rem_nonneg array_get_ok bufsize_def)
  obtain rb where "new_ReceiveBuffer (sint num) i = Inr rb"
    using assms(1) by (auto simp: new_ReceiveBuffer_def)
  then show ?thesis
    using ne look assms(4,5)
    by (cases "buf s ! nat (sint i mod bufsize)") (simp_all add: intBuffer_def ss_startThread_def Let_def)
qed

lemma addData_exn: "fst (intBuffer (packagetNum rc) (InitSeq rc) s) = Some e \<Longrightarrow>
    fst (ss_addData rc s) = Some e"
  by (cases "intBuffer (packagetNum rc) (InitSeq rc) s") (simp add: ss_addData_def)

text \<open>C23: After a session was closed by its sender and its reader has ended, one more data packet for
  it, for instance a duplicate or one that was delayed, ends reception for good: the session is not
  replaced, its thread pool refuses the reader's task, and the exception ends the listener's thread.\<close>

theorem late_packet_kills:
  assumes "li_inv n" and "keys_known n" and "queue n = d # ds" and "isStart n"
    and "for_session client d rc" and "\<not> isAck rc" and "0 \<le> sint (packagetNum rc)" and "0 \<le> sint (InitSeq rc)"
    and "table n (source_key (dm_srcIP d) (dm_srcPort d), SessionID rc) = Some s"
    and "ss_isClose s" and "ss_shutdown s" and "\<not> isStartData s" and "length (buf s) = nat bufsize"
    and "li_reach client (take_one client rnd n) n'"
  shows "thread n' = Dead \<and> isStart n' \<and> prefix ds (queue n') \<and> own n' = own n
    \<and> raw_posts n' = raw_posts n"
proof -
  let ?s = "s\<lparr>ss_clientID := clientid rc\<rparr>"
  have id: "packet_id rc = Some (SessionID rc)" using assms(6) by (simp add: packet_id_def)
  have a: "addressed d rc (SessionID rc) (table n) = (SessionID rc, ?s)"
    using assms(9,10) by (simp add: addressed_def Let_def)
  have "fst (ss_addData rc ?s) = Some RejectedExecution"
    by (rule addData_exn, rule startThread_refused) (use assms in simp_all)
  from session_kills [OF assms(1-5) id a this assms(14)] show ?thesis by (auto simp: deaf_def)
qed

text \<open>The manager's list of ended sessions is shared by all listeners of the process: when it
  names a source that is not this listener's, the next datagram for a session ends this
  listener's thread with a null pointer exception.\<close>

theorem foreign_session_kills:
  assumes "queue n = d # ds" and "isStart n" and "for_session client d rc"
    and "key \<in> set (handQueue (manager n))" and "hashOffer n key = None"
    and "li_reach client (take_one client rnd n) n'"
  shows "thread n' = Dead \<and> isStart n' \<and> prefix ds (queue n') \<and> length (sessions n') = length (sessions n)"
proof -
  let ?n = "n\<lparr>queue := ds, taken_num := (if 1000 < taken_num n then 0 else taken_num n) + 1\<rparr>"
  have "handQueue (manager n) \<noteq> []" using assms(4) by auto
  then obtain m where "first_clean ?n = cleanKeys (handQueue (manager n)) (?n\<lparr>manager := m\<rparr>)"
    by (simp add: first_clean_def getSessionMap_def)
  then obtain n1 where "first_clean ?n = (Some NullPointer, n1)" "sessions n1 = sessions n" "queue n1 = ds"
    "isStart n1"
    using cleanKeys_unknown [OF assms(4), of "?n\<lparr>manager := m\<rparr>"] assms(2,5) by auto
  then have "take_one client rnd n = n1\<lparr>thread := Dead\<rparr>"
    using take_one_dies [OF assms(1)] processData_for_session [OF assms(3), of rnd ?n] by simp
  with deaf_reach [OF assms(6)] show ?thesis
    using \<open>sessions n1 = _\<close> \<open>queue n1 = _\<close> \<open>isStart n1\<close> by (simp add: deaf_def)
qed

section \<open>A datagram that is left lying\<close>


section \<open>Sources that are taken for one\<close>

lemma source_key_shift:
  "int_text q = ''1'' @ int_text p \<Longrightarrow> source_key (h @ ''1'') p = source_key h q"
  by (simp add: source_key_def)

text \<open>C26: Two senders can be taken for one: when the first one's host is the second one's with a 1
  appended, and the second one's port is the first one's with a 1 in front, then a data packet of
  the second sender with the same session id goes to the first one's session, whose
  acknowledgements go to the first one's host.\<close>

theorem senders_confused:
  assumes "li_inv n" and "keys_known n" and "int_text q = ''1'' @ int_text p"
    and "table n (source_key (h @ ''1'') p, SessionID rc) = Some s" and "\<not> ss_isClose s"
    and "ss_srcIP s = h @ ''1''" and "ss_srcPort s = p"
    and "dm_srcIP d = h" and "dm_srcPort d = q" and "for_session client d rc" and "\<not> isAck rc"
  shows "\<exists>n1 s1. processData client rnd d n = (fst (ss_addData rc s), n1)
    \<and> table n1 = (table n)((source_key h q, SessionID rc) \<mapsto> s1) \<and> s1 = snd (ss_addData rc s)
    \<and> ss_srcIP s1 = h @ ''1'' \<and> ss_srcPort s1 = p"
proof -
  note k = source_key_shift [OF assms(3), of h]
  have id: "packet_id rc = Some (SessionID rc)" using assms(11) by (simp add: packet_id_def)
  have a: "addressed d rc (SessionID rc) (table n) = (SessionID rc, s)"
    using assms(4,5,8,9) k by (simp add: addressed_def Let_def)
  have "same_session s (snd (ss_addData rc s))" by (rule addData_same)
  then show ?thesis
    using processData_table [OF assms(1,2,10) id a, of rnd] assms(6-9) by (auto simp: same_session_def)
qed

section \<open>Concrete runs\<close>

definition demo_data :: "jbyte list \<Rightarrow> data_model" where
  "demo_data bs = \<lparr>dm_srcIP = ''10.0.0.1'', dm_srcPort = 5000, dm_localIP = ''10.0.0.2'',
     dm_localPort = 6000, dm_data = Some bs, dm_netType = 1\<rparr>"

definition demo_listener :: "unit listener" where
  "demo_listener = new_ListenerData new_ServerManager ()"

definition demo_packet :: data_model where
  "demo_packet = demo_data (data_bytes 9 77 0 0 1 [1, 2])"

definition demo_code :: return_code where
  "demo_code = new_ReturnCode\<lparr>rc_data := Some [1, 2], packagetNum := 1, SessionID := 77, clientid := 9\<rparr>"

lemma demo_packet_code: "for_session client demo_packet demo_code" "packet_id demo_code = Some 77"
proof -
  have "AnalysisNetPackaget (Some (data_bytes 9 77 0 0 1 [1, 2])) = demo_code"
    by (simp add: data_bytes_def Analysis_flag parse_body_data demo_code_def new_ReturnCode_def)
  then show "for_session client demo_packet demo_code" "packet_id demo_code = Some 77"
    by (simp_all add: for_session_def packet_id_def demo_packet_def demo_data_def demo_code_def
        new_ReturnCode_def)
qed

lemma demo_code_simps [simp]:
  "isAck demo_code = False" "SessionID demo_code = 77" "packagetNum demo_code = 1" "InitSeq demo_code = 0"
  by (simp_all add: demo_code_def new_ReturnCode_def)

lemma demo_listener_simps [simp]:
  "li_inv demo_listener" "keys_known demo_listener" "table demo_listener ki = None"
  "queue demo_listener = []" "isStart demo_listener = False" "handQueue (manager demo_listener) = []"
  by (simp_all add: demo_listener_def li_inv_new keys_known_def)
    (cases ki; simp_all add: new_ListenerData_def new_ServerManager_def table_def entry_def)+

text \<open>A listener with one session, of the packet's source.\<close>

definition one_session :: "server_session \<Rightarrow> data_model list \<Rightarrow> unit listener" where
  "one_session s ds = demo_listener\<lparr>queue := ds, isStart := True, thread := Polling, sessions := [s],
     hashOffer := [source_key (ss_srcIP s) (ss_srcPort s) \<mapsto> sm_put (ss_id s) 0 new_SessionMap]\<rparr>"

lemma one_session_facts:
  "li_inv (one_session s ds)" "keys_known (one_session s ds)" "queue (one_session s ds) = ds"
  "isStart (one_session s ds)" "thread (one_session s ds) = Polling"
  "table (one_session s ds) (source_key (ss_srcIP s) (ss_srcPort s), ss_id s) = Some s"
proof -
  have e: "entry (one_session s ds) k i
      = (if k = source_key (ss_srcIP s) (ss_srcPort s) \<and> i = ss_id s then Some 0 else None)" for k i
    by (simp add: entry_def one_session_def session_maps.look_store)
  have ss: "sessions (one_session s ds) = [s]" by (simp add: one_session_def)
  show "li_inv (one_session s ds)" by (auto simp: li_inv_def e ss owner_of_def split: if_splits)
  show "table (one_session s ds) (source_key (ss_srcIP s) (ss_srcPort s), ss_id s) = Some s"
    by (simp add: table_def e) (simp add: one_session_def)
  show "keys_known (one_session s ds)" "queue (one_session s ds) = ds" "isStart (one_session s ds)"
    "thread (one_session s ds) = Polling"
    by (simp_all add: keys_known_def one_session_def)
qed


theorem closed_sessions_stay_witness:
  "\<exists>n s. li_reach None demo_listener n \<and> ss_isClose s \<and> table n (source_key ''10.0.0.1'' 5000, 77) = Some s
     \<and> owner_of s = (source_key ''10.0.0.1'' 5000, 77)"
proof -
  let ?key = "source_key ''10.0.0.1'' 5000" and ?m = "monitorServer demo_packet demo_listener"
  let ?n0 = "?m\<lparr>queue := [], taken_num := 1\<rparr>"
  have m: "?m = demo_listener\<lparr>queue := [demo_packet], isStart := True, thread := Polling, taken_num := 0\<rparr>"
    by (simp add: monitorServer_def li_startThread_def)
  have n0: "table ?n0 = table demo_listener" "li_inv ?n0" "keys_known ?n0"
    using table_frame [of ?n0 demo_listener] by (simp_all add: m keys_known_def)
  let ?s = "(fresh demo_packet 77)\<lparr>ss_clientID := 9\<rparr>"
  have "addressed demo_packet demo_code 77 (table ?n0) = (77, ?s)"
    unfolding n0(1) by (simp add: addressed_def Let_def) (simp add: demo_code_def)
  from processData_table [OF n0(2,3) demo_packet_code(1,2) this, of None 0]
  obtain e n1 where n1: "processData None 0 demo_packet ?n0 = (e, n1)" "li_inv n1"
    "table n1 (?key, 77) = Some (snd (ss_addData demo_code ?s))"
    by (auto simp: demo_packet_def demo_data_def)
  define n2 where "n2 = take_one None 0 ?m"
  have n2: "hashOffer n2 = hashOffer n1" "sessions n2 = sessions n1"
    using n1(1) by (simp_all add: n2_def take_one_def m Let_def split: option.split)
  have t2: "table n2 = table n1" "li_inv n2" using table_frame [OF n2] n1(2) by simp_all
  have r2: "li_reach None demo_listener n2"
    unfolding n2_def by (rule li_reach.Step [OF li_reach.Step [OF li_reach.Init li_step.Arrives]
        li_step.Takes]) (simp add: m)
  have "table n2 (?key, 77) \<noteq> None" using n1(3) t2(1) by simp
  then obtain r where r: "entry n2 ?key 77 = Some r" by (auto simp: table_def)
  then have "r < length (sessions n2)" using t2(2) by (auto simp: li_inv_def)
  from li_reach.Step [OF r2 li_step.Closes [OF this]]
  have reach: "li_reach None demo_listener (upd_session r (ss_close (sessions n2 ! r)) n2)" .
  have "table (upd_session r (ss_close (sessions n2 ! r)) n2) (?key, 77) = Some (ss_close (sessions n2 ! r))"
    using table_upd [OF t2(2) r] by simp
  from closed_sessions_stay [OF reach [unfolded demo_listener_def] li_reach.Init this]
  show ?thesis using reach by (auto simp: ss_close_def)
qed

theorem foreign_datagram_kills_witness:
  "thread (take_one None 0 (monitorServer (demo_data [1, 2, 3, 4, 5]) demo_listener)) = Dead"
proof -
  let ?d = "demo_data [1, 2, 3, 4, 5]"
  let ?m = "monitorServer ?d demo_listener"
  have m: "?m = demo_listener\<lparr>queue := [?d], isStart := True, thread := Polling, taken_num := 0\<rparr>"
    by (simp add: monitorServer_def li_startThread_def)
  have t: "table ?m = table demo_listener" "li_inv ?m" "keys_known ?m"
    using table_frame [of ?m demo_listener] by (simp_all add: m keys_known_def)
  have q: "queue ?m = [?d]" "isStart ?m" by (simp_all add: m)
  have f: "dm_data ?d = Some [1, 2, 3, 4, 5]" "length myFlage \<le> length [1, 2, 3, 4, 5 :: jbyte]"
    "take (length myFlage) [1, 2, 3, 4, 5] \<noteq> myFlage"
    by (simp_all add: demo_data_def) (simp add: myFlage_def)
  have none: "table ?m (source_key (dm_srcIP ?d) (dm_srcPort ?d), 0) = None" by (simp add: t(1))
  from foreign_datagram_kills [OF t(2,3) q f none li_reach.Init] show ?thesis by blast
qed

theorem late_packet_kills_witness:
  "thread (take_one None 0 (one_session ((fresh demo_packet 77)\<lparr>ss_isClose := True, ss_shutdown := True\<rparr>)
     [demo_packet])) = Dead"
proof -
  let ?s = "(fresh demo_packet 77)\<lparr>ss_isClose := True, ss_shutdown := True\<rparr>"
  have s: "ss_isClose ?s" "ss_shutdown ?s" "\<not> isStartData ?s" "length (buf ?s) = nat bufsize"
    "source_key (ss_srcIP ?s) (ss_srcPort ?s) = source_key (dm_srcIP demo_packet) (dm_srcPort demo_packet)"
    "ss_id ?s = SessionID demo_code"
    by (simp_all add: fresh_def new_ServerSession_def)
  show ?thesis
    using late_packet_kills [OF one_session_facts(1-4) demo_packet_code(1) _ _ _
        one_session_facts(6) [of ?s, unfolded s(5,6)] s(1-4) li_reach.Init]
    by simp
qed

theorem foreign_session_kills_witness:
  "thread (take_one None 0 (monitorServer demo_packet
     (demo_listener\<lparr>manager := addSessionMap ''10.0.0.9:1'' new_ServerManager\<rparr>))) = Dead"
proof -
  let ?n = "demo_listener\<lparr>manager := addSessionMap ''10.0.0.9:1'' new_ServerManager\<rparr>"
  have m: "monitorServer demo_packet ?n
      = ?n\<lparr>queue := [demo_packet], isStart := True, thread := Polling, taken_num := 0\<rparr>"
    by (simp add: monitorServer_def li_startThread_def)
  show ?thesis
    using foreign_session_kills [of "monitorServer demo_packet ?n" demo_packet "[]" None demo_code
        "''10.0.0.9:1''" 0, OF _ _ demo_packet_code(1) _ _ li_reach.Init]
    by (simp add: m) (simp add: addSessionMap_def new_ServerManager_def demo_listener_def new_ListenerData_def)
qed


theorem senders_confused_witness:
  "\<exists>n1 s1. processData None 0 (demo_packet\<lparr>dm_srcIP := ''10.0.0.1'', dm_srcPort := 15000\<rparr>)
       (one_session ((fresh demo_packet 77)\<lparr>ss_srcIP := ''10.0.0.11'', ss_srcPort := 5000\<rparr>) [])
     = (fst (ss_addData demo_code ((fresh demo_packet 77)\<lparr>ss_srcIP := ''10.0.0.11'', ss_srcPort := 5000\<rparr>)), n1)
   \<and> table n1 (source_key ''10.0.0.1'' 15000, 77) = Some s1 \<and> ss_srcIP s1 = ''10.0.0.11''"
proof -
  let ?s = "(fresh demo_packet 77)\<lparr>ss_srcIP := ''10.0.0.11'', ss_srcPort := 5000\<rparr>"
  let ?d = "demo_packet\<lparr>dm_srcIP := ''10.0.0.1'', dm_srcPort := 15000\<rparr>"
  have dec: "int_text 15000 = ''1'' @ int_text 5000" by (simp add: int_text_def decimal.simps) code_simp
  have f: "for_session None ?d demo_code" using demo_packet_code(1) by (simp add: for_session_def)
  have s: "source_key (ss_srcIP ?s) (ss_srcPort ?s) = source_key (''10.0.0.1'' @ ''1'') 5000"
    "ss_id ?s = SessionID demo_code" "\<not> ss_isClose ?s"
    by (simp_all add: fresh_def new_ServerSession_def)
  show ?thesis
    using senders_confused [where rnd = 0, OF one_session_facts(1,2) dec one_session_facts(6) [of ?s "[]", unfolded s(1,2)]
        s(3) _ _ _ _ f] by auto
qed

end
