(* ===== verification/ReceiverFacts.thy ===== *)
theory ReceiverFacts
  imports Receiver
begin

text \<open>
  What the receiving session does with a message: the reader's loops evaluated on silence (nothing
  arrives while it reads), the messages that are delivered, those that are lost, and the invariant
  of the session under every schedule of arrivals.
\<close>

section \<open>The loops on silence\<close>

definition nack :: "nat \<Rightarrow> server_session \<Rightarrow> ss_event" where
  "nack b s = Sent (ss_srcIP s, ss_srcPort s, ack_bytes (new_AckPackaget\<lparr>ack_packagetID :=
     waitSequenceNumber (heap s ! b), ack_sessionid := ss_id s, ackType := 2,
     ack_clientID := ss_clientID s\<rparr>))"

text \<open>The network delivers what the session sends: acknowledgements of 34 bytes to its peer.\<close>

definition peer_reachable :: "net_env \<Rightarrow> server_session \<Rightarrow> bool" where
  "peer_reachable env s \<longleftrightarrow> resolves env (ss_srcIP s) \<and> sendable env 34"

lemma length_ack: "ackType a = 2 \<or> ackType a = 1 \<Longrightarrow> length (ack_bytes a) = 34"
  by (auto simp: ack_bytes_def)

lemma udp_send_new:
  "resolves env ip \<Longrightarrow> sendable env (length d) \<Longrightarrow>
    \<exists>c. udp_sendData env (Some ip) port (Some d) new_UDPClient = (None, [(ip, port, d)], c)"
  by (simp add: udp_sendData_def open_socket_def new_UDPClient_def Let_def)

lemma request_missing_ok:
  assumes "peer_reachable env s"
  shows "request_missing env b s = Inr (s\<lparr>ss_out := ss_out s @ [nack b s]\<rparr>)"
proof -
  let ?a = "ack_bytes (new_AckPackaget\<lparr>ack_packagetID := waitSequenceNumber (heap s ! b),
     ack_sessionid := ss_id s, ackType := 2, ack_clientID := ss_clientID s\<rparr>)"
  have "length ?a = 34" by (simp add: length_ack)
  then obtain c where "udp_sendData env (Some (ss_srcIP s)) (ss_srcPort s) (Some ?a) new_UDPClient
      = (None, [(ss_srcIP s, ss_srcPort s, ?a)], c)"
    using udp_send_new [of env "ss_srcIP s" ?a "ss_srcPort s"] assms
    by (auto simp: peer_reachable_def)
  then show ?thesis by (simp add: request_missing_eq nack_def)
qed

lemma timedPoll_silent:
  "poll (heap s ! b) = Inr (r, rb) \<Longrightarrow> timedPoll b [] s = Inr (r, [], s\<lparr>heap := (heap s)[b := rb]\<rparr>)"
  by (simp add: timedPoll_def)

text \<open>A buffer with nothing to take: eleven requests, counted from the reader's last success.\<close>

definition gave_up :: "nat \<Rightarrow> server_session \<Rightarrow> server_session" where
  "gave_up b s = s\<lparr>readNull := 11,
     ss_out := ss_out s @ replicate (nat (11 - readNull s)) (nack b s)\<rparr>"

lemma nack_cong:
  "ss_srcIP s = ss_srcIP t \<Longrightarrow> ss_srcPort s = ss_srcPort t \<Longrightarrow> heap s = heap t \<Longrightarrow>
    ss_id s = ss_id t \<Longrightarrow> ss_clientID s = ss_clientID t \<Longrightarrow> nack b s = nack b t"
  by (simp add: nack_def)

lemma waitChunk_silent:
  assumes "peer_reachable env s" and "poll (heap s ! b) = Inr (None, heap s ! b)"
    and "readNull s \<le> 10"
  shows "waitChunk env b [] s = Inr ([], gave_up b s)"
  using assms
proof (induction "nat (10 - readNull s)" arbitrary: s)
  case 0
  then have "readNull s = 10" by simp
  moreover have "request_missing env b (s\<lparr>readNull := 11\<rparr>)
      = Inr (s\<lparr>readNull := 11, ss_out := ss_out s @ [nack b s]\<rparr>)"
    using request_missing_ok [of env "s\<lparr>readNull := 11\<rparr>" b] "0.prems"(1)
    by (simp add: peer_reachable_def nack_def)
  ultimately show ?case
    using "0.prems"(2) by (subst waitChunk.simps) (simp add: timedPoll_silent gave_up_def)
next
  case (Suc k)
  let ?s = "s\<lparr>readNull := readNull s + 1, ss_out := ss_out s @ [nack b s]\<rparr>"
  have lt: "readNull s < 10" using Suc.hyps(2) by simp
  have "request_missing env b (s\<lparr>readNull := readNull s + 1\<rparr>) = Inr ?s"
    using request_missing_ok [of env "s\<lparr>readNull := readNull s + 1\<rparr>" b] Suc.prems(1)
    by (simp add: peer_reachable_def nack_def)
  then have "waitChunk env b [] s = waitChunk env b [] ?s"
    using Suc.prems(2) lt by (subst waitChunk.simps) (simp add: timedPoll_silent)
  also have "\<dots> = Inr ([], gave_up b ?s)"
    by (rule Suc.hyps) (use Suc.prems Suc.hyps(2) in \<open>simp_all add: peer_reachable_def\<close>)
  also have "gave_up b ?s = gave_up b s"
  proof -
    have "nat (11 - readNull s) = Suc (nat (10 - readNull s))" using lt by simp
    then show ?thesis by (simp add: gave_up_def nack_def)
  qed
  finally show ?case .
qed

text \<open>What the chunks leave in the session, whatever the buffer they came from.\<close>

definition taken :: "app_data list \<Rightarrow> server_session \<Rightarrow> server_session" where
  "taken ds s = fold (\<lambda>d. take_chunk d (the (ad_data d))) ds s"

definition payload :: "app_data list \<Rightarrow> jbyte list list" where
  "payload ds = map (\<lambda>d. the (ad_data d)) ds"

lemma payload_simps [simp]:
  "payload [] = []" "payload (d # ds) = the (ad_data d) # payload ds"
  by (simp_all add: payload_def)

lemma taken_simps [simp]:
  "taken [] s = s" "taken (d # ds) s = taken ds (take_chunk d (the (ad_data d)) s)"
  by (simp_all add: taken_def)

lemma taken_eq:
  "ds \<noteq> [] \<Longrightarrow> taken ds s = s\<lparr>chunks := chunks s @ payload ds,
      readLen := readLen s + int (length (concat (payload ds))),
      readInitSeq := intSequenceNumber (last ds), currentChunk := None, readNull := 0,
      zeroNum := False\<rparr>"
proof (induction ds arbitrary: s)
  case (Cons d ds)
  show ?case
  proof (cases "ds = []")
    case True
    then show ?thesis by (simp add: take_chunk_def)
  next
    case False
    then show ?thesis using Cons.IH [OF False, of "take_chunk d (the (ad_data d)) s"]
      by (simp add: take_chunk_def)
  qed
qed simp

lemma isEmpty_counter: "numValidChunks rb \<noteq> 0 \<Longrightarrow> \<not> isEmpty rb"
  by (simp add: isEmpty_def)

lemma pollN_step:
  assumes "rb_inv rb" and "numValidChunks rb = int (Suc k)" and "pollN (Suc k) rb = Inr (map Some L, rb')"
  shows "\<exists>d M rb1. L = d # M \<and> poll rb = Inr (Some d, rb1) \<and> rb_inv rb1
     \<and> numValidChunks rb1 = int k \<and> pollN k rb1 = Inr (map Some M, rb')"
proof -
  obtain r rb1 rs where p: "poll rb = Inr (r, rb1)" "pollN k rb1 = Inr (rs, rb')"
    "map Some L = r # rs"
    using assms(3) by (auto simp: bindR_Inr_iff)
  then obtain d M where L: "L = d # M" "r = Some d" "rs = map Some M"
    by (metis map_eq_Cons_conv)
  have "numValidChunks rb1 = int k"
    using poll_cases [OF assms(1)] p(1) L(2) assms(2) by auto
  then show ?thesis using p L poll_inv [OF assms(1) p(1)] by blast
qed

lemma poll_counter_zero: "numValidChunks rb = 0 \<Longrightarrow> poll rb = Inr (None, rb)"
  by (simp add: poll_def)

text \<open>
  The inner loop with a chunk in hand and \<open>k\<close> more that can be taken: it takes them all; then the
  buffer either says that it is read to the end, or the requests for a missing packet go out.
\<close>

lemma drain_silent:
  assumes "rb_inv (heap s ! b)" and "b < length (heap s)" and "numValidChunks (heap s ! b) = int k"
    and "pollN k (heap s ! b) = Inr (map Some L, rb')" and "currentChunk s = Some d"
    and "\<forall>x \<in> set (d # L). ad_data x \<noteq> None" and "k + 1 < n" and "peer_reachable env s"
  shows "drain n env b [] s len
     = (let t = taken (d # L) (s\<lparr>heap := (heap s)[b := rb']\<rparr>);
            len' = len + int (length (concat (payload (d # L))))
        in Some (Inr ([], if isEmpty rb' then t else gave_up b t, len')))"
  using assms
proof (induction k arbitrary: s L d len n)
  case 0
  obtain m where n: "n = Suc (Suc m)" using "0.prems"(7) by (metis add.commute less_imp_Suc_add plus_1_eq_Suc add_Suc)
  have L: "L = []" "rb' = heap s ! b" using "0.prems"(4) by simp_all
  obtain data where data: "ad_data d = Some data" using "0.prems"(6) by auto
  let ?t = "take_chunk d data s"
  have z: "poll (heap ?t ! b) = Inr (None, heap ?t ! b)"
    using "0.prems"(3) by (simp add: take_chunk_def poll_counter_zero)
  have w: "waitChunk env b [] ?t = Inr ([], gave_up b ?t)"
    by (rule waitChunk_silent [OF _ z])
      (use "0.prems"(8) in \<open>simp_all add: take_chunk_def peer_reachable_def\<close>)
  have "updateCurrentChunk env True b [] ?t = Inr ([], gave_up b ?t)"
    using timedPoll_silent [OF z] w
    by (simp add: updateCurrentChunk_def) (simp add: take_chunk_def)
  then show ?case
    using "0.prems"(5) data n L
    by (simp add: Let_def) (simp add: take_chunk_def gave_up_def)
next
  case (Suc k)
  obtain m where n: "n = Suc m" "k + 1 < m" using Suc.prems(7) by (cases n) auto
  obtain data where data: "ad_data d = Some data" using Suc.prems(6) by auto
  obtain e M rb1 where e: "L = e # M" "poll (heap s ! b) = Inr (Some e, rb1)" "rb_inv rb1"
    "numValidChunks rb1 = int k" "pollN k rb1 = Inr (map Some M, rb')"
    using pollN_step [OF Suc.prems(1,3,4)] by blast
  let ?t = "take_chunk d data s"
  let ?u = "?t\<lparr>heap := (heap s)[b := rb1], currentChunk := Some e\<rparr>"
  have "updateCurrentChunk env True b [] ?t = Inr ([], ?u)"
    using timedPoll_silent [of ?t b "Some e" rb1] e(2)
    by (simp add: updateCurrentChunk_def take_chunk_def)
  moreover have "\<not> isEmpty (heap ?t ! b)"
    using Suc.prems(3) by (intro isEmpty_counter) (simp add: take_chunk_def)
  ultimately have "drain n env b [] s len = drain m env b [] ?u (len + int (length data))"
    using Suc.prems(5) data n(1) by (simp add: Let_def)
  also have "\<dots> = (let t = taken (e # M) (?u\<lparr>heap := (heap ?u)[b := rb']\<rparr>);
            len' = len + int (length data) + int (length (concat (payload (e # M))))
        in Some (Inr ([], if isEmpty rb' then t else gave_up b t, len')))"
    by (rule Suc.IH) (use Suc.prems e n in \<open>simp_all add: take_chunk_def peer_reachable_def\<close>)
  also have "taken (e # M) (?u\<lparr>heap := (heap ?u)[b := rb']\<rparr>)
      = taken (d # L) (s\<lparr>heap := (heap s)[b := rb']\<rparr>)"
    using data e(1) by (simp add: take_chunk_def)
  finally show ?case using data e(1) by (simp add: Let_def add.assoc)
qed

section \<open>Assembling\<close>

lemma copyAll_concat:
  "int (length (concat xs)) + offset = int (length all) \<Longrightarrow> 0 \<le> offset \<Longrightarrow>
    copyAll xs offset all = Inr (take (nat offset) all @ concat xs)"
proof (induction xs arbitrary: offset all)
  case (Cons x xs)
  let ?all = "take (nat offset) all @ x @ drop (nat (offset + int (length x))) all"
  have le: "nat offset \<le> length all" "offset + int (length x) \<le> int (length all)"
    using Cons.prems by auto
  have len: "int (length ?all) = int (length all)" using le Cons.prems(2) by (simp add: nat_add_distrib)
  have "copyAll xs (offset + int (length x)) ?all
      = Inr (take (nat (offset + int (length x))) ?all @ concat xs)"
    by (rule Cons.IH) (use Cons.prems len in auto)
  moreover have "take (nat (offset + int (length x))) ?all = take (nat offset) all @ x"
    using le Cons.prems(2) by (simp add: nat_add_distrib)
  ultimately show ?case using le Cons.prems(2) by (simp add: arraycopy_def)
qed simp

lemma assemble_concat:
  "length (concat xs) < 2 ^ 31 \<Longrightarrow> assemble (int (length (concat xs))) xs = Inr (concat xs)"
  using copyAll_concat [of xs 0 "replicate (length (concat xs)) 0"]
  by (simp add: assemble_def new_bytes_ok)

section \<open>A message from its buffer\<close>

definition lost :: "nat \<Rightarrow> server_session \<Rightarrow> server_session" where
  "lost b s = clear_buffer b ((gave_up b s)\<lparr>ss_isClose := True, chunks := []\<rparr>)"

lemma readLoop_silent:
  assumes "rb_inv (heap s ! b)" and "b < length (heap s)" and "numValidChunks (heap s ! b) = int (length L)"
    and "pollN (length L) (heap s ! b) = Inr (map Some L, rb')" and "L \<noteq> []"
    and "\<forall>x \<in> set L. ad_data x \<noteq> None" and "length L \<le> n" and "peer_reachable env s"
    and "\<not> isCall s" and "currentChunk s = None" and "chunks s = []"
    and "length (concat (payload L)) < 2 ^ 31"
  shows "readLoop (Suc n) env b [] s 0
     = (let t = taken L (s\<lparr>heap := (heap s)[b := rb'], zeroRead := zeroRead s + 1\<rparr>)
        in if isEmpty rb' then Some (Inr (Some (concat (payload L)), [], t\<lparr>chunks := []\<rparr>))
           else Some (Inr (None, [], lost b t)))"
proof -
  obtain k where k: "length L = Suc k" using assms(5) by (cases L) auto
  obtain d M rb1 where d: "L = d # M" "poll (heap s ! b) = Inr (Some d, rb1)" "rb_inv rb1"
    "numValidChunks rb1 = int k" "pollN k rb1 = Inr (map Some M, rb')"
    using pollN_step [OF assms(1), of k] assms(3,4) k by metis
  let ?s = "s\<lparr>heap := (heap s)[b := rb1], currentChunk := Some d, zeroRead := zeroRead s + 1\<rparr>"
  let ?t = "taken L (s\<lparr>heap := (heap s)[b := rb'], zeroRead := zeroRead s + 1\<rparr>)"
  have u: "updateCurrentChunk env False b [] s = Inr ([], ?s)"
    using timedPoll_silent [of s b "Some d" rb1] d(2) assms(10)
    by (simp add: updateCurrentChunk_def)
  have "drain (Suc n) env b [] ?s 0
     = (let t = taken (d # M) (?s\<lparr>heap := (heap ?s)[b := rb']\<rparr>);
            len' = 0 + int (length (concat (payload (d # M))))
        in Some (Inr ([], if isEmpty rb' then t else gave_up b t, len')))"
    by (rule drain_silent) (use d k assms in \<open>simp_all add: peer_reachable_def Suc_le_eq\<close>)
  moreover have "taken (d # M) (?s\<lparr>heap := (heap ?s)[b := rb']\<rparr>) = ?t"
    unfolding d(1) taken_simps by (rule arg_cong [where f = "taken M"]) (simp add: take_chunk_def)
  ultimately have dr: "drain (Suc n) env b [] ?s 0
     = Some (Inr ([], if isEmpty rb' then ?t else gave_up b ?t, int (length (concat (payload L)))))"
    using d(1) by (simp add: Let_def)
  have t: "readNull ?t = 0" "chunks ?t = payload L" "heap ?t = (heap s)[b := rb']"
    using taken_eq [OF assms(5)] assms(11) by simp_all
  show ?thesis
  proof (cases "isEmpty rb'")
    case True
    then show ?thesis
      using assms(2,9) u dr t assemble_concat [OF assms(12)] by (simp add: Let_def)
  next
    case False
    then show ?thesis
      using assms(9) u dr by (simp add: Let_def lost_def) (simp add: gave_up_def)
  qed
qed

lemma readAll_silent:
  assumes "buf s ! nat (readbufIndex s mod bufsize) = Some b"
    and "rb_inv (heap s ! b)" and "b < length (heap s)" and "numValidChunks (heap s ! b) = int (length L)"
    and "pollN (length L) (heap s ! b) = Inr (map Some L, rb')" and "L \<noteq> []"
    and "\<forall>x \<in> set L. ad_data x \<noteq> None" and "length L \<le> n" and "peer_reachable env s"
    and "\<not> isCall s" and "currentChunk s = None" and "length (concat (payload L)) < 2 ^ 31"
  shows "readAll (Suc n) env [] s
     = (let t = taken L (s\<lparr>chunks := [], readLen := 0, buffer := Some b, bufNum := bufNum s - 1,
                          heap := (heap s)[b := rb'], zeroRead := zeroRead s + 1\<rparr>)
        in if isEmpty rb' then Some (Inr (Some (concat (payload L)), [], t\<lparr>chunks := []\<rparr>))
           else Some (Inr (None, [], lost b t)))"
proof -
  let ?s = "s\<lparr>chunks := [], readLen := 0, buffer := Some b, bufNum := bufNum s - 1\<rparr>"
  have "readLoop (Suc n) env b [] ?s 0
     = (let t = taken L (?s\<lparr>heap := (heap ?s)[b := rb'], zeroRead := zeroRead ?s + 1\<rparr>)
        in if isEmpty rb' then Some (Inr (Some (concat (payload L)), [], t\<lparr>chunks := []\<rparr>))
           else Some (Inr (None, [], lost b t)))"
    by (rule readLoop_silent) (use assms in \<open>simp_all add: peer_reachable_def\<close>)
  then show ?thesis
    using assms(1) by (simp add: readAll_def load_buffer_def Let_def del: readLoop.simps)
qed

section \<open>The packets of a message arrive\<close>

definition chunk_of :: "return_code \<Rightarrow> app_data" where
  "chunk_of rc = new_AppData (packagetNum rc) (InitSeq rc) (PackagetID rc) (rc_data rc)"

definition slot :: "jlong \<Rightarrow> nat" where
  "slot i = nat (sint i mod bufsize)"

lemma chunk_of_simps [simp]:
  "intSequenceNumber (chunk_of rc) = InitSeq rc" "sequenceNumber (chunk_of rc) = PackagetID rc"
  "ad_data (chunk_of rc) = rc_data rc"
  by (simp_all add: chunk_of_def new_AppData_def)

lemma slot_lookup:
  assumes "0 \<le> sint i" and "length (buf s) = nat bufsize"
  shows "bindR (java_rem (sint i) bufsize) (array_get (buf s)) = Inr (buf s ! slot i)"
    "bindR (java_rem (sint i) bufsize) (\<lambda>i. bindR (array_get (buf s) i) (\<lambda>b. Inr (nat i, b)))
       = Inr (slot i, buf s ! slot i)"
    "slot i < length (buf s)"
proof -
  have "0 \<le> sint i mod bufsize" "sint i mod bufsize < int (length (buf s))"
    using assms by (simp_all add: bufsize_def)
  then show "bindR (java_rem (sint i) bufsize) (array_get (buf s)) = Inr (buf s ! slot i)"
    "bindR (java_rem (sint i) bufsize) (\<lambda>i. bindR (array_get (buf s) i) (\<lambda>b. Inr (nat i, b)))
       = Inr (slot i, buf s ! slot i)" "slot i < length (buf s)"
    using assms by (simp_all add: result_simps slot_def bufsize_def nat_less_iff)
qed

lemma minus_one_neg: "(i :: 'a::len word) = -1 \<Longrightarrow> sint i < 0"
  by simp

lemma addData_known:
  assumes "0 \<le> sint (InitSeq rc)" and "0 \<le> sint (packagetNum rc)" and "length (buf s) = nat bufsize"
    and "buf s ! slot (InitSeq rc) = Some b" and "\<not> ss_isClose s \<and> \<not> ss_shutdown s" and "\<not> isAck rc"
    and "offer (chunk_of rc) (heap s ! b) = Inr (ok, rb)"
  shows "ss_addData rc s = (None, s\<lparr>preBuf := Some b, isStartData := True, heap := (heap s)[b := rb]\<rparr>)"
proof -
  have ne: "packagetNum rc \<noteq> -1" "InitSeq rc \<noteq> -1" using assms(1,2) by auto
  have "intBuffer (packagetNum rc) (InitSeq rc) s = (None, s\<lparr>preBuf := Some b, isStartData := True\<rparr>)"
    using slot_lookup(2) [OF assms(1,3)] assms(4,5) ne by (simp add: intBuffer_def ss_startThread_def)
  moreover have "setData (chunk_of rc) (s\<lparr>preBuf := Some b, isStartData := True\<rparr>)
      = (None, s\<lparr>preBuf := Some b, isStartData := True, heap := (heap s)[b := rb]\<rparr>)"
    using slot_lookup(1) [OF assms(1,3)] assms(4,7) by (simp add: setData_def)
  ultimately show ?thesis
    using assms(5,6) by (simp add: ss_addData_def chunk_of_def)
qed

lemma addData_fresh:
  assumes "0 \<le> sint (InitSeq rc)" and "0 \<le> sint (packagetNum rc)" and "length (buf s) = nat bufsize"
    and "buf s ! slot (InitSeq rc) = None" and "\<not> ss_isClose s \<and> \<not> ss_shutdown s" and "\<not> isAck rc"
    and "new_ReceiveBuffer (sint (packagetNum rc)) (InitSeq rc) = Inr rb0"
    and "offer (chunk_of rc) rb0 = Inr (ok, rb)"
  shows "ss_addData rc s = (None, s\<lparr>heap := heap s @ [rb], preBuf := Some (length (heap s)),
      buf := (buf s)[slot (InitSeq rc) := Some (length (heap s))], bufNum := bufNum s + 1,
      isStartData := True\<rparr>)"
proof -
  have ne: "packagetNum rc \<noteq> -1" "InitSeq rc \<noteq> -1" using assms(1,2) by auto
  let ?s = "s\<lparr>heap := heap s @ [rb0], preBuf := Some (length (heap s)),
      buf := (buf s)[slot (InitSeq rc) := Some (length (heap s))], bufNum := bufNum s + 1,
      isStartData := True\<rparr>"
  have "intBuffer (packagetNum rc) (InitSeq rc) s = (None, ?s)"
    using slot_lookup(2) [OF assms(1,3)] assms(4,5,7) ne
    by (simp add: intBuffer_def ss_startThread_def Let_def)
  moreover have "setData (chunk_of rc) ?s = (None, ?s\<lparr>heap := heap s @ [rb]\<rparr>)"
    using slot_lookup(1) [OF assms(1), of ?s] slot_lookup(3) [OF assms(1,3)] assms(3,8)
    by (simp add: setData_def)
  ultimately show ?thesis
    using assms(5,6) by (simp add: ss_addData_def chunk_of_def)
qed

text \<open>Data packets of one message: its first sequence number and its packet count.\<close>

definition packets_of_message :: "jlong \<Rightarrow> int \<Rightarrow> return_code list \<Rightarrow> bool" where
  "packets_of_message i n rcs \<longleftrightarrow> 0 \<le> sint i \<and> 0 < n
     \<and> (\<forall>rc \<in> set rcs. \<not> isAck rc \<and> InitSeq rc = i \<and> sint (packagetNum rc) = n \<and> rc_data rc \<noteq> None)"

lemma packets_of_message_Cons:
  "packets_of_message i n (rc # rcs) \<longleftrightarrow> \<not> isAck rc \<and> InitSeq rc = i \<and> sint (packagetNum rc) = n
     \<and> rc_data rc \<noteq> None \<and> packets_of_message i n rcs"
  by (auto simp: packets_of_message_def)

lemma arrive_Cons: "arrive (Packet rc # w) s = arrive w (snd (ss_addData rc s))"
  by (simp add: arrive_def arrive1_def)

lemma arrive_more:
  assumes "packets_of_message i n rcs" and "length (buf s) = nat bufsize"
    and "buf s ! slot i = Some b" and "b < length (heap s)" and "\<not> ss_isClose s \<and> \<not> ss_shutdown s"
    and "preBuf s = Some b" and "isStartData s"
    and "offerAll (map chunk_of rcs) (heap s ! b) = Inr rb"
  shows "arrive (map Packet rcs) s = s\<lparr>heap := (heap s)[b := rb]\<rparr>"
  using assms
proof (induction rcs arbitrary: s)
  case (Cons rc rcs)
  note p = Cons.prems(1) [unfolded packets_of_message_Cons]
  obtain ok rb1 where o: "offer (chunk_of rc) (heap s ! b) = Inr (ok, rb1)"
    "offerAll (map chunk_of rcs) rb1 = Inr rb"
    using Cons.prems(8) by (auto simp: bindR_Inr_iff)
  have "0 \<le> sint i" "0 < n" using p by (simp_all add: packets_of_message_def)
  then have "ss_addData rc s
      = (None, s\<lparr>preBuf := Some b, isStartData := True, heap := (heap s)[b := rb1]\<rparr>)"
    by (intro addData_known [OF _ _ _ _ _ _ o(1)]) (use p Cons.prems in auto)
  moreover have "s\<lparr>preBuf := Some b, isStartData := True, heap := (heap s)[b := rb1]\<rparr>
      = s\<lparr>heap := (heap s)[b := rb1]\<rparr>"
    using Cons.prems(6,7) by simp
  moreover have "arrive (map Packet rcs) (s\<lparr>heap := (heap s)[b := rb1]\<rparr>)
      = s\<lparr>heap := (heap s)[b := rb1]\<rparr>\<lparr>heap := (heap (s\<lparr>heap := (heap s)[b := rb1]\<rparr>))[b := rb]\<rparr>"
    by (rule Cons.IH) (use p o Cons.prems in simp_all)
  ultimately show ?case by (simp add: arrive_Cons)
next
  case Nil
  then have "rb = heap s ! b" by simp
  then show ?case by (simp add: arrive_def)
qed

lemma arrive_message:
  assumes "packets_of_message i n rcs" and "rcs \<noteq> []" and "length (buf s) = nat bufsize"
    and "buf s ! slot i = None" and "\<not> ss_isClose s \<and> \<not> ss_shutdown s"
    and "new_ReceiveBuffer n i = Inr rb0" and "offerAll (map chunk_of rcs) rb0 = Inr rb"
  shows "arrive (map Packet rcs) s = s\<lparr>heap := heap s @ [rb], preBuf := Some (length (heap s)),
      buf := (buf s)[slot i := Some (length (heap s))], bufNum := bufNum s + 1, isStartData := True\<rparr>"
proof (cases rcs)
  case (Cons rc rest)
  note p = assms(1) [unfolded Cons packets_of_message_Cons]
  obtain ok rb1 where o: "offer (chunk_of rc) rb0 = Inr (ok, rb1)"
    "offerAll (map chunk_of rest) rb1 = Inr rb"
    using assms(7) Cons by (auto simp: bindR_Inr_iff)
  let ?s = "s\<lparr>heap := heap s @ [rb1], preBuf := Some (length (heap s)),
      buf := (buf s)[slot i := Some (length (heap s))], bufNum := bufNum s + 1, isStartData := True\<rparr>"
  have i: "0 \<le> sint i" "0 < n" using p by (simp_all add: packets_of_message_def)
  then have "ss_addData rc s = (None, ?s)"
    using addData_fresh [of rc s rb0 ok rb1] p o assms(3-6) by auto
  moreover have "arrive (map Packet rest) ?s = ?s\<lparr>heap := (heap ?s)[length (heap s) := rb]\<rparr>"
    by (rule arrive_more [where i = i and n = n])
      (use p o assms slot_lookup(3) [OF i(1) assms(3)] in simp_all)
  ultimately show ?thesis by (simp add: Cons arrive_Cons)
qed (use assms(2) in simp)

section \<open>From arrival to hand-over\<close>

text \<open>The session waits for the message that starts with sequence number \<open>i\<close>.\<close>

definition ready :: "jlong \<Rightarrow> server_session \<Rightarrow> bool" where
  "ready i s \<longleftrightarrow> length (buf s) = nat bufsize \<and> buf s ! slot i = None
     \<and> nat (readbufIndex s mod bufsize) = slot i \<and> currentChunk s = None \<and> \<not> ss_isClose s
     \<and> \<not> ss_shutdown s \<and> \<not> isCall s \<and> lastInitSeq s \<noteq> i"

text \<open>Its sender has not closed it.\<close>

definition awaits :: "jlong \<Rightarrow> server_session \<Rightarrow> bool" where
  "awaits i s \<longleftrightarrow> ready i s \<and> \<not> clientClose s"

definition completion :: "jlong \<Rightarrow> server_session \<Rightarrow> ss_event" where
  "completion i s = Sent (ss_srcIP s, ss_srcPort s, ack_bytes (new_AckPackaget\<lparr>ack_packagetID := i,
     ack_sessionid := ss_id s, ackType := 1, ack_clientID := ss_clientID s\<rparr>))"

definition request :: "jlong \<Rightarrow> server_session \<Rightarrow> ss_event" where
  "request pid s = Sent (ss_srcIP s, ss_srcPort s, ack_bytes (new_AckPackaget\<lparr>ack_packagetID := pid,
     ack_sessionid := ss_id s, ackType := 2, ack_clientID := ss_clientID s\<rparr>))"

definition hand_events :: "(int \<Rightarrow> bool) \<Rightarrow> jbyte list option \<Rightarrow> server_session \<Rightarrow> ss_event list" where
  "hand_events servers all s = Posted (ss_localPort s) all
     # (if consumers s = 0 then [] else [Transferred all])
     @ (if servers (ss_localPort s) then [Accepted (ss_localPort s)] else [])"

lemma hand_on_eq:
  "hand_on servers all s = s\<lparr>readState := readState s + 1, consumers := consumers s - 1,
     ss_out := ss_out s @ hand_events servers all s\<rparr>"
  by (simp add: hand_on_def hand_events_def emit_def Let_def)

lemma acknowledge_ok:
  assumes "peer_reachable env s" and "lastInitSeq s \<noteq> readInitSeq s"
  shows "acknowledge env s = s\<lparr>ss_out := ss_out s @ [completion (readInitSeq s) s],
     lastInitSeq := readInitSeq s\<rparr>"
proof -
  let ?a = "ack_bytes (new_AckPackaget\<lparr>ack_packagetID := readInitSeq s,
     ack_sessionid := ss_id s, ackType := 1, ack_clientID := ss_clientID s\<rparr>)"
  have "length ?a = 34" by (simp add: length_ack)
  then obtain c where "udp_sendData env (Some (ss_srcIP s)) (ss_srcPort s) (Some ?a) new_UDPClient
      = (None, [(ss_srcIP s, ss_srcPort s, ?a)], c)"
    using udp_send_new [of env "ss_srcIP s" ?a "ss_srcPort s"] assms
    by (auto simp: peer_reachable_def)
  then show ?thesis
    using assms(2) by (simp add: acknowledge_def createAckPackaget_eq completion_def)
qed

lemma free_slot_eq:
  assumes "\<not> clientClose s" and "buffer s = Some b"
  shows "free_slot s = s\<lparr>buf := (buf s)[nat (readbufIndex s mod bufsize) := None],
     heap := (heap s)[b := clear (heap s ! b)], readbufIndex := readbufIndex s + 1\<rparr>"
  using assms by (simp add: free_slot_def clear_buffer_def Let_def)

text \<open>What a round leaves behind, apart from its events: the slot is free, the cursor is on the next.\<close>

definition after_round :: "jlong \<Rightarrow> server_session \<Rightarrow> server_session \<Rightarrow> bool" where
  "after_round i s s2 \<longleftrightarrow> bufNum s2 = bufNum s \<and> buf s2 = buf s
     \<and> readbufIndex s2 = readbufIndex s + 1 \<and> lastInitSeq s2 = i
     \<and> currentChunk s2 = None \<and> isCall s2 = isCall s \<and> clientClose s2 = clientClose s
     \<and> consumers s2 = consumers s - 1 \<and> ss_localPort s2 = ss_localPort s
     \<and> ss_srcIP s2 = ss_srcIP s \<and> ss_srcPort s2 = ss_srcPort s \<and> ss_id s2 = ss_id s
     \<and> ss_clientID s2 = ss_clientID s \<and> ss_shutdown s2 = ss_shutdown s"

text \<open>
  One round of the reader on the packets of a message that can be taken out: it hands the message
  on when the buffer then says that it is read to the end, else it gives the message up; then it
  acknowledges, which leaves the state \<open>v\<close>, and frees the slot.
\<close>

definition before_free :: "jlong \<Rightarrow> nat \<Rightarrow> server_session \<Rightarrow> server_session \<Rightarrow> bool" where
  "before_free i b s v \<longleftrightarrow> buffer v = Some b \<and> buf v = (buf s)[slot i := Some b]
     \<and> readbufIndex v = readbufIndex s \<and> bufNum v = bufNum s \<and> lastInitSeq v = i
     \<and> currentChunk v = None \<and> isCall v = isCall s \<and> clientClose v = clientClose s
     \<and> consumers v = consumers s - 1 \<and> ss_localPort v = ss_localPort s
     \<and> ss_srcIP v = ss_srcIP s \<and> ss_srcPort v = ss_srcPort s \<and> ss_id v = ss_id s
     \<and> ss_clientID v = ss_clientID s \<and> ss_shutdown v = ss_shutdown s"

lemma checkRecvice_round:
  assumes "ready i s" and "packets_of_message i n rcs" and "rcs \<noteq> []"
    and "new_ReceiveBuffer n i = Inr rb0" and "offerAll (map chunk_of rcs) rb0 = Inr rb1"
    and "rb_inv rb1" and "numValidChunks rb1 = int (length L)"
    and "pollN (length L) rb1 = Inr (map Some L, rb2)" and "L \<noteq> []"
    and "set L \<subseteq> chunk_of ` set rcs" and "length L \<le> m" and "peer_reachable env s"
    and "length (concat (payload L)) < 2 ^ 31"
  shows "\<exists>v. checkRecvice (Suc m) env servers [] (arrive (map Packet rcs) s) = Some (Inr ([], free_slot v))
     \<and> ss_out v = ss_out s @ (if isEmpty rb2 then hand_events servers (Some (concat (payload L))) s
          else replicate 11 (request (waitSequenceNumber rb2) s) @ hand_events servers None s)
          @ [completion i s]
     \<and> ss_isClose v = (\<not> isEmpty rb2) \<and> before_free i (length (heap s)) s v"
proof -
  note aw = assms(1) [unfolded ready_def]
  let ?b = "length (heap s)"
  define s1 where "s1 = s\<lparr>heap := heap s @ [rb1], preBuf := Some ?b,
      buf := (buf s)[slot i := Some ?b], bufNum := bufNum s + 1, isStartData := True\<rparr>"
  have i: "0 \<le> sint i" using assms(2) by (simp add: packets_of_message_def)
  have sl: "slot i < length (buf s)" using slot_lookup(3) [OF i, of s] aw by blast
  have s1: "arrive (map Packet rcs) s = s1"
    unfolding s1_def by (rule arrive_message [OF assms(2,3) _ _ _ assms(4,5)]) (use aw in simp_all)
  have data: "\<forall>x \<in> set L. ad_data x \<noteq> None \<and> intSequenceNumber x = i"
    using assms(2,10) by (auto simp: packets_of_message_def)
  define t where "t = taken L (s1\<lparr>chunks := [], readLen := 0, buffer := Some ?b,
      bufNum := bufNum s1 - 1, heap := (heap s1)[?b := rb2], zeroRead := zeroRead s1 + 1\<rparr>)"
  have ra: "readAll (Suc m) env [] s1
     = (if isEmpty rb2 then Some (Inr (Some (concat (payload L)), [], t\<lparr>chunks := []\<rparr>))
        else Some (Inr (None, [], lost ?b t)))"
    unfolding t_def
    by (subst readAll_silent [of s1 ?b L rb2])
      (use assms aw sl data in \<open>simp_all add: s1_def peer_reachable_def Let_def\<close>)
  have t: "t = s1\<lparr>chunks := payload L, readLen := int (length (concat (payload L))),
      buffer := Some ?b, bufNum := bufNum s, heap := heap s @ [rb2], zeroRead := zeroRead s1 + 1,
      readInitSeq := i, currentChunk := None, readNull := 0, zeroNum := False\<rparr>"
    unfolding t_def using taken_eq [OF assms(9)] data assms(9) by (simp add: s1_def)
  define u where "u = (if isEmpty rb2 then t\<lparr>chunks := []\<rparr> else lost ?b t)"
  define all where "all = (if isEmpty rb2 then Some (concat (payload L)) else None)"
  define v where "v = hand_on servers all u"
  have u: "readInitSeq u = i" "lastInitSeq u = lastInitSeq s" "clientClose u = clientClose s"
    "buffer u = Some ?b" "readbufIndex u = readbufIndex s" "bufNum u = bufNum s"
    "buf u = (buf s)[slot i := Some ?b]" "currentChunk u = None" "isCall u = isCall s"
    "consumers u = consumers s" "ss_localPort u = ss_localPort s" "ss_srcIP u = ss_srcIP s"
    "ss_srcPort u = ss_srcPort s" "ss_id u = ss_id s" "ss_clientID u = ss_clientID s"
    "ss_isClose u = (\<not> isEmpty rb2)" "ss_shutdown u = ss_shutdown s"
    "ss_out u = ss_out s @ (if isEmpty rb2 then []
        else replicate 11 (request (waitSequenceNumber rb2) s))"
    using aw by (simp_all add: u_def t s1_def lost_def gave_up_def clear_buffer_def nack_def request_def)
  have v: "peer_reachable env v" "lastInitSeq v \<noteq> readInitSeq v" "readInitSeq v = i"
    using assms(12) aw u by (simp_all add: v_def hand_on_eq peer_reachable_def)
  have chk: "checkRecvice (Suc m) env servers [] s1 = Some (Inr ([], free_slot (acknowledge env v)))"
    unfolding checkRecvice_def ra v_def u_def all_def by simp
  let ?v = "v\<lparr>ss_out := ss_out v @ [completion i v], lastInitSeq := i\<rparr>"
  have ack: "acknowledge env v = ?v" using acknowledge_ok [OF v(1,2)] v(3) by simp
  have "completion i v = completion i s"
    using u by (simp add: completion_def v_def hand_on_eq)
  moreover have "before_free i ?b s ?v" using u by (simp add: before_free_def v_def hand_on_eq)
  ultimately show ?thesis
    unfolding s1 chk ack using u by (intro exI [of _ ?v])
      (simp add: v_def hand_on_eq hand_events_def all_def)
qed

lemma slot_freed: "xs ! i = None \<Longrightarrow> (xs[i := Some b])[i := None] = xs"
  by (metis list_update_id list_update_overwrite)

lemma checkRecvice_silent:
  assumes "awaits i s" and "packets_of_message i n rcs" and "rcs \<noteq> []"
    and "new_ReceiveBuffer n i = Inr rb0" and "offerAll (map chunk_of rcs) rb0 = Inr rb1"
    and "rb_inv rb1" and "numValidChunks rb1 = int (length L)"
    and "pollN (length L) rb1 = Inr (map Some L, rb2)" and "L \<noteq> []"
    and "set L \<subseteq> chunk_of ` set rcs" and "length L \<le> m" and "peer_reachable env s"
    and "length (concat (payload L)) < 2 ^ 31"
  shows "\<exists>s2. checkRecvice (Suc m) env servers [] (arrive (map Packet rcs) s) = Some (Inr ([], s2))
     \<and> ss_out s2 = ss_out s @ (if isEmpty rb2 then hand_events servers (Some (concat (payload L))) s
          else replicate 11 (request (waitSequenceNumber rb2) s) @ hand_events servers None s)
          @ [completion i s]
     \<and> ss_isClose s2 = (\<not> isEmpty rb2) \<and> after_round i s s2"
proof -
  have rd: "ready i s" using assms(1) by (simp add: awaits_def)
  obtain v where v: "checkRecvice (Suc m) env servers [] (arrive (map Packet rcs) s) = Some (Inr ([], free_slot v))"
    "ss_out v = ss_out s @ (if isEmpty rb2 then hand_events servers (Some (concat (payload L))) s
          else replicate 11 (request (waitSequenceNumber rb2) s) @ hand_events servers None s)
          @ [completion i s]" "ss_isClose v = (\<not> isEmpty rb2)" "before_free i (length (heap s)) s v"
    using checkRecvice_round [OF rd assms(2-), of servers] by blast
  note bf = v(4) [unfolded before_free_def]
  have "free_slot v = v\<lparr>buf := (buf v)[nat (readbufIndex v mod bufsize) := None],
      heap := (heap v)[length (heap s) := clear (heap v ! length (heap s))],
      readbufIndex := readbufIndex v + 1\<rparr>"
    by (rule free_slot_eq) (use assms(1) bf in \<open>simp_all add: awaits_def\<close>)
  moreover have "(buf v)[nat (readbufIndex v mod bufsize) := None] = buf s"
    using rd bf slot_freed [of "buf s" "slot i"] by (simp add: ready_def)
  ultimately show ?thesis using v(1-3) bf by (simp add: after_round_def)
qed

section \<open>Messages that arrive while nothing else does\<close>

text \<open>A stream of messages: each arrives, and the reader makes a round before the next.\<close>

fun serve :: "nat \<Rightarrow> net_env \<Rightarrow> (int \<Rightarrow> bool) \<Rightarrow> return_code list list \<Rightarrow> server_session \<Rightarrow>
    server_session option" where
  "serve n env servers [] s = Some s"
| "serve n env servers (m # ms) s =
     (case checkRecvice n env servers [] (arrive (map Packet m) s) of
        Some (Inr (_, s1)) \<Rightarrow> serve n env servers ms s1
      | _ \<Rightarrow> None)"

definition whole :: "jlong \<Rightarrow> jbyte list \<Rightarrow> return_code \<Rightarrow> bool" where
  "whole i d rc \<longleftrightarrow> packets_of_message i 1 [rc] \<and> PackagetID rc = i \<and> rc_data rc = Some d"

lemma single_fill:
  assumes "whole i d rc"
  shows "packets_of_message i 1 [rc]" "0 \<le> sint i"
    "\<exists>rb0 rb1 rb2. new_ReceiveBuffer 1 i = Inr rb0 \<and> offerAll (map chunk_of [rc]) rb0 = Inr rb1
      \<and> pollN 1 rb1 = Inr ([Some (chunk_of rc)], rb2) \<and> isEmpty rb2 \<and> rb_inv rb1
      \<and> numValidChunks rb1 = 1"
proof -
  show p: "packets_of_message i 1 [rc]" "0 \<le> sint i"
    using assms by (auto simp: whole_def packets_of_message_def)
  let ?ds = "map chunk_of [rc]"
  have ds: "0 < length ?ds" "int (length ?ds) = 1" "distinct (map (slot_of 1) ?ds)"
    "\<forall>x \<in> set ?ds. 0 \<le> sint (sequenceNumber x)" using assms p by (simp_all add: whole_def)
  obtain rb0 rb1 rb2 L where f: "new_ReceiveBuffer 1 i = Inr rb0" "offerAll ?ds rb0 = Inr rb1"
    "pollN (length ?ds) rb1 = Inr (map Some L, rb2)" "mset L = mset ?ds" "isEmpty rb2"
    "rb_inv rb1" "numValidChunks rb1 = int (length ?ds)"
    using fill_and_drain [OF ds(1,2,4,3), of i] by auto
  then show "\<exists>rb0 rb1 rb2. new_ReceiveBuffer 1 i = Inr rb0 \<and> offerAll (map chunk_of [rc]) rb0 = Inr rb1
      \<and> pollN 1 rb1 = Inr ([Some (chunk_of rc)], rb2) \<and> isEmpty rb2 \<and> rb_inv rb1
      \<and> numValidChunks rb1 = 1"
    by simp
qed

lemma single_round:
  assumes "ready i s" and "whole i d rc" and "peer_reachable env s" and "length d < 2 ^ 31"
  shows "\<exists>v. checkRecvice (Suc (Suc m)) env servers [] (arrive [Packet rc] s) = Some (Inr ([], free_slot v))
     \<and> ss_out v = ss_out s @ hand_events servers (Some d) s @ [completion i s]
     \<and> \<not> ss_isClose v \<and> before_free i (length (heap s)) s v"
proof -
  note f0 = single_fill [OF assms(2)]
  let ?L = "[chunk_of rc]"
  obtain rb0 rb1 rb2 where f: "new_ReceiveBuffer 1 i = Inr rb0" "offerAll (map chunk_of [rc]) rb0 = Inr rb1"
    "pollN 1 rb1 = Inr ([Some (chunk_of rc)], rb2)" "isEmpty rb2" "rb_inv rb1" "numValidChunks rb1 = 1"
    using f0(3) by blast
  have d: "concat (payload ?L) = d" using assms(2) by (simp add: whole_def)
  have "\<exists>v. checkRecvice (Suc (Suc m)) env servers [] (arrive (map Packet [rc]) s) = Some (Inr ([], free_slot v))
     \<and> ss_out v = ss_out s @ (if isEmpty rb2 then hand_events servers (Some (concat (payload ?L))) s
          else replicate 11 (request (waitSequenceNumber rb2) s) @ hand_events servers None s)
          @ [completion i s]
     \<and> ss_isClose v = (\<not> isEmpty rb2) \<and> before_free i (length (heap s)) s v"
    by (rule checkRecvice_round [OF assms(1) f0(1) _ f(1,2,5)]) (use f d assms in simp_all)
  then show ?thesis using f(4) d by simp
qed

lemma single_arrival:
  assumes "whole i d rc"
  shows "\<exists>rb. \<forall>s. ready i s \<longrightarrow> arrive [Packet rc] s = s\<lparr>heap := heap s @ [rb],
      preBuf := Some (length (heap s)), buf := (buf s)[slot i := Some (length (heap s))],
      bufNum := bufNum s + 1, isStartData := True\<rparr>"
proof -
  note f0 = single_fill [OF assms]
  obtain rb0 rb1 where f: "new_ReceiveBuffer 1 i = Inr rb0" "offerAll (map chunk_of [rc]) rb0 = Inr rb1"
    using f0(3) by blast
  have "arrive (map Packet [rc]) s = s\<lparr>heap := heap s @ [rb1], preBuf := Some (length (heap s)),
      buf := (buf s)[slot i := Some (length (heap s))], bufNum := bufNum s + 1, isStartData := True\<rparr>"
    if "ready i s" for s
    by (rule arrive_message [OF f0(1) _ _ _ _ f]) (use that in \<open>simp_all add: ready_def\<close>)
  then show ?thesis by auto
qed

lemma after_free:
  assumes "before_free i b s v" and "awaits i s" and "\<not> ss_isClose v"
  shows "after_round i s (free_slot v) \<and> ss_out (free_slot v) = ss_out v \<and> \<not> ss_isClose (free_slot v)"
proof -
  note bf = assms(1) [unfolded before_free_def]
  have "free_slot v = v\<lparr>buf := (buf v)[nat (readbufIndex v mod bufsize) := None],
      heap := (heap v)[b := clear (heap v ! b)], readbufIndex := readbufIndex v + 1\<rparr>"
    by (rule free_slot_eq) (use assms(2) bf in \<open>simp_all add: awaits_def\<close>)
  moreover have "(buf v)[nat (readbufIndex v mod bufsize) := None] = buf s"
    using assms(2) bf slot_freed [of "buf s" "slot i"] by (simp add: awaits_def ready_def)
  ultimately show ?thesis using assms(3) bf by (simp add: after_round_def)
qed

lemma single_packet:
  assumes "awaits i s" and "whole i d rc" and "peer_reachable env s" and "length d < 2 ^ 31"
  shows "\<exists>s2. checkRecvice (Suc (Suc m)) env servers [] (arrive [Packet rc] s) = Some (Inr ([], s2))
     \<and> ss_out s2 = ss_out s @ hand_events servers (Some d) s @ [completion i s]
     \<and> \<not> ss_isClose s2 \<and> after_round i s s2"
proof -
  have "ready i s" using assms(1) by (simp add: awaits_def)
  from single_round [OF this assms(2-4), of m servers] show ?thesis
    using after_free assms(1) by metis
qed

lemma after_round_events:
  assumes "after_round i s s2" and "consumers s = 0"
  shows "consumers s2 = 0" "hand_events servers all s2 = hand_events servers all s"
    "completion j s2 = completion j s" "request j s2 = request j s"
    "peer_reachable env s2 = peer_reachable env s"
  using assms
  by (simp_all add: after_round_def hand_events_def completion_def request_def peer_reachable_def)

lemma after_round_awaits:
  assumes "awaits i s" and "after_round i s s2" and "\<not> ss_isClose s2"
    and "0 \<le> sint i" and "sint i + 1 < 2 ^ 63" and "buf s = replicate (nat bufsize) None"
  shows "awaits (i + 1) s2"
proof -
  have j: "sint (i + 1) = sint i + 1"
    using assms(4,5) by (simp add: signed_take_bit_int_eq_self sint_word_ariths)
  have "i + 1 \<noteq> i" by simp
  have "int (slot i) = sint i mod bufsize" by (simp add: slot_def bufsize_def)
  moreover have "int (slot i) = readbufIndex s mod bufsize"
    using assms(1) by (auto simp: awaits_def ready_def bufsize_def)
  ultimately have "(readbufIndex s + 1) mod bufsize = sint (i + 1) mod bufsize"
    using j by (metis mod_add_left_eq)
  then have "nat (readbufIndex s2 mod bufsize) = slot (i + 1)"
    using assms(2) by (simp add: after_round_def slot_def)
  moreover have "slot (i + 1) < nat bufsize" by (simp add: slot_def bufsize_def nat_less_iff)
  ultimately show ?thesis
    using assms \<open>i + 1 \<noteq> i\<close> by (simp add: awaits_def ready_def after_round_def)
qed


section \<open>Messages of several packets\<close>

definition numbers :: "return_code list \<Rightarrow> int set" where
  "numbers rcs = (\<lambda>rc. sint (PackagetID rc)) ` set rcs"

lemma numbers_chunks: "set (map (\<lambda>d. sint (sequenceNumber d)) (map chunk_of rcs)) = numbers rcs"
  by (simp add: numbers_def image_image)

lemma payload_chunks: "mset L = mset (map chunk_of rcs) \<Longrightarrow>
    length (concat (payload L)) = length (concat (map (\<lambda>rc. the (rc_data rc)) rcs))"
proof -
  assume "mset L = mset (map chunk_of rcs)"
  then have "image_mset (\<lambda>d. length (the (ad_data d))) (mset L)
      = image_mset (\<lambda>d. length (the (ad_data d))) (mset (map chunk_of rcs))" by simp
  then have "sum_mset (mset (map (\<lambda>d. length (the (ad_data d))) L))
      = sum_mset (mset (map (\<lambda>rc. length (the (rc_data rc))) rcs))"
    by (simp add: image_mset.compositionality comp_def)
  then show ?thesis
    by (simp only: sum_mset_sum_list) (simp add: length_concat payload_def comp_def)
qed

definition total_length :: "return_code list \<Rightarrow> nat" where
  "total_length rcs = length (concat (map (\<lambda>rc. the (rc_data rc)) rcs))"

lemma chunk_subset: "mset L = mset (map chunk_of rcs) \<Longrightarrow> set L \<subseteq> chunk_of ` set rcs"
  by (metis set_mset_mset set_map order_refl)


lemma mset_map_witness:
  "mset L = mset (map f xs) \<Longrightarrow> \<exists>ps. mset ps = mset xs \<and> map f ps = L"
proof (induction L arbitrary: xs)
  case (Cons a L)
  then have "a \<in> set (map f xs)" by (metis list.set_intros(1) set_mset_mset)
  then obtain x where x: "x \<in> set xs" "a = f x" by auto
  have "mset xs = add_mset x (mset (remove1 x xs))" using x(1) by simp
  then obtain r where r: "mset xs = add_mset x (mset r)" by blast
  have "mset (map f xs) = add_mset a (mset (map f r))" unfolding mset_map r x(2) by simp
  with Cons.prems have "mset L = mset (map f r)" by simp
  from Cons.IH [OF this] obtain ps where "mset ps = mset r" "map f ps = L" by blast
  then have "mset (x # ps) = mset xs \<and> map f (x # ps) = a # L" using r x(2) by simp
  then show ?case by (rule exI [of _ "x # ps"])
qed simp

text \<open>The last packet is not waited for: when the reader finds all packets of a message but the
  last, whose slot is the last of the buffer, it hands the message on without it and acknowledges
  it as complete.\<close>

theorem last_packet_dropped:
  assumes "awaits i s" and "packets_of_message i (int (length rcs) + 1) rcs" and "rcs \<noteq> []"
    and "numbers rcs = {sint i..<sint i + int (length rcs)}"
    and "sint i mod (int (length rcs) + 1) = 0" and "length rcs \<le> m"
    and "total_length rcs < 2 ^ 31" and "peer_reachable env s"
  shows "\<exists>s2 ps. checkRecvice (Suc m) env servers [] (arrive (map Packet rcs) s) = Some (Inr ([], s2))
     \<and> mset ps = mset rcs
     \<and> map (\<lambda>rc. sint (PackagetID rc)) ps = map (\<lambda>k. sint i + int k) [0..<length rcs]
     \<and> ss_out s2 = ss_out s
          @ hand_events servers (Some (concat (map (\<lambda>rc. the (rc_data rc)) ps))) s @ [completion i s]
     \<and> \<not> ss_isClose s2"
proof -
  let ?ds = "map chunk_of rcs" and ?n = "int (length rcs) + 1" and ?a = "sint i"
  have i: "0 \<le> ?a" using assms(2) by (simp add: packets_of_message_def)
  have pos: "0 < length ?ds" "int (length ?ds) \<le> ?n" using assms(3) by simp_all
  have seq: "?a \<le> sint (sequenceNumber x) \<and> sint (sequenceNumber x) < ?a + int (length rcs)"
    if "x \<in> set ?ds" for x
    using that assms(4) by (auto simp: numbers_def set_eq_iff)
  then have slot: "int (slot_of ?n x) = sint (sequenceNumber x) - ?a" if "x \<in> set ?ds" for x
  proof -
    have "(sint (sequenceNumber x) - ?a) mod ?n = sint (sequenceNumber x) mod ?n"
      using assms(5) by (metis diff_zero mod_diff_right_eq)
    moreover have "(sint (sequenceNumber x) - ?a) mod ?n = sint (sequenceNumber x) - ?a"
      using seq [OF that] by simp
    ultimately show ?thesis using seq [OF that] by (simp add: slot_of_def)
  qed
  have slots: "slot_of ?n ` set ?ds = {0..<length ?ds}"
  proof -
    have "int ` slot_of ?n ` set ?ds = (\<lambda>x. sint (sequenceNumber x) - ?a) ` set ?ds"
      using slot by (simp add: image_image)
    also have "\<dots> = (\<lambda>k. k - ?a) ` numbers rcs" by (simp add: numbers_def image_image)
    also have "\<dots> = int ` {0..<length ?ds}"
      using image_add_atLeastLessThan [of "- ?a" ?a "?a + int (length rcs)"]
      unfolding assms(4) by (simp add: image_int_atLeastLessThan)
    finally show ?thesis by (metis inj_image_eq_iff inj_of_nat)
  qed
  have "card (slot_of ?n ` set ?ds) = length ?ds" using slots by simp
  then have dist: "distinct (map (slot_of ?n) ?ds)" by (intro card_distinct) (simp add: image_image)
  have seqs: "\<forall>x \<in> set ?ds. 0 \<le> sint (sequenceNumber x)" using seq i by force
  obtain rb0 rb1 rb2 L where f: "new_ReceiveBuffer ?n i = Inr rb0"
    "offerAll ?ds rb0 = Inr rb1" "pollN (length ?ds) rb1 = Inr (map Some L, rb2)"
    "mset L = mset ?ds" "map (slot_of ?n) L = [0..<length ?ds]" "isEmpty rb2" "rb_inv rb1"
    "numValidChunks rb1 = int (length ?ds)"
    using fill_prefix [OF pos seqs dist slots, of i] by auto
  have L: "length L = length ?ds" "L \<noteq> []" using f(4) pos by (metis size_mset, auto)
  obtain ps where ps: "mset ps = mset rcs" "map chunk_of ps = L" using mset_map_witness [OF f(4)] by blast
  have "map (\<lambda>x. int (slot_of ?n x)) L = map (\<lambda>x. sint (sequenceNumber x) - ?a) L"
    using slot f(4) by (intro map_cong refl) (metis set_mset_mset)
  then have "map (\<lambda>x. sint (sequenceNumber x) - ?a) L = map int [0..<length rcs]"
    using f(5) by (metis (no_types, lifting) length_map list.map_comp comp_def map_eq_conv)
  then have num: "map (\<lambda>rc. sint (PackagetID rc)) ps = map (\<lambda>k. ?a + int k) [0..<length rcs]"
    unfolding ps(2) [symmetric] list_eq_iff_nth_eq by (auto simp: algebra_simps)
  have pay: "payload L = map (\<lambda>rc. the (rc_data rc)) ps" using ps(2) by (auto simp: payload_def)
  have "\<exists>s2. checkRecvice (Suc m) env servers [] (arrive (map Packet rcs) s) = Some (Inr ([], s2))
     \<and> ss_out s2 = ss_out s @ (if isEmpty rb2 then hand_events servers (Some (concat (payload L))) s
          else replicate 11 (request (waitSequenceNumber rb2) s) @ hand_events servers None s)
          @ [completion i s]
     \<and> ss_isClose s2 = (\<not> isEmpty rb2) \<and> after_round i s s2"
    by (rule checkRecvice_silent [OF assms(1,2,3) _ f(2,7)])
      (use f L assms chunk_subset [OF f(4)] payload_chunks [OF f(4)] in
        \<open>simp_all add: total_length_def\<close>)
  then show ?thesis using f(6) ps(1) num pay by auto
qed

section \<open>A reader that never returns\<close>

lemma readLoop_hangs:
  assumes "poll (heap s ! b) = Inr (None, heap s ! b)" and "\<not> isEmpty (heap s ! b)"
    and "\<not> isCall s" and "currentChunk s = None" and "readNull s \<le> 10"
  shows "readLoop n env b [] s len = None"
  using assms
proof (induction n arbitrary: s len)
  case (Suc n)
  let ?s = "s\<lparr>zeroRead := zeroRead s + 1\<rparr>"
  have "updateCurrentChunk env False b [] s = Inr ([], ?s)"
    using Suc.prems timedPoll_silent [OF Suc.prems(1)] by (simp add: updateCurrentChunk_def)
  moreover have "readLoop n env b [] ?s len = None" by (rule Suc.IH) (use Suc.prems in simp_all)
  ultimately show ?case using Suc.prems by simp
qed simp


section \<open>A session on a network that delivers\<close>

definition open_net :: net_env where
  "open_net = \<lparr>resolves = (\<lambda>_. True), sendable = (\<lambda>n. n \<le> 65507), free_port = 40000\<rparr>"

definition demo_session :: server_session where
  "demo_session = new_ServerSession ''10.0.0.1'' 5000 ''10.0.0.2'' 6000 77"

definition data_rc :: "jint \<Rightarrow> jlong \<Rightarrow> jlong \<Rightarrow> jbyte list \<Rightarrow> return_code" where
  "data_rc n i pid d = new_ReturnCode\<lparr>rc_data := Some d, InitSeq := i, PackagetID := pid,
     packagetNum := n, SessionID := 77, clientid := 9\<rparr>"

lemma demo_facts:
  "awaits 0 demo_session" "buf demo_session = replicate (nat bufsize) None" "consumers demo_session = 0"
  "peer_reachable open_net demo_session" "readNull demo_session = 0"
  by (simp_all add: awaits_def ready_def demo_session_def new_ServerSession_def slot_def bufsize_def
      peer_reachable_def open_net_def)

lemma data_rc_simps [simp]:
  "rc_data (data_rc n i p d) = Some d" "InitSeq (data_rc n i p d) = i"
  "PackagetID (data_rc n i p d) = p" "packagetNum (data_rc n i p d) = n" "isAck (data_rc n i p d) = False"
  by (simp_all add: data_rc_def new_ReturnCode_def)



theorem last_packet_dropped_witness:
  "\<exists>s2 ps. checkRecvice (Suc 2) open_net (\<lambda>_. True) []
       (arrive (map Packet [data_rc 3 0 1 [3], data_rc 3 0 0 [1, 2]]) demo_session) = Some (Inr ([], s2))
     \<and> mset ps = mset [data_rc 3 0 1 [3], data_rc 3 0 0 [1, 2]]
     \<and> map (\<lambda>rc. sint (PackagetID rc)) ps = map (\<lambda>k. sint (0 :: jlong) + int k)
          [0..<length [data_rc 3 0 1 [3], data_rc 3 0 0 [1, 2]]]
     \<and> ss_out s2 = ss_out demo_session
          @ hand_events (\<lambda>_. True) (Some (concat (map (\<lambda>rc. the (rc_data rc)) ps))) demo_session
          @ [completion 0 demo_session]
     \<and> \<not> ss_isClose s2"
  by (rule last_packet_dropped [OF demo_facts(1) _ _ _ _ _ _ demo_facts(4)])
    (auto simp: packets_of_message_def numbers_def total_length_def)


end
