(* ===== verification/ReceiverEnds.thy ===== *)
theory ReceiverEnds
  imports ReceiverFacts
begin

text \<open>
  How a session ends, and what the acknowledgement request that follows every message does when it
  is late.
\<close>

section \<open>The end of a session\<close>

lemma arrive_Nil [simp]: "arrive [] s = s"
  by (simp add: arrive_def)

text \<open>The sender's acknowledgement of type 3 says that it closed the session.\<close>

definition closing :: "return_code \<Rightarrow> bool" where
  "closing rc \<longleftrightarrow> isAck rc \<and> packagetNum rc = -1 \<and>
     (case ackPackaget rc of None \<Rightarrow> False | Some a \<Rightarrow> ackType a = 3)"

lemma addData_closing:
  "closing rc \<Longrightarrow> \<not> ss_isClose s \<Longrightarrow> ss_addData rc s = (None, s\<lparr>clientClose := True\<rparr>)"
  by (auto simp: closing_def ss_addData_def intBuffer_def split: option.splits)

lemma close_commutes:
  assumes "ready i s" and "whole i d rc" and "closing cl"
  shows "arrive [Packet rc, Packet cl] s = arrive [Packet rc] (s\<lparr>clientClose := True\<rparr>)"
proof -
  have rd: "ready i (s\<lparr>clientClose := True\<rparr>)" using assms(1) by (simp add: ready_def)
  obtain rb where rb: "\<forall>t. ready i t \<longrightarrow> arrive [Packet rc] t = t\<lparr>heap := heap t @ [rb],
      preBuf := Some (length (heap t)), buf := (buf t)[slot i := Some (length (heap t))],
      bufNum := bufNum t + 1, isStartData := True\<rparr>"
    using single_arrival [OF assms(2)] by blast
  let ?s1 = "arrive [Packet rc] s"
  have "arrive [Packet rc, Packet cl] s = snd (ss_addData cl ?s1)"
    by (simp add: arrive_def arrive1_def)
  also have "\<dots> = ?s1\<lparr>clientClose := True\<rparr>"
    using rb assms(1) by (subst addData_closing [OF assms(3)]) (simp_all add: ready_def)
  finally show ?thesis using rb assms(1) rd by simp
qed

lemma readerRun_single:
  assumes "checkRecvice (Suc n) env servers [] s = Some (Inr ([], s1))" and "bufNum s1 = 0"
  shows "readerRun (Suc n) env servers [] s = Some (Inr ([], s1\<lparr>isStartData := False\<rparr>))"
  using assms by simp

text \<open>C19: An orderly end: when the last message, of one packet, and the sender's close have arrived
  and no other message is left, the reader hands the message on, acknowledges it, closes the
  session, shuts its pool down, tells the manager which session of which source ended, and stops.\<close>

theorem sender_close_ends_session:
  assumes "ready i s" and "bufNum s = 0" and "whole i d rc" and "closing cl"
    and "peer_reachable env s" and "length d < 2 ^ 31"
  shows "\<exists>s2. readerTask (Suc (Suc m)) env servers [] (arrive [Packet rc, Packet cl] s) = Some (Inr ([], s2))
     \<and> ss_out s2 = ss_out s @ hand_events servers (Some d) s
         @ [completion i s, SessionGone (ss_srcIP s @ int_text (ss_srcPort s)) (ss_id s)]
     \<and> ss_isClose s2 \<and> ss_shutdown s2 \<and> \<not> isStartData s2 \<and> length (buf s2) = nat bufsize"
proof -
  let ?s = "s\<lparr>clientClose := True\<rparr>"
  have rd: "ready i ?s" "peer_reachable env ?s"
    using assms(1,5) by (simp_all add: ready_def peer_reachable_def)
  obtain v where v: "checkRecvice (Suc (Suc m)) env servers [] (arrive [Packet rc] ?s)
      = Some (Inr ([], free_slot v))"
    "ss_out v = ss_out s @ hand_events servers (Some d) s @ [completion i s]" "\<not> ss_isClose v"
    "before_free i (length (heap s)) ?s v"
    using single_round [OF rd(1) assms(3) rd(2) assms(6), of m servers]
    by (auto simp: hand_events_def completion_def)
  note bf = v(4) [unfolded before_free_def]
  let ?f = "free_slot v"
  have f: "bufNum ?f = 0" "ss_isClose ?f" "ss_shutdown ?f"
    "ss_out ?f = ss_out v @ [SessionGone (ss_srcIP s @ int_text (ss_srcPort s)) (ss_id s)]"
    "length (buf ?f) = nat bufsize"
    using bf assms(1,2) by (simp_all add: free_slot_def clear_buffer_def emit_def Let_def ready_def)
  have "readerRun (Suc (Suc m)) env servers [] (arrive [Packet rc] ?s)
      = Some (Inr ([], ?f\<lparr>isStartData := False\<rparr>))"
    by (rule readerRun_single [OF v(1) f(1)])
  moreover have "bufNum (arrive [Packet rc] ?s) \<noteq> 0"
    using single_arrival [OF assms(3)] rd(1) assms(2) by auto
  ultimately have "readerTask (Suc (Suc m)) env servers [] (arrive [Packet rc, Packet cl] s)
      = Some (Inr ([], ?f\<lparr>isStartData := False\<rparr>))"
    unfolding close_commutes [OF assms(1,3,4)] by (simp add: readerTask_def del: readerRun.simps)
  then show ?thesis using f v(2) by simp
qed

section \<open>The acknowledgement request that comes late\<close>

text \<open>An acknowledgement of type 0 announces a message: its first sequence number and packet count.\<close>

definition asking :: "jlong \<Rightarrow> int \<Rightarrow> return_code \<Rightarrow> bool" where
  "asking i n rc \<longleftrightarrow> isAck rc \<and> InitSeq rc = i \<and> sint (packagetNum rc) = n \<and>
     (case ackPackaget rc of None \<Rightarrow> False | Some a \<Rightarrow> ackType a = 0)"

text \<open>While the message is there, the request changes nothing.\<close>

lemma addData_asking:
  assumes "asking i n rc" and "0 \<le> sint i" and "0 \<le> n" and "length (buf s) = nat bufsize"
    and "buf s ! slot i = Some b" and "preBuf s = Some b" and "isStartData s" and "\<not> ss_isClose s"
  shows "ss_addData rc s = (None, s)"
proof -
  have ne: "packagetNum rc \<noteq> -1" "InitSeq rc \<noteq> -1" using assms(1-3) by (auto simp: asking_def)
  have "intBuffer (packagetNum rc) (InitSeq rc) s = (None, s)"
    using slot_lookup(2) [OF assms(2,4)] assms ne
    by (simp add: intBuffer_def ss_startThread_def asking_def)
  then show ?thesis using assms(1,8) by (auto simp: ss_addData_def asking_def split: option.splits)
qed

lemma findBuffer_only:
  assumes "\<forall>k < nat bufsize. buf s ! k = None \<or> buf s ! k = Some b" and "bufNum s \<noteq> 0"
    and "buffer s = None \<or> buffer s = Some b"
  shows "findBuffer n w [] s = None \<or> (\<exists>k. findBuffer n w [] s
     = Some (Some b, [], s\<lparr>readbufIndex := k, buffer := Some b\<rparr>))"
  using assms
proof (induction n arbitrary: w s)
  case (Suc n)
  show ?case
  proof (cases "buffer s")
    case None
    let ?s = "if w then s\<lparr>readbufIndex := readbufIndex s + 1\<rparr> else s"
    let ?t = "load_buffer ?s"
    have "nat (readbufIndex ?s mod bufsize) < nat bufsize" by (simp add: bufsize_def nat_less_iff)
    then have "buffer ?t = None \<or> buffer ?t = Some b"
      using Suc.prems(1) by (auto simp: load_buffer_def)
    moreover have "buf ?t = buf s" "bufNum ?t = bufNum s" by (simp_all add: load_buffer_def)
    ultimately have "findBuffer n (\<not> w) [] ?t = None \<or> (\<exists>k. findBuffer n (\<not> w) [] ?t
        = Some (Some b, [], ?t\<lparr>readbufIndex := k, buffer := Some b\<rparr>))"
      using Suc.IH [of ?t "\<not> w"] Suc.prems(1,2) by simp
    moreover have "findBuffer (Suc n) w [] s = findBuffer n (\<not> w) [] ?t"
      using None Suc.prems(2) by simp
    moreover have "?t\<lparr>readbufIndex := k, buffer := Some b\<rparr> = s\<lparr>readbufIndex := k, buffer := Some b\<rparr>" for k
      by (simp add: load_buffer_def)
    ultimately show ?thesis by auto
  next
    case (Some c)
    then have "s = s\<lparr>readbufIndex := readbufIndex s, buffer := Some b\<rparr>" using Suc.prems(3) by simp
    then show ?thesis using Some Suc.prems(3) by (metis findBuffer.simps(2) option.simps(5) option.distinct(1))
  qed
qed simp

text \<open>A buffer to which nothing was ever offered.\<close>

lemma new_buffer_poll:
  assumes "new_ReceiveBuffer n i = Inr rb" and "0 < n"
  shows "poll rb = Inr (None, rb)" "\<not> isEmpty rb"
  using assms by (auto simp: new_ReceiveBuffer_def poll_def result_simps isEmpty_def)


section \<open>Concrete runs\<close>

definition close_rc :: return_code where
  "close_rc = new_ReturnCode\<lparr>isAck := True, ackPackaget := Some (new_AckPackaget\<lparr>ackType := 3\<rparr>)\<rparr>"

definition request_rc :: return_code where
  "request_rc = new_ReturnCode\<lparr>isAck := True, InitSeq := 0, packagetNum := 1,
     ackPackaget := Some (new_AckPackaget\<lparr>ackType := 0, ack_packagetNum := 1, ack_packagetID := 0\<rparr>)\<rparr>"

theorem sender_close_ends_session_witness:
  "\<exists>s2. readerTask (Suc (Suc 0)) open_net (\<lambda>_. True) []
      (arrive [Packet (data_rc 1 0 0 [1, 2]), Packet close_rc] demo_session) = Some (Inr ([], s2))
    \<and> ss_isClose s2 \<and> ss_shutdown s2"
proof -
  have "ready 0 demo_session" "bufNum demo_session = 0"
    using demo_facts(1) by (simp_all add: awaits_def) (simp add: demo_session_def new_ServerSession_def)
  moreover have "whole 0 [1, 2] (data_rc 1 0 0 [1, 2])" "closing close_rc"
    by (simp_all add: whole_def packets_of_message_def closing_def close_rc_def new_ReturnCode_def)
  ultimately show ?thesis
    using sender_close_ends_session [OF _ _ _ _ demo_facts(4), of 0 "[1, 2]" "data_rc 1 0 0 [1, 2]" close_rc
        0 "\<lambda>_. True"] by auto
qed


end
