(* ===== verification/EndToEnd.thy ===== *)
theory EndToEnd
  imports Sender ListenerRuns ReceiverEnds
begin

text \<open>
  A message from a client to a server and back: what the sending session puts on the wire, given to
  the server's listener, what the reader of the session makes of it, and its completion given to the
  sending session.
\<close>

section \<open>The datagrams of a short message\<close>

lemma cs_sendData_short:
  assumes "usable env ip r w" and "ids_inv (w_ids w)" and "int (length bs) < ss" and "ss < 2 ^ 31 - 41"
    and "\<And>n. n \<le> nat ss \<Longrightarrow> sendable env (41 + n)" and "sendable env 34"
  obtains w' where "cs_sendData env now dir ss r ident (Some ip) port (Some bs) w = (None, w')"
    "w_net w' = w_net w @ [(ip, port, data_bytes ident (cs_id (w_sess w r)) (instance_value r (w_ids w))
         (instance_value r (w_ids w)) 1 bs),
       (ip, port, ack_bytes (new_AckPackaget\<lparr>ackType := 0, ack_clientID := ident, ack_packagetNum := 1,
         ack_sessionid := cs_id (w_sess w r), ack_packagetID := instance_value r (w_ids w)\<rparr>))]"
    "map_of (mapInitSeq (w_sess w' r)) (instance_value r (w_ids w)) = Some 1"
    "mapCache (w_sess w' r) (instance_value r (w_ids w))
       = Some (data_bytes ident (cs_id (w_sess w r)) (instance_value r (w_ids w))
         (instance_value r (w_ids w)) 1 bs)"
    "logicalClose (w_sess w' r) = logicalClose (w_sess w r)"
    "snd (receiving r w') = (fst (receiving r w) \<longrightarrow> snd (receiving r w))"
    "connected r w'"
proof -
  have ss: "0 < ss" "length bs < 2 ^ 31" using assms(3,4) by auto
  obtain w' subs where *: "cs_sendData env now dir ss r ident (Some ip) port (Some bs) w = (None, w')"
    "subData ss (Some bs) = Inr (Some subs)"
    "w_net w' = w_net w @ map (\<lambda>b. (ip, port, b))
       (packets_of ident (cs_id (w_sess w r)) (instance_value r (w_ids w))
          (instance_value r (w_ids w)) (int (length subs)) subs
        @ [ack_bytes (new_AckPackaget\<lparr>ackType := 0, ack_clientID := ident,
             ack_packagetNum := of_int (int (length subs)), ack_sessionid := cs_id (w_sess w r),
             ack_packagetID := instance_value r (w_ids w)\<rparr>)])"
    "map_of (mapInitSeq (w_sess w' r)) (instance_value r (w_ids w)) = Some (int (length subs))"
    "\<forall>i < length subs. mapCache (w_sess w' r) (instance_value r (w_ids w) + of_nat i)
       = Some (packets_of ident (cs_id (w_sess w r)) (instance_value r (w_ids w))
          (instance_value r (w_ids w)) (int (length subs)) subs ! i)"
    "logicalClose (w_sess w' r) = logicalClose (w_sess w r)"
    "snd (receiving r w') = (fst (receiving r w) \<longrightarrow> snd (receiving r w))"
    "connected r w'"
    using cs_sendData_ok [OF assms(1,2) ss(1) assms(4) ss(2) assms(5,6)] by metis
  have "subs = [bs]" using *(2) assms(3) by (simp add: subData_def)
  then show thesis using that * by (simp add: packets_of_Cons)
qed

text \<open>What the parser makes of them.\<close>

definition data_code :: "jlong \<Rightarrow> jlong \<Rightarrow> jlong \<Rightarrow> jbyte list \<Rightarrow> return_code" where
  "data_code ident sid i bs = new_ReturnCode\<lparr>rc_data := Some bs, InitSeq := i, PackagetID := i,
     packagetNum := 1, SessionID := sid, clientid := ident\<rparr>"

definition ask_code :: "jlong \<Rightarrow> jlong \<Rightarrow> jlong \<Rightarrow> return_code" where
  "ask_code ident sid i = new_ReturnCode\<lparr>isAck := True, InitSeq := i, packagetNum := 1,
     ackPackaget := Some (new_AckPackaget\<lparr>ackType := 0, ack_clientID := ident, ack_packagetNum := 1,
       ack_sessionid := sid, ack_packagetID := i\<rparr>)\<rparr>"

definition ask_ack :: "jlong \<Rightarrow> jlong \<Rightarrow> ack_packaget" where
  "ask_ack ident sid = new_AckPackaget\<lparr>ackType := 0, ack_clientID := ident, ack_packagetNum := 1,
     ack_sessionid := sid, ack_packagetID := 0\<rparr>"

lemma parse_data_bytes:
  "length bs < 2 ^ 31 \<Longrightarrow> AnalysisNetPackaget (Some (data_bytes ident sid i i 1 bs)) = data_code ident sid i bs"
  by (simp add: data_bytes_def Analysis_flag parse_body_data data_code_def)

lemma parse_ack_bytes:
  assumes "ackType a = 0 \<or> ackType a = 1 \<or> ackType a = 2"
  shows "AnalysisNetPackaget (Some (ack_bytes a))
     = (let code = new_ReturnCode\<lparr>isAck := True, ackPackaget := Some a\<rparr>
        in if ackType a = 0 then code\<lparr>InitSeq := ack_packagetID a, packagetNum := ack_packagetNum a\<rparr>
           else code)"
  using parse_body_ack [of 1 "ackType a" "ack_clientID a" "ack_sessionid a" "ack_packagetNum a"
      "ack_packagetID a"] assms
  by (cases a) (auto simp: ack_bytes_def Analysis_flag Let_def)

section \<open>The server's side\<close>

text \<open>A source whose session the listener does not know yet sends one short message.\<close>

definition from_source :: "data_model \<Rightarrow> jbyte list \<Rightarrow> data_model" where
  "from_source d p = d\<lparr>dm_data := Some p\<rparr>"

definition demanded :: "data_model \<Rightarrow> jlong \<Rightarrow> jlong \<Rightarrow> server_session" where
  "demanded d ident sid = (fresh d sid)\<lparr>ss_clientID := ident\<rparr>"

lemma demanded_facts:
  "ready 0 (demanded d ident sid)" "awaits 0 (demanded d ident sid)"
  "ss_out (demanded d ident sid) = []" "consumers (demanded d ident sid) = 0"
  "ss_srcIP (demanded d ident sid) = dm_srcIP d" "ss_srcPort (demanded d ident sid) = dm_srcPort d"
  "ss_localPort (demanded d ident sid) = dm_localPort d" "ss_id (demanded d ident sid) = sid"
  "ss_clientID (demanded d ident sid) = ident" "\<not> ss_isClose (demanded d ident sid)"
  by (simp_all add: ready_def awaits_def demanded_def fresh_def new_ServerSession_def slot_def bufsize_def)

lemma data_code_whole: "0 \<le> sint i \<Longrightarrow> whole i bs (data_code ident sid i bs)"
  by (simp add: whole_def packets_of_message_def data_code_def new_ReturnCode_def)

lemma ask_code_asking: "asking i 1 (ask_code ident sid i)"
  by (simp add: asking_def ask_code_def new_ReturnCode_def new_AckPackaget_def)

lemma whole_accepted:
  assumes "ready i s" and "whole i d rc"
  shows "fst (ss_addData rc s) = None"
proof -
  note w = single_fill(1,2) [OF assms(2)]
  obtain rb0 rb1 where f: "new_ReceiveBuffer 1 i = Inr rb0" "offerAll (map chunk_of [rc]) rb0 = Inr rb1"
    using single_fill(3) [OF assms(2)] by blast
  obtain ok where o: "offer (chunk_of rc) rb0 = Inr (ok, rb1)" using f(2) by (auto simp: bindR_Inr_iff)
  have rc: "InitSeq rc = i" "sint (packagetNum rc) = 1" "\<not> isAck rc"
    using w(1) by (simp_all add: packets_of_message_def)
  have "0 \<le> sint (InitSeq rc)" "0 \<le> sint (packagetNum rc)" "length (buf s) = nat bufsize"
    "buf s ! slot (InitSeq rc) = None" "\<not> ss_isClose s \<and> \<not> ss_shutdown s"
    "new_ReceiveBuffer (sint (packagetNum rc)) (InitSeq rc) = Inr rb0"
    using w(2) rc assms(1) f(1) by (auto simp: ready_def)
  from addData_fresh [OF this(1-5) rc(3) this(6) o] show ?thesis by simp
qed

text \<open>The two datagrams, at a table in which the source's session is not there, or has the message.\<close>

lemma short_message_data:
  assumes "dm_data d = Some (data_bytes ident sid 0 0 1 bs)" and "length bs < 2 ^ 31"
    and "t (source_key (dm_srcIP d) (dm_srcPort d), sid) = None"
  shows "for_session None d (data_code ident sid 0 bs)" "packet_id (data_code ident sid 0 bs) = Some sid"
    "addressed d (data_code ident sid 0 bs) sid t = (sid, demanded d ident sid)"
    "ss_addData (data_code ident sid 0 bs) (demanded d ident sid)
       = (None, arrive [Packet (data_code ident sid 0 bs)] (demanded d ident sid))"
proof -
  show "for_session None d (data_code ident sid 0 bs)" "packet_id (data_code ident sid 0 bs) = Some sid"
    using parse_data_bytes [OF assms(2), of ident sid 0] assms(1)
    by (simp_all add: for_session_def packet_id_def data_code_def new_ReturnCode_def)
  show "addressed d (data_code ident sid 0 bs) sid t = (sid, demanded d ident sid)"
    using assms(3) by (simp add: addressed_def data_code_def demanded_def Let_def new_ReturnCode_def)
  have "fst (ss_addData (data_code ident sid 0 bs) (demanded d ident sid)) = None"
    by (rule whole_accepted [OF demanded_facts(1) data_code_whole]) simp
  then show "ss_addData (data_code ident sid 0 bs) (demanded d ident sid)
       = (None, arrive [Packet (data_code ident sid 0 bs)] (demanded d ident sid))"
    by (simp add: arrive_def arrive1_def prod_eq_iff)
qed

lemma short_message_ask:
  assumes "dm_data d' = Some (ack_bytes (ask_ack ident sid))"
    and "t (source_key (dm_srcIP d') (dm_srcPort d'), sid)
      = Some (arrive [Packet (data_code ident sid 0 bs)] (demanded d ident sid))"
  shows "for_session None d' (ask_code ident sid 0)" "packet_id (ask_code ident sid 0) = Some sid"
    "addressed d' (ask_code ident sid 0) sid t
       = (sid, arrive [Packet (data_code ident sid 0 bs)] (demanded d ident sid))"
    "ss_addData (ask_code ident sid 0) (arrive [Packet (data_code ident sid 0 bs)] (demanded d ident sid))
       = (None, arrive [Packet (data_code ident sid 0 bs)] (demanded d ident sid))"
proof -
  let ?s = "demanded d ident sid"
  let ?s1 = "arrive [Packet (data_code ident sid 0 bs)] ?s"
  have w: "whole 0 bs (data_code ident sid 0 bs)" by (rule data_code_whole) simp
  obtain rb where rb: "?s1 = ?s\<lparr>heap := heap ?s @ [rb], preBuf := Some (length (heap ?s)),
      buf := (buf ?s)[slot 0 := Some (length (heap ?s))], bufNum := bufNum ?s + 1, isStartData := True\<rparr>"
    using single_arrival [OF w] demanded_facts(1) by blast
  have sl: "slot 0 < length (buf ?s)" "length (buf ?s) = nat bufsize"
    using demanded_facts(1) [of d ident sid] by (simp_all add: ready_def slot_def bufsize_def)
  show "ss_addData (ask_code ident sid 0) ?s1 = (None, ?s1)"
    by (rule addData_asking [OF ask_code_asking]) (use rb sl demanded_facts(10) in simp_all)
  show "for_session None d' (ask_code ident sid 0)" "packet_id (ask_code ident sid 0) = Some sid"
    using parse_ack_bytes [of "ask_ack ident sid"] assms(1)
    by (simp_all add: for_session_def packet_id_def ask_code_def ask_ack_def new_ReturnCode_def new_AckPackaget_def)
  show "addressed d' (ask_code ident sid 0) sid t = (sid, ?s1)"
    using assms(2) rb demanded_facts(10) [of d ident sid] by (simp add: addressed_def Let_def)
qed

lemma processData_quiet:
  assumes "li_inv n" and "handQueue (manager n) = []" and "for_session client d rc"
    and "packet_id rc = Some j" and "addressed d rc j (table n) = (i, s)" and "ss_addData rc s = (None, s')"
  obtains n1 where "processData client rnd d n = (None, n1)" "li_inv n1" "rest n1 = rest n"
    "table n1 = (table n)((source_key (dm_srcIP d) (dm_srcPort d), i) \<mapsto> s')"
proof -
  have c: "first_clean n = (None, n)"
    using assms(2) by (simp add: first_clean_def getSessionMap_def)
  obtain n1 where r: "route rnd d rc n = (None, n1)" "li_inv n1" "rest n1 = rest n"
    "table n1 = (table n)((source_key (dm_srcIP d) (dm_srcPort d), i) \<mapsto> s')"
    using route_table [OF assms(1,4,5), of rnd] assms(6) by auto
  then show thesis using that processData_for_session [OF assms(3), of rnd n] c by simp
qed

section \<open>The completion at the sender\<close>

lemma completion_evicts:
  assumes "\<not> logicalClose (w_sess w r)" and "map_of (mapInitSeq (w_sess w r)) i = Some 1"
    and "ack = new_AckPackaget\<lparr>ack_packagetID := i, ack_sessionid := sid, ackType := 1, ack_clientID := ident\<rparr>"
  shows "\<exists>w'. cs_addData env now dir ss deser r (AnalysisNetPackaget (Some (ack_bytes ack))) w = (None, w')
    \<and> map_of (mapInitSeq (w_sess w' r)) i = None \<and> mapCache (w_sess w' r) i = None
    \<and> w_net w' = w_net w"
proof -
  have code: "AnalysisNetPackaget (Some (ack_bytes ack)) = new_ReturnCode\<lparr>isAck := True, ackPackaget := Some ack\<rparr>"
    using parse_ack_bytes [of ack] by (simp add: assms(3))
  have "cs_addData env now dir ss deser r (AnalysisNetPackaget (Some (ack_bytes ack))) w
      = ack_received env r i w"
    unfolding cs_addData_def code by (simp add: assms(3))
  moreover obtain w' where "ack_received env r i w = (None, w')" "w_net w' = w_net w"
    "map_of (mapInitSeq (w_sess w' r)) = (map_of (mapInitSeq (w_sess w r)))(i := None)"
    "\<forall>p. mapCache (w_sess w' r) p = (if \<exists>k \<in> {0..1}. p = i + of_int k then None else mapCache (w_sess w r) p)"
    using ack_received_effect [OF assms(1), of env i] assms(2) by auto
  moreover have "\<exists>k \<in> {0..1::int}. i = i + of_int k" by (rule bexI [of _ 0]) simp_all
  ultimately show ?thesis by auto
qed

end
