(* ===== verification/ServerFacts.thy ===== *)
theory ServerFacts
  imports Server ListenerRuns EndToEnd
begin

text \<open>
  What is proved of the servers of a process: how sources are read, that every listener gets every
  datagram, whatever the servers do, and how a message reaches the server that accepts its session.
\<close>

section \<open>The text of a source\<close>

lemma digits_append:
  "digits_value acc (xs @ ys) = (case digits_value acc xs of None \<Rightarrow> None | Some v \<Rightarrow> digits_value v ys)"
  by (induction xs arbitrary: acc) (auto simp: Let_def)

lemma digit_char: "k < 10 \<Longrightarrow> of_char (char_of (48 + k :: nat)) = 48 + k"
  by simp

lemma digits_decimal: "digits_value 0 (decimal n) = Some n"
proof (induction n rule: decimal.induct)
  case (1 n)
  show ?case
  proof (cases "n < 10")
    case True
    then show ?thesis by (subst decimal.simps) simp
  next
    case False
    then have "decimal n = decimal (n div 10) @ [char_of (48 + n mod 10)]"
      by (subst decimal.simps) simp
    then show ?thesis using 1 False by (simp add: digits_append del: char_of_eq_iff) 
  qed
qed

lemma decimal_digit: "c \<in> set (decimal n) \<Longrightarrow> 48 \<le> (of_char c :: nat) \<and> (of_char c :: nat) \<le> 57"
proof (induction n rule: decimal.induct)
  case (1 n)
  have l: "48 \<le> (of_char (char_of (48 + n mod 10)) :: nat)" "(of_char (char_of (48 + n mod 10)) :: nat) \<le> 57"
    using digit_char [of "n mod 10"] by simp_all
  show ?case
  proof (cases "n < 10")
    case True
    then have "c = char_of (48 + n mod 10)" using 1(2) by (subst (asm) decimal.simps) simp
    then show ?thesis using l by simp
  next
    case False
    then have "c = char_of (48 + n mod 10) \<or> c \<in> set (decimal (n div 10))"
      using 1(2) by (subst (asm) decimal.simps) auto
    then show ?thesis using l 1(1) False by blast
  qed
qed

lemma decimal_other: "(of_char c :: nat) < 48 \<or> 57 < (of_char c :: nat) \<Longrightarrow> c \<notin> set (decimal n)"
  using decimal_digit by fastforce

lemma decimal_ne: "decimal n \<noteq> []"
  by (subst decimal.simps) simp

lemma parse_decimal:
  assumes "int n < 2 ^ 31"
  shows "parse_int (decimal n) = Some (int n)"
proof -
  obtain c cs where d: "decimal n = c # cs" using decimal_ne by (cases "decimal n") auto
  have "CHR ''-'' \<notin> set (decimal n)" "CHR ''+'' \<notin> set (decimal n)"
    by (rule decimal_other, simp)+
  then have "c \<noteq> CHR ''-''" "c \<noteq> CHR ''+''" by (auto simp: d)
  then show ?thesis
    using digits_decimal [of n] assms by (simp add: parse_int_def d Let_def)
qed

lemma pieces_append: "CHR '':'' \<notin> set h \<Longrightarrow> pieces (h @ CHR '':'' # r) = h # pieces r"
  by (induction h) (auto split: list.split)

lemma pieces_one: "CHR '':'' \<notin> set h \<Longrightarrow> pieces h = [h]"
  by (induction h) auto

lemma split_host_port:
  assumes "CHR '':'' \<notin> set h" and "CHR '':'' \<notin> set q" and "q \<noteq> []"
  shows "split_colon (h @ CHR '':'' # q) = [h, q]"
  using assms by (simp add: split_colon_def pieces_append pieces_one)

lemma filter_slash: "CHR ''/'' \<notin> set h \<Longrightarrow> filter (\<lambda>c. c \<noteq> CHR ''/'') h = h"
  by (induction h) auto

lemma split_first_two:
  assumes "CHR '':'' \<notin> set h" and "CHR '':'' \<notin> set q" and "q \<noteq> []"
  obtains zs where "split_colon (h @ CHR '':'' # q @ CHR '':'' # r) = h # q # zs"
proof -
  have "split_colon (h @ CHR '':'' # q @ CHR '':'' # r)
      = rev (dropWhile (\<lambda>p. p = []) (rev (pieces r) @ [q, h]))"
    using assms by (simp add: split_colon_def pieces_append)
  moreover have "\<exists>zs. dropWhile (\<lambda>p. p = []) (rev (pieces r) @ [q, h]) = rev zs @ [q, h]"
    using assms(3) by (cases "\<forall>x \<in> set (pieces r). x = []")
      (simp_all add: dropWhile_append exI [of _ "[]"], metis rev_rev_ident)
  ultimately show thesis using that by auto
qed

lemma source_read:
  assumes "CHR '':'' \<notin> set h" and "CHR ''/'' \<notin> set h" and "int p < 2 ^ 31"
    and "src = \<lparr>dm_srcIP = h, dm_srcPort = int p, dm_localIP = ip, dm_localPort = port,
          dm_data = Some data, dm_netType = 1\<rparr>"
  shows "recviceChannel port ip (CHR ''/'' # h @ CHR '':'' # decimal p) data = Some src
    \<and> recviceChannel port ip (CHR ''/'' # h @ CHR '':'' # decimal p @ CHR '':'' # r) data = Some src"
proof
  have c: "CHR '':'' \<notin> set (decimal p)" "CHR ''/'' \<notin> set (decimal p)" by (rule decimal_other, simp)+
  show "recviceChannel port ip (CHR ''/'' # h @ CHR '':'' # decimal p) data = Some src"
    using assms c by (simp add: recviceChannel_def filter_slash split_host_port decimal_ne parse_decimal)
  obtain zs where "split_colon (h @ CHR '':'' # decimal p @ CHR '':'' # filter (\<lambda>c. c \<noteq> CHR ''/'') r)
      = h # decimal p # zs"
    using split_first_two [OF assms(1) c(1) decimal_ne] .
  then show "recviceChannel port ip (CHR ''/'' # h @ CHR '':'' # decimal p @ CHR '':'' # r) data = Some src"
    using assms c by (simp add: recviceChannel_def filter_slash parse_decimal)
qed


section \<open>Every listener hears everything\<close>

text \<open>
  What the event bus promises: as long as nothing was unregistered, a post reaches exactly the
  objects registered on its bus, each once.
\<close>

definition eventbus :: "delivery \<Rightarrow> bool" where
  "eventbus delivery \<longleftrightarrow> (\<forall>calls b. (\<forall>x. (b, Unregister x) \<notin> set calls) \<longrightarrow>
     distinct (delivery calls b) \<and> set (delivery calls b) = {x. (b, Register x) \<in> set calls})"

definition sw_inv :: "'w server_world \<Rightarrow> bool" where
  "sw_inv w \<longleftrightarrow> bus_inv (sw_bus w) \<and> (\<forall>b x. (b, Unregister x) \<notin> set (bus_calls (sw_bus w)))
     \<and> (\<forall>b. {x. (b, Register x) \<in> set (bus_calls (sw_bus w))}
          = (if bus_look (sw_bus w) ''udp'' = Some b then {..<length (sw_listeners w)} else {}))
     \<and> (bus_look (sw_bus w) ''udp'' = None \<longrightarrow> sw_listeners w = [])
     \<and> (\<forall>n \<in> set (sw_listeners w). li_inv n)"

lemma manager_frame [simp]:
  "li_inv (n\<lparr>manager := m\<rparr>) = li_inv n" "table (n\<lparr>manager := m\<rparr>) = table n"
  using table_frame [of "n\<lparr>manager := m\<rparr>" n] by simp_all

lemma sw_inv_new: "sw_inv new_world"
  by (simp add: sw_inv_def new_world_def new_MessageBus_inv bus_look_def) (simp add: new_MessageBus_def)

lemma sw_inv_frame:
  assumes "sw_inv w" and "sw_bus w' = sw_bus w" and "length (sw_listeners w') = length (sw_listeners w)"
    and "\<forall>n \<in> set (sw_listeners w'). li_inv n"
  shows "sw_inv w'"
  using assms by (auto simp: sw_inv_def)

lemma sw_inv_put:
  assumes "sw_inv w" and "li_inv n"
  shows "sw_inv (put_listener i n w)"
  by (rule sw_inv_frame [OF assms(1)])
    (use assms in \<open>auto simp: put_listener_def sw_inv_def dest!: set_update_subset_insert [THEN subsetD]\<close>)

lemma listener_at_inv: "sw_inv w \<Longrightarrow> i < length (sw_listeners w) \<Longrightarrow> li_inv (listener_at i w)"
  by (simp add: listener_at_def sw_inv_def)

lemma sw_inv_step_listener:
  assumes "sw_inv w" and "i < length (sw_listeners w)" and "li_step None (listener_at i w) n"
  shows "sw_inv (put_listener i n w)"
  using sw_inv_put [OF assms(1)] li_step_kept [OF listener_at_inv [OF assms(1,2)] assms(3)] by blast

lemma monitorServer_inv: "li_inv n \<Longrightarrow> li_inv (monitorServer d n)"
  using table_frame [of "monitorServer d n" n] by (simp add: monitorServer_def li_startThread_def)

text \<open>A post changes the listeners it reaches.\<close>

lemma fold_updates:
  "distinct is \<Longrightarrow> set is \<subseteq> {..<length ls} \<Longrightarrow> length (fold (\<lambda>i ls. ls[i := f (ls ! i)]) is ls) = length ls
    \<and> (\<forall>j < length ls. fold (\<lambda>i ls. ls[i := f (ls ! i)]) is ls ! j = (if j \<in> set is then f (ls ! j) else ls ! j))"
proof (induction "is" arbitrary: ls)
  case (Cons i "is")
  then have "i < length ls" "i \<notin> set is" by auto
  with Cons show ?case by (auto simp: nth_list_update)
qed simp

lemma bus_ask_effect:
  assumes "bus_inv mb" and "getBus name mb = (b, mb1)"
  shows "bus_ask c name mb = mb1\<lparr>bus_calls := bus_calls mb @ [(b, c)]\<rparr>" "bus_inv (bus_ask c name mb)"
    "bus_look (bus_ask c name mb) name = Some b"
  using getBus_inv [OF assms] assms(2) by (simp_all add: bus_ask_def bus_inv_def bus_look_def)

lemma post_udp_all:
  assumes "sw_inv w" and "eventbus delivery"
  shows "sw_listeners (post_udp delivery d w) = map (monitorServer d) (sw_listeners w)
    \<and> sw_inv (post_udp delivery d w)
    \<and> sw_manager (post_udp delivery d w) = sw_manager w \<and> sw_servers (post_udp delivery d w) = sw_servers w"
proof -
  obtain b mb1 where g: "getBus ''udp'' (sw_bus w) = (b, mb1)" by fastforce
  have bi: "bus_inv (sw_bus w)" using assms(1) by (simp add: sw_inv_def)
  note gi = getBus_inv [OF bi g] and ask = bus_ask_effect [OF bi g]
  let ?mb = "bus_post ''udp'' d (sw_bus w)"
  have calls: "bus_calls ?mb = bus_calls (sw_bus w) @ [(b, Post d)]" by (simp add: bus_post_def ask(1))
  have old: "bus_look (sw_bus w) ''udp'' = Some b \<or> (bus_look (sw_bus w) ''udp'' = None \<and> sw_listeners w = [])"
    using g assms(1) by (auto simp: getBus_def get_or_create_def sw_inv_def split: option.splits)
  from old have reg: "{x. (b, Register x) \<in> set (bus_calls ?mb)} = {..<length (sw_listeners w)}"
    using assms(1) by (auto simp: calls sw_inv_def)
  have del: "distinct (delivery (bus_calls ?mb) b)" "set (delivery (bus_calls ?mb) b) = {..<length (sw_listeners w)}"
    using assms reg by (auto simp: eventbus_def sw_inv_def calls)
  have post: "post_udp delivery d w = w\<lparr>sw_bus := ?mb, sw_listeners :=
      fold (\<lambda>i ls. ls[i := monitorServer d (ls ! i)]) (delivery (bus_calls ?mb) b) (sw_listeners w)\<rparr>"
    by (simp add: post_udp_def g Let_def)
  have l: "sw_listeners (post_udp delivery d w) = map (monitorServer d) (sw_listeners w)"
    unfolding post using fold_updates [OF del(1), of "sw_listeners w" "monitorServer d"] del(2)
    by (auto intro!: nth_equalityI)
  have none: "{x. (b', Register x) \<in> set (bus_calls ?mb)} = {}" if "b' \<noteq> b" for b'
    using that old assms(1) by (auto simp: calls sw_inv_def split: if_splits)
  have "bus_inv ?mb" "bus_look ?mb ''udp'' = Some b" using ask by (simp_all add: bus_post_def)
  moreover have "(b', Unregister x) \<notin> set (bus_calls ?mb)" for b' x
    using assms(1) by (simp add: calls sw_inv_def)
  moreover have "{x. (b', Register x) \<in> set (bus_calls ?mb)}
      = (if Some b = Some b' then {..<length (sw_listeners w)} else {})" for b'
    using reg none by (cases "b' = b") simp_all
  moreover have "\<forall>n \<in> set (map (monitorServer d) (sw_listeners w)). li_inv n"
    using assms(1) by (auto simp: sw_inv_def intro: monitorServer_inv)
  ultimately have "sw_inv (post_udp delivery d w)"
    unfolding sw_inv_def l by (simp add: post)
  then show ?thesis using l by (simp add: post)
qed

lemma init_inv:
  assumes "sw_inv w"
  shows "sw_inv (snd (srv_InitServer own0 env host port k w))"
proof (cases "srv_server (sw_servers w ! k) = None \<and> fst (uss_InitServer env host port new_UDPServerSocket)")
  case True
  let ?i = "length (sw_listeners w)" and ?n = "new_ListenerData (sw_manager w) own0"
  obtain b mb1 where g: "getBus ''udp'' (sw_bus w) = (b, mb1)" by fastforce
  have bi: "bus_inv (sw_bus w)" using assms by (simp add: sw_inv_def)
  note ask = bus_ask_effect [OF bi g]
  let ?mb = "bus_register ''udp'' ?i (sw_bus w)"
  have calls: "bus_calls ?mb = bus_calls (sw_bus w) @ [(b, Register ?i)]"
    by (simp add: bus_register_def ask(1))
  have old: "bus_look (sw_bus w) ''udp'' = Some b \<or> (bus_look (sw_bus w) ''udp'' = None \<and> sw_listeners w = [])"
    using g assms by (auto simp: getBus_def get_or_create_def sw_inv_def split: option.splits)
  have "bus_inv ?mb" "bus_look ?mb ''udp'' = Some b" using ask by (simp_all add: bus_register_def)
  moreover have "(b', Unregister x) \<notin> set (bus_calls ?mb)" for b' x
    using assms by (simp add: calls sw_inv_def)
  moreover have "{x. (b', Register x) \<in> set (bus_calls ?mb)}
      = (if Some b = Some b' then {..<Suc ?i} else {})" for b'
    using old assms by (cases "b' = b") (auto simp: calls sw_inv_def lessThan_Suc split: if_splits)
  moreover have "\<forall>n \<in> set (sw_listeners w @ [?n]). li_inv n"
    using assms by (auto simp: sw_inv_def li_inv_new)
  moreover obtain sock where "uss_InitServer env host port new_UDPServerSocket = (True, sock)"
    using True by (metis prod.collapse)
  ultimately show ?thesis using True by (simp add: srv_InitServer_def Let_def sw_inv_def)
next
  case False
  then have "sw_bus (snd (srv_InitServer own0 env host port k w)) = sw_bus w
      \<and> sw_listeners (snd (srv_InitServer own0 env host port k w)) = sw_listeners w"
    by (cases "uss_InitServer env host port new_UDPServerSocket") (auto simp: srv_InitServer_def Let_def)
  then show ?thesis using sw_inv_frame [OF assms] assms by (simp add: sw_inv_def)
qed

lemma close_listeners [simp]:
  "sw_listeners (snd (srv_close k w)) = sw_listeners w" "sw_bus (snd (srv_close k w)) = sw_bus w"
  by (auto simp: srv_close_def Let_def split: option.split prod.split)

lemma close_inv: "sw_inv w \<Longrightarrow> sw_inv (snd (srv_close k w))"
  by (rule sw_inv_frame) (simp_all add: sw_inv_def)

lemma accept_events_frame:
  "sw_bus (fold (accept_event x) evs w) = sw_bus w \<and> sw_listeners (fold (accept_event x) evs w) = sw_listeners w
   \<and> sw_manager (fold (accept_event x) evs w) = sw_manager w"
proof (induction evs arbitrary: w)
  case (Cons ev evs)
  have "sw_bus (accept_event x ev w) = sw_bus w \<and> sw_listeners (accept_event x ev w) = sw_listeners w
      \<and> sw_manager (accept_event x ev w) = sw_manager w"
    by (auto simp: accept_event_def split: ss_event.split option.split)
  then show ?case using Cons.IH by simp
qed simp

lemma sw_inv_session:
  assumes "sw_inv w" and "i < length (sw_listeners w)" and "r < length (sessions (sw_listeners w ! i))"
    and "same_session (sessions (sw_listeners w ! i) ! r) s"
  shows "sw_inv (w\<lparr>sw_listeners := (sw_listeners w)[i := upd_session r s (sw_listeners w ! i)]\<rparr>)"
proof -
  have "li_inv (upd_session r s (sw_listeners w ! i))"
    by (intro conjunct1 [OF upd_kept]) (use assms in \<open>simp_all add: sw_inv_def\<close>)
  then show ?thesis
    using assms(1) by (intro sw_inv_frame [OF assms(1)])
      (auto simp: sw_inv_def dest!: set_update_subset_insert [THEN subsetD])
qed

lemma sw_step_inv:
  assumes "sw_step delivery w w'" and "sw_inv w" and "eventbus delivery"
  shows "sw_inv w'"
  using assms(1)
proof cases
  case Constructs
  then show ?thesis using sw_inv_frame [OF assms(2)] assms(2) by (simp add: sw_inv_def)
next
  case (Inits k own0 env host port)
  then show ?thesis using init_inv [OF assms(2)] by simp
next
  case (Closes_server k)
  then show ?thesis using close_inv [OF assms(2)] by simp
next
  case (Starts_socket k sock env)
  then show ?thesis using sw_inv_frame [OF assms(2)] assms(2) by (simp add: sw_inv_def)
next
  case (Accepts k x s)
  then show ?thesis using sw_inv_frame [OF assms(2)] assms(2) by (simp add: sw_inv_def)
next
  case (Receives port curIP address data)
  then show ?thesis using post_udp_all [OF assms(2,3)] assms(2) by (simp add: receive_def split: option.splits)
next
  case (Takes i rnd)
  then show ?thesis
    using sw_inv_step_listener [OF assms(2)] li_step.Takes [of "listener_at i w" None rnd]
    by (simp add: listener_at_def)
next
  case (Looks i)
  then show ?thesis
    using sw_inv_step_listener [OF assms(2)] li_step.Looks [of "listener_at i w" None]
    by (simp add: listener_at_def)
next
  case (Leaves i)
  then show ?thesis
    using sw_inv_step_listener [OF assms(2)] li_step.Leaves [of "listener_at i w" None]
    by (simp add: listener_at_def)
next
  case (Reads i r fuel env ws ws' s)
  have "sw_inv (put_listener i (reader_done r s (listener_at i w)) w)"
    using sw_inv_step_listener [OF assms(2)] li_step.Reads [of r "listener_at i w" fuel env "known_port w" ws ws' s None]
      Reads by (simp add: listener_at_def)
  then show ?thesis
    using Reads(1) sw_inv_frame accept_events_frame unfolding world_reader_done_def
    by (smt (verit) sw_inv_def)
next
  case (Tidies t)
  then show ?thesis using sw_inv_frame [OF assms(2)] assms(2) by (simp add: sw_inv_def)
next
  case (Reads_socket i r)
  have "same_session (sessions (sw_listeners w ! i) ! r) (ss_read_wait (sessions (sw_listeners w ! i) ! r))"
    by (simp add: same_session_def ss_read_wait_def)
  from sw_inv_session [OF assms(2) Reads_socket(2,3) this] show ?thesis
    using Reads_socket(1) by (simp add: socket_read_def Let_def)
next
  case (Times_out i r)
  have "same_session (sessions (sw_listeners w ! i) ! r) (ss_read_timeout (sessions (sw_listeners w ! i) ! r))"
    by (simp add: same_session_def ss_read_timeout_def)
  from sw_inv_session [OF assms(2) Times_out(2,3) this] show ?thesis
    using Times_out(1) by (simp add: socket_read_timeout_def Let_def)
qed

lemma sw_reach_inv: "sw_reach delivery w0 w \<Longrightarrow> sw_inv w0 \<Longrightarrow> eventbus delivery \<Longrightarrow> sw_inv w"
  by (induction rule: sw_reach.induct) (auto intro: sw_step_inv)

text \<open>C13: Every listener of the process hears every datagram: whatever servers were made, initialised,
  closed and used, in any order, a datagram posted by one socket is queued at each listener exactly
  once, and at nothing else; closing a server does not change that, and a server initialised
  later hears from then on.\<close>

theorem every_listener_hears:
  assumes "eventbus delivery" and "sw_reach delivery new_world w"
  shows "sw_listeners (post_udp delivery d w) = map (monitorServer d) (sw_listeners w)
    \<and> sw_listeners (post_udp delivery d (snd (srv_close k w))) = map (monitorServer d) (sw_listeners w)
    \<and> (srv_server (sw_servers w ! k) = None \<and> fst (uss_InitServer env host port new_UDPServerSocket) \<longrightarrow>
        sw_listeners (post_udp delivery d (snd (srv_InitServer own0 env host port k w)))
          = map (monitorServer d) (sw_listeners w @ [new_ListenerData (sw_manager w) own0]))"
proof -
  have inv: "sw_inv w" using sw_reach_inv [OF assms(2) sw_inv_new assms(1)] .
  have "srv_server (sw_servers w ! k) = None \<and> fst (uss_InitServer env host port new_UDPServerSocket) \<Longrightarrow>
      sw_listeners (snd (srv_InitServer own0 env host port k w))
      = sw_listeners w @ [new_ListenerData (sw_manager w) own0]"
    by (cases "uss_InitServer env host port new_UDPServerSocket") (simp add: srv_InitServer_def Let_def)
  then show ?thesis
    using post_udp_all [OF inv assms(1), of d] post_udp_all [OF close_inv [OF inv] assms(1)]
      post_udp_all [OF init_inv [OF inv, of own0 env host port k] assms(1), of d] by auto
qed

section \<open>A message reaches its server\<close>

lemma take_one_quiet:
  assumes "li_inv n" and "handQueue (manager n) = []" and "queue n = d # ds" and "for_session client d rc"
    and "packet_id rc = Some j" and "addressed d rc j (table n) = (i, s)" and "ss_addData rc s = (None, s')"
  shows "li_inv (take_one client rnd n) \<and> queue (take_one client rnd n) = ds
    \<and> manager (take_one client rnd n) = manager n
    \<and> table (take_one client rnd n) = (table n)((source_key (dm_srcIP d) (dm_srcPort d), i) \<mapsto> s')"
proof -
  let ?n = "n\<lparr>queue := ds, taken_num := (if 1000 < taken_num n then 0 else taken_num n) + 1\<rparr>"
  have t: "table ?n = table n" "li_inv ?n" using assms(1) table_frame [of ?n n] by simp_all
  obtain n1 where "processData client rnd d ?n = (None, n1)" "li_inv n1" "rest n1 = rest ?n"
    "table n1 = (table ?n)((source_key (dm_srcIP d) (dm_srcPort d), i) \<mapsto> s')"
    by (rule processData_quiet [OF t(2) _ assms(4,5) _ assms(7), of i rnd]) (use assms(2,6) t(1) in simp_all)
  then show ?thesis using assms(3) t(1) by (simp add: take_one_def Let_def rest_def)
qed

lemma accept_events_queue:
  assumes "k < length (sw_servers w)"
  shows "sw_servers (fold (accept_event x) evs w) ! k = fold srv_addData
     (replicate (length (filter (\<lambda>ev. case ev of Accepted p \<Rightarrow> getSocket (sw_manager w) p = Some k | _ \<Rightarrow> False) evs)) x)
     (sw_servers w ! k)"
  using assms
proof (induction evs arbitrary: w)
  case (Cons ev evs)
  let ?w = "accept_event x ev w"
  have f: "sw_manager ?w = sw_manager w" "length (sw_servers ?w) = length (sw_servers w)"
    by (auto simp: accept_event_def split: ss_event.split option.split)
  have "sw_servers ?w ! k = (case ev of Accepted p \<Rightarrow>
      if getSocket (sw_manager w) p = Some k then srv_addData x (sw_servers w ! k) else sw_servers w ! k
      | _ \<Rightarrow> sw_servers w ! k)"
    using Cons.prems by (auto simp: accept_event_def nth_list_update split: ss_event.split option.split)
  then show ?case using Cons.IH [of ?w] Cons.prems f by (auto simp: funpow_swap1 split: ss_event.splits)
qed simp

lemma note_gone_quiet: "(\<forall>ev \<in> set evs. \<forall>key i. ev \<noteq> SessionGone key i) \<Longrightarrow> fold note_gone evs m = m"
  by (induction evs arbitrary: m) (auto simp: note_gone_def split: ss_event.split)

text \<open>The listener's state after a post and after a turn of its thread.\<close>

lemma listener_at_post:
  assumes "sw_inv w" and "eventbus delivery" and "i < length (sw_listeners w)"
  shows "listener_at i (post_udp delivery d w) = monitorServer d (listener_at i w)"
  using post_udp_all [OF assms(1,2), of d] assms(3)
  by (simp add: listener_at_def monitorServer_def li_startThread_def)

lemma listener_at_put:
  "i < length (sw_listeners w) \<Longrightarrow> listener_at i (put_listener i n w) = n"
  by (simp add: listener_at_def put_listener_def)

text \<open>The reader's run for a session that has one message of one packet.\<close>

lemma read_demanded:
  assumes "s1 = arrive [Packet (data_code ident sid 0 bs)] (demanded d ident sid)" and "length bs < 2 ^ 31"
    and "resolves renv (dm_srcIP d)" and "sendable renv 34"
  obtains s where "readerTask (Suc (Suc m)) renv servers [] s1 = Some (Inr ([], s))"
    "ss_out s = hand_events servers (Some bs) (demanded d ident sid) @ [completion 0 (demanded d ident sid)]"
    "ss_out s1 = []"
proof -
  let ?s = "demanded d ident sid"
  have w: "whole 0 bs (data_code ident sid 0 bs)" by (rule data_code_whole) simp
  have p: "peer_reachable renv ?s" using assms(3,4) demanded_facts(5) by (simp add: peer_reachable_def)
  obtain s2 where s2: "checkRecvice (Suc (Suc m)) renv servers [] s1 = Some (Inr ([], s2))"
    "ss_out s2 = ss_out ?s @ hand_events servers (Some bs) ?s @ [completion 0 ?s]" "after_round 0 ?s s2"
    using single_packet [OF demanded_facts(2) w p assms(2), of m servers] assms(1) by blast
  obtain rb where rb: "s1 = ?s\<lparr>heap := heap ?s @ [rb], preBuf := Some (length (heap ?s)),
      buf := (buf ?s)[slot 0 := Some (length (heap ?s))], bufNum := bufNum ?s + 1, isStartData := True\<rparr>"
    using single_arrival [OF w] demanded_facts(1) assms(1) by blast
  have b: "bufNum ?s = 0" by (simp add: demanded_def fresh_def new_ServerSession_def)
  have "readerTask (Suc (Suc m)) renv servers [] s1 = readerRun (Suc (Suc m)) renv servers [] s1"
    using rb b by (simp add: readerTask_def)
  also have "\<dots> = Some (Inr ([], s2\<lparr>isStartData := False\<rparr>))"
    by (rule readerRun_single [OF s2(1)]) (use s2(3) b in \<open>simp add: after_round_def\<close>)
  finally show thesis using that s2(2) rb demanded_facts(3) by simp
qed

text \<open>
  From the socket to \<open>accept\<close>: the two datagrams of a short message of a source that is new are queued
  and taken; the reader posts the bytes sent, the server of the port gets the session once, and one
  completion goes back. The message is not given to a thread in \<open>read\<close>: nobody can wait for it before
  the session was accepted.
\<close>

lemma message_accepted:
  assumes "eventbus delivery" and "sw_reach delivery new_world w" and "i < length (sw_listeners w)"
    and "queue (sw_listeners w ! i) = []" and "handQueue (sw_manager w) = []"
    and "getSocket (sw_manager w) (dm_localPort d) = Some k" and "k < length (sw_servers w)"
    and "srv_queue (sw_servers w ! k) = []"
    and "dat = data_bytes ident sid 0 0 1 bs" and "ask = ack_bytes (ask_ack ident sid)"
    and "key = source_key (dm_srcIP d) (dm_srcPort d)" and "table (sw_listeners w ! i) (key, sid) = None"
    and "length bs < 2 ^ 31" and "resolves renv (dm_srcIP d)" and "sendable renv 34"
    and "w1 = post_udp delivery (from_source d ask) (post_udp delivery (from_source d dat) w)"
    and "w2 = put_listener i (take_one None rnd (listener_at i w1)) w1"
    and "w3 = put_listener i (take_one None rnd' (listener_at i w2)) w2"
  shows "\<exists>r s. entry (sw_listeners w3 ! i) key sid = Some r
    \<and> readerTask (Suc (Suc m)) renv (known_port w3) [] (sessions (sw_listeners w3 ! i) ! r) = Some (Inr ([], s))
    \<and> ss_out s = [Posted (dm_localPort d) (Some bs), Accepted (dm_localPort d),
         completion 0 (demanded d ident sid)]
    \<and> srv_accept (sw_servers (world_reader_done i r s w3) ! k) = Some ((i, r), sw_servers w ! k)"
proof -
  let ?d = "from_source d dat" and ?e = "from_source d ask" and ?s = "demanded d ident sid"
  let ?s1 = "arrive [Packet (data_code ident sid 0 bs)] ?s"
  let ?n = "listener_at i w"
  have src: "dm_srcIP ?d = dm_srcIP d" "dm_srcPort ?d = dm_srcPort d" "dm_data ?d = Some dat"
    "dm_srcIP ?e = dm_srcIP d" "dm_srcPort ?e = dm_srcPort d" "dm_data ?e = Some ask"
    "demanded ?d ident sid = ?s"
    by (simp_all add: from_source_def demanded_def fresh_def)
  have inv: "sw_inv w" using sw_reach_inv [OF assms(2) sw_inv_new assms(1)] .
  note p1 = post_udp_all [OF inv assms(1), of ?d]
  note p2 = post_udp_all [OF conjunct1 [OF conjunct2 [OF p1]] assms(1), of ?e]
  have len: "i < length (sw_listeners w1)" "i < length (sw_listeners w2)"
    using p1 p2 assms(3) by (simp_all add: assms(16,17) put_listener_def)
  have mgr: "sw_manager w1 = sw_manager w" "sw_servers w1 = sw_servers w"
    using p1 p2 by (simp_all add: assms(16))
  have n1: "listener_at i w1 = monitorServer ?e (monitorServer ?d ?n)"
    using listener_at_post [OF inv assms(1,3)] listener_at_post [OF conjunct1 [OF conjunct2 [OF p1]] assms(1)]
      p1 assms(3) by (simp add: assms(16))
  then have n1_facts: "queue (listener_at i w1) = [?d, ?e]" "li_inv (listener_at i w1)"
    "table (listener_at i w1) = table ?n" "manager (listener_at i w1) = sw_manager w"
    using assms(4) listener_at_inv [OF inv assms(3)] table_frame [of "listener_at i w1" ?n]
    by (simp_all add: monitorServer_def li_startThread_def listener_at_def)
  have "table (listener_at i w1) (source_key (dm_srcIP ?d) (dm_srcPort ?d), sid) = None"
    using assms(11,12) src n1_facts(3) by (simp add: listener_at_def)
  note data = short_message_data [of ?d ident sid bs "table (listener_at i w1)", OF _ assms(13) this]
  have data: "for_session None ?d (data_code ident sid 0 bs)" "packet_id (data_code ident sid 0 bs) = Some sid"
    "addressed ?d (data_code ident sid 0 bs) sid (table (listener_at i w1)) = (sid, ?s)"
    "ss_addData (data_code ident sid 0 bs) ?s = (None, ?s1)"
    using data src assms(9) by simp_all
  let ?m1 = "take_one None rnd (listener_at i w1)"
  have m1: "li_inv ?m1" "queue ?m1 = [?e]" "manager ?m1 = sw_manager w"
    "table ?m1 = (table ?n)((key, sid) \<mapsto> ?s1)"
    using take_one_quiet [OF n1_facts(2) _ n1_facts(1) data, of rnd] n1_facts(3,4) assms(5,11) src by simp_all
  have w2: "listener_at i w2 = ?m1" using listener_at_put [OF len(1)] by (simp add: assms(17))
  have "table ?m1 (source_key (dm_srcIP ?e) (dm_srcPort ?e), sid) = Some ?s1"
    using m1(4) assms(11) src by simp
  note ask = short_message_ask [of ?e ident sid "table ?m1", OF _ this]
  let ?m2 = "take_one None rnd' ?m1"
  have m2: "li_inv ?m2" "manager ?m2 = sw_manager w" "table ?m2 = (table ?m1)((key, sid) \<mapsto> ?s1)"
    using take_one_quiet [OF m1(1) _ m1(2) ask, of rnd'] m1(3) assms(5,10,11) src by simp_all
  have w3: "sw_listeners w3 ! i = ?m2" "sw_manager w3 = sw_manager w" "sw_servers w3 = sw_servers w"
    using len m2(2) mgr w2 by (simp_all add: assms(17,18) put_listener_def)
  have "table ?m2 (key, sid) = Some ?s1" using m2(3) by simp
  then obtain r where r: "entry ?m2 key sid = Some r" "sessions ?m2 ! r = ?s1" by (auto simp: table_def)
  obtain s where s: "readerTask (Suc (Suc m)) renv (known_port w3) [] ?s1 = Some (Inr ([], s))"
    "ss_out s = hand_events (known_port w3) (Some bs) ?s @ [completion 0 ?s]" "ss_out ?s1 = []"
    using read_demanded [OF refl assms(13-15)] .
  have out: "ss_out s = [Posted (dm_localPort d) (Some bs), Accepted (dm_localPort d), completion 0 ?s]"
    using s(2) assms(6) w3(2) demanded_facts(4,7) by (simp add: hand_events_def known_port_def)
  have "sw_servers (world_reader_done i r s w3) ! k = srv_addData (i, r) (sw_servers w ! k)"
    using accept_events_queue [of k "put_listener i (reader_done r s (listener_at i w3)) w3" "(i, r)" "ss_out s"]
      assms(6,7) w3 r(2) s(3) out
    by (simp add: world_reader_done_def put_listener_def reader_done_def note_gone_def completion_def listener_at_def)
  then have "srv_accept (sw_servers (world_reader_done i r s w3) ! k) = Some ((i, r), sw_servers w ! k)"
    using assms(8) by (simp add: srv_addData_def srv_accept_def)
  then show ?thesis using r s(1) out w3(1) by auto
qed

section \<open>Concrete runs\<close>


text \<open>A bus that keeps its promise.\<close>

definition direct_bus :: delivery where
  "direct_bus calls b = remdups (List.map_filter
     (\<lambda>(b', c). case c of Register x \<Rightarrow> if b' = b then Some x else None | _ \<Rightarrow> None) calls)"

lemma direct_bus_ok: "eventbus direct_bus"
proof -
  have "set (direct_bus calls b) = {x. (b, Register x) \<in> set calls}" for calls b
  proof
    show "{x. (b, Register x) \<in> set calls} \<subseteq> set (direct_bus calls b)"
      by (force simp: direct_bus_def map_filter_def)
  qed (auto simp: direct_bus_def map_filter_def split: bus_call.splits if_splits)
  moreover have "distinct (direct_bus calls b)" for calls b by (simp add: direct_bus_def)
  ultimately show ?thesis by (simp add: eventbus_def)
qed

definition one_server :: "unit server_world" where
  "one_server = snd (srv_InitServer () open_binds None 6000 0 (new_world\<lparr>sw_servers := [new_judpServer]\<rparr>))"

lemma one_server_reached: "sw_reach direct_bus new_world one_server"
proof -
  let ?w = "(new_world :: unit server_world)\<lparr>sw_servers := [new_judpServer]\<rparr>"
  have "sw_reach direct_bus new_world ?w"
    using sw_reach.Step [OF sw_reach.Init [of direct_bus "new_world :: unit server_world"]
        sw_step.Constructs [of direct_bus new_world]] by (simp add: new_world_def)
  moreover have "sw_step direct_bus ?w (snd (srv_InitServer () open_binds None 6000 0 ?w))"
    by (rule sw_step.Inits) (simp add: new_world_def)
  moreover have "snd (srv_InitServer () open_binds None 6000 0 ?w) = one_server" by (simp add: one_server_def)
  ultimately show ?thesis using sw_reach.Step by metis
qed

lemma one_server_facts:
  "sw_listeners one_server = [new_ListenerData new_ServerManager ()]" "length (sw_servers one_server) = 1"
  "srv_queue (sw_servers one_server ! 0) = []" "handQueue (sw_manager one_server) = []"
  "getSocket (sw_manager one_server) 6000 = Some 0"
  by (simp_all add: one_server_def srv_InitServer_def uss_InitServer_def all_addresses_def open_binds_def
      new_world_def new_judpServer_def addSocket_def getSocket_def new_ServerManager_def)

theorem every_listener_hears_witness:
  "sw_listeners (post_udp direct_bus demo_packet (snd (srv_close 0 one_server)))
     = [monitorServer demo_packet (new_ListenerData new_ServerManager ())]"
  using every_listener_hears [OF direct_bus_ok one_server_reached, where d = demo_packet and k = 0]
  by (simp add: one_server_facts)

end
