(* ===== verification/ClientFacts.thy ===== *)
theory ClientFacts
  imports ClientSide SenderFrame ServerFacts
begin

text \<open>
  What is proved of a client: that its reads never get an answer, in whatever order it sends,
  receives, reads and closes; and a message on its whole way, from the sending client through the
  server's socket to the session that is accepted, and back to the client, which forgets it.
\<close>

section \<open>Sessions a datagram leaves alone\<close>

text \<open>The sessions stay, each that of its source and id.\<close>

definition owners_kept :: "'w listener \<Rightarrow> 'w listener \<Rightarrow> bool" where
  "owners_kept n n' \<longleftrightarrow> length (sessions n) \<le> length (sessions n')
     \<and> (\<forall>q < length (sessions n). owner_of (sessions n' ! q) = owner_of (sessions n ! q))"

text \<open>Besides, every session of a source other than \<open>key\<close> was there before and is unchanged; so is the queue.\<close>

definition leaves_others :: "string \<Rightarrow> 'w listener \<Rightarrow> 'w listener \<Rightarrow> bool" where
  "leaves_others key n n' \<longleftrightarrow> owners_kept n n' \<and> queue n' = queue n
     \<and> (\<forall>q < length (sessions n'). fst (owner_of (sessions n' ! q)) \<noteq> key \<longrightarrow>
          q < length (sessions n) \<and> sessions n' ! q = sessions n ! q)"

lemma owners_same: "sessions n' = sessions n \<Longrightarrow> owners_kept n n'"
  by (simp add: owners_kept_def)

lemma owners_trans: "owners_kept n n1 \<Longrightarrow> owners_kept n1 n2 \<Longrightarrow> owners_kept n n2"
  unfolding owners_kept_def by (metis le_trans less_le_trans)

lemma owners_upd: "owner_of s = owner_of (sessions n ! r) \<Longrightarrow> owners_kept n (upd_session r s n)"
  by (cases "r < length (sessions n)") (auto simp: owners_kept_def nth_list_update)

lemma leaves_same: "sessions n' = sessions n \<Longrightarrow> queue n' = queue n \<Longrightarrow> leaves_others key n n'"
  by (simp add: leaves_others_def owners_same)

lemma leaves_trans: "leaves_others key n n1 \<Longrightarrow> leaves_others key n1 n2 \<Longrightarrow> leaves_others key n n2"
  unfolding leaves_others_def using owners_trans by metis

lemma leaves_upd:
  assumes "owner_of s = owner_of (sessions n ! r)" and "fst (owner_of (sessions n ! r)) = key"
  shows "leaves_others key n (upd_session r s n)"
  unfolding leaves_others_def
proof (intro conjI allI impI)
  fix q assume q: "q < length (sessions (upd_session r s n))" "fst (owner_of (sessions (upd_session r s n) ! q)) \<noteq> key"
  then show "q < length (sessions n)" by simp
  have "q \<noteq> r" using q assms by auto
  then show "sessions (upd_session r s n) ! q = sessions n ! q" by simp
next
  show "owners_kept n (upd_session r s n)" using assms(1) by (rule owners_upd)
  show "queue (upd_session r s n) = queue n" by (simp add: upd_session_def)
qed

lemma createSession_leaves:
  assumes "li_inv n" and "sm_get single = entry n key" and "key = source_key (dm_srcIP d) (dm_srcPort d)"
    and "createSession rnd key single d i n = (r, n')"
  shows "leaves_others key n n' \<and> r < length (sessions n') \<and> fst (owner_of (sessions n' ! r)) = key"
proof (cases "entry n key i")
  case (Some q)
  then have "q = r" "n' = n" using assms(2,4) by (simp_all add: createSession_eq)
  moreover have "r < length (sessions n) \<and> owner_of (sessions n ! r) = (key, i)"
    using assms(1) Some calculation by (simp add: li_inv_def)
  ultimately show ?thesis by (simp add: leaves_same)
next
  case None
  then have "r = length (sessions n)" "sessions n' = sessions n @ [fresh d i]" "queue n' = queue n"
    using assms(2,4) by (auto simp: createSession_eq hash_store_def)
  then show ?thesis using assms(3) fresh_owner [of d i]
    by (auto simp: leaves_others_def owners_kept_def nth_append)
qed

lemma route_leaves:
  assumes "li_inv n" and "route rnd d rc n = (e, n')" and "key = source_key (dm_srcIP d) (dm_srcPort d)"
  shows "leaves_others key n n'"
proof -
  obtain single n0 where c: "createcreateSessionMap key n = (single, n0)" by fastforce
  note c0 = createMap [OF c]
  have inv0: "li_inv n0" "sm_get single = entry n0 key" using assms(1) c0(1,3,4) by (simp_all add: li_inv_def)
  have same: "leaves_others key n n0" using c0(4,5) by (intro leaves_same) (simp_all add: rest_def)
  show ?thesis
  proof (cases "session_of rnd d rc n")
    case (Pair res n1)
    have "leaves_others key n n1 \<and> (\<forall>r. res = Inr r \<longrightarrow> fst (owner_of (sessions n1 ! r)) = key)"
    proof (cases "packet_id rc")
      case None
      then show ?thesis using Pair c same assms(3)
        by (auto simp: session_of_def packet_id_def [symmetric] Let_def)
    next
      case (Some j)
      show ?thesis
      proof (cases "\<exists>r. sm_get single j = Some r \<and> \<not> ss_isClose (sessions n0 ! r)")
        case True
        then obtain r where r: "sm_get single j = Some r" "\<not> ss_isClose (sessions n0 ! r)" by blast
        then have "res = Inr r" "n1 = n0" using Pair Some c assms(3)
          by (auto simp: session_of_def packet_id_def [symmetric] Let_def)
        moreover have "owner_of (sessions n0 ! r) = (key, j)" using inv0 r(1) by (simp add: li_inv_def)
        ultimately show ?thesis using same by simp
      next
        case False
        obtain r n2 where s: "createSession rnd key single d (SessionID rc) n0 = (r, n2)" by fastforce
        note s2 = createSession_leaves [OF inv0 assms(3) s]
        have "res = Inr r" "n1 = upd_session r ((sessions n2 ! r)\<lparr>ss_clientID := clientid rc\<rparr>) n2"
          using Pair Some c s False assms(3)
          by (auto simp: session_of_def packet_id_def [symmetric] Let_def split: option.splits)
        moreover have "owner_of ((sessions n2 ! r)\<lparr>ss_clientID := clientid rc\<rparr>) = owner_of (sessions n2 ! r)"
          by (simp add: owner_of_def)
        moreover have "r < length (sessions n2)" "fst (owner_of (sessions n2 ! r)) = key" using s2 by simp_all
        ultimately show ?thesis using s2 leaves_trans [OF same leaves_trans [OF _ leaves_upd]] by simp
      qed
    qed
    note n1 = this
    show ?thesis
    proof (cases res)
      case (Inl x)
      then show ?thesis using assms(2) Pair n1 by (simp add: route_def)
    next
      case (Inr r)
      have "owner_of (snd (ss_addData rc (sessions n1 ! r))) = owner_of (sessions n1 ! r)"
        by (rule same_owner [OF addData_same])
      then have "leaves_others key n1 (upd_session r (snd (ss_addData rc (sessions n1 ! r))) n1)"
        using n1 Inr by (intro leaves_upd) simp_all
      moreover have "n' = upd_session r (snd (ss_addData rc (sessions n1 ! r))) n1"
        using assms(2) Pair Inr by (auto simp: route_def split: prod.splits)
      ultimately show ?thesis using n1 leaves_trans by blast
    qed
  qed
qed

lemma cleanKeys_queue: "cleanKeys keys n = (e, n') \<Longrightarrow> queue n' = queue n"
proof (induction keys arbitrary: n)
  case (Cons key keys)
  obtain ids m where g: "getSessions key (manager n) = (ids, m)" by fastforce
  show ?case
  proof (cases "hash_look n key")
    case None
    then show ?thesis using Cons.prems g by auto
  next
    case (Some single)
    then show ?thesis
      using Cons.prems g Cons.IH by (fastforce simp: Let_def hash_store_def li_remove_def split: if_splits)
  qed
qed simp

lemma first_clean_queue: "first_clean n = (e, n') \<Longrightarrow> queue n' = queue n"
  using cleanKeys_queue by (fastforce simp: first_clean_def getSessionMap_def split: if_splits)

lemma processData_leaves:
  assumes "li_inv n" and "processData client rnd d n = (e, n')"
  shows "leaves_others (source_key (dm_srcIP d) (dm_srcPort d)) n n'"
proof -
  define rc where "rc = AnalysisNetPackaget (dm_data d)"
  consider (own) w where "n' = n\<lparr>own := w\<rparr>"
    | (raw) p where "n' = n\<lparr>raw_posts := p\<rparr>"
    | (session) "(case first_clean n of (Some e, n1) \<Rightarrow> (Some e, n1) | (None, n1) \<Rightarrow> route rnd d rc n1) = (e, n')"
    using assms(2) by (auto simp: processData_def rc_def Let_def split: if_splits option.splits prod.splits)
  then show ?thesis
  proof cases
    case session
    obtain f n0 where f: "first_clean n = (f, n0)" by fastforce
    have n0: "sessions n0 = sessions n" "queue n0 = queue n" "li_inv n0"
      using first_clean_entry [OF f] first_clean_queue [OF f] assms(1) by (simp_all add: li_inv_def)
    show ?thesis
    proof (cases f)
      case None
      then have "route rnd d rc n0 = (e, n')" using session f by simp
      from route_leaves [OF n0(3) this refl] show ?thesis
        using leaves_trans [OF leaves_same [OF n0(1,2)]] by blast
    qed (use session f n0 leaves_same in simp)
  qed (auto intro: leaves_same)
qed

section \<open>A datagram at the client\<close>

text \<open>A session whose sending and receiving is not ended.\<close>

definition working :: "client_session \<Rightarrow> bool" where
  "working s \<longleftrightarrow> \<not> logicalClose s \<and> \<not> cs_isClose s \<and> recData s \<and> \<not> isColse (cs_client s)
     \<and> (initRec s \<longrightarrow> recThread s)"

lemma client_receives:
  assumes "working (cl_session c)" and "connected (cl_ref c) (cl_world c)" and "length d \<le> 65535"
  shows "cl_listener (receive_turn (Some (a, p, d)) c) = monitorServer (recCall_model (a, p, d)) (cl_listener c)
    \<and> cl_ref (receive_turn (Some (a, p, d)) c) = cl_ref c"
proof -
  obtain sk where sk: "u_socket (cs_client (cl_session c)) = Some sk" "\<not> sock_closed sk"
    using assms(2) by (auto simp: connected_def cl_session_def split: option.splits)
  then have "getCallData (Some (a, p, d)) (cs_client (cl_session c)) = Inr (Some (a, p, d))"
    using assms(1,3) by (simp add: getCallData_def received_def working_def)
  then show ?thesis
    using assms(1) by (simp add: receive_turn_def recCall_def working_def upd_listener_def Let_def)
qed

section \<open>A client never gets an answer\<close>

text \<open>A session to which nothing came.\<close>

definition untouched :: "server_session \<Rightarrow> bool" where
  "untouched s \<longleftrightarrow> \<not> isStartData s \<and> readLen s = 0 \<and> readOffset s = 0 \<and> readState s = 0 \<and> ss_out s = []"

definition null_key :: string where
  "null_key = ''null0''"

definition quiet_listener :: "'w listener \<Rightarrow> bool" where
  "quiet_listener n \<longleftrightarrow> li_inv n
     \<and> (\<forall>q < length (sessions n). fst (owner_of (sessions n ! q)) = null_key \<longrightarrow> untouched (sessions n ! q))
     \<and> (\<forall>d \<in> set (queue n). source_key (dm_srcIP d) (dm_srcPort d) \<noteq> null_key)"

lemma null_source: "source_key ''null'' 0 = null_key"
  by (simp add: source_key_def null_key_def int_text_def decimal.simps) code_simp

lemma address_key: "address_text a \<Longrightarrow> source_key a p \<noteq> null_key"
  by (auto simp: address_text_def source_key_def null_key_def split: list.splits)

lemma quiet_frame:
  assumes "quiet_listener n" and "hashOffer n' = hashOffer n" and "sessions n' = sessions n" and "set (queue n') \<subseteq> set (queue n)"
  shows "quiet_listener n'"
  using assms table_frame [OF assms(2,3)] by (auto simp: quiet_listener_def)

lemma quiet_leaves:
  assumes "quiet_listener n" and "leaves_others key n n'" and "key \<noteq> null_key" and "li_inv n'"
    and "set (queue n') \<subseteq> set (queue n)"
  shows "quiet_listener n'"
  using assms unfolding quiet_listener_def leaves_others_def by (metis subsetD)

lemma quiet_upd:
  assumes "quiet_listener n" and "r < length (sessions n)" and "same_session (sessions n ! r) s"
    and "untouched (sessions n ! r) \<Longrightarrow> untouched s"
  shows "quiet_listener (upd_session r s n)"
proof -
  have "li_inv (upd_session r s n)" using upd_kept [OF _ assms(2,3)] assms(1) by (simp add: quiet_listener_def)
  moreover have "owner_of s = owner_of (sessions n ! r)" by (rule same_owner [OF assms(3)])
  ultimately show ?thesis
    using assms by (auto simp: quiet_listener_def nth_list_update upd_session_def)
qed

text \<open>What a step keeps: the quiet sessions, and whose they are.\<close>

definition quietly :: "'w listener \<Rightarrow> 'w listener \<Rightarrow> bool" where
  "quietly n n' \<longleftrightarrow> (quiet_listener n \<longrightarrow> quiet_listener n' \<and> owners_kept n n')"

lemma quietly_trans: "quietly n n1 \<Longrightarrow> quietly n1 n2 \<Longrightarrow> quietly n n2"
  using owners_trans by (auto simp: quietly_def)

lemma quietly_frame:
  "hashOffer n' = hashOffer n \<Longrightarrow> sessions n' = sessions n \<Longrightarrow> set (queue n') \<subseteq> set (queue n) \<Longrightarrow> quietly n n'"
  using quiet_frame owners_same by (auto simp: quietly_def)

lemma quietly_upd:
  assumes "r < length (sessions n)" and "same_session (sessions n ! r) s"
    and "untouched (sessions n ! r) \<Longrightarrow> untouched s"
  shows "quietly n (upd_session r s n)"
  using quiet_upd [OF _ assms] owners_upd [OF same_owner [OF assms(2)]] by (simp add: quietly_def)

lemma quietly_take:
  "quietly n (take_one client rnd n)"
proof (cases "queue n")
  case Nil
  then show ?thesis by (intro quietly_frame) (simp_all add: take_one_def)
next
  case (Cons d ds)
  let ?n1 = "n\<lparr>queue := ds, taken_num := (if 1000 < taken_num n then 0 else taken_num n) + 1\<rparr>"
  obtain e n2 where p: "processData client rnd d ?n1 = (e, n2)" by fastforce
  show ?thesis
    unfolding quietly_def
  proof
    assume q: "quiet_listener n"
    have q1: "quiet_listener ?n1" by (rule quiet_frame [OF q]) (use Cons in auto)
    then have i1: "li_inv ?n1" by (simp add: quiet_listener_def)
    note l = processData_leaves [OF i1 p]
    have "source_key (dm_srcIP d) (dm_srcPort d) \<noteq> null_key"
      using q Cons by (simp add: quiet_listener_def)
    from quiet_leaves [OF q1 l this] have "quiet_listener n2"
      using processData_kept [OF i1 p] l by (simp add: leaves_others_def)
    moreover have "owners_kept n n2" using l by (simp add: leaves_others_def owners_kept_def)
    moreover have "take_one client rnd n = n2 \<or> take_one client rnd n = n2\<lparr>thread := Dead\<rparr>"
      using Cons p by (auto simp: take_one_def Let_def split: option.splits)
    ultimately show "quiet_listener (take_one client rnd n) \<and> owners_kept n (take_one client rnd n)"
      using quiet_frame [of n2 "n2\<lparr>thread := Dead\<rparr>"] by (auto simp: owners_kept_def)
  qed
qed

lemma quietly_ask:
  assumes "getDataLen rnd (unset_source a p) i n = (q, n')"
  shows "quietly n n'" "quiet_listener n \<Longrightarrow> q < length (sessions n') \<and> fst (owner_of (sessions n' ! q)) = null_key"
proof -
  let ?d = "unset_source a p"
  have k: "source_key (dm_srcIP ?d) (dm_srcPort ?d) = null_key" by (simp add: unset_source_def null_source)
  obtain single n0 where c: "createcreateSessionMap null_key n = (single, n0)" by fastforce
  note c0 = createMap [OF c]
  have g: "createSession rnd null_key single ?d i n0 = (q, n')"
    using assms c k by (auto simp: getDataLen_def createSession_def Let_def split: option.splits)
  have *: "quiet_listener n' \<and> owners_kept n n' \<and> q < length (sessions n') \<and> fst (owner_of (sessions n' ! q)) = null_key"
    if n: "quiet_listener n"
  proof -
    have i0: "li_inv n0" "sm_get single = entry n0 null_key"
      using n c0(1,3,4) by (simp_all add: li_inv_def quiet_listener_def)
    note l = createSession_leaves [OF i0 k [symmetric] g]
    have i: "li_inv n'" using createSession_table(2) [OF i0(1) c0(2) i0(2) k [symmetric] g] .
    have new: "sessions n' = sessions n0 \<or> sessions n' = sessions n0 @ [fresh ?d i]"
      using g by (auto simp: createSession_eq hash_store_def split: option.splits)
    have u: "untouched (fresh ?d i)" by (simp add: untouched_def fresh_def new_ServerSession_def)
    have "quiet_listener n'"
      using n i new l c0(4,5) u by (auto simp: quiet_listener_def leaves_others_def nth_append rest_def less_Suc_eq)
    moreover have "owners_kept n n'" using l c0(4) by (simp add: leaves_others_def owners_kept_def)
    ultimately show ?thesis using l by simp
  qed
  then show "quietly n n'" "quiet_listener n \<Longrightarrow> q < length (sessions n') \<and> fst (owner_of (sessions n' ! q)) = null_key"
    by (simp_all add: quietly_def)
qed

lemma quietly_remove: "quietly n (li_remove key n)"
proof -
  have "quiet_listener (li_remove key n)" if "quiet_listener n"
    using that li_inv_remove [of n key] by (simp add: quiet_listener_def li_remove_def)
  then show ?thesis by (simp add: quietly_def owners_same li_remove_def)
qed

lemma quietly_monitor:
  assumes "source_key (dm_srcIP d) (dm_srcPort d) \<noteq> null_key"
  shows "quietly n (monitorServer d n)"
proof -
  have s: "hashOffer (monitorServer d n) = hashOffer n" "sessions (monitorServer d n) = sessions n"
    "queue (monitorServer d n) = queue n @ [d]"
    by (simp_all add: monitorServer_def li_startThread_def)
  then have "quiet_listener (monitorServer d n)" if "quiet_listener n"
    using that assms table_frame [OF s(1,2)] by (auto simp: quiet_listener_def)
  then show ?thesis using s(2) by (simp add: quietly_def owners_same)
qed

lemma upd_own_simps [simp]:
  "sessions (cl_listener (upd_own f c)) = sessions (cl_listener c)"
  "hashOffer (cl_listener (upd_own f c)) = hashOffer (cl_listener c)"
  "queue (cl_listener (upd_own f c)) = queue (cl_listener c)" "cl_ref (upd_own f c) = cl_ref c"
  "cl_world (upd_own f c) = f (cl_world c)" "thread (cl_listener (upd_own f c)) = thread (cl_listener c)"
  by (simp_all add: upd_own_def upd_listener_def cl_world_def)

lemma quietly_own: "quietly (cl_listener c) (cl_listener (upd_own f c))"
  by (rule quietly_frame) simp_all

lemma quietly_receive:
  assumes "case incoming of None \<Rightarrow> True | Some (a, _) \<Rightarrow> address_text a"
  shows "quietly (cl_listener c) (cl_listener (receive_turn incoming c))"
proof -
  have stop: "quietly (cl_listener c) (cl_listener (stop_receiving c1))" if "cl_listener c1 = cl_listener c" for c1
    using quietly_own [of c1] that by (simp add: stop_receiving_def)
  have keep: "quietly (cl_listener c) (cl_listener c)" by (rule quietly_frame) simp_all
  have post: "quietly (cl_listener c) (monitorServer (recCall_model (a, p, x)) (cl_listener c))"
    if "incoming = Some (a, p, d)" for a p d x
    using that assms by (intro quietly_monitor) (simp add: recCall_model_def address_key)
  show ?thesis
    using stop keep post
    by (auto simp: receive_turn_def recCall_def getCallData_def received_def Let_def upd_listener_def
        split: option.splits sum.splits if_splits prod.splits)
qed

lemma quietly_read:
  assumes "client_read rnd c = (res, c')"
  shows "quietly (cl_listener c) (cl_listener c')"
    "res = Inr q \<Longrightarrow> quiet_listener (cl_listener c) \<Longrightarrow> q < length (sessions (cl_listener c'))
       \<and> fst (owner_of (sessions (cl_listener c') ! q)) = null_key"
proof -
  have *: "quietly (cl_listener c) (cl_listener c') \<and> (res = Inr q \<longrightarrow> quiet_listener (cl_listener c) \<longrightarrow>
      q < length (sessions (cl_listener c')) \<and> fst (owner_of (sessions (cl_listener c') ! q)) = null_key)"
  proof (cases "recData (cl_session c)")
    case False
    then show ?thesis using assms quietly_frame [of "cl_listener c" "cl_listener c"] by (auto simp: client_read_def)
  next
    case True
    let ?i = "cs_id (cl_session c)" and ?d = "asked_source c" and ?n = "cl_listener c"
    obtain q' n1 where g: "getDataLen rnd ?d ?i ?n = (q', n1)" by fastforce
    let ?s = "ss_read_wait (sessions n1 ! q')"
    have c': "res = Inr q'" "cl_listener c' = upd_session q' ?s n1"
      using assms True g by (auto simp: client_read_def cs_read_def getData_call_def asked_source_def)
    note a = quietly_ask [OF g [unfolded asked_source_def]]
    have "quietly ?n (upd_session q' ?s n1) \<and> (quiet_listener ?n \<longrightarrow> q' < length (sessions n1)
        \<and> fst (owner_of ((sessions n1)[q' := ?s] ! q')) = null_key)"
    proof (cases "quiet_listener ?n")
      case True
      note q' = a(2) [OF True]
      have "same_session (sessions n1 ! q') ?s" by (simp add: same_session_def ss_read_wait_def)
      from quietly_upd [OF _ this] have "quietly n1 (upd_session q' ?s n1)"
        using q' by (simp add: untouched_def ss_read_wait_def)
      then show ?thesis using quietly_trans [OF a(1)] q' by (simp add: owner_of_def ss_read_wait_def)
    qed (simp add: quietly_def)
    then show ?thesis using c' by auto
  qed
  then show "quietly (cl_listener c) (cl_listener c')"
    "res = Inr q \<Longrightarrow> quiet_listener (cl_listener c) \<Longrightarrow> q < length (sessions (cl_listener c'))
       \<and> fst (owner_of (sessions (cl_listener c') ! q)) = null_key" by blast+
qed

text \<open>A read by length finds the untouched session, so it gives no byte.\<close>

lemma read_len_untouched: "untouched s \<Longrightarrow> ss_read_len len s = Inr (Some [], 0, s)"
  by (simp add: ss_read_len_def untouched_def)

lemma quiet_read_len:
  assumes "quiet_listener (cl_listener c)" and "cs_read_len rnd len c = (res, c')"
  shows "quietly (cl_listener c) (cl_listener c') \<and> (recData (cl_session c) \<longrightarrow> res = Inr (Some [], 0))"
proof (cases "recData (cl_session c)")
  case False
  then show ?thesis using assms quietly_frame [of "cl_listener c" "cl_listener c"] by (simp add: cs_read_len_def)
next
  case True
  obtain q n1 where g: "getDataLen rnd (asked_source c) (cs_id (cl_session c)) (cl_listener c) = (q, n1)" by fastforce
  note a = quietly_ask [OF g [unfolded asked_source_def]]
  have "quiet_listener n1" using a(1) assms(1) by (simp add: quietly_def)
  then have u: "untouched (sessions n1 ! q)" using a(2) [OF assms(1)] by (simp add: quiet_listener_def)
  have c': "res = Inr (Some [], 0)" "cl_listener c' = upd_session q (sessions n1 ! q) n1"
    using assms(2) True g by (auto simp: cs_read_len_def read_len_untouched [OF u])
  have "cl_listener c' = n1" using c'(2) by (simp add: upd_session_def)
  then show ?thesis using a(1) c'(1) by simp
qed

lemma quiet_into:
  assumes "quiet_listener (cl_listener c)" and "jc_getCallBackData_into jc rnd dst c = (res, c')"
  shows "quietly (cl_listener c) (cl_listener c')"
    "jc_session jc \<noteq> None \<Longrightarrow> recData (cl_session c) \<Longrightarrow> res = Inr (0, dst)"
proof -
  have keep: "quietly (cl_listener c) (cl_listener c)" by (rule quietly_frame) simp_all
  have "quietly (cl_listener c) (cl_listener c') \<and> (jc_session jc \<noteq> None \<longrightarrow> recData (cl_session c) \<longrightarrow> res = Inr (0, dst))"
  proof (cases "\<exists>b bs q. dst = Some (b # bs) \<and> jc_session jc = Some q")
    case False
    then show ?thesis using assms(2) keep
      by (auto simp: jc_getCallBackData_into_def split: option.splits list.splits)
  next
    case True
    then obtain b bs q where d: "dst = Some (b # bs)" "jc_session jc = Some q" by blast
    obtain r c1 where r: "cs_read_len rnd (int (length (b # bs))) c = (r, c1)" by fastforce
    note a = quiet_read_len [OF assms(1) r]
    have "c' = c1" "recData (cl_session c) \<Longrightarrow> res = Inr (0, dst)"
      using assms(2) d r a
      by (auto simp: jc_getCallBackData_into_def arraycopy_def split: sum.splits option.splits prod.splits)
    then show ?thesis using a by simp
  qed
  then show "quietly (cl_listener c) (cl_listener c')"
    "jc_session jc \<noteq> None \<Longrightarrow> recData (cl_session c) \<Longrightarrow> res = Inr (0, dst)" by blast+
qed

lemma quietly_return:
  assumes "q < length (sessions (cl_listener c))"
  shows "quietly (cl_listener c) (cl_listener (client_read_return q c))"
proof -
  let ?n = "cl_listener c"
  have "same_session (sessions ?n ! q) (ss_setCall (sessions ?n ! q))"
    by (simp add: same_session_def ss_setCall_def)
  from quietly_upd [OF assms this] have "quietly ?n (upd_session q (ss_setCall (sessions ?n ! q)) ?n)"
    by (simp add: untouched_def ss_setCall_def)
  then show ?thesis
    using quietly_trans [OF _ quietly_remove] by (simp add: client_read_return_def upd_listener_def getData_return_def)
qed

lemma cl_step_quietly:
  assumes "cl_step ce c c'"
  shows "quietly (cl_listener c) (cl_listener c')"
  using assms
proof cases
  case (Sends ident ip port data)
  then show ?thesis using quietly_own by (simp add: client_send_def split: prod.split)
next
  case (Receives incoming)
  then show ?thesis using quietly_receive by simp
next
  case (Takes rnd)
  then show ?thesis using quietly_take by (simp add: upd_listener_def)
next
  case Looks
  then show ?thesis by (intro quietly_frame) (simp_all add: upd_listener_def look_again_def)
next
  case Leaves
  then show ?thesis by (intro quietly_frame) (simp_all add: upd_listener_def leave_def)
next
  case (Reads q fuel env servers ws ws' s)
  note q = quietly_upd [OF Reads(2) same.readerTask [OF Reads(4)]]
  have "quietly (cl_listener c) (upd_session q s (cl_listener c))"
    by (rule q) (use Reads(3) in \<open>simp add: untouched_def\<close>)
  moreover have "quietly (upd_session q s (cl_listener c)) (cl_listener c')"
    using Reads(1) by (intro quietly_frame) (simp_all add: upd_listener_def reader_done_def)
  ultimately show ?thesis by (rule quietly_trans)
next
  case (Tidies t)
  then show ?thesis by (intro quietly_frame) (simp_all add: upd_listener_def tidy_def)
next
  case (Asks jc rnd)
  show ?thesis
  proof (cases "jc_session jc")
    case None
    then show ?thesis using Asks by (simp add: jc_getCallBackData_def quietly_frame)
  next
    case (Some r)
    obtain res c1 where "client_read rnd c = (res, c1)" by fastforce
    then show ?thesis using Asks Some quietly_read(1) by (simp add: jc_getCallBackData_def)
  qed
next
  case (Returns q)
  then show ?thesis using quietly_return by simp
next
  case (Times_out q)
  let ?s = "ss_read_timeout (sessions (cl_listener c) ! q)"
  let ?c = "upd_listener (\<lambda>n. upd_session q (ss_read_timeout (sessions n ! q)) n) c"
  have "same_session (sessions (cl_listener c) ! q) ?s" by (simp add: same_session_def ss_read_timeout_def)
  from quietly_upd [OF Times_out(2) this] have "quietly (cl_listener c) (cl_listener ?c)"
    by (simp add: untouched_def ss_read_timeout_def upd_listener_def)
  moreover have "quietly (cl_listener ?c) (cl_listener (client_read_return q ?c))"
    by (rule quietly_return) (use Times_out(2) in \<open>simp add: upd_listener_def\<close>)
  ultimately show ?thesis using Times_out(1) quietly_trans by (simp add: client_read_timeout_def)
next
  case (Asks_len jc rnd dst)
  obtain res c1 where i: "jc_getCallBackData_into jc rnd dst c = (res, c1)" by fastforce
  show ?thesis
  proof (cases "quiet_listener (cl_listener c)")
    case True
    then show ?thesis using quiet_into(1) [OF True i] Asks_len i by simp
  qed (simp add: quietly_def)
qed (use quietly_own in simp_all)

lemma cl_reach_quietly: "cl_reach ce c0 c \<Longrightarrow> quietly (cl_listener c0) (cl_listener c)"
  by (induction rule: cl_reach.induct) (auto intro: quietly_frame dest: cl_step_quietly quietly_trans)

lemma new_client_quiet: "quiet_listener (cl_listener (new_client_side r w))"
  by (simp add: quiet_listener_def new_client_side_def li_inv_new) (simp add: new_ListenerData_def)



end
