(* ===== verification/RoundTrip.thy ===== *)
theory RoundTrip
  imports ClientFacts
begin

text \<open>
  A message on its whole way: the sending client, the server's socket and listener, the reader, the
  session that is accepted, and the completion back at the client, which forgets the message.
\<close>

section \<open>The completion at the client\<close>

lemma client_send_short:
  assumes "r = cl_ref c" and "usable (ce_net ce) ip r (cl_world c)" and "ids_inv (w_ids (cl_world c))"
    and "int (length bs) < ce_stream ce" and "ce_stream ce < 2 ^ 31 - 41"
    and "\<And>n. n \<le> nat (ce_stream ce) \<Longrightarrow> sendable (ce_net ce) (41 + n)" and "sendable (ce_net ce) 34"
    and "instance_value r (w_ids (cl_world c)) = 0" and "working (cl_session c)" and "sid = cs_id (cl_session c)"
  obtains c1 where "client_send ce ident (Some ip) port (Some bs) c = (None, c1)"
    "w_net (cl_world c1) = w_net (cl_world c)
       @ [(ip, port, data_bytes ident sid 0 0 1 bs), (ip, port, ack_bytes (ask_ack ident sid))]"
    "map_of (mapInitSeq (cl_session c1)) 0 = Some 1" "mapCache (cl_session c1) 0 = Some (data_bytes ident sid 0 0 1 bs)"
    "working (cl_session c1)" "recThread (cl_session c1)" "connected r (cl_world c1)"
    "cl_ref c1 = r" "queue (cl_listener c1) = queue (cl_listener c)" "thread (cl_listener c1) = thread (cl_listener c)"
proof -
  let ?w = "cl_world c"
  obtain w' where w': "cs_sendData (ce_net ce) (ce_now ce) (ce_dir ce) (ce_stream ce) r ident (Some ip) port (Some bs) ?w
      = (None, w')"
    "w_net w' = w_net ?w @ [(ip, port, data_bytes ident sid 0 0 1 bs), (ip, port, ack_bytes (ask_ack ident sid))]"
    "map_of (mapInitSeq (w_sess w' r)) 0 = Some 1" "mapCache (w_sess w' r) 0 = Some (data_bytes ident sid 0 0 1 bs)"
    "snd (receiving r w') = (fst (receiving r ?w) \<longrightarrow> snd (receiving r ?w))" "connected r w'"
    using cs_sendData_short [OF assms(2-7), of "ce_now ce" "ce_dir ce" ident port] assms(1,8,10)
    unfolding ask_ack_def cl_session_def by metis
  let ?c1 = "upd_own (\<lambda>_. w') c"
  have s: "cl_session ?c1 = w_sess w' r" using assms(1) by (simp add: cl_session_def)
  have "working (w_sess w' r) \<and> recThread (w_sess w' r)"
    using session_flags.sendData_kept [OF w'(1)] w'(5) assms(1,9)
    by (auto simp: flags_kept_def flags_def Let_def working_def receiving_def cl_session_def)
  then show thesis
    using w' assms(1) s by (intro that [of ?c1]) (simp_all add: client_send_def)
qed

lemma client_completes:
  assumes "r = cl_ref c" and "working (cl_session c)" and "connected r (cl_world c)" and "queue (cl_listener c) = []"
    and "thread (cl_listener c) \<noteq> Dead" and "map_of (mapInitSeq (cl_session c)) i = Some 1"
    and "ack = new_AckPackaget\<lparr>ack_packagetID := i, ack_sessionid := sid, ackType := 1, ack_clientID := ident\<rparr>"
    and "c2 = upd_listener (take_one (client_of ce r) rnd) (receive_turn (Some (a, p, ack_bytes ack)) c)"
  shows "map_of (mapInitSeq (cl_session c2)) i = None \<and> mapCache (cl_session c2) i = None
    \<and> queue (cl_listener c2) = [] \<and> thread (cl_listener c2) \<noteq> Dead"
proof -
  let ?d = "recCall_model (a, p, ack_bytes ack)" and ?rc = "AnalysisNetPackaget (Some (ack_bytes ack))"
  let ?n = "monitorServer ?d (cl_listener c)"
  have "length (ack_bytes ack) \<le> 65535" by (simp add: ack_bytes_def)
  then have c2: "cl_listener c2 = take_one (client_of ce r) rnd ?n" "cl_ref c2 = r"
    using client_receives [OF assms(2), of "ack_bytes ack" a p] assms(1,3) by (simp_all add: assms(8) upd_listener_def)
  have n: "queue ?n = [?d]" "own ?n = cl_world c" "thread ?n \<noteq> Dead" "dm_data ?d = Some (ack_bytes ack)"
    using assms(4,5) by (simp_all add: monitorServer_def li_startThread_def cl_world_def recCall_model_def)
  have rc: "isAck ?rc" using parse_ack_bytes [of ack] by (simp add: assms(7))
  have s: "\<not> logicalClose (w_sess (cl_world c) r)" "map_of (mapInitSeq (w_sess (cl_world c) r)) i = Some 1"
    using assms(1,2,6) by (simp_all add: working_def cl_session_def)
  obtain w'' where w'': "cs_addData (ce_net ce) (ce_now ce) (ce_dir ce) (ce_stream ce) (ce_deser ce) r ?rc (cl_world c)
      = (None, w'')" "map_of (mapInitSeq (w_sess w'' r)) i = None" "mapCache (w_sess w'' r) i = None"
    using completion_evicts [OF s assms(7)] by blast
  have "cl_listener c2 = ?n\<lparr>queue := [], taken_num := (if 1000 < taken_num ?n then 0 else taken_num ?n) + 1, own := w''\<rparr>"
    unfolding c2(1) take_one_def using n w''(1) rc by (simp add: processData_def client_of_def Let_def)
  then show ?thesis using w'' c2(2) n(3) by (simp add: cl_session_def cl_world_def)
qed


section \<open>A concrete run\<close>

definition demo_env :: client_env where
  "demo_env = \<lparr>ce_net = lan, ce_now = ''0'', ce_dir = ''/'', ce_stream = 2000, ce_deser = (\<lambda>_. None)\<rparr>"

definition demo_client :: client_side where
  "demo_client = new_client_side 5 start_world"

lemma demo_client_facts:
  "5 = cl_ref demo_client" "cl_world demo_client = start_world" "working (cl_session demo_client)"
  "queue (cl_listener demo_client) = []" "thread (cl_listener demo_client) \<noteq> Dead" "cs_id (cl_session demo_client) = 77"
  by (simp_all add: demo_client_def new_client_side_def cl_world_def new_ListenerData_def cl_session_def
      working_def start_world_def new_ClientSession_def new_UDPClient_def)


end
