(* ===== verification/ReaderStops.thy ===== *)
theory ReaderStops
  imports ReceiverFacts
begin

text \<open>
  When the reader's loops end. The blocking wait is bounded by its counter; the loop that takes
  packets out is bounded by the packets that are stored or still arrive.
\<close>

section \<open>Packets stored\<close>

definition stored :: "nat \<Rightarrow> server_session \<Rightarrow> nat" where
  "stored b s = length (filter (\<lambda>x. x \<noteq> None) (rb_buffer (heap s ! b)))"

definition arriving :: "schedule \<Rightarrow> nat" where
  "arriving ws = length (concat ws)"

lemma stored_update_le:
  "length (filter (\<lambda>x. x \<noteq> None) (xs[i := v])) \<le> length (filter (\<lambda>x. x \<noteq> None) xs) + 1"
proof (induction xs arbitrary: i)
  case (Cons x xs)
  from Cons.IH [of "i - 1"] show ?case by (cases i) auto
qed simp

lemma stored_remove:
  "i < length xs \<Longrightarrow> xs ! i = Some d \<Longrightarrow>
    length (filter (\<lambda>x. x \<noteq> None) (xs[i := None])) + 1 = length (filter (\<lambda>x. x \<noteq> None) xs)"
proof (induction xs arbitrary: i)
  case (Cons x xs)
  from Cons.IH [of "i - 1"] Cons.prems show ?case by (cases i) auto
qed simp

lemma offer_stored: "offer d rb = Inr (ok, rb') \<Longrightarrow>
    length (filter (\<lambda>x. x \<noteq> None) (rb_buffer rb')) \<le> length (filter (\<lambda>x. x \<noteq> None) (rb_buffer rb)) + 1"
  using stored_update_le [of "rb_buffer rb"]
  by (auto simp: offer_def bindR_Inr_iff array_set_def Let_def split: if_splits)

lemma poll_stored: "poll rb = Inr (r, rb') \<Longrightarrow>
    length (filter (\<lambda>x. x \<noteq> None) (rb_buffer rb')) + (if r = None then 0 else 1)
      = length (filter (\<lambda>x. x \<noteq> None) (rb_buffer rb))"
  using stored_remove [of "nat (readPosition rb)" "rb_buffer rb"]
  by (auto simp: poll_def increment_def bindR_Inr_iff array_set_def array_get_def Let_def
      split: if_splits option.splits)

section \<open>Arrivals\<close>

lemma intBuffer_stored:
  "intBuffer num i s = (e, s') \<Longrightarrow> b < length (heap s) \<Longrightarrow>
    b < length (heap s') \<and> stored b s' = stored b s"
  by (auto simp: intBuffer_def ss_startThread_def stored_def nth_append Let_def
      split: if_splits sum.splits option.splits prod.splits)

lemma setData_stored:
  "setData d s = (e, s') \<Longrightarrow> length (heap s') = length (heap s) \<and> stored b s' \<le> stored b s + 1"
proof -
  assume a: "setData d s = (e, s')"
  show ?thesis
  proof (cases "s' = s")
    case False
    then obtain b' ok rb where o: "offer d (heap s ! b') = Inr (ok, rb)" "s' = s\<lparr>heap := (heap s)[b' := rb]\<rparr>"
      using a by (auto simp: setData_def split: sum.splits option.splits prod.splits)
    from offer_stored [OF o(1)] o(2) show ?thesis
      by (cases "b = b'"; cases "b' < length (heap s)") (simp_all add: stored_def list_update_beyond)
  qed simp
qed

lemma arrive1_stored:
  "b < length (heap s) \<Longrightarrow> b < length (heap (arrive1 a s)) \<and> stored b (arrive1 a s) \<le> stored b s + 1"
proof (cases a)
  case (Packet rc)
  assume b: "b < length (heap s)"
  obtain e s1 where i: "intBuffer (packagetNum rc) (InitSeq rc) s = (e, s1)" by fastforce
  obtain e2 s2 where d: "setData (new_AppData (packagetNum rc) (InitSeq rc) (PackagetID rc)
      (rc_data rc)) s1 = (e2, s2)" by fastforce
  show ?thesis
    using intBuffer_stored [OF i b] setData_stored [OF d, of b]
    by (auto simp: Packet arrive1_def ss_addData_def i d stored_def split: option.splits)
qed (simp add: arrive1_def stored_def)

lemma arrive_stored:
  "b < length (heap s) \<Longrightarrow> b < length (heap (arrive w s)) \<and> stored b (arrive w s) \<le> stored b s + length w"
proof (induction w arbitrary: s)
  case (Cons a w)
  from arrive1_stored [OF Cons.prems, of a] Cons.IH [of "arrive1 a s"] show ?case
    by (simp add: arrive_def)
qed (simp add: arrive_def)

lemma tick_stored:
  "tick ws s = (ws', s') \<Longrightarrow> b < length (heap s) \<Longrightarrow>
    b < length (heap s') \<and> stored b s' + arriving ws' \<le> stored b s + arriving ws"
  using arrive_stored [of b s] by (cases ws) (auto simp: arriving_def)

lemma intBuffer_currentChunk: "intBuffer num i s = (e, s') \<Longrightarrow> currentChunk s' = currentChunk s"
  by (auto simp: intBuffer_def ss_startThread_def Let_def
      split: if_splits sum.splits option.splits prod.splits)

lemma setData_currentChunk: "setData d s = (e, s') \<Longrightarrow> currentChunk s' = currentChunk s"
  by (auto simp: setData_def split: sum.splits option.splits prod.splits)

lemma addData_currentChunk: "currentChunk (snd (ss_addData rc s)) = currentChunk s"
proof -
  obtain e s1 where i: "intBuffer (packagetNum rc) (InitSeq rc) s = (e, s1)" by fastforce
  obtain e2 s2 where d: "setData (new_AppData (packagetNum rc) (InitSeq rc) (PackagetID rc)
      (rc_data rc)) s1 = (e2, s2)" by fastforce
  show ?thesis
    using intBuffer_currentChunk [OF i] setData_currentChunk [OF d]
    by (simp add: ss_addData_def i d split: option.split)
qed

lemma arrive_currentChunk: "currentChunk (arrive w s) = currentChunk s"
  by (induction w arbitrary: s)
    (simp_all add: arrive_def arrive1_def addData_currentChunk split: arrival.split)

lemma tick_currentChunk: "tick ws s = (ws', s') \<Longrightarrow> currentChunk s' = currentChunk s"
  by (cases ws) (auto simp: arrive_currentChunk)

section \<open>Taking packets\<close>

text \<open>What there is to take: the stored packets, those that still arrive, and one in the hand.\<close>

definition to_take :: "nat \<Rightarrow> schedule \<Rightarrow> server_session \<Rightarrow> nat" where
  "to_take b ws s = stored b s + arriving ws + (if currentChunk s = None then 0 else 1)"

lemma timedPoll_stored:
  assumes "timedPoll b ws s = Inr (r, ws', s')" and "b < length (heap s)"
  shows "b < length (heap s') \<and> stored b s' + arriving ws' + (if r = None then 0 else 1) \<le> stored b s + arriving ws
    \<and> currentChunk s' = currentChunk s"
proof -
  obtain ws1 s1 where t: "tick ws s = (ws1, s1)" by fastforce
  note ts = tick_stored [OF t assms(2)]
  obtain rb where p: "poll (heap s1 ! b) = Inr (r, rb)" "ws' = ws1" "s' = s1\<lparr>heap := (heap s1)[b := rb]\<rparr>"
    using assms(1) t by (auto simp: timedPoll_def bindR_Inr_iff)
  from poll_stored [OF p(1)] ts p(2,3) tick_currentChunk [OF t] show ?thesis by (auto simp: stored_def)
qed

lemma request_missing_stored:
  "request_missing env b' s = Inr s' \<Longrightarrow> heap s' = heap s \<and> currentChunk s' = currentChunk s"
  by (auto simp: request_missing_eq split: prod.splits option.splits)

lemma waitChunk_take:
  "waitChunk env b ws s = Inr (ws', s') \<Longrightarrow> b < length (heap s) \<Longrightarrow> currentChunk s = None \<Longrightarrow>
    b < length (heap s') \<and> to_take b ws' s' \<le> to_take b ws s \<and> (currentChunk s' = None \<longrightarrow> 10 < readNull s')"
proof (induction env b ws s rule: waitChunk.induct)
  case (1 env b ws s)
  obtain r ws1 s1 where t: "timedPoll b ws s = Inr (r, ws1, s1)"
    using "1.prems"(1) by (subst (asm) waitChunk.simps) (auto split: sum.splits)
  note ts = timedPoll_stored [OF t "1.prems"(2)]
  show ?case
  proof (cases r)
    case (Some d)
    then have "ws' = ws1" "s' = s1\<lparr>currentChunk := Some d\<rparr>"
      using "1.prems"(1) t by (simp_all add: waitChunk.simps [of env b ws s])
    then show ?thesis using ts Some "1.prems"(3) by (simp add: to_take_def stored_def)
  next
    case None
    let ?s = "s1\<lparr>readNull := readNull s1 + 1\<rparr>"
    obtain s2 where q: "request_missing env b ?s = Inr s2"
      using "1.prems"(1) t None by (subst (asm) waitChunk.simps) (auto split: sum.splits)
    have h: "heap s2 = heap s1" "currentChunk s2 = None"
      using request_missing_stored [OF q] ts "1.prems"(3) by simp_all
    show ?thesis
    proof (cases "10 < readNull s2")
      case True
      then have "ws' = ws1" "s' = s2"
        using "1.prems"(1) t None q by (simp_all add: waitChunk.simps [of env b ws s])
      then show ?thesis using ts h True None "1.prems"(3) by (simp add: to_take_def stored_def)
    next
      case False
      then have "waitChunk env b ws1 s2 = Inr (ws', s')"
        using "1.prems"(1) t None q by (simp add: waitChunk.simps [of env b ws s])
      moreover have "b < length (heap s2)" using ts h by simp
      ultimately have "b < length (heap s') \<and> to_take b ws' s' \<le> to_take b ws1 s2
          \<and> (currentChunk s' = None \<longrightarrow> 10 < readNull s')"
        using "1.IH" [OF t refl None refl q] False h(2) by simp
      moreover have "to_take b ws1 s2 \<le> to_take b ws s"
        using ts h None "1.prems"(3) by (simp add: to_take_def stored_def)
      ultimately show ?thesis by simp
    qed
  qed
qed

lemma updateCurrentChunk_take:
  assumes "updateCurrentChunk env True b ws s = Inr (ws', s')" and "b < length (heap s)" and "currentChunk s = None"
  shows "b < length (heap s') \<and> to_take b ws' s' \<le> to_take b ws s
    \<and> (currentChunk s' = None \<longrightarrow> 10 < readNull s')"
proof -
  obtain r ws1 s1 where t: "timedPoll b ws s = Inr (r, ws1, s1)"
    using assms(1,3) by (auto simp: updateCurrentChunk_def split: sum.splits)
  note ts = timedPoll_stored [OF t assms(2)]
  show ?thesis
  proof (cases r)
    case (Some d)
    then show ?thesis
      using assms t ts by (auto simp: updateCurrentChunk_def to_take_def stored_def)
  next
    case None
    then have "waitChunk env b ws1 s1 = Inr (ws', s')" using assms t by (simp add: updateCurrentChunk_def)
    from waitChunk_take [OF this] ts assms(3) None show ?thesis by (auto simp: to_take_def)
  qed
qed

text \<open>The loop that takes packets ends, whatever arrives, and says that the message is read or given up.\<close>

lemma drain_ends:
  "to_take b ws s < n \<Longrightarrow> b < length (heap s) \<Longrightarrow> drain n env b ws s len \<noteq> None"
proof (induction n arbitrary: ws s len)
  case (Suc n)
  show ?case
  proof (cases "currentChunk s")
    case (Some d)
    show ?thesis
    proof (cases "ad_data d")
      case (Some data)
      obtain ws1 s1 where t: "tick ws (take_chunk d data s) = (ws1, s1)" by fastforce
      have b: "b < length (heap (take_chunk d data s))" using Suc.prems(2) by (simp add: take_chunk_def)
      have c: "currentChunk s1 = None" using tick_currentChunk [OF t] by (simp add: take_chunk_def)
      have l: "b < length (heap s1)" "to_take b ws1 s1 < n"
        using tick_stored [OF t b] Suc.prems(1) \<open>currentChunk s = Some d\<close> c
        by (simp_all add: to_take_def stored_def take_chunk_def)
      show ?thesis
      proof (cases "isEmpty (heap s1 ! b)")
        case False
        show ?thesis
        proof (cases "updateCurrentChunk env True b ws1 s1")
          case (Inr p)
          obtain ws2 s2 where p: "p = (ws2, s2)" by (cases p)
          have "b < length (heap s2)" "to_take b ws2 s2 < n"
            using updateCurrentChunk_take [OF Inr [unfolded p] l(1) c] l(2) by simp_all
          then show ?thesis
            using Suc.IH \<open>currentChunk s = Some d\<close> Some t False Inr p by (simp add: Let_def)
        qed (use \<open>currentChunk s = Some d\<close> Some t False in \<open>simp add: Let_def\<close>)
      qed (use \<open>currentChunk s = Some d\<close> Some t in \<open>simp add: Let_def\<close>)
    qed (use Some in simp)
  qed simp
qed simp

section \<open>A round\<close>

text \<open>When nothing arrives, the schedule stays empty.\<close>

lemma timedPoll_silence: "timedPoll b [] s = Inr (r, ws', s') \<Longrightarrow> ws' = []"
  by (auto simp: timedPoll_def bindR_Inr_iff)

lemma waitChunk_silence: "waitChunk env b ws s = Inr (ws', s') \<Longrightarrow> ws = [] \<Longrightarrow> ws' = []"
proof (induction env b ws s rule: waitChunk.induct)
  case (1 env b ws s)
  obtain r ws1 s1 where t: "timedPoll b ws s = Inr (r, ws1, s1)"
    using "1.prems"(1) by (subst (asm) waitChunk.simps) (auto split: sum.splits)
  have e: "ws1 = []" using timedPoll_silence t "1.prems"(2) by blast
  show ?case
  proof (cases r)
    case (Some d)
    then show ?thesis using "1.prems"(1) t e by (simp add: waitChunk.simps [of env b ws s])
  next
    case None
    obtain s2 where q: "request_missing env b (s1\<lparr>readNull := readNull s1 + 1\<rparr>) = Inr s2"
      using "1.prems"(1) t None by (subst (asm) waitChunk.simps) (auto split: sum.splits)
    show ?thesis
      using "1.IH" [OF t refl None refl q] "1.prems"(1) t None q e
      by (cases "10 < readNull s2") (simp_all add: waitChunk.simps [of env b ws s])
  qed
qed

lemma updateCurrentChunk_silence: "updateCurrentChunk env block b [] s = Inr (ws', s') \<Longrightarrow> ws' = []"
  by (auto simp: updateCurrentChunk_def split: if_splits sum.splits option.splits prod.splits
      dest: timedPoll_silence waitChunk_silence)

text \<open>The loop that takes packets stops where the message is read to its end or given up.\<close>

lemma drain_done:
  "drain n env b [] s len = Some (Inr (ws', s', len')) \<Longrightarrow> b < length (heap s) \<Longrightarrow>
    ws' = [] \<and> (currentChunk s = None \<longrightarrow> s' = s)
    \<and> (currentChunk s \<noteq> None \<longrightarrow> isEmpty (heap s' ! b) \<or> 10 < readNull s')"
proof (induction n arbitrary: s len)
  case (Suc n)
  show ?case
  proof (cases "currentChunk s")
    case (Some d)
    then obtain data where data: "ad_data d = Some data" using Suc.prems(1) by (cases "ad_data d") simp_all
    let ?s1 = "take_chunk d data s"
    have b: "b < length (heap ?s1)" "currentChunk ?s1 = None" using Suc.prems(2) by (simp_all add: take_chunk_def)
    show ?thesis
    proof (cases "isEmpty (heap ?s1 ! b)")
      case True
      then show ?thesis using Suc.prems(1) Some data by (simp add: Let_def)
    next
      case False
      then obtain ws2 s2 where u: "updateCurrentChunk env True b [] ?s1 = Inr (ws2, s2)"
        and d: "drain n env b ws2 s2 (len + int (length data)) = Some (Inr (ws', s', len'))"
        using Suc.prems(1) Some data by (auto simp: Let_def split: sum.splits prod.splits)
      have e: "ws2 = []" using updateCurrentChunk_silence [OF u] .
      note ut = updateCurrentChunk_take [OF u b]
      have "ws' = [] \<and> (currentChunk s2 = None \<longrightarrow> s' = s2)
          \<and> (currentChunk s2 \<noteq> None \<longrightarrow> isEmpty (heap s' ! b) \<or> 10 < readNull s')"
        by (rule Suc.IH) (use d e ut in simp_all)
      then show ?thesis using ut Some by auto
    qed
  qed (use Suc.prems in auto)
qed simp

text \<open>C12: A round of the reader ends once the first packet of a message is there, whatever else is missing,
  doubled or out of order: when the buffer at the cursor has a packet to read and nothing more
  arrives, the round returns with fuel for the packets stored and two more.\<close>

theorem round_ends_once_started:
  assumes "buf s ! nat (readbufIndex s mod bufsize) = Some b" and "b < length (heap s)"
    and "poll (heap s ! b) = Inr (Some d, rb)" and "currentChunk s = None" and "stored b s + 1 < n"
  shows "\<exists>res. checkRecvice n env servers [] s = Some res"
proof -
  obtain m where m: "n = Suc m" using assms(5) by (cases n) auto
  let ?s = "load_buffer (s\<lparr>chunks := [], readLen := 0\<rparr>)\<lparr>bufNum := bufNum s - 1\<rparr>"
  have f: "findBuffer n False [] (load_buffer (s\<lparr>chunks := [], readLen := 0\<rparr>))
      = Some (Some b, [], load_buffer (s\<lparr>chunks := [], readLen := 0\<rparr>))"
    using assms(1) by (simp add: m load_buffer_def)
  have "\<exists>res. readLoop n env b [] ?s 0 = Some res"
  proof (cases "isCall s")
    case True
    then show ?thesis by (simp add: m load_buffer_def)
  next
    case False
    let ?t = "?s\<lparr>heap := (heap ?s)[b := rb], currentChunk := Some d, zeroRead := zeroRead ?s + 1\<rparr>"
    have p: "timedPoll b [] ?s = Inr (Some d, [], ?s\<lparr>heap := (heap ?s)[b := rb]\<rparr>)"
      using assms(3) by (simp add: timedPoll_def load_buffer_def)
    have u: "updateCurrentChunk env False b [] ?s = Inr ([], ?t)"
      using p assms(4) by (simp add: updateCurrentChunk_def load_buffer_def)
    have len: "b < length (heap ?t)" using assms(2) by (simp add: load_buffer_def)
    have "stored b ?t + 1 = stored b s"
      using poll_stored [OF assms(3)] assms(2) by (simp add: stored_def load_buffer_def)
    then have "to_take b [] ?t < Suc m" using assms(5) m by (simp add: to_take_def arriving_def)
    then obtain r where r: "drain (Suc m) env b [] ?t 0 = Some r" using drain_ends len by blast
    show ?thesis
    proof (cases r)
      case (Inr q)
      obtain ws2 s2 len2 where q: "q = (ws2, s2, len2)" by (cases q)
      have "ws2 = [] \<and> (isEmpty (heap s2 ! b) \<or> 10 < readNull s2)"
        using drain_done [OF r [unfolded Inr q] len] by simp
      then show ?thesis using u r Inr q False unfolding m by (auto simp: load_buffer_def)
    qed (use u r False m in \<open>simp add: load_buffer_def\<close>)
  qed
  then obtain res where "readLoop n env b [] ?s 0 = Some res" by blast
  then have "readAll n env [] s = Some res" using f by (simp add: readAll_def load_buffer_def)
  then show ?thesis by (cases res) (auto simp: checkRecvice_def split: prod.split)
qed

definition gap_buffer :: receive_buffer where
  "gap_buffer = \<lparr>rb_buffer = [Some (new_AppData 3 0 0 (Some [1, 2])), None, Some (new_AppData 3 0 2 (Some [4]))],
     readPosition = 0, highestReadSequenceNumber = -1, numValidChunks = 2, rb_size = 3, initialSequenceNumber = 0\<rparr>"

text \<open>A message of three packets whose second is missing.\<close>

definition gap_session :: server_session where
  "gap_session = demo_session\<lparr>heap := [gap_buffer], buf := (buf demo_session)[0 := Some 0], bufNum := 1\<rparr>"

theorem round_ends_once_started_witness:
  "\<exists>res. checkRecvice 4 open_net (\<lambda>_. False) [] gap_session = Some res"
proof -
  have "0 < length (buf demo_session)" using demo_facts(2) by (simp add: bufsize_def)
  then have b: "buf gap_session ! nat (readbufIndex gap_session mod bufsize) = Some 0"
    by (simp add: gap_session_def demo_session_def new_ServerSession_def)
  have h: "0 < length (heap gap_session)" "heap gap_session ! 0 = gap_buffer" "currentChunk gap_session = None"
    by (simp_all add: gap_session_def demo_session_def new_ServerSession_def)
  obtain rb where p: "poll (heap gap_session ! 0) = Inr (Some (new_AppData 3 0 0 (Some [1, 2])), rb)"
    unfolding h(2) by (auto simp: poll_def increment_def gap_buffer_def result_simps Let_def)
  have n: "stored 0 gap_session + 1 < 4" unfolding stored_def h(2) by (simp add: gap_buffer_def)
  show ?thesis by (rule round_ends_once_started [OF b h(1) p h(3) n])
qed

end
