(* ===== verification/ReceiverInv.thy ===== *)
theory ReceiverInv
  imports Receiver
begin

text \<open>
  The invariant of the receiving session: its references are valid, no two slots share a buffer,
  and every buffer is well formed. Every operation keeps it, the reader's rounds included, under
  every schedule of arrivals and with any amount of fuel.
\<close>

section \<open>The invariant\<close>

text \<open>A buffer for a message of no packets can exist: a datagram may announce the count 0.\<close>

definition buffer_ok :: "receive_buffer \<Rightarrow> bool" where
  "buffer_ok rb \<longleftrightarrow> rb_inv rb
     \<or> rb_size rb = 0 \<and> rb_buffer rb = [] \<and> numValidChunks rb = -1 \<and> readPosition rb = 0"

definition refs_ok :: "receive_buffer list \<Rightarrow> nat option list \<Rightarrow> nat option \<Rightarrow> nat option \<Rightarrow> bool" where
  "refs_ok h sl cur pre \<longleftrightarrow> length sl = nat bufsize \<and> (\<forall>rb \<in> set h. buffer_ok rb)
     \<and> (\<forall>b. Some b \<in> set sl \<or> cur = Some b \<or> pre = Some b \<longrightarrow> b < length h)
     \<and> (\<forall>i j. i < length sl \<longrightarrow> j < length sl \<longrightarrow> sl ! i = sl ! j \<longrightarrow> sl ! i \<noteq> None \<longrightarrow> i = j)"

definition ss_inv :: "server_session \<Rightarrow> bool" where
  "ss_inv s \<longleftrightarrow> refs_ok (heap s) (buf s) (buffer s) (preBuf s) \<and> 0 \<le> readbufIndex s"

lemma offer_ok: "buffer_ok rb \<Longrightarrow> offer d rb = Inr (r, rb') \<Longrightarrow> buffer_ok rb'"
  using offer_inv [of rb d r rb'] by (auto simp: buffer_ok_def offer_def java_rem_def)

lemma poll_ok: "buffer_ok rb \<Longrightarrow> poll rb = Inr (r, rb') \<Longrightarrow> buffer_ok rb'"
  using poll_inv [of rb r rb'] by (auto simp: buffer_ok_def poll_def array_get_def)

lemma clear_ok: "buffer_ok rb \<Longrightarrow> buffer_ok (clear rb)"
  using clear_inv [of rb] by (auto simp: buffer_ok_def) (simp_all add: clear_def)

lemma new_buffer_ok: "new_ReceiveBuffer n i = Inr rb \<Longrightarrow> buffer_ok rb"
  by (cases "n = 0")
    (auto simp: buffer_ok_def new_ReceiveBuffer_def rb_inv_def occupied_def split: if_splits)

section \<open>Updates that keep it\<close>

named_theorems ss_inv_intros "steps that keep the session's invariant"

lemma refs_ok_heap [ss_inv_intros]:
  "refs_ok h sl cur pre \<Longrightarrow> buffer_ok rb \<Longrightarrow> refs_ok (h[b := rb]) sl cur pre"
  unfolding refs_ok_def by (auto dest!: set_update_subset_insert [THEN subsetD])

lemma refs_ok_elem: "refs_ok h sl cur pre \<Longrightarrow> b < length h \<Longrightarrow> buffer_ok (h ! b)"
  by (simp add: refs_ok_def)

lemma refs_ok_slot:
  "refs_ok h sl cur pre \<Longrightarrow> i < length sl \<Longrightarrow> sl ! i = Some b \<Longrightarrow> b < length h"
  unfolding refs_ok_def by (metis nth_mem)

lemma refs_ok_pre: "refs_ok h sl cur pre \<Longrightarrow> b < length h \<Longrightarrow> refs_ok h sl cur (Some b)"
  by (auto simp: refs_ok_def)

lemma refs_ok_no_pre: "refs_ok h sl cur pre \<Longrightarrow> refs_ok h sl cur None"
  by (auto simp: refs_ok_def)

lemma refs_ok_load: "refs_ok h sl cur pre \<Longrightarrow> i < length sl \<Longrightarrow> refs_ok h sl (sl ! i) pre"
  unfolding refs_ok_def by (metis nth_mem)

lemma refs_ok_free:
  assumes "refs_ok h sl cur pre"
  shows "refs_ok h (sl[i := None]) cur pre"
proof -
  have nth: "sl[i := None] ! k = (if k = i then None else sl ! k)" if "k < length sl" for k
    using that by (simp add: nth_list_update)
  have "Some b \<in> set (sl[i := None]) \<Longrightarrow> Some b \<in> set sl" for b
    using set_update_subset_insert [of sl i None] by auto
  then show ?thesis using assms unfolding refs_ok_def by (auto simp: nth)
qed

lemma refs_ok_new:
  assumes "refs_ok h sl cur pre" and "buffer_ok rb"
  shows "refs_ok (h @ [rb]) (sl[i := Some (length h)]) cur (Some (length h))"
proof -
  have lt: "Some b \<in> set sl \<or> cur = Some b \<or> pre = Some b \<Longrightarrow> b < length h" for b
    using assms(1) by (auto simp: refs_ok_def)
  have nth: "sl[i := Some (length h)] ! k = (if k = i then Some (length h) else sl ! k)"
    if "k < length sl" for k
    using that by (simp add: nth_list_update)
  have fresh: "sl ! k \<noteq> Some (length h)" "Some (length h) \<noteq> sl ! k" if "k < length sl" for k
    using lt [of "length h"] that by (metis less_irrefl nth_mem)+
  have "b < Suc (length h)" if "Some b \<in> set (sl[i := Some (length h)])" for b
    using that lt set_update_subset_insert [of sl i "Some (length h)"] by (fastforce simp: less_Suc_eq)
  moreover have "j = k" if "j < length sl" "k < length sl"
    "sl[i := Some (length h)] ! j = sl[i := Some (length h)] ! k"
    "sl[i := Some (length h)] ! j \<noteq> None" for j k
    using that assms(1) fresh by (auto simp: nth refs_ok_def split: if_splits)
  ultimately show ?thesis
    using assms lt unfolding refs_ok_def by (auto simp: less_Suc_eq)
qed

lemma intBuffer_inv:
  assumes "ss_inv s" and "intBuffer num i s = (e, s')"
  shows "ss_inv s' \<and> length (heap s) \<le> length (heap s')"
proof (cases "num = -1 \<or> i = -1")
  case False
  define look where "look = bindR (java_rem (sint i) bufsize)
    (\<lambda>i. bindR (array_get (buf s) i) (\<lambda>b. Inr (nat i, b)))"
  show ?thesis
  proof (cases look)
    case (Inl x)
    then show ?thesis using assms False by (auto simp: intBuffer_def look_def)
  next
    case (Inr p)
    obtain k b where p: "p = (k, b)" by fastforce
    have k: "k < length (buf s)" "b = buf s ! k"
      using Inr p by (auto simp: look_def bindR_Inr_iff array_get_def split: if_splits)
    show ?thesis
    proof (cases b)
      case (Some c)
      then have "c < length (heap s)"
        using refs_ok_slot [of "heap s" "buf s" "buffer s" "preBuf s" k c] assms(1) k
        by (simp add: ss_inv_def)
      moreover have "s' = s\<lparr>preBuf := Some c, isStartData := True\<rparr>"
        using assms False Inr p Some
        by (auto simp: intBuffer_def look_def [symmetric] ss_startThread_def split: if_splits)
      ultimately show ?thesis
        using assms(1) refs_ok_pre [of "heap s" "buf s" "buffer s" "preBuf s" c] by (simp add: ss_inv_def)
    next
      case None
      then show ?thesis
        using assms False Inr p
          refs_ok_no_pre [of "heap s" "buf s" "buffer s" "preBuf s"]
          refs_ok_new [of "heap s" "buf s" "buffer s" "preBuf s"]
        by (auto simp: intBuffer_def look_def [symmetric] ss_startThread_def ss_inv_def Let_def
            split: sum.splits if_splits dest!: new_buffer_ok)
    qed
  qed
qed (use assms in \<open>simp add: intBuffer_def\<close>)

lemma setData_inv:
  assumes "ss_inv s" and "setData d s = (e, s')"
  shows "ss_inv s' \<and> length (heap s) \<le> length (heap s')"
proof -
  define look where "look = bindR (java_rem (sint (intSequenceNumber d)) bufsize) (array_get (buf s))"
  show ?thesis
  proof (cases "\<exists>b. look = Inr (Some b)")
    case True
    then obtain b where b: "look = Inr (Some b)" by blast
    then obtain y where "0 \<le> y" "y < int (length (buf s))" "buf s ! nat y = Some b"
      by (auto simp: look_def bindR_Inr_iff array_get_def split: if_splits)
    then obtain x where "x < length (buf s)" "buf s ! x = Some b" by (metis nat_less_iff)
    then have "b < length (heap s)"
      using refs_ok_slot [of "heap s" "buf s" "buffer s" "preBuf s" x b] assms(1)
      by (simp add: ss_inv_def)
    then have ok: "buffer_ok (heap s ! b)"
      using refs_ok_elem [of "heap s" "buf s" "buffer s" "preBuf s" b] assms(1)
      by (simp add: ss_inv_def)
    show ?thesis
    proof (cases "offer d (heap s ! b)")
      case (Inl x)
      then show ?thesis using assms b by (simp add: setData_def look_def [symmetric])
    next
      case (Inr p)
      then have "buffer_ok (snd p)" using offer_ok [OF ok] by (cases p) auto
      then show ?thesis
        using assms b Inr refs_ok_heap [of "heap s" "buf s" "buffer s" "preBuf s" "snd p" b]
        by (cases p) (auto simp: setData_def look_def [symmetric] ss_inv_def)
    qed
  next
    case False
    then show ?thesis
      using assms by (auto simp: setData_def look_def [symmetric] split: sum.splits option.splits)
  qed
qed

lemma addData_inv:
  assumes "ss_inv s" and "ss_addData rc s = (e, s')"
  shows "ss_inv s' \<and> length (heap s) \<le> length (heap s')"
proof -
  obtain e1 s1 where i: "intBuffer (packagetNum rc) (InitSeq rc) s = (e1, s1)" by fastforce
  obtain e2 s2 where d: "setData (new_AppData (packagetNum rc) (InitSeq rc) (PackagetID rc)
      (rc_data rc)) s1 = (e2, s2)" by fastforce
  note inv1 = intBuffer_inv [OF assms(1) i]
  moreover have "ss_inv s2 \<and> length (heap s1) \<le> length (heap s2)"
    using setData_inv [OF _ d] inv1 by blast
  moreover have "s' = s1 \<or> s' = s2 \<or> s' = s1\<lparr>clientClose := True\<rparr>"
    using assms(2) i d by (auto simp: ss_addData_def split: option.splits if_splits)
  ultimately show ?thesis by (auto simp: ss_inv_def)
qed

text \<open>From here on with a buffer the reader holds.\<close>

definition inv_at :: "nat \<Rightarrow> server_session \<Rightarrow> bool" where
  "inv_at b s \<longleftrightarrow> ss_inv s \<and> b < length (heap s)"

lemma arrive1_inv:
  assumes "ss_inv s"
  shows "ss_inv (arrive1 a s) \<and> length (heap s) \<le> length (heap (arrive1 a s))"
proof (cases a)
  case (Packet rc)
  then show ?thesis using addData_inv [OF assms prod.collapse [symmetric], of rc]
    by (simp add: arrive1_def)
next
  case SetCall
  then show ?thesis using assms by (simp add: arrive1_def ss_inv_def)
qed

lemma arrive_inv: "ss_inv s \<Longrightarrow> ss_inv (arrive w s) \<and> length (heap s) \<le> length (heap (arrive w s))"
proof (induction w arbitrary: s)
  case (Cons a w)
  note a = arrive1_inv [OF Cons.prems, of a]
  have "ss_inv (arrive w (arrive1 a s))
      \<and> length (heap (arrive1 a s)) \<le> length (heap (arrive w (arrive1 a s)))"
    using Cons.IH a by blast
  moreover have "arrive (a # w) s = arrive w (arrive1 a s)" by (simp add: arrive_def)
  ultimately show ?case using a by (metis order_trans)
qed (simp add: arrive_def)

lemma tick_inv:
  assumes "ss_inv s" and "tick ws s = (ws', s')"
  shows "ss_inv s' \<and> length (heap s) \<le> length (heap s')"
  using assms arrive_inv by (cases ws) auto

lemma tick_at: "inv_at b s \<Longrightarrow> tick ws s = (ws', s') \<Longrightarrow> inv_at b s'"
  using tick_inv by (fastforce simp: inv_at_def)

lemma inv_at_heap: "inv_at b s \<Longrightarrow> buffer_ok rb \<Longrightarrow> inv_at b (s\<lparr>heap := (heap s)[c := rb]\<rparr>)"
  by (simp add: inv_at_def ss_inv_def refs_ok_heap)

lemma inv_at_buffer: "inv_at b s \<Longrightarrow> buffer_ok (heap s ! b)"
  unfolding inv_at_def ss_inv_def by (metis refs_ok_elem)

text \<open>Updates of fields the invariant does not read.\<close>

lemma inv_at_frame [simp]:
  "inv_at b (s\<lparr>ss_out := x1\<rparr>) = inv_at b s" "inv_at b (s\<lparr>readNull := x2\<rparr>) = inv_at b s"
  "inv_at b (s\<lparr>currentChunk := x3\<rparr>) = inv_at b s" "inv_at b (s\<lparr>zeroRead := x4\<rparr>) = inv_at b s"
  "inv_at b (s\<lparr>chunks := x5\<rparr>) = inv_at b s" "inv_at b (s\<lparr>readLen := x6\<rparr>) = inv_at b s"
  "inv_at b (s\<lparr>bufNum := x7\<rparr>) = inv_at b s" "inv_at b (s\<lparr>ss_isClose := x8\<rparr>) = inv_at b s"
  "inv_at b (take_chunk d data s) = inv_at b s"
  by (simp_all add: inv_at_def ss_inv_def take_chunk_def)

lemma timedPoll_at:
  assumes "inv_at b s" and "timedPoll b ws s = Inr (r, ws', s')"
  shows "inv_at b s'"
proof -
  obtain s1 rb where t: "tick ws s = (ws', s1)" "poll (heap s1 ! b) = Inr (r, rb)"
    "s' = s1\<lparr>heap := (heap s1)[b := rb]\<rparr>"
    using assms(2) by (auto simp: timedPoll_def bindR_Inr_iff split: prod.splits)
  note t1 = tick_at [OF assms(1) t(1)]
  show ?thesis unfolding t(3) by (rule inv_at_heap [OF t1 poll_ok [OF inv_at_buffer [OF t1] t(2)]])
qed

lemma request_missing_at: "inv_at b s \<Longrightarrow> request_missing env c s = Inr s' \<Longrightarrow> inv_at b s'"
  by (auto simp: request_missing_eq split: prod.splits option.splits)

lemma waitChunk_at: "inv_at b s \<Longrightarrow> waitChunk env b ws s = Inr (ws', s') \<Longrightarrow> inv_at b s'"
proof (induction env b ws s rule: waitChunk.induct)
  case (1 env b ws s)
  show ?case
  proof (cases "timedPoll b ws s")
    case (Inr p)
    obtain r ws1 s1 where p: "p = (r, ws1, s1)" by (cases p) auto
    note t = timedPoll_at [OF "1.prems"(1) Inr [unfolded p]]
    show ?thesis
    proof (cases r)
      case (Some d)
      then show ?thesis using "1.prems"(2) Inr p t by (subst (asm) waitChunk.simps) auto
    next
      case None
      show ?thesis
      proof (cases "request_missing env b (s1\<lparr>readNull := readNull s1 + 1\<rparr>)")
        case (Inl e)
        then show ?thesis using "1.prems"(2) Inr p None by (subst (asm) waitChunk.simps) auto
      next
        case (Inr s2)
        have s2: "inv_at b s2" using request_missing_at [OF _ Inr] t by simp
        show ?thesis
        proof (cases "10 < readNull s2")
          case True
          then show ?thesis
            using "1.prems"(2) \<open>timedPoll b ws s = Inr p\<close> p None Inr s2
            by (subst (asm) waitChunk.simps) auto
        next
          case False
          then have "waitChunk env b ws1 s2 = Inr (ws', s')"
            using "1.prems"(2) \<open>timedPoll b ws s = Inr p\<close> p None Inr
            by (subst (asm) waitChunk.simps) auto
          then show ?thesis
            using "1.IH" \<open>timedPoll b ws s = Inr p\<close> p None Inr False s2 by blast
        qed
      qed
    qed
  next
    case (Inl e)
    then show ?thesis using "1.prems"(2) by (subst (asm) waitChunk.simps) auto
  qed
qed

lemma updateCurrentChunk_at:
  assumes "inv_at b s" and "updateCurrentChunk env block b ws s = Inr (ws', s')"
  shows "inv_at b s'"
proof (cases "currentChunk s")
  case None
  then obtain r ws1 s1 where t: "timedPoll b ws s = Inr (r, ws1, s1)"
    using assms(2) by (auto simp: updateCurrentChunk_def split: sum.splits)
  note t1 = timedPoll_at [OF assms(1) t]
  show ?thesis
    using assms(2) None t t1 waitChunk_at [OF t1]
    by (auto simp: updateCurrentChunk_def split: if_splits option.splits)
qed (use assms in \<open>simp add: updateCurrentChunk_def\<close>)

lemma drain_at:
  "inv_at b s \<Longrightarrow> drain n env b ws s len = Some (Inr (ws', s', len')) \<Longrightarrow> inv_at b s'"
proof (induction n arbitrary: ws s len)
  case (Suc n)
  show ?case
  proof (cases "currentChunk s")
    case (Some d)
    obtain data where data: "ad_data d = Some data"
      using Suc.prems(2) Some by (auto split: option.splits)
    obtain ws1 s1 where t: "tick ws (take_chunk d data s) = (ws1, s1)" by fastforce
    have s1: "inv_at b s1" using tick_at [OF _ t] Suc.prems(1) by simp
    show ?thesis
    proof (cases "isEmpty (heap s1 ! b)")
      case True
      then show ?thesis using Suc.prems(2) Some data t s1 by (simp add: Let_def)
    next
      case False
      then obtain ws2 s2 where u: "updateCurrentChunk env True b ws1 s1 = Inr (ws2, s2)"
        "drain n env b ws2 s2 (len + int (length data)) = Some (Inr (ws', s', len'))"
        using Suc.prems(2) Some data t by (auto simp: Let_def split: sum.splits)
      show ?thesis by (rule Suc.IH [OF updateCurrentChunk_at [OF s1 u(1)] u(2)])
    qed
  qed (use Suc.prems in simp)
qed simp

lemma clear_buffer_at: "inv_at b s \<Longrightarrow> inv_at b (clear_buffer b s)"
  by (simp add: clear_buffer_def inv_at_heap inv_at_buffer clear_ok)

lemma readLoop_at:
  "inv_at b s \<Longrightarrow> readLoop n env b ws s len = Some (Inr (r, ws', s')) \<Longrightarrow> inv_at b s'"
proof (induction n arbitrary: ws s len)
  case (Suc n)
  show ?case
  proof (cases "isCall s")
    case True
    then show ?thesis using Suc.prems clear_buffer_at [of b "s\<lparr>chunks := []\<rparr>"] by simp
  next
    case False
    then obtain ws1 s1 ws2 s2 len2 where u: "updateCurrentChunk env False b ws s = Inr (ws1, s1)"
      "drain (Suc n) env b ws1 s1 len = Some (Inr (ws2, s2, len2))"
      using Suc.prems(2) by (simp split: sum.splits option.splits prod.splits del: drain.simps)
    have s2: "inv_at b s2" by (rule drain_at [OF updateCurrentChunk_at [OF Suc.prems(1) u(1)] u(2)])
    show ?thesis
    proof (cases "10 < readNull s2")
      case True
      then show ?thesis
        using Suc.prems(2) False u s2 clear_buffer_at [of b "s2\<lparr>ss_isClose := True, chunks := []\<rparr>"]
        by (simp del: drain.simps)
    next
      case False
      obtain ws3 s3 where t: "tick ws2 s2 = (ws3, s3)" by fastforce
      have s3: "inv_at b s3" by (rule tick_at [OF s2 t])
      show ?thesis
        using Suc.prems(2) \<open>\<not> isCall s\<close> False u t s3 Suc.IH [OF s3]
        by (auto simp: bindR_Inr_iff simp del: drain.simps split: if_splits)
    qed
  qed
qed simp

lemma load_buffer_inv:
  assumes "ss_inv s"
  shows "ss_inv (load_buffer s)"
proof -
  have "nat (readbufIndex s mod bufsize) < length (buf s)"
    using assms by (simp add: ss_inv_def refs_ok_def bufsize_def nat_less_iff)
  then show ?thesis
    using assms refs_ok_load [of "heap s" "buf s" "buffer s" "preBuf s"]
    by (simp add: load_buffer_def ss_inv_def)
qed

lemma findBuffer_inv:
  "ss_inv s \<Longrightarrow> findBuffer n w ws s = Some (r, ws', s') \<Longrightarrow>
    ss_inv s' \<and> (\<forall>b. r = Some b \<longrightarrow> b < length (heap s'))"
proof (induction n arbitrary: w ws s)
  case (Suc n)
  show ?case
  proof (cases "buffer s")
    case (Some b)
    then show ?thesis using Suc.prems by (auto simp: ss_inv_def refs_ok_def)
  next
    case None
    show ?thesis
    proof (cases "bufNum s = 0")
      case True
      then show ?thesis using Suc.prems None by auto
    next
      case False
      show ?thesis
      proof (cases w)
        case True
        have "ss_inv (s\<lparr>readbufIndex := readbufIndex s + 1\<rparr>)" using Suc.prems(1) by (simp add: ss_inv_def)
        then show ?thesis
          using Suc.IH [OF load_buffer_inv, of "s\<lparr>readbufIndex := readbufIndex s + 1\<rparr>" False ws]
            Suc.prems(2) None False True by auto
      next
        case nw: False
        obtain ws1 s1 where t: "tick ws s = (ws1, s1)" by fastforce
        have "ss_inv s1" using tick_inv [OF Suc.prems(1) t] by blast
        then show ?thesis
          using Suc.IH [OF load_buffer_inv, of s1 True ws1] Suc.prems(2) None False nw t by auto
      qed
    qed
  qed
qed simp

lemma readAll_inv:
  assumes "ss_inv s" and "readAll n env ws s = Some (Inr (r, ws', s'))"
  shows "ss_inv s'"
proof -
  let ?s = "s\<lparr>chunks := [], readLen := 0\<rparr>"
  have "ss_inv ?s" using assms(1) by (simp add: ss_inv_def)
  note l = load_buffer_inv [OF this]
  obtain f ws1 s1 where f: "findBuffer n False ws (load_buffer ?s) = Some (f, ws1, s1)"
    using assms(2) by (auto simp: readAll_def split: option.splits prod.splits)
  note s1 = findBuffer_inv [OF l f]
  show ?thesis
  proof (cases f)
    case None
    then show ?thesis using assms(2) f s1 by (auto simp: readAll_def)
  next
    case (Some b)
    have "inv_at b (s1\<lparr>bufNum := bufNum s1 - 1\<rparr>)" using s1 Some by (simp add: inv_at_def ss_inv_def)
    moreover have "readLoop n env b ws1 (s1\<lparr>bufNum := bufNum s1 - 1\<rparr>) 0 = Some (Inr (r, ws', s'))"
      using assms(2) f Some by (simp add: readAll_def)
    ultimately have "inv_at b s'" by (rule readLoop_at)
    then show ?thesis by (simp add: inv_at_def)
  qed
qed

lemma hand_on_inv: "ss_inv s \<Longrightarrow> ss_inv (hand_on servers all s)"
  by (simp add: hand_on_def emit_def ss_inv_def Let_def)

lemma acknowledge_inv: "ss_inv s \<Longrightarrow> ss_inv (acknowledge env s)"
  by (simp add: acknowledge_def createAckPackaget_eq ss_inv_def split: prod.split option.split)

lemma free_slot_inv:
  assumes "ss_inv s"
  shows "ss_inv (free_slot s)"
proof -
  let ?s1 = "s\<lparr>buf := (buf s)[nat (readbufIndex s mod bufsize) := None]\<rparr>"
  have s1: "ss_inv ?s1" using assms by (simp add: ss_inv_def refs_ok_free)
  then have "ss_inv (case buffer ?s1 of None \<Rightarrow> ?s1 | Some b \<Rightarrow> clear_buffer b ?s1)"
  proof (cases "buffer s")
    case (Some b)
    then have "inv_at b ?s1" using s1 by (auto simp: inv_at_def ss_inv_def refs_ok_def)
    from clear_buffer_at [OF this] show ?thesis using Some by (simp add: inv_at_def)
  qed simp
  then show ?thesis unfolding free_slot_def Let_def by (auto simp: emit_def ss_inv_def)
qed

lemma checkRecvice_inv:
  assumes "ss_inv s" and "checkRecvice n env servers ws s = Some (Inr (ws', s'))"
  shows "ss_inv s'"
proof -
  obtain all ws1 s1 where r: "readAll n env ws s = Some (Inr (all, ws1, s1))"
    using assms(2) by (auto simp: checkRecvice_def split: option.splits sum.splits)
  have h: "ss_inv (hand_on servers all s1)" by (rule hand_on_inv [OF readAll_inv [OF assms(1) r]])
  obtain ws2 s2 where t: "(if all = None then tick ws1 (hand_on servers all s1)
      else (ws1, hand_on servers all s1)) = (ws2, s2)" by fastforce
  then have "ss_inv s2" using h tick_inv [OF h] by (auto split: if_splits)
  then show ?thesis
    using assms(2) r t free_slot_inv acknowledge_inv by (auto simp: checkRecvice_def)
qed

lemma readerRun_inv:
  "ss_inv s \<Longrightarrow> readerRun n env servers ws s = Some (Inr (ws', s')) \<Longrightarrow> ss_inv s'"
proof (induction n arbitrary: ws s)
  case (Suc n)
  obtain ws1 s1 where c: "checkRecvice (Suc n) env servers ws s = Some (Inr (ws1, s1))"
    using Suc.prems(2) by (auto split: option.splits sum.splits)
  have s1: "ss_inv s1" by (rule checkRecvice_inv [OF Suc.prems(1) c])
  obtain ws2 s2 where t: "tick ws1 s1 = (ws2, s2)" by fastforce
  have s2: "ss_inv s2" using tick_inv [OF s1 t] by blast
  have idle: "ss_inv (x\<lparr>isStartData := False\<rparr>) = ss_inv x" for x by (simp add: ss_inv_def)
  show ?case
    using Suc.prems(2) c t s1 s2 Suc.IH idle by (auto split: if_splits)
qed simp


lemma first_slot: "replicate (nat bufsize) None ! nat (0 mod bufsize) = None"
  by (simp add: bufsize_def)

definition quiet_net :: net_env where
  "quiet_net = \<lparr>resolves = (\<lambda>_. False), sendable = (\<lambda>_. False), free_port = 50000\<rparr>"


end
