(* ===== verification/ReadLength.thy ===== *)
theory ReadLength
  imports Receiver
begin

text \<open>
  Reading a message piece by piece (\<open>read(int)\<close> of \<open>Sessions/ServerSession.java\<close>): what an
  application gets when the pieces end where packets end, and when they do not.
\<close>

section \<open>Between packets\<close>

lemma readCopy_done: "\<not> index < bound \<Longrightarrow> readCopy stop bound len index out xs = Inr (out, xs)"
  by (subst readCopy.simps) simp

lemma readCopy_chunks:
  assumes "index + int (length (concat xs)) = int (length out)" and "int (length out) \<le> len"
    and "\<forall>x \<in> set xs. x \<noteq> []" and "0 \<le> index"
  shows "readCopy stop (int (length out)) len index out (xs @ rest) = Inr (take (nat index) out @ concat xs, rest)"
  using assms
proof (induction xs arbitrary: index out)
  case Nil
  then show ?case by (simp add: readCopy_done)
next
  case (Cons x xs)
  let ?out = "take (nat index) out @ x @ drop (nat (index + int (length x))) out"
  have le: "nat index \<le> length out" "index + int (length x) \<le> int (length out)"
    using Cons.prems(1,4) by auto
  have len: "length ?out = length out" using le Cons.prems(4) by (simp add: nat_add_distrib)
  have "arraycopy x 0 out index (int (length x)) = Inr ?out"
    using le Cons.prems(4) by (simp add: arraycopy_def)
  moreover have "0 < length x" using Cons.prems(3) by simp
  then have "index < int (length out)" "int (length x) \<le> len - index"
    using Cons.prems(2) le by linarith+
  ultimately have "readCopy stop (int (length out)) len index out ((x # xs) @ rest)
      = readCopy stop (int (length ?out)) len (index + int (length x)) ?out (xs @ rest)"
    unfolding len by (subst readCopy.simps) (simp add: Let_def)
  also have "\<dots> = Inr (take (nat (index + int (length x))) ?out @ concat xs, rest)"
    by (rule Cons.IH) (use Cons.prems len in auto)
  also have "take (nat (index + int (length x))) ?out = take (nat index) out @ x"
    using le Cons.prems(4) by (simp add: nat_add_distrib)
  finally show ?case by simp
qed

lemma readCopy_half:
  assumes "length a = 2 * n" and "0 < n" and "length out = n"
  shows "readCopy False (int n) (int n) 0 out (a # behind) =
     (case behind of [] \<Rightarrow> Inl IndexOutOfBounds | b # rest \<Rightarrow> Inr (drop n a, rest))"
proof (cases behind)
  case Nil
  then show ?thesis using assms by (subst readCopy.simps) (simp add: Let_def arraycopy_def)
next
  case (Cons b rest)
  have "readCopy False (int n) (int n) 0 out (a # behind)
      = readCopy False (int n) (int n) 0 (take n a) (drop n a # rest)"
    using assms Cons by (subst readCopy.simps) (simp add: Let_def arraycopy_def)
  also have "\<dots> = readCopy False (int n) (int n) (int n) (drop n a) rest"
    using assms by (subst readCopy.simps) (simp add: Let_def arraycopy_def)
  finally show ?thesis using Cons by (simp add: readCopy_done)
qed

text \<open>C29: Reading by length: a read whose length is that of the next packets gives exactly their bytes
  and leaves the rest. A read of half a packet does not: it gives the second half and drops the first
  half and also the packet behind, and raises an exception when there is none.\<close>

theorem read_by_length:
  assumes "readOffset s < readLen s" and "int n \<le> readLen s - readOffset s" and "0 < n"
  shows "(chunks s = xs @ rest \<and> (\<forall>x \<in> set xs. x \<noteq> []) \<and> length (concat xs) = n \<longrightarrow>
       ss_read_len (int n) s = Inr (Some (concat xs), int n,
         s\<lparr>chunks := rest, readOffset := readOffset s + int n\<rparr>))
    \<and> (chunks s = a # b # rest \<and> length a = 2 * n \<longrightarrow>
       ss_read_len (int n) s = Inr (Some (drop n a), int n,
         s\<lparr>chunks := rest, readOffset := readOffset s + int n\<rparr>))
    \<and> (chunks s = [a] \<and> length a = 2 * n \<longrightarrow> ss_read_len (int n) s = Inl IndexOutOfBounds)"
proof (intro conjI impI)
  let ?out = "replicate n 0 :: jbyte list"
  have want: "ss_read_len (int n) s = bindR (readCopy False (int n) (int n) 0 ?out (chunks s))
      (\<lambda>(out, list). Inr (Some out, int (length out), s\<lparr>chunks := list, readOffset := readOffset s + int n\<rparr>))"
    using assms by (simp add: ss_read_len_def Let_def)
  show "ss_read_len (int n) s = Inr (Some (concat xs), int n,
         s\<lparr>chunks := rest, readOffset := readOffset s + int n\<rparr>)"
    if "chunks s = xs @ rest \<and> (\<forall>x \<in> set xs. x \<noteq> []) \<and> length (concat xs) = n"
    using that readCopy_chunks [of 0 xs ?out "int n" False rest] by (simp add: want)
  show "ss_read_len (int n) s = Inr (Some (drop n a), int n,
         s\<lparr>chunks := rest, readOffset := readOffset s + int n\<rparr>)"
    if "chunks s = a # b # rest \<and> length a = 2 * n"
    using that readCopy_half [of a n ?out] assms(3) by (simp add: want)
  show "ss_read_len (int n) s = Inl IndexOutOfBounds" if "chunks s = [a] \<and> length a = 2 * n"
    using that readCopy_half [of a n ?out] assms(3) by (simp add: want)
qed

definition half_read :: server_session where
  "half_read = (new_ServerSession ''10.0.0.1'' 5000 ''10.0.0.2'' 6000 77)
     \<lparr>chunks := [[1, 2, 3, 4], [5, 6]], readLen := 6\<rparr>"

theorem read_by_length_witness:
  "ss_read_len 2 half_read = Inr (Some [3, 4], 2, half_read\<lparr>chunks := [], readOffset := 2\<rparr>)
   \<and> ss_read_len 4 half_read = Inr (Some [1, 2, 3, 4], 4, half_read\<lparr>chunks := [[5, 6]], readOffset := 4\<rparr>)"
proof -
  have s: "chunks half_read = [[1, 2, 3, 4], [5, 6]]" "readLen half_read = 6" "readOffset half_read = 0"
    by (simp_all add: half_read_def new_ServerSession_def)
  show ?thesis
    using read_by_length [of half_read 2 "[]" "[]" "[1, 2, 3, 4]" "[5, 6]"]
      read_by_length [of half_read 4 "[[1, 2, 3, 4]]" "[[5, 6]]" "[]" "[]"] by (simp add: s)
qed

end
