(* ===== verification/PoolsFacts.thy ===== *)
theory PoolsFacts
  imports Pools SenderFrame
begin

text \<open>
  What the pool gives to clients: shares of an open session, and closed sessions, through which
  nothing is sent; and what reclaiming a session does to the pool.
\<close>

section \<open>Sessions the pool makes\<close>

lemma draw_id_frame:
  "draw_id xs r w = Some (i, ys, w') \<Longrightarrow> w_sess w' = w_sess w \<and> w_net w' = w_net w \<and> w_ids w' = w_ids w
    \<and> hashMap w i = None \<and> hashMap w' = (hashMap w)(i \<mapsto> r)"
  by (induction xs arbitrary: w) (auto simp: mgr_addSession_def split: if_splits)

lemma createObj_client_facts:
  assumes "createObj_client now p = Some (r, p')"
  shows "r = next_ref p" "next_ref p' = next_ref p + 1" "pool p' = pool p" "maxClientNum p' = maxClientNum p"
    "w_net (p_world p') = w_net (p_world p)" "w_ids (p_world p') = w_ids (p_world p)"
    "\<And>q. q \<noteq> next_ref p \<Longrightarrow> w_sess (p_world p') q = w_sess (p_world p) q"
    "\<not> cs_isClose (w_sess (p_world p') r)" "bindPort p' = (bindPort p)(r := 0)"
    "hashMap (p_world p) (cs_id (w_sess (p_world p') r)) = None"
    "hashMap (p_world p') = (hashMap (p_world p))(cs_id (w_sess (p_world p') r) \<mapsto> r)"
  using assms
  by (auto simp: createObj_client_def Let_def upd_sess_def new_ClientSession_def
      split: option.splits dest!: draw_id_frame)

lemma new_control_facts:
  assumes "new_control now p = Some (c, p')"
  shows "ctr_session c = next_ref p" "maxNum c = maxClientNum p"
    "createObj_client now p = Some (next_ref p, p')"
  using assms createObj_client_facts by (auto simp: new_control_def)

lemma upd_world_simps [simp]:
  "pool (upd_world f p) = pool p" "next_ref (upd_world f p) = next_ref p"
  "p_world (upd_world f p) = f (p_world p)" "bindPort (upd_world f p) = bindPort p"
  "maxClientNum (upd_world f p) = maxClientNum p"
  by (simp_all add: upd_world_def)

lemma pool_put_simps [simp]:
  "pool (pool_put k c p) = (pool p)(k \<mapsto> c)" "next_ref (pool_put k c p) = next_ref p"
  "p_world (pool_put k c p) = p_world p" "bindPort (pool_put k c p) = bindPort p"
  "maxClientNum (pool_put k c p) = maxClientNum p" "rands (pool_put k c p) = rands p"
  by (simp_all add: pool_put_def)

lemma pool_removeKey_simps [simp]:
  "pool (pool_removeKey k p) = (pool p)(k := None)" "next_ref (pool_removeKey k p) = next_ref p"
  "p_world (pool_removeKey k p) = p_world p" "bindPort (pool_removeKey k p) = bindPort p"
  "maxClientNum (pool_removeKey k p) = maxClientNum p" "rands (pool_removeKey k p) = rands p"
  by (simp_all add: pool_removeKey_def)

lemma pool_share_simps [simp]:
  "pool (pool_share k c p) = (pool p)(k := if maxNum c = 1 then None else Some (c\<lparr>maxNum := maxNum c - 1\<rparr>))"
  "next_ref (pool_share k c p) = next_ref p" "p_world (pool_share k c p) = p_world p"
  "bindPort (pool_share k c p) = bindPort p"
  by (simp_all add: pool_share_def Let_def)

lemma setClientIncrement_simps [simp]:
  "w_net (setClientIncrement r w) = w_net w" "shut q (setClientIncrement r w) = shut q w"
  "cs_isClose (w_sess (setClientIncrement r w) q) = cs_isClose (w_sess w q)"
  "cs_id (w_sess (setClientIncrement r w) q) = cs_id (w_sess w q)"
  "hashMap (setClientIncrement r w) = hashMap w"
  by (simp_all add: setClientIncrement_def upd_sess_def shut_def)

section \<open>Shares of an open session\<close>

text \<open>The sessions that a number of clients get, one after the other.\<close>

fun gets :: "nat \<Rightarrow> int \<Rightarrow> int \<Rightarrow> string option \<Rightarrow> int \<Rightarrow> pools \<Rightarrow> (nat list \<times> pools) option" where
  "gets 0 now port ip ipPort p = Some ([], p)"
| "gets (Suc n) now port ip ipPort p =
     (case pool_getSession now port ip ipPort p of
        None \<Rightarrow> None
      | Some (r, p1) \<Rightarrow> map_option (\<lambda>(rs, p2). (r # rs, p2)) (gets n now port ip ipPort p1))"

lemma getSession_open:
  assumes "pool p (pool_key port ip ipPort) = Some c"
    and "\<not> cs_isClose (w_sess (p_world p) (ctr_session c))"
  shows "\<exists>p1. pool_getSession now port ip ipPort p = Some (ctr_session c, p1)
    \<and> pool p1 = (pool p)(pool_key port ip ipPort :=
        (if maxNum c = 1 then None else Some (c\<lparr>maxNum := maxNum c - 1\<rparr>)))
    \<and> p_world p1 = setClientIncrement (ctr_session c) (p_world p)"
  using assms by (auto simp: pool_getSession_def pool_entry_def pool_look_def Let_def)

text \<open>C28: A session is shared as often as its entry allows: the next \<open>k + 1\<close> clients of a destination
  whose entry is open and has \<open>k + 1\<close> shares left all get its session, which counts them all, and
  with the last share the entry leaves the pool, so the client after that gets a new session.\<close>

theorem pool_shares:
  assumes "pool p (pool_key port ip ipPort) = Some c" and "maxNum c = int (Suc k)"
    and "\<not> cs_isClose (w_sess (p_world p) (ctr_session c))"
  shows "\<exists>p'. gets (Suc k) now port ip ipPort p = Some (replicate (Suc k) (ctr_session c), p')
    \<and> pool p' = (pool p)(pool_key port ip ipPort := None)
    \<and> getClientNum (ctr_session c) (p_world p') = getClientNum (ctr_session c) (p_world p) + int (Suc k)"
  using assms
proof (induction k arbitrary: p c)
  case 0
  then show ?case
    using getSession_open [OF "0"(1,3), of now]
    by (auto simp: getClientNum_def setClientIncrement_def upd_sess_def)
next
  case (Suc k)
  let ?key = "pool_key port ip ipPort" and ?c = "c\<lparr>maxNum := maxNum c - 1\<rparr>"
  obtain p1 where p1: "pool_getSession now port ip ipPort p = Some (ctr_session c, p1)"
    "pool p1 = (pool p)(?key \<mapsto> ?c)" "p_world p1 = setClientIncrement (ctr_session c) (p_world p)"
    using getSession_open [OF Suc.prems(1,3), of now] Suc.prems(2) by auto
  have pk: "pool p1 ?key = Some ?c" "maxNum ?c = int (Suc k)"
    "\<not> cs_isClose (w_sess (p_world p1) (ctr_session ?c))" "(pool p1)(?key := None) = (pool p)(?key := None)"
    using p1 Suc.prems by simp_all
  obtain p' where p': "gets (Suc k) now port ip ipPort p1 = Some (replicate (Suc k) (ctr_session ?c), p')"
    "pool p' = (pool p)(?key := None)"
    "getClientNum (ctr_session ?c) (p_world p') = getClientNum (ctr_session ?c) (p_world p1) + int (Suc k)"
    using Suc.IH [OF pk(1-3)] unfolding pk(4) by blast
  have "getClientNum (ctr_session c) (p_world p1) = getClientNum (ctr_session c) (p_world p) + 1"
    by (simp add: p1(3) getClientNum_def setClientIncrement_def upd_sess_def)
  moreover have "gets (Suc (Suc k)) now port ip ipPort p = Some (replicate (Suc (Suc k)) (ctr_session c), p')"
    using p1(1) p'(1) by (subst gets.simps(2)) (simp del: gets.simps)
  ultimately show ?case using p' by (intro exI [of _ p']) (simp del: gets.simps)
qed

section \<open>A closed session from the pool\<close>

lemma getSession_closed:
  assumes "pool p (pool_key port ip ipPort) = Some c" and "cs_isClose (w_sess (p_world p) (ctr_session c))"
    and "ctr_session c < next_ref p" and "pool_getSession now port ip ipPort p = Some (r, p')"
  shows "r = ctr_session c" "w_net (p_world p') = w_net (p_world p)"
    "shut r (p_world p') = shut r (p_world p)"
    "\<exists>c2. pool p' (pool_key port ip ipPort) = Some c2 \<and> ctr_session c2 = next_ref p
       \<and> \<not> cs_isClose (w_sess (p_world p') (next_ref p))"
proof -
  let ?key = "pool_key port ip ipPort"
  have look: "pool_look p ?key = Some c" using assms(1) by (simp add: pool_look_def)
  obtain c2 p4 where n: "new_control now (pool_removeKey ?key (pool_share ?key c p)) = Some (c2, p4)"
    "r = ctr_session c" "p' = upd_world (setClientIncrement r) (pool_put ?key c2 p4)"
    using assms(2,4) look by (auto simp: pool_getSession_def pool_entry_def Let_def)
  note f = new_control_facts [OF n(1)]
  note g = createObj_client_facts [OF f(3)]
  show "r = ctr_session c" by (rule n(2))
  show "w_net (p_world p') = w_net (p_world p)" "shut r (p_world p') = shut r (p_world p)"
    "\<exists>c2. pool p' ?key = Some c2 \<and> ctr_session c2 = next_ref p
       \<and> \<not> cs_isClose (w_sess (p_world p') (next_ref p))"
    using n f(1) g(5,7,8) assms(3) shut_cong [of "p_world p4" "ctr_session c" "p_world p"] by simp_all
qed

lemma mgr_addClient_world [simp]: "p_world (mgr_addClient i sid p) = p_world p"
  "pool (mgr_addClient i sid p) = pool p"
  by (simp_all add: mgr_addClient_def mgr_addCache_def split: option.split)

lemma jc_sendData_shut:
  assumes "jc_fetch time 0 ip port c p = Some (r, p1)" and "shut r (p_world p1)"
    and "jc_sendData env time now dir ss ip port data c p = Some (e, c', p')"
  shows "jc_session c' = Some r \<and> shut r (p_world p') \<and> w_net (p_world p') = w_net (p_world p1)
    \<and> pool p' = pool p1"
proof -
  let ?p2 = "mgr_addClient (jc_id c) (cs_id (w_sess (p_world p1) r)) p1"
  obtain w where w: "cs_sendData env now dir ss r (jc_id c) ip port data (p_world ?p2) = (e, w)"
    "c' = c\<lparr>jc_session := Some r\<rparr>" "p' = ?p2\<lparr>p_world := w\<rparr>"
    using assms(1,3) by (auto simp: jc_sendData_def Let_def split: prod.splits)
  have "silent r (p_world p1) w"
    using closed_socket.sendData_kept [OF w(1)] by (simp add: silent_def shut_def)
  then show ?thesis using w assms(2) by (simp add: silent_def)
qed


section \<open>Reclaiming\<close>

lemma new_control_frame:
  assumes "new_control now p = Some (c, p')"
  shows "pool p' = pool p" "next_ref p \<le> next_ref p'" "\<And>q. q < next_ref p \<Longrightarrow> bindPort p' q = bindPort p q"
  using createObj_client_facts [OF new_control_facts(3) [OF assms]] by simp_all

lemma getSession_frame:
  assumes "pool_getSession now port ip ipPort p = Some (r, p')"
  shows "key \<noteq> pool_key port ip ipPort \<Longrightarrow> pool p' key = pool p key"
    "q < next_ref p \<Longrightarrow> bindPort p' q = bindPort p q"
proof -
  let ?key = "pool_key port ip ipPort"
  obtain c p1 where e: "pool_entry now ?key p = Some (c, p1)"
    using assms(1) by (auto simp: pool_getSession_def Let_def split: option.splits)
  have p1: "key \<noteq> ?key \<Longrightarrow> pool p1 key = pool p key" "next_ref p \<le> next_ref p1"
    "q < next_ref p \<Longrightarrow> bindPort p1 q = bindPort p q"
    using e new_control_frame by (fastforce simp: pool_entry_def split: option.splits)+
  consider (old) "p' = upd_world (setClientIncrement r) (pool_share ?key c p1)"
    | (new) c2 p4 where "new_control now (pool_removeKey ?key (pool_share ?key c p1)) = Some (c2, p4)"
      "p' = upd_world (setClientIncrement r) (pool_put ?key c2 p4)"
    using assms(1) e by (auto simp: pool_getSession_def Let_def split: if_splits)
  then have "(key \<noteq> ?key \<longrightarrow> pool p' key = pool p key) \<and> (q < next_ref p \<longrightarrow> bindPort p' q = bindPort p q)"
  proof cases
    case new
    note f = new_control_frame [OF new(1)]
    show ?thesis using new(2) f p1 by simp
  qed (use p1 in simp)
  then show "key \<noteq> ?key \<Longrightarrow> pool p' key = pool p key" "q < next_ref p \<Longrightarrow> bindPort p' q = bindPort p q"
    by blast+
qed

text \<open>Reclaiming a session does not take it out of the pool: the manager's check closes and
  forgets the session of clients that are gone, but looks it up in the pool under a null host and
  port 0 instead of its destination; the entry under its destination, with the closed session,
  stays as it is, and an entry for the null host is made.\<close>

theorem reclaimed_session_stays_in_pool:
  assumes "idle r p" and "check_removeSession env now r i p = (None, Some p')" and "r < next_ref p"
    and "key = pool_key (bindPort p r) (cs_srcIP (w_sess (p_world p) r)) (cs_port (w_sess (p_world p) r))"
    and "key \<noteq> pool_key (bindPort p r) None 0"
  shows "pool p' key = pool p key"
proof -
  obtain p1 where c: "close_session env r p = (None, p1)"
    "remove_from_pool now r (upd_world (\<lambda>w. w\<lparr>hashMap := (hashMap w)(i := None)\<rparr>) p1) = Some p'"
    using assms(1,2) by (auto simp: check_removeSession_def split: prod.splits option.splits)
  let ?p2 = "upd_world (\<lambda>w. w\<lparr>hashMap := (hashMap w)(i := None)\<rparr>) p1"
  have p2: "pool ?p2 = pool p" "bindPort ?p2 = bindPort p" "next_ref ?p2 = next_ref p"
    using c(1) by (auto simp: close_session_def split: prod.splits)
  obtain q p3 where g: "pool_getSession now (bindPort p r) None 0 ?p2 = Some (q, p3)"
    "pool p' = pool p3 \<or> pool p' = (pool p3)(pool_key (bindPort p3 r) None 0 := None)"
    using c(2) p2(2) by (auto simp: remove_from_pool_def split: option.splits if_splits)
  have "bindPort p3 r = bindPort p r" using getSession_frame(2) [OF g(1)] p2 assms(3) by simp
  moreover have "pool p3 key = pool p key" using getSession_frame(1) [OF g(1) assms(5)] p2 by simp
  ultimately show ?thesis using g(2) assms(5) by auto
qed

section \<open>Concrete runs\<close>

text \<open>A pool with one entry, for 10.0.0.1 port 5000, with two shares of the session 5.\<close>

definition demo_pools :: "client_session \<Rightarrow> pools" where
  "demo_pools s = \<lparr>pool = [''10.0.0.15000'' \<mapsto> \<lparr>ctr_session = 5, maxNum = 2\<rparr>], maxClientNum = 1000,
     next_ref = 6, rands = [0, 1, 2], bindPort = (\<lambda>_. 0), createTime = (\<lambda>_. 0), cache_puts = [],
     hashMapClient = (\<lambda>_. None), isCheck = False,
     p_world = start_world\<lparr>w_sess := (\<lambda>_. s), hashMap := [77 \<mapsto> 5]\<rparr>\<rparr>"

definition closed_client :: client_session where
  "closed_client = (new_ClientSession 77)\<lparr>cs_isClose := True, logicalClose := True,
     cs_srcIP := Some ''10.0.0.1'', cs_port := 5000,
     cs_client := udp_close (open_socket lan new_UDPClient)\<rparr>"

lemma digit_chars: "char_of (53 :: nat) = CHR ''5''" "char_of (48 :: nat) = CHR ''0''"
  by code_simp+

lemma demo_key: "pool_key 0 (Some ''10.0.0.1'') 5000 = ''10.0.0.15000''" "pool_key 0 None 0 = ''null0''"
  by (simp_all add: pool_key_def host_text_def int_text_def decimal.simps digit_chars)

theorem pool_shares_witness:
  "\<exists>p'. gets 2 0 0 (Some ''10.0.0.1'') 5000 (demo_pools (new_ClientSession 77)) = Some ([5, 5], p')
    \<and> pool p' ''10.0.0.15000'' = None"
proof -
  have "pool (demo_pools (new_ClientSession 77)) (pool_key 0 (Some ''10.0.0.1'') 5000)
      = Some \<lparr>ctr_session = 5, maxNum = 2\<rparr>" by (simp add: demo_key demo_pools_def)
  from pool_shares [OF this, of 1 0] show ?thesis
    by (auto simp: demo_pools_def new_ClientSession_def demo_key numeral_2_eq_2 simp del: gets.simps)
qed

lemma demo_closed:
  "pool (demo_pools closed_client) (pool_key 0 (Some ''10.0.0.1'') 5000) = Some \<lparr>ctr_session = 5, maxNum = 2\<rparr>"
  "cs_isClose (w_sess (p_world (demo_pools closed_client)) 5)" "shut 5 (p_world (demo_pools closed_client))"
  "next_ref (demo_pools closed_client) = 6" "idle 5 ((demo_pools closed_client))"
  by (simp_all add: demo_key demo_pools_def closed_client_def shut_def open_socket_def udp_close_def
      new_UDPClient_def idle_def new_ClientSession_def)


theorem reclaimed_session_stays_in_pool_witness:
  "\<exists>p'. check_removeSession lan 0 5 77 (demo_pools closed_client) = (None, Some p')
    \<and> pool p' ''10.0.0.15000'' = Some \<lparr>ctr_session = 5, maxNum = 2\<rparr>"
proof -
  let ?p = "demo_pools closed_client"
  have c: "close_session lan 5 ?p = (None, ?p\<lparr>p_world := p_world ?p\<rparr>)"
    using demo_closed(2) by (simp add: close_session_def cs_close_def Let_def)
  let ?p2 = "upd_world (\<lambda>w. w\<lparr>hashMap := (hashMap w)(77 := None)\<rparr>) ?p"
  have b: "bindPort ?p2 5 = 0" "pool_look ?p2 ''null0'' = None" "bindPort ?p 5 = 0"
    by (simp_all add: demo_pools_def pool_look_def)
  have r: "rands ?p2 = [0, 1, 2]" "hashMap (p_world ?p2) i = None" for i
    by (simp_all add: demo_pools_def upd_world_def)
  have "createObj_client 0 ?p2 \<noteq> None"
    using r by (simp add: createObj_client_def mgr_addSession_def upd_sess_def Let_def)
  then obtain c2 p3 where n: "new_control 0 ?p2 = Some (c2, p3)" by (auto simp: new_control_def)
  have "\<not> cs_isClose (w_sess (p_world p3) (ctr_session c2))"
    using createObj_client_facts(8) [OF new_control_facts(3) [OF n]] new_control_facts(1) [OF n] by simp
  then have "remove_from_pool 0 5 ?p2 \<noteq> None"
    using b n by (simp add: remove_from_pool_def pool_getSession_def pool_entry_def demo_key Let_def)
  then obtain p' where p': "check_removeSession lan 0 5 77 ?p = (None, Some p')"
    using c demo_closed(5) by (auto simp: check_removeSession_def)
  have "cs_srcIP (w_sess (p_world ?p) 5) = Some ''10.0.0.1''" "cs_port (w_sess (p_world ?p) 5) = 5000"
    by (simp_all add: demo_pools_def closed_client_def)
  then have k: "''10.0.0.15000'' = pool_key (bindPort ?p 5) (cs_srcIP (w_sess (p_world ?p) 5))
      (cs_port (w_sess (p_world ?p) 5))" "''10.0.0.15000'' \<noteq> pool_key (bindPort ?p 5) None 0"
    using b(3) demo_key by simp_all
  have "pool p' ''10.0.0.15000'' = pool ?p ''10.0.0.15000''"
    by (rule reclaimed_session_stays_in_pool [OF demo_closed(5) p' _ k]) (simp add: demo_closed(4))
  then show ?thesis using p' demo_closed(1) demo_key by simp
qed

end
