(* ===== verification/CircArray.thy ===== *)
theory CircArray
  imports Prelude
begin

text \<open>
  The circular array (\<open>BufferData/CircularArray.java\<close>): a list that overwrites its oldest entry
  once it holds \<open>max\<close> of them. The abstract view is the queue of the most recent entries.
\<close>

record 'a circular_array =
  ca_position :: nat
  haveOverflow :: bool
  ca_max :: nat
  circularArray :: "'a list"

definition new_CircularArray :: "nat \<Rightarrow> 'a circular_array" where
  "new_CircularArray n =
     \<lparr>ca_position = 0, haveOverflow = False, ca_max = n, circularArray = []\<rparr>"

text \<open>\<open>ArrayList.remove(i)\<close> and \<open>ArrayList.add(i, x)\<close>.\<close>

definition list_remove :: "nat \<Rightarrow> 'a list \<Rightarrow> 'a list" where
  "list_remove i xs = take i xs @ drop (Suc i) xs"

definition list_insert :: "nat \<Rightarrow> 'a \<Rightarrow> 'a list \<Rightarrow> 'a list result" where
  "list_insert i x xs =
     (if i \<le> length xs then Inr (take i xs @ x # drop i xs) else Inl IndexOutOfBounds)"

definition ca_add :: "'a \<Rightarrow> 'a circular_array \<Rightarrow> 'a circular_array result" where
  "ca_add entry a =
     (let wrap = (ca_max a \<le> ca_position a);
          p = (if wrap then 0 else ca_position a);
          xs = (if p < length (circularArray a) then list_remove p (circularArray a)
                else circularArray a)
      in bindR (list_insert p entry xs) (\<lambda>ys.
           Inr (a\<lparr>ca_position := p + 1, haveOverflow := haveOverflow a \<or> wrap,
                  circularArray := ys\<rparr>)))"

definition ca_size :: "'a circular_array \<Rightarrow> nat" where
  "ca_size a = length (circularArray a)"

fun ca_addAll :: "'a list \<Rightarrow> 'a circular_array \<Rightarrow> 'a circular_array result" where
  "ca_addAll [] a = Inr a"
| "ca_addAll (x # xs) a = bindR (ca_add x a) (ca_addAll xs)"

section \<open>The queue it implements\<close>

text \<open>The entries, oldest first: those from the write position on, then those before it.\<close>

definition ca_queue :: "'a circular_array \<Rightarrow> 'a list" where
  "ca_queue a = drop (ca_position a) (circularArray a) @ take (ca_position a) (circularArray a)"

definition ca_inv :: "'a circular_array \<Rightarrow> bool" where
  "ca_inv a \<longleftrightarrow> 0 < ca_max a \<and> ca_position a \<le> length (circularArray a)
     \<and> length (circularArray a) \<le> ca_max a
     \<and> (haveOverflow a \<longrightarrow> length (circularArray a) = ca_max a \<and> 0 < ca_position a)
     \<and> (\<not> haveOverflow a \<longrightarrow> ca_position a = length (circularArray a))"

definition last_n :: "nat \<Rightarrow> 'a list \<Rightarrow> 'a list" where
  "last_n n xs = drop (length xs - n) xs"

lemma last_n_snoc: "0 < n \<Longrightarrow> last_n n (last_n n xs @ [x]) = last_n n (xs @ [x])"
  by (simp add: last_n_def) (cases "length xs \<le> n"; simp add: Suc_diff_le)

lemma ca_add_step:
  assumes "ca_inv a"
  shows "\<exists>a'. ca_add x a = Inr a' \<and> ca_inv a' \<and> ca_max a' = ca_max a
    \<and> ca_queue a' = last_n (ca_max a) (ca_queue a @ [x])
    \<and> ca_size a' = min (ca_max a) (Suc (ca_size a))"
proof -
  obtain p ov n xs where a: "a = \<lparr>ca_position = p, haveOverflow = ov, ca_max = n, circularArray = xs\<rparr>"
    by (cases a) simp
  show ?thesis
  proof (cases "n \<le> p")
    case True
    then have "p = n" "length xs = n" "0 < n" using assms a by (auto simp: ca_inv_def)
    then show ?thesis
      using a by (cases xs)
        (auto simp: ca_add_def list_remove_def list_insert_def ca_inv_def ca_queue_def last_n_def
          ca_size_def Let_def)
  next
    case False
    show ?thesis
    proof (cases "p < length xs")
      case True
      then have "ov" "length xs = n" using assms a by (auto simp: ca_inv_def)
      moreover have "drop p xs = xs ! p # drop (Suc p) xs" using True by (simp add: Cons_nth_drop_Suc)
      ultimately show ?thesis
        using a True False assms
        by (auto simp: ca_add_def list_remove_def list_insert_def ca_inv_def ca_queue_def last_n_def
            ca_size_def Let_def min_def)
    next
      case False': False
      then have "p = length xs" "\<not> ov" using assms a False by (auto simp: ca_inv_def)
      then show ?thesis
        using a False assms
        by (auto simp: ca_add_def list_insert_def ca_inv_def ca_queue_def last_n_def
            ca_size_def Let_def min_def)
    qed
  qed
qed

lemma ca_addAll_spec:
  "ca_inv a \<Longrightarrow> \<exists>a'. ca_addAll xs a = Inr a' \<and> ca_inv a' \<and> ca_max a' = ca_max a
    \<and> ca_queue a' = last_n (ca_max a) (ca_queue a @ xs)"
proof (induction xs arbitrary: a)
  case Nil
  have "length (ca_queue a) \<le> ca_max a" using Nil by (auto simp: ca_inv_def ca_queue_def)
  then show ?case using Nil by (simp add: last_n_def)
next
  case (Cons x xs)
  obtain a1 where a1: "ca_add x a = Inr a1" "ca_inv a1" "ca_max a1 = ca_max a"
      "ca_queue a1 = last_n (ca_max a) (ca_queue a @ [x])"
    using ca_add_step [OF Cons.prems, of x] by blast
  obtain a2 where a2: "ca_addAll xs a1 = Inr a2" "ca_inv a2" "ca_max a2 = ca_max a1"
      "ca_queue a2 = last_n (ca_max a1) (ca_queue a1 @ xs)"
    using Cons.IH [OF a1(2)] by blast
  have "last_n n (last_n n ys @ zs) = last_n n (ys @ zs)" for n :: nat and ys zs :: "'a list"
  proof (cases "length ys \<le> n")
    case False
    then have "length (last_n n ys) = n" by (simp add: last_n_def)
    then show ?thesis using False by (simp add: last_n_def add.commute)
  qed (simp add: last_n_def)
  then show ?case using a1 a2 by simp
qed

lemma ca_inv_new: "0 < n \<Longrightarrow> ca_inv (new_CircularArray n)"
  by (simp add: ca_inv_def new_CircularArray_def)

text \<open>For a positive capacity \<open>n\<close>, adding entries one after the other never fails, and the
  array then holds exactly the last \<open>n\<close> of them (all, when there are fewer), read from the write
  position on, oldest first.\<close>

theorem circular_array_keeps_last:
  assumes "0 < n"
  shows "\<exists>a. ca_addAll xs (new_CircularArray n) = Inr a \<and> ca_queue a = last_n n xs
    \<and> ca_size a = min n (length xs)"
proof -
  obtain a where a: "ca_addAll xs (new_CircularArray n) = Inr a"
      "ca_queue a = last_n n (ca_queue (new_CircularArray n) @ xs)"
    using ca_addAll_spec [OF ca_inv_new [OF assms], of xs] by (auto simp: new_CircularArray_def)
  have "ca_size a = length (ca_queue a)" by (simp add: ca_size_def ca_queue_def)
  moreover have "ca_queue a = last_n n xs"
    using a(2) by (simp add: ca_queue_def new_CircularArray_def)
  ultimately show ?thesis using a(1) by (auto simp: last_n_def)
qed

theorem circular_array_keeps_last_witness:
  "\<exists>a. ca_addAll [1, 2, 3 :: int] (new_CircularArray 2) = Inr a \<and> ca_queue a = [2, 3]
    \<and> ca_size a = 2"
proof -
  have "last_n 2 [1, 2, 3 :: int] = [2, 3]" "min 2 (length [1, 2, 3 :: int]) = 2"
    by (simp_all add: last_n_def)
  moreover have "(0 :: nat) < 2" by simp
  note circular_array_keeps_last [OF this, of "[1, 2, 3 :: int]"]
  ultimately show ?thesis by (simp only:)
qed

end
