(* ===== verification/Compaction.thy ===== *)
theory Compaction
  imports FileStore
begin

text \<open>
  The reorganisation of data files (\<open>FileStore/FileModify.java\<close>) and the manager in front of it
  (\<open>FileModifyDBManager.java\<close>), which keeps a table of the index in a database (\<open>FileDBManager.java\<close>).
  The database is not part of the repository: whether there is a connection and how it takes a
  statement are arguments, and the statements sent are a log.
\<close>

section \<open>Sorting the records\<close>

text \<open>
  \<open>sortIndex\<close>: a bubble sort by position. An element of the array can be null, and comparing it
  throws. The array is never filled from the records.
\<close>

definition bubble_step :: "nat \<Rightarrow> data_delete_index option list \<Rightarrow> data_delete_index option list result" where
  "bubble_step j tmp =
     (case (tmp ! j, tmp ! (j + 1)) of
        (Some a, Some b) \<Rightarrow>
          Inr (if dd_position b < dd_position a then tmp[j := Some b, j + 1 := Some a] else tmp)
      | _ \<Rightarrow> Inl NullPointer)"

function bubble_pass :: "nat \<Rightarrow> nat \<Rightarrow> data_delete_index option list \<Rightarrow>
    data_delete_index option list result" where
  "bubble_pass j bound tmp =
     (if j < bound then bindR (bubble_step j tmp) (bubble_pass (j + 1) bound) else Inr tmp)"
  by pat_completeness auto

termination
  by (relation "measure (\<lambda>(j, bound, tmp). bound - j)") auto

declare bubble_pass.simps [simp del]

function bubble_passes :: "nat \<Rightarrow> nat \<Rightarrow> data_delete_index option list \<Rightarrow>
    data_delete_index option list result" where
  "bubble_passes i n tmp =
     (if i + 1 < n
      then bindR (bubble_pass 0 (n - i - 1) tmp) (bubble_passes (i + 1) n) else Inr tmp)"
  by pat_completeness auto

termination
  by (relation "measure (\<lambda>(i, n, tmp). n - i)") auto

declare bubble_passes.simps [simp del]

definition bubble_sort :: "data_delete_index option list \<Rightarrow> data_delete_index option list result" where
  "bubble_sort tmp = bubble_passes 0 (length tmp) tmp"

definition sortIndex :: "(nat \<times> data_delete_index) list \<Rightarrow> data_delete_index option list result" where
  "sortIndex recs = bubble_sort (replicate (length recs) None)"

section \<open>State\<close>

datatype co_task = Compact | SyncIndex

text \<open>
  The records of a file are objects, told apart by a number, as \<open>ArrayList.contains\<close> compares
  references: the class has no \<open>equals\<close>.
\<close>

record compactor =
  co_hash :: "string \<Rightarrow> (nat \<times> data_delete_index) list option"
  co_sum :: int
  co_dataDir :: string
  mgr_dataDir :: string
  fileName :: string
  isCreate :: bool
  hashindex :: "(string \<Rightarrow> string file_index option) option"
  indexSzie :: int
  isRuning :: bool
  mgr_queue :: "data_delete_index list"
  co_tasks :: "co_task list"
  co_sql :: "string list"
  co_fs :: file_system

record db_env =
  db_conn :: bool
  db_statement :: bool
  db_update :: "string \<Rightarrow> bool"
  db_query :: "string \<Rightarrow> bool"

definition new_compactor :: "file_system \<Rightarrow> compactor" where
  "new_compactor fs = \<lparr>co_hash = (\<lambda>_. None), co_sum = 0, co_dataDir = [], mgr_dataDir = [],
     fileName = [], isCreate = True, hashindex = None, indexSzie = 0, isRuning = False,
     mgr_queue = [], co_tasks = [], co_sql = [], co_fs = fs\<rparr>"

definition maxCopy :: int where
  "maxCopy = 100 * 1204 * 1024"

definition maxSize :: int where
  "maxSize = 1 * 1024 * 1024 * 1024"

section \<open>The database\<close>

text \<open>Without a connection, or without a statement, the next call is one on a null reference.\<close>

definition exeSql :: "db_env \<Rightarrow> string \<Rightarrow> compactor \<Rightarrow> bool result \<times> compactor" where
  "exeSql db sql c =
     (if db_conn db \<and> db_statement db
      then (Inr (db_update db sql), c\<lparr>co_sql := co_sql c @ [sql]\<rparr>) else (Inl NullPointer, c))"

text \<open>The result tells whether there is a result set, None in the code if the query failed.\<close>

definition exeSelect :: "db_env \<Rightarrow> string \<Rightarrow> compactor \<Rightarrow> bool result \<times> compactor" where
  "exeSelect db sql c =
     (if db_conn db \<and> db_statement db
      then (Inr (db_query db sql), c\<lparr>co_sql := co_sql c @ [sql]\<rparr>) else (Inl NullPointer, c))"

definition quoted :: "string \<Rightarrow> string" where
  "quoted s = CHR 0x27 # s @ [CHR 0x27]"

text \<open>
  \<open>getIndex\<close> reads a row without moving to the first one, which throws; the exception is caught and
  the map stays empty.
\<close>

definition getIndex :: "db_env \<Rightarrow> string \<Rightarrow> compactor \<Rightarrow>
    (string \<Rightarrow> string file_index option) result \<times> compactor" where
  "getIndex db fileid c =
     (case exeSelect db (''selest * from indexFile where fileid='' @ quoted fileid) c of
        (Inl e, c1) \<Rightarrow> (Inl e, c1)
      | (Inr found, c1) \<Rightarrow> (if found then Inr (\<lambda>_. None) else Inl NullPointer, c1))"

section \<open>Copying\<close>

text \<open>One block; a read that gives null makes the write throw, after it has created the file.\<close>

definition copy_block :: "string \<Rightarrow> string \<Rightarrow> int \<Rightarrow> int \<Rightarrow> file_system \<Rightarrow> exn option \<times> file_system" where
  "copy_block frd fsw position num fs =
     (case read_mapped frd position num fs of
        Inl e \<Rightarrow> (Some e, fs)
      | Inr None \<Rightarrow>
          (if is_dir fs fsw then (None, fs)
           else (Some NullPointer,
                 if files fs fsw = None \<and> creatable fs fsw
                 then fs\<lparr>files := (files fs)(fsw \<mapsto> [])\<rparr> else fs))
      | Inr (Some data) \<Rightarrow>
          (case writeFile True fsw data fs of
             Inl e \<Rightarrow> (Some e, fs) | Inr (_, fs1) \<Rightarrow> (None, fs1)))"

fun copy_blocks :: "string \<Rightarrow> string \<Rightarrow> nat \<Rightarrow> int \<Rightarrow> file_system \<Rightarrow> exn option \<times> int \<times> file_system" where
  "copy_blocks frd fsw 0 position fs = (None, position, fs)"
| "copy_blocks frd fsw (Suc n) position fs =
     (case copy_block frd fsw position maxCopy fs of
        (Some e, fs1) \<Rightarrow> (Some e, position, fs1)
      | (None, fs1) \<Rightarrow> copy_blocks frd fsw n (position + maxCopy) fs1)"

definition copyData :: "string \<Rightarrow> string \<Rightarrow> int \<Rightarrow> int \<Rightarrow> int \<Rightarrow> file_system \<Rightarrow>
    exn option \<times> int \<times> file_system" where
  "copyData frd fsw position num len fs =
     (if num < maxCopy
      then (case copy_block frd fsw position (wrap_int num) fs of
              (Some e, fs1) \<Rightarrow> (Some e, position, fs1)
            | (None, fs1) \<Rightarrow> (None, position + num + len, fs1))
      else (case copy_blocks frd fsw (nat (num div maxCopy)) position fs of
              (Some e, p1, fs1) \<Rightarrow> (Some e, p1, fs1)
            | (None, p1, fs1) \<Rightarrow>
                (let left = num mod maxCopy
                 in if 0 < left
                    then (case copy_block frd fsw p1 left fs1 of
                            (Some e, fs2) \<Rightarrow> (Some e, p1, fs2)
                          | (None, fs2) \<Rightarrow> (None, p1 + left + len, fs2))
                    else (None, p1 + len, fs1))))"

section \<open>The reorganisation\<close>

definition in_dir :: "string \<Rightarrow> string \<Rightarrow> string" where
  "in_dir dir name = (if dir = [] then name else dir @ ''/'' @ name)"

text \<open>The parts of the file between its dead records are copied behind one another.\<close>

fun move_records :: "db_env \<Rightarrow> string \<Rightarrow> string \<Rightarrow> string \<Rightarrow> data_delete_index option list \<Rightarrow> int \<Rightarrow>
    compactor \<Rightarrow> exn option \<times> int \<times> compactor" where
  "move_records db fileid frd fsw [] offset c = (None, offset, c)"
| "move_records db fileid frd fsw (None # rest) offset c = (Some NullPointer, offset, c)"
| "move_records db fileid frd fsw (Some ix # rest) offset c =
     (case copyData frd fsw offset (dd_position ix - offset - 1) (dd_len ix) (co_fs c) of
        (Some e, offset1, fs1) \<Rightarrow> (Some e, offset1, c\<lparr>co_fs := fs1\<rparr>)
      | (None, offset1, fs1) \<Rightarrow>
          (case exeSql db (''update indexFile set position=position-'' @ int_text (dd_len ix)
                  @ '' where fileid='' @ quoted fileid) (c\<lparr>co_fs := fs1\<rparr>) of
             (Inl e, c1) \<Rightarrow> (Some e, offset1, c1)
           | (Inr _, c1) \<Rightarrow> move_records db fileid frd fsw rest offset1 c1))"

text \<open>The rest of the file, and what was appended to it meanwhile, while the store is locked out.\<close>

definition copy_rest :: "string \<Rightarrow> string \<Rightarrow> string \<Rightarrow> int \<Rightarrow> compactor \<Rightarrow> exn option \<times> compactor" where
  "copy_rest fileid frd fsw offset c =
     (case copyData frd fsw offset (file_len (co_fs c) frd - offset) 0 (co_fs c) of
        (Some e, _, fs1) \<Rightarrow> (Some e, c\<lparr>co_fs := fs1\<rparr>)
      | (None, offset1, fs1) \<Rightarrow>
          (if file_len fs1 frd = getFile fsw fs1 then (None, c\<lparr>co_fs := fs1\<rparr>)
           else (case copyData frd fsw offset1 (file_len fs1 frd - getFile fsw fs1) 0 fs1 of
                   (e, _, fs2) \<Rightarrow> (e, c\<lparr>fileName := fileid, co_fs := fs2\<rparr>))))"

text \<open>The new file takes the place of the old one.\<close>

definition replace_file :: "string \<Rightarrow> string \<Rightarrow> file_system \<Rightarrow> file_system" where
  "replace_file frd fsw fs =
     (let fs1 = (if is_dir fs frd then fs else fs\<lparr>files := (files fs)(frd := None)\<rparr>)
      in case files fs1 fsw of
           None \<Rightarrow> fs1
         | Some bs \<Rightarrow> if is_dir fs1 frd then fs1
                      else fs1\<lparr>files := (files fs1)(frd \<mapsto> bs, fsw := None)\<rparr>)"

definition finish_file :: "db_env \<Rightarrow> string \<Rightarrow> string \<Rightarrow> string \<Rightarrow> compactor \<Rightarrow> exn option \<times> compactor" where
  "finish_file db fileid frd fsw c =
     (case getIndex db fileid c of
        (Inl e, c1) \<Rightarrow> (Some e, c1)
      | (Inr ix, c1) \<Rightarrow>
          (case hashindex c1 of
             None \<Rightarrow> (Some NullPointer, c1)
           | Some h \<Rightarrow>
               (None, c1\<lparr>hashindex := Some (h ++ ix), co_fs := replace_file frd fsw (co_fs c1),
                         co_hash := (co_hash c1)(fileid \<mapsto> []), fileName := []\<rparr>)))"

definition compact_file :: "db_env \<Rightarrow> string \<Rightarrow> compactor \<Rightarrow> exn option \<times> compactor" where
  "compact_file db fileid c =
     (let frd = in_dir (co_dataDir c) fileid; fsw = in_dir (co_dataDir c) (fileid @ ''.tmp'')
      in case co_hash c fileid of
           None \<Rightarrow> (None, c)
         | Some data \<Rightarrow>
             (case sortIndex data of
                Inl e \<Rightarrow> (Some e, c)
              | Inr moidydata \<Rightarrow>
                  (case move_records db fileid frd fsw moidydata 0 c of
                     (Some e, _, c1) \<Rightarrow> (Some e, c1)
                   | (None, offset, c1) \<Rightarrow>
                       (case copy_rest fileid frd fsw offset c1 of
                          (Some e, c2) \<Rightarrow> (Some e, c2)
                        | (None, c2) \<Rightarrow> finish_file db fileid frd fsw c2))))"

text \<open>\<open>start\<close>: all files, in the order \<open>ids\<close> that the map's iterator gives them.\<close>

fun start_compaction :: "db_env \<Rightarrow> string list \<Rightarrow> compactor \<Rightarrow> exn option \<times> compactor" where
  "start_compaction db [] c =
     (None, c\<lparr>co_hash := (\<lambda>k. if co_hash c k = Some [] then None else co_hash c k)\<rparr>)"
| "start_compaction db (fileid # ids) c =
     (case compact_file db fileid c of
        (Some e, c1) \<Rightarrow> (Some e, c1) | (None, c1) \<Rightarrow> start_compaction db ids c1)"

text \<open>\<open>addFile\<close>: past a gigabyte of dead bytes a task is started.\<close>

definition addFile :: "nat \<Rightarrow> data_delete_index \<Rightarrow> compactor \<Rightarrow> compactor" where
  "addFile r ix c =
     (let tmp = (case co_hash c (dd_fileid ix) of None \<Rightarrow> [] | Some l \<Rightarrow> l);
          tmp1 = (if r \<in> fst ` set tmp then tmp else tmp @ [(r, ix)]);
          c1 = c\<lparr>co_hash := (co_hash c)(dd_fileid ix \<mapsto> tmp1), co_sum := co_sum c + dd_len ix\<rparr>
      in if maxSize < co_sum c1 then c1\<lparr>co_sum := 0, co_tasks := co_tasks c1 @ [Compact]\<rparr> else c1)"

section \<open>The manager\<close>

definition mgr_start :: "compactor \<Rightarrow> compactor" where
  "mgr_start c =
     (if mgr_queue c = [] \<or> isRuning c then c
      else c\<lparr>isRuning := True, co_tasks := co_tasks c @ [SyncIndex]\<rparr>)"

definition addDataDeleteIndex :: "db_env \<Rightarrow> data_delete_index \<Rightarrow> compactor \<Rightarrow> exn option \<times> compactor" where
  "addDataDeleteIndex db ix c =
     (let c1 = c\<lparr>mgr_queue := mgr_queue c @ [ix], indexSzie := indexSzie c + 1\<rparr>;
          c2 = (if 100 < indexSzie c1 then mgr_start (c1\<lparr>indexSzie := 0\<rparr>) else c1)
      in if isCreate c2
         then (case exeSql db
                 ''create table indexFile(Id int ,Key varchar,FileID varchar, BIGINT osition, len int)''
                 (c2\<lparr>isCreate := False\<rparr>) of
                 (Inl e, c3) \<Rightarrow> (Some e, c3) | (Inr _, c3) \<Rightarrow> (None, c3))
         else (None, c2))"

text \<open>The calls of the store.\<close>

definition mgr_call :: "db_env \<Rightarrow> nat \<Rightarrow> mod_call \<Rightarrow> compactor \<Rightarrow> exn option \<times> compactor" where
  "mgr_call db r call c =
     (case call of
        AddDataDeleteIndex ix \<Rightarrow> addDataDeleteIndex db ix c
      | AddFile ix \<Rightarrow> (None, addFile r ix c))"

text \<open>
  The statement for a record. The key of a record is never set, its text is \<open>null\<close>. Other flags
  give no statement.
\<close>

definition sql_of :: "data_delete_index \<Rightarrow> string option" where
  "sql_of t =
     (if dd_flage t = 0
      then Some (''insert into indexFile(key,fileid,position,len) values('' @ quoted ''null'' @ '',''
             @ quoted (dd_fileid t) @ '','' @ int_text (dd_position t) @ '','' @ int_text (dd_len t) @ '',''
             @ quoted ''null'' @ '','')
      else if dd_flage t = 1
      then Some (''update indexFile set position='' @ int_text (dd_position t) @ '','' @ ''len=''
             @ int_text (dd_len t) @ ''key='' @ quoted (int_text (dd_len t)) @ '' where key=''
             @ quoted ''null'')
      else if dd_flage t = 2
      then Some (''delete from indexFile where key='' @ quoted ''null'')
      else None)"

text \<open>The task, on the records that are queued when it runs.\<close>

fun sync_loop :: "db_env \<Rightarrow> data_delete_index list \<Rightarrow> compactor \<Rightarrow> exn option \<times> compactor" where
  "sync_loop db [] c = (None, c\<lparr>mgr_queue := [], isRuning := False\<rparr>)"
| "sync_loop db (t # ts) c =
     (let c1 = c\<lparr>mgr_queue := ts\<rparr>
      in case sql_of t of
           None \<Rightarrow> sync_loop db ts c1
         | Some sql \<Rightarrow>
             (case exeSql db sql c1 of
                (Inl e, c2) \<Rightarrow> (Some e, c2) | (Inr _, c2) \<Rightarrow> sync_loop db ts c2))"

definition sync_index :: "db_env \<Rightarrow> compactor \<Rightarrow> exn option \<times> compactor" where
  "sync_index db c = sync_loop db (mgr_queue c) (c\<lparr>co_dataDir := mgr_dataDir c\<rparr>)"

end
