(* ===== verification/CompactionFacts.thy ===== *)
theory CompactionFacts
  imports Compaction
begin

text \<open>
  What is proved of the reorganisation: the bubble sort is the library's stable sort, but it is run on
  an array that was never filled, so that no file is ever reorganised; and what the task that keeps
  the table of the index sends.
\<close>

section \<open>The bubble sort\<close>

text \<open>One pass carries an element to the right for as long as it is greater.\<close>

fun carry :: "data_delete_index \<Rightarrow> data_delete_index list \<Rightarrow> data_delete_index list" where
  "carry a [] = [a]"
| "carry a (b # xs) = (if dd_position b < dd_position a then b # carry a xs else a # carry b xs)"

lemma carry_sort:
  "foldr (insort_key dd_position) (carry a xs) us = foldr (insort_key dd_position) (a # xs) us"
proof (induction a xs rule: carry.induct)
  case (2 a b xs)
  then show ?case by (auto simp: insort_key_left_comm)
qed simp

lemma carry_last:
  obtains zs m where "carry a xs = zs @ [m]" "length zs = length xs"
    "\<forall>x \<in> set (a # xs). dd_position x \<le> dd_position m" "set (zs @ [m]) = set (a # xs)"
proof (induction a xs arbitrary: thesis rule: carry.induct)
  case (2 a b xs)
  show ?case
  proof (cases "dd_position b < dd_position a")
    case True
    obtain zs m where z: "carry a xs = zs @ [m]" "length zs = length xs"
      "\<forall>x \<in> set (a # xs). dd_position x \<le> dd_position m" "set (zs @ [m]) = set (a # xs)"
      using "2.IH"(1) [OF True] by blast
    show ?thesis by (rule "2.prems" [of "b # zs" m]) (use True z in auto)
  next
    case False
    obtain zs m where z: "carry b xs = zs @ [m]" "length zs = length xs"
      "\<forall>x \<in> set (b # xs). dd_position x \<le> dd_position m" "set (zs @ [m]) = set (b # xs)"
      using "2.IH"(2) [OF False] by blast
    show ?thesis by (rule "2.prems" [of "a # zs" m]) (use False z in auto)
  qed
qed simp

lemma bubble_step_some:
  "bubble_step (length ps) (map Some (ps @ a # b # xs))
     = Inr (map Some (if dd_position b < dd_position a then ps @ b # a # xs else ps @ a # b # xs))"
  by (simp add: bubble_step_def nth_append list_update_append)

lemma bubble_pass_carry:
  "bubble_pass (length ps) (length ps + length xs) (map Some (ps @ a # xs @ qs))
     = Inr (map Some (ps @ carry a xs @ qs))"
proof (induction xs arbitrary: ps a)
  case Nil
  show ?case by (subst bubble_pass.simps) simp
next
  case (Cons b xs)
  let ?x = "if dd_position b < dd_position a then b else a"
  let ?y = "if dd_position b < dd_position a then a else b"
  have "bubble_pass (length ps) (length ps + length (b # xs)) (map Some (ps @ a # (b # xs) @ qs))
      = bubble_pass (length (ps @ [?x])) (length (ps @ [?x]) + length xs)
          (map Some ((ps @ [?x]) @ ?y # xs @ qs))"
    using bubble_step_some [of ps a b "xs @ qs"] by (subst bubble_pass.simps) simp
  also have "\<dots> = Inr (map Some ((ps @ [?x]) @ carry ?y xs @ qs))" by (rule Cons.IH)
  finally show ?case by simp
qed

lemma bubble_passes_sort:
  assumes "sorted (map dd_position qs)" and "\<forall>x \<in> set xs. \<forall>q \<in> set qs. dd_position x \<le> dd_position q"
  shows "bubble_passes (length qs) (length xs + length qs) (map Some (xs @ qs))
     = Inr (map Some (sort_key dd_position (xs @ qs)))"
  using assms
proof (induction "length xs" arbitrary: xs qs rule: less_induct)
  case less
  show ?case
  proof (cases xs)
    case Nil
    then show ?thesis
      using less.prems by (subst bubble_passes.simps) (simp add: sort_key_id_if_sorted)
  next
    case (Cons a rest)
    show ?thesis
    proof (cases rest)
      case Nil
      then have "sorted (map dd_position (xs @ qs))" using less.prems Cons by simp
      then have "sort_key dd_position (xs @ qs) = xs @ qs" by (rule sort_key_id_if_sorted)
      moreover have "\<not> length qs + 1 < length xs + length qs" using Cons Nil by simp
      ultimately show ?thesis by (subst bubble_passes.simps) (simp only: if_False)
    next
      case (Cons b rest1)
      obtain zs m where z: "carry a rest = zs @ [m]" "length zs = length rest"
        "\<forall>x \<in> set (a # rest). dd_position x \<le> dd_position m" "set (zs @ [m]) = set (a # rest)"
        by (rule carry_last)
      have p: "bubble_pass 0 (length rest) (map Some (xs @ qs)) = Inr (map Some (zs @ m # qs))"
        using bubble_pass_carry [of "[]" rest a qs] z(1) \<open>xs = a # rest\<close> by simp
      have n: "length xs + length qs - length qs - 1 = length rest" using \<open>xs = a # rest\<close> by simp
      have m: "m \<in> set xs" "\<forall>x \<in> set zs. x \<in> set xs" using z(4) \<open>xs = a # rest\<close> by auto
      have "sorted (map dd_position (m # qs))" using less.prems m(1) by simp
      moreover have "\<forall>x \<in> set zs. \<forall>q \<in> set (m # qs). dd_position x \<le> dd_position q"
        using less.prems(2) z(3) m(2) \<open>xs = a # rest\<close> by auto
      ultimately have "bubble_passes (length (m # qs)) (length zs + length (m # qs))
          (map Some (zs @ m # qs)) = Inr (map Some (sort_key dd_position (zs @ m # qs)))"
        by (intro less.hyps) (use z(2) \<open>xs = a # rest\<close> in simp_all)
      moreover have "sort_key dd_position (zs @ m # qs) = sort_key dd_position (xs @ qs)"
        using carry_sort [of a rest "sort_key dd_position qs"] z(1) \<open>xs = a # rest\<close>
        by (simp add: sort_key_def)
      ultimately show ?thesis
        using p n z(2) \<open>xs = a # rest\<close> Cons by (subst bubble_passes.simps) simp
    qed
  qed
qed

lemma bubble_sort_array:
  "bubble_sort (map Some xs) = Inr (map Some (sort_key dd_position xs))"
  using bubble_passes_sort [of "[]" xs] by (simp add: bubble_sort_def)

text \<open>What the code makes of its records: it sorts an array of null references.\<close>

lemma sortIndex_one: "sortIndex [x] = Inr [None]"
  by (simp add: sortIndex_def bubble_sort_def bubble_passes.simps)

lemma sortIndex_more: "sortIndex (x # y # zs) = Inl NullPointer"
  by (simp add: sortIndex_def bubble_sort_def bubble_passes.simps bubble_pass.simps [of 0] bubble_step_def)

text \<open>C15: The bubble sort of the reorganisation is, on an array without null, the library's stable sort by
  position; but \<open>sortIndex\<close> runs it on an array that was never filled from the records: one record
  gives an array with a null reference, and two or more raise an exception.\<close>

theorem bubble_sort_is_stable_sort:
  "bubble_sort (map Some xs) = Inr (map Some (sort_key dd_position xs))
   \<and> sortIndex [x] = Inr [None] \<and> sortIndex (x # y # zs) = Inl NullPointer"
  using bubble_sort_array sortIndex_one sortIndex_more by blast

section \<open>No file is reorganised\<close>

lemma compact_file_stuck:
  assumes "co_hash c fileid = Some recs" and "recs \<noteq> []"
  shows "compact_file db fileid c = (Some NullPointer, c)"
proof -
  obtain x xs where r: "recs = x # xs" using assms(2) by (cases recs) auto
  show ?thesis
  proof (cases xs)
    case Nil
    then show ?thesis using assms(1) r sortIndex_one by (simp add: compact_file_def Let_def)
  next
    case (Cons y zs)
    then show ?thesis using assms(1) r sortIndex_more by (simp add: compact_file_def Let_def)
  qed
qed

text \<open>The program's steps: a call of the store, the task that keeps the table, a reorganisation.\<close>

inductive co_step :: "db_env \<Rightarrow> compactor \<Rightarrow> compactor \<Rightarrow> bool" for db where
  Calls: "co_step db c (snd (mgr_call db r call c))"
| Syncs: "co_step db c (snd (sync_index db c))"
| Compacts: "set ids = dom (co_hash c) \<Longrightarrow> co_step db c (snd (start_compaction db ids c))"
| SetsDir: "co_step db c (c\<lparr>mgr_dataDir := dir\<rparr>)"

inductive co_reach :: "db_env \<Rightarrow> compactor \<Rightarrow> compactor \<Rightarrow> bool" for db c0 where
  Init: "co_reach db c0 c0"
| Step: "co_reach db c0 c \<Longrightarrow> co_step db c c' \<Longrightarrow> co_reach db c0 c'"

definition pending_inv :: "file_system \<Rightarrow> compactor \<Rightarrow> bool" where
  "pending_inv fs c \<longleftrightarrow> co_fs c = fs \<and> (\<forall>k l. co_hash c k = Some l \<longrightarrow> l \<noteq> [])"

lemma exeSql_frame: "exeSql db sql c = (r, c') \<Longrightarrow> co_hash c' = co_hash c \<and> co_fs c' = co_fs c
    \<and> isRuning c' = isRuning c \<and> co_tasks c' = co_tasks c \<and> mgr_queue c' = mgr_queue c"
  by (auto simp: exeSql_def split: if_splits)

lemma mgr_start_frame: "co_hash (mgr_start c) = co_hash c" "co_fs (mgr_start c) = co_fs c"
  by (simp_all add: mgr_start_def)

lemma sync_loop_frame:
  "sync_loop db ts c = (r, c') \<Longrightarrow> co_hash c' = co_hash c \<and> co_fs c' = co_fs c"
proof (induction ts arbitrary: c)
  case (Cons t ts)
  show ?case
  proof (cases "sql_of t")
    case None
    then show ?thesis using Cons.prems Cons.IH by (fastforce simp: Let_def)
  next
    case (Some sql)
    obtain e c2 where e: "exeSql db sql (c\<lparr>mgr_queue := ts\<rparr>) = (e, c2)" by fastforce
    show ?thesis
      using Cons.prems Some e exeSql_frame [OF e] Cons.IH [of c2] by (cases e) (simp_all add: Let_def)
  qed
qed auto

lemma addDataDeleteIndex_frame:
  "co_hash (snd (addDataDeleteIndex db ix c)) = co_hash c" "co_fs (snd (addDataDeleteIndex db ix c)) = co_fs c"
  by (simp_all add: addDataDeleteIndex_def Let_def exeSql_def mgr_start_frame)

lemma pending_start:
  assumes "pending_inv fs c" and "set ids = dom (co_hash c)"
  shows "snd (start_compaction db ids c) = c
    \<and> fst (start_compaction db ids c) = (if ids = [] then None else Some NullPointer)"
proof (cases ids)
  case Nil
  then have "co_hash c = (\<lambda>_. None)" using assms(2) by auto
  then show ?thesis using Nil by simp
next
  case (Cons k ks)
  then obtain l where "co_hash c k = Some l" using assms(2) by auto
  moreover from this have "l \<noteq> []" using assms(1) by (auto simp: pending_inv_def)
  ultimately show ?thesis using Cons compact_file_stuck by simp
qed

lemma co_step_inv: "co_step db c c' \<Longrightarrow> pending_inv fs c \<Longrightarrow> pending_inv fs c'"
proof (induction rule: co_step.induct)
  case (Calls c r call)
  then show ?case
    by (cases call) (auto simp: mgr_call_def pending_inv_def addDataDeleteIndex_frame addFile_def Let_def
        split: option.splits if_splits)
next
  case (Syncs c)
  obtain e c1 where s: "sync_loop db (mgr_queue c) (c\<lparr>co_dataDir := mgr_dataDir c\<rparr>) = (e, c1)" by fastforce
  from sync_loop_frame [OF this] show ?case using Syncs by (simp add: sync_index_def s pending_inv_def)
next
  case (Compacts ids c)
  then show ?case using pending_start [of fs c ids db] by simp
next
  case (SetsDir c dir)
  then show ?case by (simp add: pending_inv_def)
qed

lemma co_reach_inv: "co_reach db c0 c \<Longrightarrow> pending_inv fs c0 \<Longrightarrow> pending_inv fs c"
  by (induction rule: co_reach.induct) (auto intro: co_step_inv)

text \<open>C17: No data file is ever reorganised: in every state that calls of the store, the task that keeps the
  table and reorganisations lead to, in any order, the files are as they were, and a reorganisation
  that has a file to work on ends with an exception and changes nothing.\<close>

theorem compaction_never_happens:
  assumes "co_reach db (new_compactor fs) c" and "set ids = dom (co_hash c)"
  shows "co_fs c = fs \<and> snd (start_compaction db ids c) = c
    \<and> (fst (start_compaction db ids c) = None \<longleftrightarrow> ids = [])"
proof -
  have "pending_inv fs (new_compactor fs)" by (simp add: pending_inv_def new_compactor_def)
  then have "pending_inv fs c" using assms(1) co_reach_inv by blast
  then show ?thesis using pending_start [OF _ assms(2)] by (auto simp: pending_inv_def)
qed

section \<open>The table of the index\<close>

lemma sync_loop_up:
  assumes "db_conn db" and "db_statement db"
  shows "sync_loop db ts c = (None, c\<lparr>mgr_queue := [], isRuning := False,
     co_sql := co_sql c @ List.map_filter sql_of ts\<rparr>)"
proof (induction ts arbitrary: c)
  case (Cons t ts)
  then show ?case
    using assms by (simp add: Let_def exeSql_def map_filter_simps split: option.split)
qed (simp add: map_filter_simps)

text \<open>While the flag is set no further task is started.\<close>

lemma mgr_start_running: "isRuning c \<Longrightarrow> mgr_start c = c"
  by (simp add: mgr_start_def)

definition mgr_calls :: "db_env \<Rightarrow> (nat \<times> mod_call) list \<Rightarrow> compactor \<Rightarrow> compactor" where
  "mgr_calls db calls c = fold (\<lambda>(r, call) c. snd (mgr_call db r call c)) calls c"

definition sync_tasks :: "compactor \<Rightarrow> co_task list" where
  "sync_tasks c = filter (\<lambda>t. t = SyncIndex) (co_tasks c)"

lemma mgr_call_running:
  "isRuning c \<Longrightarrow> isRuning (snd (mgr_call db r call c)) \<and> sync_tasks (snd (mgr_call db r call c)) = sync_tasks c"
  by (cases call) (auto simp: mgr_call_def addDataDeleteIndex_def addFile_def sync_tasks_def exeSql_def
      mgr_start_running Let_def)

lemma mgr_calls_running:
  "isRuning c \<Longrightarrow> isRuning (mgr_calls db calls c) \<and> sync_tasks (mgr_calls db calls c) = sync_tasks c"
proof (induction calls arbitrary: c)
  case (Cons a calls)
  obtain r call where a: "a = (r, call)" by (cases a)
  note m = mgr_call_running [OF Cons.prems, of db r call]
  have "mgr_calls db (a # calls) c = mgr_calls db calls (snd (mgr_call db r call c))"
    by (simp add: mgr_calls_def a)
  then show ?case using m Cons.IH by simp
qed (simp add: mgr_calls_def)

text \<open>C18: The table of the index: with a database, the task sends one statement per queued record that
  has a known flag, in the order of the records, empties the queue and clears its flag; without one,
  it ends at the first such record, which is lost, with the flag set, so that no call starts another
  task.\<close>

theorem index_table_synced:
  "(db_conn db \<and> db_statement db \<longrightarrow>
      (\<exists>c'. sync_index db c = (None, c') \<and> mgr_queue c' = [] \<and> \<not> isRuning c'
         \<and> co_sql c' = co_sql c @ List.map_filter sql_of (mgr_queue c)))
   \<and> (\<not> db_conn db \<and> isRuning c \<and> mgr_queue c = t # ts \<and> sql_of t \<noteq> None \<longrightarrow>
      (\<exists>c'. sync_index db c = (Some NullPointer, c') \<and> mgr_queue c' = ts \<and> co_sql c' = co_sql c
         \<and> isRuning (mgr_calls db calls c') \<and> sync_tasks (mgr_calls db calls c') = sync_tasks c))"
proof (intro conjI impI)
  show "\<exists>c'. sync_index db c = (None, c') \<and> mgr_queue c' = [] \<and> \<not> isRuning c'
         \<and> co_sql c' = co_sql c @ List.map_filter sql_of (mgr_queue c)"
    if "db_conn db \<and> db_statement db"
    using that by (simp add: sync_index_def sync_loop_up)
  assume down: "\<not> db_conn db \<and> isRuning c \<and> mgr_queue c = t # ts \<and> sql_of t \<noteq> None"
  let ?c = "c\<lparr>co_dataDir := mgr_dataDir c, mgr_queue := ts\<rparr>"
  have "sync_index db c = (Some NullPointer, ?c)"
    using down by (auto simp: sync_index_def exeSql_def Let_def)
  moreover have "sync_tasks ?c = sync_tasks c" by (simp add: sync_tasks_def)
  ultimately show "\<exists>c'. sync_index db c = (Some NullPointer, c') \<and> mgr_queue c' = ts \<and> co_sql c' = co_sql c
         \<and> isRuning (mgr_calls db calls c') \<and> sync_tasks (mgr_calls db calls c') = sync_tasks c"
    using down mgr_calls_running [of ?c db calls] by auto
qed

section \<open>Concrete runs\<close>

definition no_database :: db_env where
  "no_database = \<lparr>db_conn = False, db_statement = False, db_update = (\<lambda>_. False), db_query = (\<lambda>_. False)\<rparr>"

definition old_record :: data_delete_index where
  "old_record = \<lparr>dd_fileid = ''1.DB'', dd_position = 10, dd_len = 5, dd_flage = 2\<rparr>"

theorem compaction_never_happens_witness:
  "\<exists>c. co_reach no_database (new_compactor empty_fs) c \<and> co_hash c ''1.DB'' = Some [(0, old_record)]
     \<and> start_compaction no_database [''1.DB''] c = (Some NullPointer, c)"
proof -
  let ?init = "new_compactor empty_fs"
  let ?c = "snd (mgr_call no_database 0 (AddFile old_record) ?init)"
  have r: "co_reach no_database ?init ?c"
    using co_reach.Step [OF co_reach.Init [of no_database ?init]
      co_step.Calls [of no_database ?init 0 "AddFile old_record"]] .
  have h: "co_hash ?c = [''1.DB'' \<mapsto> [(0, old_record)]]"
    by (simp add: mgr_call_def addFile_def old_record_def new_compactor_def maxSize_def Let_def)
  have "set [''1.DB''] = dom (co_hash ?c)" by (simp add: h)
  from compaction_never_happens [OF r this] have "fst (start_compaction no_database [''1.DB''] ?c) \<noteq> None"
    "snd (start_compaction no_database [''1.DB''] ?c) = ?c" by simp_all
  moreover have "fst (start_compaction no_database [''1.DB''] ?c) = Some NullPointer"
    using compact_file_stuck [of ?c "''1.DB''" "[(0, old_record)]" no_database] h by simp
  ultimately have "start_compaction no_database [''1.DB''] ?c = (Some NullPointer, ?c)"
    by (metis prod.collapse)
  then show ?thesis using r h by (intro exI [of _ ?c]) simp
qed

definition syncing :: compactor where
  "syncing = (new_compactor empty_fs)\<lparr>isRuning := True, mgr_queue := [old_record]\<rparr>"

theorem index_table_synced_witness:
  "(\<exists>c'. sync_index (no_database\<lparr>db_conn := True, db_statement := True\<rparr>) syncing = (None, c')
      \<and> co_sql c' = [''delete from indexFile where key='' @ quoted ''null''])
   \<and> (\<exists>c'. sync_index no_database syncing = (Some NullPointer, c') \<and> mgr_queue c' = []
      \<and> isRuning (mgr_calls no_database [(0, AddDataDeleteIndex old_record)] c'))"
proof -
  have q: "mgr_queue syncing = [old_record]" "isRuning syncing" "co_sql syncing = []"
    by (simp_all add: syncing_def new_compactor_def)
  have s: "sql_of old_record = Some (''delete from indexFile where key='' @ quoted ''null'')"
    by (simp add: sql_of_def old_record_def)
  let ?up = "no_database\<lparr>db_conn := True, db_statement := True\<rparr>"
  have m: "List.map_filter sql_of (mgr_queue syncing)
      = [''delete from indexFile where key='' @ quoted ''null'']"
    unfolding q(1) map_filter_simps s by simp
  have d: "db_conn ?up \<and> db_statement ?up" "\<not> db_conn no_database" by (simp_all add: no_database_def)
  note t = index_table_synced [of _ syncing old_record "[]" "[(0, AddDataDeleteIndex old_record)]"]
  have "\<exists>c'. sync_index ?up syncing = (None, c')
      \<and> co_sql c' = [''delete from indexFile where key='' @ quoted ''null'']"
    using conjunct1 [OF t, THEN mp, OF d(1)] unfolding m q(3) append_Nil by blast
  moreover have "\<exists>c'. sync_index no_database syncing = (Some NullPointer, c') \<and> mgr_queue c' = []
      \<and> isRuning (mgr_calls no_database [(0, AddDataDeleteIndex old_record)] c')"
    using conjunct2 [OF t, of no_database] d(2) q(1,2) s by blast
  ultimately show ?thesis by blast
qed

end
