(* ===== verification/JsCore.thy ===== *)
theory JsCore
  imports Main "HOL-Library.AList"
begin

text \<open>
  The JavaScript of the library scripts under
  \<open>.metadata/.plugins/org.eclipse.wst.jsdt.core/libraries\<close>: scripts made of function
  declarations, variable initialisations and assignments of prototypes, prototype members and
  static members, each with its documentation tags. The theory gives their evaluation (function
  hoisting, constructor calls, prototype objects and the prototype chain), the lookup and call
  of members, the static checks on scripts and documentation, and the theorems that connect the
  checks with the runs.
\<close>

section \<open>Syntax\<close>

datatype js_expr =
    EStr string
  | ENum int
  | EBool bool
  | ENull
  | EArray
  | ENew string "js_expr list"
  | EFun "string list" js_body
and js_body = BEmpty | BReturn js_expr | BExpr js_expr

datatype js_stmt =
    SFun string "string list" js_body
  | SVar string js_expr
  | SSetProto string string "js_expr list"
  | SProto string string js_expr
  | SStatic string string js_expr

text \<open>The documentation tags that carry types and owners; a parameter keeps its type and the words after it.\<close>

datatype js_tag =
    TParam string string
  | TReturns string
  | TType string
  | TMemberOf string
  | TAugments string
  | TExtends string
  | TSuper string
  | TThrows string
  | TConstructor
  | TStatic
  | TConstant

type_synonym js_item = "js_tag list \<times> js_stmt"

section \<open>Values and state\<close>

text \<open>
  The only objects whose identity a script uses are prototype objects. The one that is created
  with a function \<open>F\<close> is \<open>(F, 0)\<close>, and each assignment to \<open>F.prototype\<close> makes the next
  number. An instance is known by the prototype object it was created with. A parent of
  \<open>None\<close> is the engine's own \<open>Object.prototype\<close>.
\<close>

type_synonym js_oid = "string \<times> nat"

datatype js_value =
    VUndef | VNull | VStr string | VNum int | VBool bool | VArr
  | VInst js_oid | VFun "string list" js_body

record js_obj =
  jo_parent :: "js_oid option"
  jo_own :: "(string \<times> js_value) list"

record js_state =
  js_funs :: "(string \<times> (string list \<times> js_body)) list"
  js_gen :: "(string \<times> nat) list"
  js_objs :: "(js_oid \<times> js_obj) list"
  js_statics :: "((string \<times> string) \<times> js_value) list"
  js_vars :: "(string \<times> js_value) list"

definition js_init :: js_state where
  "js_init = \<lparr>js_funs = [], js_gen = [], js_objs = [], js_statics = [], js_vars = []\<rparr>"

datatype js_error = ReferenceError string | StackOverflow | SyntaxError string

definition gen_of :: "js_state \<Rightarrow> string \<Rightarrow> nat" where
  "gen_of s F = (case map_of (js_gen s) F of None \<Rightarrow> 0 | Some k \<Rightarrow> k)"

definition next_gen :: "js_state \<Rightarrow> string \<Rightarrow> nat" where
  "next_gen s F = (case map_of (js_gen s) F of None \<Rightarrow> 0 | Some k \<Rightarrow> Suc k)"

definition add_proto :: "string \<Rightarrow> js_oid option \<Rightarrow> js_state \<Rightarrow> js_state" where
  "add_proto F par s =
     (let k = next_gen s F
      in s\<lparr>js_gen := (F, k) # js_gen s,
           js_objs := ((F, k), \<lparr>jo_parent = par, jo_own = []\<rparr>) # js_objs s\<rparr>)"

section \<open>Expressions\<close>

text \<open>
  \<open>new C(args)\<close>: resolve \<open>C\<close>, evaluate the arguments, run the constructor body; a body that
  returns an object replaces the new instance. The first argument is the depth of the call
  stack that is left. The bodies do not mention their parameters.
\<close>

fun is_object :: "js_value \<Rightarrow> bool" where
  "is_object VArr = True"
| "is_object (VInst _) = True"
| "is_object (VFun _ _) = True"
| "is_object _ = False"

fun eval :: "nat \<Rightarrow> js_state \<Rightarrow> js_expr \<Rightarrow> js_error + js_value"
  and evals :: "nat \<Rightarrow> js_state \<Rightarrow> js_expr list \<Rightarrow> js_error + js_value list" where
  "eval n s (EStr x) = Inr (VStr x)"
| "eval n s (ENum i) = Inr (VNum i)"
| "eval n s (EBool b) = Inr (VBool b)"
| "eval n s ENull = Inr VNull"
| "eval n s EArray = Inr VArr"
| "eval n s (EFun ps b) = Inr (VFun ps b)"
| "eval n s (ENew C args) =
     (case map_of (js_funs s) C of
        None \<Rightarrow> Inl (ReferenceError C)
      | Some (ps, body) \<Rightarrow>
          (case evals n s args of
             Inl e \<Rightarrow> Inl e
           | Inr _ \<Rightarrow>
               (case n of
                  0 \<Rightarrow> Inl StackOverflow
                | Suc m \<Rightarrow>
                    (case body of
                       BEmpty \<Rightarrow> Inr (VInst (C, gen_of s C))
                     | BReturn e \<Rightarrow>
                         (case eval m s e of
                            Inl err \<Rightarrow> Inl err
                          | Inr v \<Rightarrow> Inr (if is_object v then v else VInst (C, gen_of s C)))
                     | BExpr e \<Rightarrow>
                         (case eval m s e of
                            Inl err \<Rightarrow> Inl err
                          | Inr _ \<Rightarrow> Inr (VInst (C, gen_of s C)))))))"
| "evals n s [] = Inr []"
| "evals n s (e # es) =
     (case eval n s e of Inl err \<Rightarrow> Inl err
      | Inr v \<Rightarrow> (case evals n s es of Inl err \<Rightarrow> Inl err | Inr vs \<Rightarrow> Inr (v # vs)))"

text \<open>Calling a method value.\<close>

fun invoke :: "nat \<Rightarrow> js_state \<Rightarrow> js_value \<Rightarrow> js_error + js_value" where
  "invoke n s (VFun ps body) =
     (case body of
        BEmpty \<Rightarrow> Inr VUndef
      | BReturn e \<Rightarrow> eval n s e
      | BExpr e \<Rightarrow> (case eval n s e of Inl err \<Rightarrow> Inl err | Inr _ \<Rightarrow> Inr VUndef))"
| "invoke n s _ = Inr VUndef"

section \<open>Statements and scripts\<close>

definition declareFun :: "string \<Rightarrow> string list \<Rightarrow> js_body \<Rightarrow> js_state \<Rightarrow> js_state" where
  "declareFun F ps b s = (add_proto F None s)\<lparr>js_funs := (F, (ps, b)) # js_funs s\<rparr>"

fun hoist :: "js_stmt list \<Rightarrow> js_state \<Rightarrow> js_state" where
  "hoist [] s = s"
| "hoist (SFun F ps b # ss) s = hoist ss (declareFun F ps b s)"
| "hoist (_ # ss) s = hoist ss s"

definition set_own :: "js_oid \<Rightarrow> string \<Rightarrow> js_value \<Rightarrow> js_state \<Rightarrow> js_state" where
  "set_own p m v s =
     s\<lparr>js_objs := map (\<lambda>(q, ob). (q, if q = p then ob\<lparr>jo_own := AList.update m v (jo_own ob)\<rparr> else ob))
                     (js_objs s)\<rparr>"

text \<open>The depth of the call stack a top-level statement starts with.\<close>

definition stack_depth :: nat where
  "stack_depth = 8"

text \<open>
  Global \<open>NaN\<close>, \<open>Infinity\<close> and \<open>undefined\<close> are not writable: assigning them is ignored in
  sloppy mode.
\<close>

definition readonly_globals :: "string list" where
  "readonly_globals = [''NaN'', ''Infinity'', ''undefined'']"

fun exec1 :: "js_stmt \<Rightarrow> js_state \<Rightarrow> js_error + js_state" where
  "exec1 (SFun _ _ _) s = Inr s"
| "exec1 (SVar x e) s =
     (case eval stack_depth s e of Inl err \<Rightarrow> Inl err
      | Inr v \<Rightarrow> Inr (if x \<in> set readonly_globals then s
                      else s\<lparr>js_vars := (x, v) # js_vars s\<rparr>))"
| "exec1 (SSetProto C D args) s =
     (if map_of (js_funs s) C = None then Inl (ReferenceError C)
      else case eval stack_depth s (ENew D args) of
             Inl err \<Rightarrow> Inl err
           | Inr (VInst p) \<Rightarrow> Inr (add_proto C (Some p) s)
           | Inr _ \<Rightarrow> Inr (add_proto C None s))"
| "exec1 (SProto C m e) s =
     (if map_of (js_funs s) C = None then Inl (ReferenceError C)
      else case eval stack_depth s e of Inl err \<Rightarrow> Inl err
           | Inr v \<Rightarrow> Inr (set_own (C, gen_of s C) m v s))"
| "exec1 (SStatic C m e) s =
     (if map_of (js_funs s) C = None then Inl (ReferenceError C)
      else case eval stack_depth s e of Inl err \<Rightarrow> Inl err
           | Inr v \<Rightarrow> Inr (s\<lparr>js_statics := ((C, m), v) # js_statics s\<rparr>))"

text \<open>An uncaught error ends the script; what ran before stays done.\<close>

fun exec :: "js_stmt list \<Rightarrow> js_state \<Rightarrow> js_state \<times> js_error option" where
  "exec [] s = (s, None)"
| "exec (c # cs) s = (case exec1 c s of Inl err \<Rightarrow> (s, Some err) | Inr s' \<Rightarrow> exec cs s')"

definition reserved_words :: "string list" where
  "reserved_words = [''break'', ''case'', ''catch'', ''continue'', ''debugger'', ''default'', ''delete'',
     ''do'', ''else'', ''finally'', ''for'', ''function'', ''if'', ''in'', ''instanceof'', ''new'',
     ''return'', ''switch'', ''this'', ''throw'', ''try'', ''typeof'', ''var'', ''void'', ''while'',
     ''with'', ''null'', ''true'', ''false'']"

fun early_error :: "js_stmt list \<Rightarrow> js_error option" where
  "early_error [] = None"
| "early_error (SVar x e # ss) =
     (if x \<in> set reserved_words then Some (SyntaxError x) else early_error ss)"
| "early_error (SFun F ps b # ss) =
     (if F \<in> set reserved_words then Some (SyntaxError F) else early_error ss)"
| "early_error (_ # ss) = early_error ss"

definition run_script :: "js_item list \<Rightarrow> js_state \<Rightarrow> js_state \<times> js_error option" where
  "run_script items s =
     (let ss = map snd items
      in case early_error ss of Some err \<Rightarrow> (s, Some err) | None \<Rightarrow> exec ss (hoist ss s))"

section \<open>Member lookup\<close>

text \<open>
  The objects are kept newest first and a parent is always older than its child (the invariant
  \<open>wf_objs\<close> below), so following the chain is recursion on the list.
\<close>

fun lookup :: "(js_oid \<times> js_obj) list \<Rightarrow> js_oid \<Rightarrow> string \<Rightarrow> js_value" where
  "lookup [] p m = VUndef"
| "lookup ((q, ob) # os) p m =
     (if q = p
      then (case map_of (jo_own ob) m of
              Some v \<Rightarrow> v
            | None \<Rightarrow> (case jo_parent ob of None \<Rightarrow> VUndef | Some r \<Rightarrow> lookup os r m))
      else lookup os p m)"

definition get_member :: "js_state \<Rightarrow> js_oid \<Rightarrow> string \<Rightarrow> js_value" where
  "get_member s p m = lookup (js_objs s) p m"

inductive chain_has :: "(js_oid \<times> js_obj) list \<Rightarrow> js_oid \<Rightarrow> string \<Rightarrow> js_value \<Rightarrow> bool" for os where
  own: "map_of os p = Some ob \<Longrightarrow> map_of (jo_own ob) m = Some v \<Longrightarrow> chain_has os p m v"
| inherited: "map_of os p = Some ob \<Longrightarrow> map_of (jo_own ob) m = None \<Longrightarrow> jo_parent ob = Some q \<Longrightarrow>
    chain_has os q m v \<Longrightarrow> chain_has os p m v"

fun oids :: "(js_oid \<times> js_obj) list \<Rightarrow> js_oid set" where
  "oids [] = {}"
| "oids ((p, ob) # os) = insert p (oids os)"

fun wf_objs :: "(js_oid \<times> js_obj) list \<Rightarrow> bool" where
  "wf_objs [] = True"
| "wf_objs ((p, ob) # os) =
     (p \<notin> oids os \<and> (case jo_parent ob of None \<Rightarrow> True | Some q \<Rightarrow> q \<in> oids os) \<and> wf_objs os)"

definition wf_state :: "js_state \<Rightarrow> bool" where
  "wf_state s \<longleftrightarrow> wf_objs (js_objs s)
     \<and> (\<forall>F k. (F, k) \<in> oids (js_objs s) \<longleftrightarrow> (\<exists>j. map_of (js_gen s) F = Some j \<and> k \<le> j))
     \<and> (\<forall>F. map_of (js_funs s) F \<noteq> None \<longrightarrow> map_of (js_gen s) F \<noteq> None)"

section \<open>Well-formed states\<close>

lemma map_of_oids: "map_of os p = Some ob \<Longrightarrow> p \<in> oids os"
  by (induction os) (auto split: if_splits)

lemma oids_map [simp]: "oids (map (\<lambda>(q, ob). (q, f q ob)) os) = oids os"
  by (induction os) auto

lemma wf_objs_map:
  "(\<And>q ob. jo_parent (f q ob) = jo_parent ob) \<Longrightarrow>
    wf_objs (map (\<lambda>(q, ob). (q, f q ob)) os) = wf_objs os"
  by (induction os) (auto split: option.splits)

lemma set_own_frame [simp]:
  "js_funs (set_own p m v s) = js_funs s" "js_gen (set_own p m v s) = js_gen s"
  "oids (js_objs (set_own p m v s)) = oids (js_objs s)"
  "gen_of (set_own p m v s) F = gen_of s F"
  by (simp_all add: set_own_def gen_of_def)

lemma wf_state_cong:
  "js_objs s' = js_objs s \<Longrightarrow> js_gen s' = js_gen s \<Longrightarrow> js_funs s' = js_funs s \<Longrightarrow>
    wf_state s' = wf_state s"
  by (simp add: wf_state_def)

lemma wf_objs_parent:
  "wf_objs os \<Longrightarrow> map_of os r = Some ob \<Longrightarrow> jo_parent ob = Some q \<Longrightarrow> q \<in> oids os"
proof (induction os)
  case Nil
  then show ?case by simp
next
  case (Cons x os)
  obtain p o1 where "x = (p, o1)" by (cases x)
  with Cons show ?case by (cases "p = r") (simp_all split: option.splits)
qed

lemma add_proto_frame [simp]:
  "js_funs (add_proto F par s) = js_funs s"
  "gen_of (add_proto F par s) G = (if G = F then next_gen s F else gen_of s G)"
  "js_objs (add_proto F par s)
     = ((F, next_gen s F), \<lparr>jo_parent = par, jo_own = []\<rparr>) # js_objs s"
  "js_gen (add_proto F par s) = (F, next_gen s F) # js_gen s"
  by (simp_all add: add_proto_def gen_of_def next_gen_def Let_def)

lemma wf_set_own: "wf_state s \<Longrightarrow> wf_state (set_own p m v s)"
  by (simp add: wf_state_def) (simp add: set_own_def wf_objs_map)

lemma next_gen_fresh: "wf_state s \<Longrightarrow> (F, next_gen s F) \<notin> oids (js_objs s)"
  by (simp add: wf_state_def next_gen_def split: option.splits)

lemma oid_iff_add_proto:
  assumes "wf_state s"
  shows "(G, k) \<in> oids (js_objs (add_proto F par s))
      \<longleftrightarrow> (\<exists>j. map_of (js_gen (add_proto F par s)) G = Some j \<and> k \<le> j)"
proof (cases "G = F")
  case True
  have "(F, k) \<in> oids (js_objs s) \<longleftrightarrow> (\<exists>j. map_of (js_gen s) F = Some j \<and> k \<le> j)"
    using assms by (simp add: wf_state_def)
  then show ?thesis
    using True by (auto simp: next_gen_def le_Suc_eq split: option.splits)
next
  case False
  then show ?thesis using assms by (simp add: wf_state_def)
qed

lemma wf_add_proto:
  assumes "wf_state s" and "case par of None \<Rightarrow> True | Some q \<Rightarrow> q \<in> oids (js_objs s)"
  shows "wf_state (add_proto F par s)"
  using assms next_gen_fresh [OF assms(1), of F] oid_iff_add_proto [OF assms(1)]
  unfolding wf_state_def by (simp split: option.splits)

lemma wf_declareFun: "wf_state s \<Longrightarrow> wf_state (declareFun F ps b s)"
  using wf_add_proto [of s None F] by (simp add: declareFun_def wf_state_def)

lemma wf_hoist: "wf_state s \<Longrightarrow> wf_state (hoist ss s)"
  by (induction ss s rule: hoist.induct) (simp_all add: wf_declareFun)

text \<open>Instances are created with a prototype object that exists.\<close>

lemma gen_exists: "wf_state s \<Longrightarrow> map_of (js_funs s) C \<noteq> None \<Longrightarrow> (C, gen_of s C) \<in> oids (js_objs s)"
  by (auto simp: wf_state_def gen_of_def split: option.splits)

lemma eval_inst:
  "wf_state s \<Longrightarrow> eval n s e = Inr (VInst p) \<Longrightarrow> p \<in> oids (js_objs s)"
proof (induction n arbitrary: e)
  case 0
  then show ?case by (cases e) (auto split: option.splits sum.splits)
next
  case (Suc n)
  show ?case
  proof (cases e)
    case (ENew C args)
    with Suc.prems obtain ps b where C: "map_of (js_funs s) C = Some (ps, b)"
      by (auto split: option.splits)
    note ex = gen_exists [OF Suc.prems(1), of C]
    show ?thesis
      using Suc ENew C ex
      by (cases b) (auto split: sum.splits if_splits)
  qed (use Suc.prems in auto)
qed

lemma wf_exec1: "wf_state s \<Longrightarrow> exec1 c s = Inr s' \<Longrightarrow> wf_state s'"
proof (cases c)
  case (SVar x e)
  then show "wf_state s \<Longrightarrow> exec1 c s = Inr s' \<Longrightarrow> wf_state s'"
    using wf_state_cong [of s' s] by (simp split: sum.splits if_splits) fastforce+
next
  case (SSetProto C D args)
  then show "wf_state s \<Longrightarrow> exec1 c s = Inr s' \<Longrightarrow> wf_state s'"
    using eval_inst [of s stack_depth "ENew D args"] wf_add_proto [of s _ C]
    by (fastforce simp del: eval.simps split: sum.splits if_splits js_value.splits)
next
  case (SProto C m e)
  then show "wf_state s \<Longrightarrow> exec1 c s = Inr s' \<Longrightarrow> wf_state s'"
    by (auto simp del: eval.simps split: sum.splits if_splits intro: wf_set_own)
next
  case (SStatic C m e)
  then show "wf_state s \<Longrightarrow> exec1 c s = Inr s' \<Longrightarrow> wf_state s'"
    using wf_state_cong [of s' s] by (simp split: sum.splits if_splits) fastforce+
qed simp

lemma wf_exec: "wf_state s \<Longrightarrow> wf_state (fst (exec ss s))"
  by (induction ss arbitrary: s) (auto split: sum.splits dest: wf_exec1)

lemma wf_init: "wf_state js_init"
  by (simp add: wf_state_def js_init_def)

lemma wf_run: "wf_state s \<Longrightarrow> wf_state (fst (run_script items s))"
  by (auto simp: run_script_def Let_def wf_hoist wf_exec split: option.splits)

section \<open>Lookup follows the chain\<close>

lemma chain_has_Cons:
  assumes "wf_objs ((q, ob) # os)" and "p \<noteq> q"
  shows "chain_has ((q, ob) # os) p m v \<longleftrightarrow> chain_has os p m v"
proof
  have par: "map_of os r = Some o1 \<Longrightarrow> jo_parent o1 = Some r' \<Longrightarrow> r' \<in> oids os" for r o1 r'
    using wf_objs_parent assms(1) by simp
  assume "chain_has ((q, ob) # os) p m v"
  then show "chain_has os p m v"
    using assms(2)
  proof (induction rule: chain_has.induct)
    case (own p ob m v)
    then show ?case by (auto intro: chain_has.own)
  next
    case (inherited p ob' m r v)
    then have "map_of os p = Some ob'" by simp
    with inherited par have "r \<in> oids os" by blast
    then have "r \<noteq> q" using assms(1) by auto
    with inherited \<open>map_of os p = Some ob'\<close> show ?case by (auto intro: chain_has.inherited)
  qed
next
  have key: "map_of ((q, ob) # os) r = Some o1" if "map_of os r = Some o1" for r o1
    using assms(1) map_of_oids [OF that] that by auto
  assume "chain_has os p m v"
  then show "chain_has ((q, ob) # os) p m v"
  proof (induction rule: chain_has.induct)
    case (own p o2 m v)
    then show ?case using key chain_has.own by blast
  next
    case (inherited p o2 m r v)
    then show ?case using key chain_has.inherited by blast
  qed
qed

inductive_cases chain_hasE: "chain_has os p m v"

lemma lookup_complete: "wf_objs os \<Longrightarrow> chain_has os p m v \<Longrightarrow> lookup os p m = v"
proof (induction os arbitrary: p)
  case Nil
  then show ?case by (auto elim: chain_hasE)
next
  case (Cons x os)
  obtain q ob where x: "x = (q, ob)" by (cases x)
  show ?case
  proof (cases "p = q")
    case True
    from Cons.prems(2) x True
    consider "map_of (jo_own ob) m = Some v"
      | r where "map_of (jo_own ob) m = None" "jo_parent ob = Some r" "chain_has (x # os) r m v"
      by (auto elim: chain_hasE)
    then show ?thesis
    proof cases
      case 2
      then have "r \<noteq> q" using Cons.prems x by auto
      with 2 Cons x True show ?thesis
        using chain_has_Cons [of q ob os r m v] by auto
    qed (simp add: x True)
  next
    case False
    with Cons x chain_has_Cons [of q ob os p m v] show ?thesis by auto
  qed
qed

lemma lookup_sound: "wf_objs os \<Longrightarrow> lookup os p m \<noteq> VUndef \<Longrightarrow> chain_has os p m (lookup os p m)"
proof (induction os arbitrary: p)
  case Nil
  then show ?case by simp
next
  case (Cons x os)
  obtain q ob where x: "x = (q, ob)" by (cases x)
  show ?case
  proof (cases "p = q")
    case True
    show ?thesis
    proof (cases "map_of (jo_own ob) m")
      case None
      with Cons.prems x True obtain r where r: "jo_parent ob = Some r" "lookup os r m \<noteq> VUndef"
        by (auto split: option.splits)
      then have "chain_has os r m (lookup os r m)" using Cons x by auto
      moreover have "r \<noteq> q" using Cons.prems x r by auto
      ultimately have "chain_has (x # os) r m (lookup os r m)"
        using chain_has_Cons [of q ob os r m] Cons.prems x by simp
      then show ?thesis using None r x True by (auto intro: chain_has.inherited)
    next
      case (Some v)
      then show ?thesis using x True by (auto intro: chain_has.own)
    qed
  next
    case False
    with Cons x chain_has_Cons [of q ob os p m] show ?thesis by auto
  qed
qed

text \<open>Running any script, from any well-formed state, leaves a well-formed state, whether the
  script ends or stops at an error: every prototype object exists once and its parent is an older
  object, the generations number the prototype objects each function has had, without gaps, and
  every declared function has a prototype.\<close>

theorem run_script_keeps_wf:
  assumes "wf_state s"
  shows "wf_state (fst (run_script items s))"
  using assms by (rule wf_run)

theorem run_script_keeps_wf_witness: "wf_state (fst (run_script [([], SFun ''Node'' [] BEmpty)] js_init))"
  using run_script_keeps_wf [OF wf_init] .

text \<open>In a well-formed state, reading a member gives a defined value exactly when the prototype
  chain has it: the value of the nearest object of the chain that owns the member, with no own
  member of that name on the objects before it.\<close>

theorem get_member_follows_chain:
  assumes "wf_state s" and "v \<noteq> VUndef"
  shows "get_member s p m = v \<longleftrightarrow> chain_has (js_objs s) p m v"
  using assms lookup_sound [of "js_objs s" p m] lookup_complete [of "js_objs s" p m v]
  by (auto simp: get_member_def wf_state_def)

theorem get_member_follows_chain_witness:
  "chain_has (js_objs (set_own (''A'', 0) ''x'' VNull (declareFun ''A'' [] BEmpty js_init)))
     (''A'', 0) ''x'' VNull"
proof -
  let ?s = "set_own (''A'', 0) ''x'' VNull (declareFun ''A'' [] BEmpty js_init)"
  have "get_member ?s (''A'', 0) ''x'' = VNull"
    by (simp add: get_member_def set_own_def declareFun_def next_gen_def js_init_def)
  then show ?thesis
    using get_member_follows_chain [of ?s VNull "(''A'', 0)" "''x''"]
    by (simp add: wf_set_own wf_declareFun wf_init)
qed

end
