(* ===== verification/JsLoad.thy ===== *)
theory JsLoad
  imports JsCore
begin

text \<open>
  Loading a script: which references it resolves while it runs, when it runs to its end, and
  what the prototypes hold afterwards. The lemmas compare the evaluation of JsCore with
  functions on the text of the script.
\<close>

section \<open>The references of a script\<close>

fun expr_refs :: "js_expr \<Rightarrow> string list" where
  "expr_refs (ENew C args) = C # concat (map expr_refs args)"
| "expr_refs _ = []"

fun stmt_refs :: "js_stmt \<Rightarrow> string list" where
  "stmt_refs (SFun F ps b) = []"
| "stmt_refs (SVar x e) = expr_refs e"
| "stmt_refs (SSetProto C D args) = C # expr_refs (ENew D args)"
| "stmt_refs (SProto C m e) = C # expr_refs e"
| "stmt_refs (SStatic C m e) = C # expr_refs e"

fun funs_of :: "js_stmt list \<Rightarrow> (string \<times> (string list \<times> js_body)) list" where
  "funs_of [] = []"
| "funs_of (SFun F ps b # ss) = (F, (ps, b)) # funs_of ss"
| "funs_of (_ # ss) = funs_of ss"

definition declared_in :: "js_state \<Rightarrow> string \<Rightarrow> bool" where
  "declared_in s C \<longleftrightarrow> map_of (js_funs s) C \<noteq> None"

text \<open>A plain constructor, one whose body is empty.\<close>

definition plain_ctor :: "js_state \<Rightarrow> string \<Rightarrow> bool" where
  "plain_ctor s C \<longleftrightarrow> (\<exists>ps. map_of (js_funs s) C = Some (ps, BEmpty))"

lemma plain_ctor_declared: "plain_ctor s C \<Longrightarrow> declared_in s C"
  by (auto simp: plain_ctor_def declared_in_def)

lemma plain_iff_declared:
  "(\<And>ps b. map_of (js_funs s) C = Some (ps, b) \<Longrightarrow> b = BEmpty) \<Longrightarrow>
    plain_ctor s C \<longleftrightarrow> declared_in s C"
  by (fastforce simp: plain_ctor_def declared_in_def)

lemma hoist_funs [simp]: "js_funs (hoist ss s) = rev (funs_of ss) @ js_funs s"
  by (induction ss s rule: hoist.induct) (simp_all add: declareFun_def)

lemma hoist_declared:
  "declared_in (hoist ss s) C \<longleftrightarrow> C \<in> fst ` set (funs_of ss) \<or> declared_in s C"
  by (auto simp: declared_in_def map_add_None map_of_eq_None_iff simp flip: set_map)

lemma exec1_funs: "exec1 c s = Inr s' \<Longrightarrow> js_funs s' = js_funs s"
  by (cases c) (auto simp del: eval.simps split: sum.splits if_splits js_value.splits)

lemma exec_funs: "js_funs (fst (exec ss s)) = js_funs s"
  by (induction ss arbitrary: s) (auto split: sum.splits dest: exec1_funs)

lemma plain_cong: "js_funs s' = js_funs s \<Longrightarrow> plain_ctor s' = plain_ctor s"
  by (simp add: plain_ctor_def fun_eq_iff)

lemma declared_cong: "js_funs s' = js_funs s \<Longrightarrow> declared_in s' = declared_in s"
  by (simp add: declared_in_def fun_eq_iff)

section \<open>Evaluation of expressions over plain constructors\<close>

fun type_name :: "js_value \<Rightarrow> string" where
  "type_name VUndef = ''undefined''"
| "type_name VNull = ''null''"
| "type_name (VStr _) = ''String''"
| "type_name (VNum _) = ''Number''"
| "type_name (VBool _) = ''Boolean''"
| "type_name VArr = ''Array''"
| "type_name (VInst p) = fst p"
| "type_name (VFun _ _) = ''Function''"

fun expr_type :: "js_expr \<Rightarrow> string" where
  "expr_type (EStr _) = ''String''"
| "expr_type (ENum _) = ''Number''"
| "expr_type (EBool _) = ''Boolean''"
| "expr_type ENull = ''null''"
| "expr_type EArray = ''Array''"
| "expr_type (ENew C _) = C"
| "expr_type (EFun _ _) = ''Function''"

lemma eval_plain:
  "\<forall>C \<in> set (expr_refs e). plain_ctor s C \<Longrightarrow> n \<noteq> 0 \<Longrightarrow>
     \<exists>v. eval n s e = Inr v \<and> type_name v = expr_type e"
  "\<forall>C \<in> set (concat (map expr_refs es)). plain_ctor s C \<Longrightarrow> n \<noteq> 0 \<Longrightarrow>
     \<exists>vs. evals n s es = Inr vs"
proof (induction n s e and n s es rule: eval_evals.induct)
  case (7 n s C args)
  then obtain ps where C: "map_of (js_funs s) C = Some (ps, BEmpty)"
    by (auto simp: plain_ctor_def)
  have "\<exists>vs. evals n s args = Inr vs"
    using 7 by (intro "7.IH"(1) [OF C refl]) auto
  with C \<open>n \<noteq> 0\<close> show ?case by (auto split: nat.splits)
next
  case (9 n s e es)
  then obtain v where "eval n s e = Inr v" by fastforce
  with 9 show ?case by auto
qed auto

lemma eval_undeclared:
  "C \<in> set (expr_refs e) \<Longrightarrow> \<not> declared_in s C \<Longrightarrow> \<exists>err. eval n s e = Inl err"
  "C \<in> set (concat (map expr_refs es)) \<Longrightarrow> \<not> declared_in s C \<Longrightarrow> \<exists>err. evals n s es = Inl err"
proof (induction n s e and n s es rule: eval_evals.induct)
  case (7 n s D args)
  show ?case
  proof (cases "map_of (js_funs s) D")
    case (Some pb)
    obtain ps b where pb: "pb = (ps, b)" by (cases pb)
    have "C \<noteq> D" using Some pb "7.prems" by (auto simp: declared_in_def)
    then have "\<exists>err. evals n s args = Inl err"
      using "7.prems" by (intro "7.IH"(1) [OF Some pb [symmetric]]) auto
    then show ?thesis using Some pb by auto
  qed auto
next
  case (9 n s e es)
  then show ?case by (auto split: sum.splits) blast
qed auto

section \<open>When a script runs to its end\<close>

lemma eval_new_inst:
  "plain_ctor s D \<Longrightarrow> eval n s (ENew D args) = Inr v \<Longrightarrow> v = VInst (D, gen_of s D)"
  by (auto simp: plain_ctor_def split: sum.splits nat.splits)

lemma exec1_plain:
  assumes "\<forall>C \<in> set (stmt_refs c). plain_ctor s C"
  shows "\<exists>s'. exec1 c s = Inr s'"
proof -
  have sd: "stack_depth \<noteq> 0" by (simp add: stack_depth_def)
  note ev = eval_plain(1) [OF _ sd, of _ s]
  show ?thesis
  proof (cases c)
    case (SVar x e)
    then show ?thesis using ev [of e] assms by auto
  next
    case (SSetProto C D args)
    then have "map_of (js_funs s) C \<noteq> None" using assms by (auto simp: plain_ctor_def)
    moreover obtain v where "eval stack_depth s (ENew D args) = Inr v"
      using ev [of "ENew D args"] assms SSetProto by auto
    ultimately show ?thesis
      using SSetProto by (cases v) (auto simp del: eval.simps)
  next
    case (SProto C m e)
    then have "map_of (js_funs s) C \<noteq> None" using assms by (auto simp: plain_ctor_def)
    then show ?thesis using ev [of e] assms SProto by auto
  next
    case (SStatic C m e)
    then have "map_of (js_funs s) C \<noteq> None" using assms by (auto simp: plain_ctor_def)
    then show ?thesis using ev [of e] assms SStatic by auto
  qed auto
qed

lemma exec1_undeclared:
  assumes "C \<in> set (stmt_refs c)" and "\<not> declared_in s C"
  shows "\<exists>err. exec1 c s = Inl err"
proof -
  have ev: "C \<in> set (expr_refs e) \<Longrightarrow> \<exists>err. eval n s e = Inl err" for e n
    using eval_undeclared(1) assms(2) by blast
  have new: "C = D \<or> C \<in> set (concat (map expr_refs args)) \<Longrightarrow>
      \<exists>err. eval n s (ENew D args) = Inl err" for D args n
    using ev [of "ENew D args" n] by simp
  show ?thesis
  proof (cases c)
    case (SVar x e)
    then show ?thesis using assms ev [of e stack_depth] by auto
  next
    case (SSetProto D F args)
    then show ?thesis
      using assms new [of F args stack_depth]
      by (cases "C = D") (auto simp: declared_in_def simp del: eval.simps)
  next
    case (SProto D m e)
    then show ?thesis
      using assms ev [of e stack_depth] by (cases "C = D") (auto simp: declared_in_def)
  next
    case (SStatic D m e)
    then show ?thesis
      using assms ev [of e stack_depth] by (cases "C = D") (auto simp: declared_in_def)
  qed (use assms in auto)
qed

lemma exec_plain:
  "\<forall>c \<in> set ss. \<forall>C \<in> set (stmt_refs c). plain_ctor s C \<Longrightarrow> snd (exec ss s) = None"
proof (induction ss arbitrary: s)
  case (Cons c ss)
  then obtain s1 where s1: "exec1 c s = Inr s1" using exec1_plain [of c s] by auto
  then have "plain_ctor s1 = plain_ctor s" using exec1_funs plain_cong by blast
  with Cons s1 show ?case by auto
qed simp

lemma exec_undeclared:
  "c \<in> set ss \<Longrightarrow> C \<in> set (stmt_refs c) \<Longrightarrow> \<not> declared_in s C \<Longrightarrow> snd (exec ss s) \<noteq> None"
proof (induction ss arbitrary: s)
  case (Cons d ss)
  show ?case
  proof (cases "exec1 d s")
    case (Inr s1)
    then have "declared_in s1 = declared_in s" using exec1_funs declared_cong by blast
    moreover have "c \<noteq> d" using Inr exec1_undeclared Cons.prems by fastforce
    ultimately show ?thesis using Cons Inr by auto
  qed simp
qed simp

definition load_refs :: "js_item list \<Rightarrow> string list" where
  "load_refs items = concat (map (\<lambda>it. stmt_refs (snd it)) items)"

definition ctor_names :: "js_item list \<Rightarrow> string list" where
  "ctor_names items = map fst (funs_of (map snd items))"

lemma completes_iff:
  assumes "\<And>C ps b. C \<in> set (load_refs items) \<Longrightarrow>
      map_of (js_funs (hoist (map snd items) s)) C = Some (ps, b) \<Longrightarrow> b = BEmpty"
  shows "snd (run_script items s) = None \<longleftrightarrow>
      early_error (map snd items) = None
      \<and> (\<forall>C \<in> set (load_refs items). C \<in> set (ctor_names items) \<or> declared_in s C)"
proof -
  let ?h = "hoist (map snd items) s"
  have decl: "declared_in ?h C \<longleftrightarrow> C \<in> set (ctor_names items) \<or> declared_in s C" for C
    unfolding hoist_declared by (auto simp: ctor_names_def)
  have plain: "plain_ctor ?h C \<longleftrightarrow> declared_in ?h C" if "C \<in> set (load_refs items)" for C
    using assms [OF that] by (rule plain_iff_declared)
  have "snd (exec (map snd items) ?h) = None
      \<longleftrightarrow> (\<forall>C \<in> set (load_refs items). declared_in ?h C)"
  proof
    assume "snd (exec (map snd items) ?h) = None"
    then show "\<forall>C \<in> set (load_refs items). declared_in ?h C"
      using exec_undeclared [of _ "map snd items" _ ?h]
      unfolding load_refs_def set_concat set_map by blast
  next
    assume all: "\<forall>C \<in> set (load_refs items). declared_in ?h C"
    have "\<forall>c \<in> set (map snd items). \<forall>C \<in> set (stmt_refs c). plain_ctor ?h C"
    proof (intro ballI)
      fix c C
      assume "c \<in> set (map snd items)" "C \<in> set (stmt_refs c)"
      then have "C \<in> set (load_refs items)" unfolding load_refs_def by force
      then show "plain_ctor ?h C" using all plain by blast
    qed
    then show "snd (exec (map snd items) ?h) = None" by (rule exec_plain)
  qed
  then have "snd (exec (map snd items) ?h) = None
      \<longleftrightarrow> (\<forall>C \<in> set (load_refs items). C \<in> set (ctor_names items) \<or> declared_in s C)"
    by (simp only: decl)
  then show ?thesis
    by (cases "early_error (map snd items)") (simp_all add: run_script_def Let_def)
qed

text \<open>A script whose constructors have empty bodies runs to its end exactly when it has no
  early (syntax) error and every constructor that its top-level statements assign to or
  instantiate is declared, by a function declaration anywhere in the script (hoisting) or by what
  was loaded before; in every other case it ends with an error.\<close>

theorem script_completes_iff:
  assumes "\<And>C ps b. C \<in> set (load_refs items) \<Longrightarrow>
      map_of (js_funs (hoist (map snd items) s)) C = Some (ps, b) \<Longrightarrow> b = BEmpty"
  shows "snd (run_script items s) = None \<longleftrightarrow>
      early_error (map snd items) = None
      \<and> (\<forall>C \<in> set (load_refs items). C \<in> set (ctor_names items) \<or> declared_in s C)"
  using assms by (rule completes_iff)

theorem script_completes_iff_witness:
  "snd (run_script [([], SProto ''A'' ''x'' ENull), ([], SFun ''A'' [] BEmpty)] js_init) = None"
  using script_completes_iff [of "[([], SProto ''A'' ''x'' ENull), ([], SFun ''A'' [] BEmpty)]" js_init]
  by (simp add: load_refs_def ctor_names_def reserved_words_def js_init_def declareFun_def)

end
