(* ===== verification/JsMembers.thy ===== *)
theory JsMembers
  imports JsLoad
begin

text \<open>
  What the prototypes hold after a script has run: the last definition of a member in the text of
  the script is the one an instance finds, a documented member has the documented type, and a
  prototype link made before the parent's prototype is replaced hides the parent's members.
\<close>

section \<open>Own members\<close>

definition own_member :: "js_state \<Rightarrow> string \<Rightarrow> string \<Rightarrow> js_value option" where
  "own_member s C m =
     (case map_of (js_objs s) (C, gen_of s C) of
        None \<Rightarrow> None | Some ob \<Rightarrow> map_of (jo_own ob) m)"

definition call_member :: "js_state \<Rightarrow> string \<Rightarrow> string \<Rightarrow> js_error + js_value" where
  "call_member s C m = invoke stack_depth s (get_member s (C, gen_of s C) m)"

text \<open>The last definition of member \<open>m\<close> on the current prototype of \<open>C\<close>, with its documentation.\<close>

fun last_def :: "string \<Rightarrow> string \<Rightarrow> js_item list \<Rightarrow> (js_tag list \<times> js_expr) option
    \<Rightarrow> (js_tag list \<times> js_expr) option" where
  "last_def C m [] acc = acc"
| "last_def C m ((ts, st) # its) acc =
     last_def C m its
       (case st of
          SProto D k e \<Rightarrow> (if D = C \<and> k = m then Some (ts, e) else acc)
        | SSetProto D _ _ \<Rightarrow> (if D = C then None else acc)
        | _ \<Rightarrow> acc)"

lemma last_def_append: "last_def C m (xs @ ys) acc = last_def C m ys (last_def C m xs acc)"
  by (induction C m xs acc rule: last_def.induct) simp_all

lemma last_def_mem:
  "last_def C m its acc = Some (ts, e) \<Longrightarrow> acc = Some (ts, e) \<or> (ts, SProto C m e) \<in> set its"
  by (induction C m its acc rule: last_def.induct) (auto split: js_stmt.splits if_splits)

text \<open>Every object key is unique, so a look at the list finds the object itself.\<close>

lemma map_of_map_objs:
  "map_of (map (\<lambda>(q, ob). (q, f q ob)) os) p = map_option (f p) (map_of os p)"
  by (induction os) auto

lemma oids_map_of: "p \<in> oids os \<Longrightarrow> \<exists>ob. map_of os p = Some ob"
  by (induction os rule: oids.induct) auto

lemma own_member_add_proto:
  assumes "wf_state s"
  shows "own_member (add_proto F par s) C m = (if C = F then None else own_member s C m)"
  by (auto simp: own_member_def)

lemma own_member_set_own:
  assumes "wf_state s" and "declared_in s D"
  shows "own_member (set_own (D, gen_of s D) k v s) C m =
      (if C = D \<and> m = k then Some v else own_member s C m)"
proof -
  have "(D, gen_of s D) \<in> oids (js_objs s)"
    using gen_exists assms by (auto simp: declared_in_def)
  then have "\<exists>ob. map_of (js_objs s) (D, gen_of s D) = Some ob"
    by (rule oids_map_of)
  then show ?thesis
    by (auto simp: own_member_def set_own_def map_of_map_objs gen_of_def update_conv'
        split: option.splits)
qed

lemma own_member_cong:
  "js_objs s' = js_objs s \<Longrightarrow> js_gen s' = js_gen s \<Longrightarrow> own_member s' = own_member s"
  by (simp add: own_member_def gen_of_def fun_eq_iff)

lemma own_member_hoist:
  "wf_state s \<Longrightarrow> own_member (hoist ss s) C m =
     (if C \<in> fst ` set (funs_of ss) then None else own_member s C m)"
proof (induction ss s rule: hoist.induct)
  case (2 F ps b ss s)
  have "own_member (declareFun F ps b s) C m = own_member (add_proto F None s) C m"
    by (rule own_member_cong [THEN fun_cong, THEN fun_cong]) (simp_all add: declareFun_def)
  with 2 show ?case
    by (cases "C = F") (auto simp: wf_declareFun own_member_add_proto)
qed simp_all

lemma own_get_member:
  assumes "wf_state s" and "own_member s C m = Some v"
  shows "get_member s (C, gen_of s C) m = v"
proof -
  have "chain_has (js_objs s) (C, gen_of s C) m v"
    using assms(2) by (auto simp: own_member_def split: option.splits intro: chain_has.own)
  then show ?thesis
    using assms(1) by (simp add: get_member_def wf_state_def lookup_complete)
qed

section \<open>Members after a run\<close>

fun value_matches :: "js_expr \<Rightarrow> js_value \<Rightarrow> bool" where
  "value_matches (EFun ps b) v = (v = VFun ps b)"
| "value_matches e v = (type_name v = expr_type e)"

definition own_matches :: "(js_tag list \<times> js_expr) option \<Rightarrow> js_value option \<Rightarrow> bool" where
  "own_matches d v = (case d of None \<Rightarrow> v = None | Some (_, e) \<Rightarrow> \<exists>x. v = Some x \<and> value_matches e x)"

lemma eval_matches:
  assumes "\<forall>C \<in> set (expr_refs e). plain_ctor s C" and "eval stack_depth s e = Inr v"
  shows "value_matches e v"
proof -
  have "type_name v = expr_type e"
    using eval_plain(1) [of e s stack_depth] assms by (simp add: stack_depth_def)
  then show ?thesis using assms(2) by (cases e) auto
qed

text \<open>One statement changes the members as its text says.\<close>

lemma exec1_own:
  assumes "wf_state s" and "\<forall>F \<in> set (stmt_refs st). plain_ctor s F"
    and "exec1 st s = Inr s'" and "own_matches acc (own_member s C m)"
  shows "own_matches
      (case st of
          SProto D k e \<Rightarrow> (if D = C \<and> k = m then Some (ts, e) else acc)
        | SSetProto D _ _ \<Rightarrow> (if D = C then None else acc)
        | _ \<Rightarrow> acc) (own_member s' C m)"
proof (cases st)
  case (SVar x e)
  then have "js_objs s' = js_objs s" "js_gen s' = js_gen s"
    using assms(3) by (auto split: sum.splits if_splits)
  then have "own_member s' = own_member s" by (rule own_member_cong)
  then show ?thesis using SVar assms(4) by simp
next
  case (SStatic D k e)
  then have "js_objs s' = js_objs s" "js_gen s' = js_gen s"
    using assms(3) by (auto split: sum.splits if_splits)
  then have "own_member s' = own_member s" by (rule own_member_cong)
  then show ?thesis using SStatic assms(4) by simp
next
  case (SSetProto D F args)
  then obtain par where "s' = add_proto D par s"
    using assms(3) by (auto simp del: eval.simps split: sum.splits if_splits js_value.splits)
  then show ?thesis
    using SSetProto assms(1,4) by (auto simp: own_member_add_proto own_matches_def)
next
  case (SProto D k e)
  then obtain v where v: "eval stack_depth s e = Inr v" "s' = set_own (D, gen_of s D) k v s"
    using assms(3) by (auto simp del: eval.simps split: sum.splits if_splits)
  have "value_matches e v" using v(1) assms(2) SProto by (intro eval_matches) auto
  moreover have "declared_in s D" using assms(2) SProto by (auto intro: plain_ctor_declared)
  ultimately show ?thesis
    using SProto v assms(1,4) by (auto simp: own_member_set_own own_matches_def)
qed (use assms in auto)

lemma exec_own:
  "wf_state s \<Longrightarrow> \<forall>it \<in> set its. \<forall>F \<in> set (stmt_refs (snd it)). plain_ctor s F \<Longrightarrow>
    exec (map snd its) s = (s', None) \<Longrightarrow> own_matches acc (own_member s C m) \<Longrightarrow>
    own_matches (last_def C m its acc) (own_member s' C m)"
proof (induction its arbitrary: s acc)
  case (Cons it its)
  obtain ts st where it: "it = (ts, st)" by (cases it)
  with Cons.prems obtain s1 where s1: "exec1 st s = Inr s1" "exec (map snd its) s1 = (s', None)"
    by (auto split: sum.splits)
  have "plain_ctor s1 = plain_ctor s" using s1(1) exec1_funs plain_cong by blast
  then show ?case
    using Cons.IH [OF wf_exec1 [OF Cons.prems(1) s1(1)] _ s1(2)
        exec1_own [OF Cons.prems(1) _ s1(1) Cons.prems(4)]] Cons.prems(2) it
    by auto
qed simp

definition plain_script :: "js_item list \<Rightarrow> js_state \<Rightarrow> bool" where
  "plain_script items s \<longleftrightarrow>
     (\<forall>C \<in> set (load_refs items). plain_ctor (hoist (map snd items) s) C)"

lemma run_ok:
  "run_script items s = (s', None) \<Longrightarrow>
    exec (map snd items) (hoist (map snd items) s) = (s', None)"
  by (auto simp: run_script_def Let_def split: option.splits)

lemma run_funs:
  "run_script items s = (s', None) \<Longrightarrow> js_funs s' = js_funs (hoist (map snd items) s)"
  using exec_funs [of "map snd items" "hoist (map snd items) s"] by (simp add: run_ok)

lemma run_own:
  assumes "wf_state s" and "plain_script items s" and "run_script items s = (s', None)"
    and "C \<in> set (ctor_names items)"
  shows "own_matches (last_def C m items None) (own_member s' C m)"
proof (rule exec_own [OF _ _ run_ok [OF assms(3)]])
  show "wf_state (hoist (map snd items) s)" using assms(1) by (rule wf_hoist)
  show "\<forall>it \<in> set items. \<forall>F \<in> set (stmt_refs (snd it)). plain_ctor (hoist (map snd items) s) F"
    using assms(2) by (auto simp: plain_script_def load_refs_def)
  show "own_matches None (own_member (hoist (map snd items) s) C m)"
    using assms(1,4) by (simp add: own_member_hoist ctor_names_def own_matches_def)
qed

section \<open>Calling a member\<close>

fun result_type :: "js_body \<Rightarrow> string" where
  "result_type (BReturn e) = expr_type e"
| "result_type _ = ''undefined''"

fun body_refs :: "js_body \<Rightarrow> string list" where
  "body_refs BEmpty = []"
| "body_refs (BReturn e) = expr_refs e"
| "body_refs (BExpr e) = expr_refs e"

lemma invoke_plain:
  assumes "\<forall>F \<in> set (body_refs b). plain_ctor s F"
  shows "\<exists>v. invoke stack_depth s (VFun ps b) = Inr v \<and> type_name v = result_type b"
proof -
  have sd: "stack_depth \<noteq> 0" by (simp add: stack_depth_def)
  show ?thesis
    using assms eval_plain(1) [OF _ sd, of _ s] by (cases b) fastforce+
qed

lemma run_method:
  assumes "wf_state s" and "plain_script items s" and "run_script items s = (s', None)"
    and "C \<in> set (ctor_names items)" and "last_def C m items None = Some (ts, EFun ps b)"
    and "\<forall>F \<in> set (body_refs b). plain_ctor s' F"
  shows "\<exists>v. call_member s' C m = Inr v \<and> type_name v = result_type b"
proof -
  have "own_member s' C m = Some (VFun ps b)"
    using run_own [OF assms(1-4), of m] assms(5) by (auto simp: own_matches_def)
  moreover have "wf_state s'" using wf_run [OF assms(1), of items] assms(3) by simp
  ultimately have "get_member s' (C, gen_of s' C) m = VFun ps b" by (rule own_get_member [rotated])
  then show ?thesis using invoke_plain [OF assms(6)] by (simp add: call_member_def)
qed

lemma run_value:
  assumes "wf_state s" and "plain_script items s" and "run_script items s = (s', None)"
    and "C \<in> set (ctor_names items)" and "last_def C m items None = Some (ts, e)"
  shows "type_name (get_member s' (C, gen_of s' C) m) = expr_type e"
proof -
  obtain v where v: "own_member s' C m = Some v" "value_matches e v"
    using run_own [OF assms(1-4), of m] assms(5) by (auto simp: own_matches_def)
  moreover have "wf_state s'" using wf_run [OF assms(1), of items] assms(3) by simp
  ultimately have "get_member s' (C, gen_of s' C) m = v" by (metis own_get_member)
  then show ?thesis using v(2) by (cases e) auto
qed

section \<open>Documented types\<close>

lemma length_delete_less: "map_of es C = Some D \<Longrightarrow> length (AList.delete C es) < length es"
proof (induction es)
  case (Cons x es)
  then show ?case
    using length_delete_le [of C es] by (cases x) (auto split: if_splits)
qed simp

text \<open>
  The classes a class extends, along the assignments \<open>C.prototype = new D()\<close>. The first pair
  with a given class counts.
\<close>

function ancestors :: "(string \<times> string) list \<Rightarrow> string \<Rightarrow> string list" where
  "ancestors es C = C # (case map_of es C of None \<Rightarrow> [] | Some D \<Rightarrow> ancestors (AList.delete C es) D)"
  by auto

termination
  by (relation "measure (\<lambda>(es, C). length es)") (simp_all add: length_delete_less)

declare ancestors.simps [simp del]

definition extends_rel :: "(string \<times> string) list \<Rightarrow> (string \<times> string) set" where
  "extends_rel es = {(C, D). map_of es C = Some D}"

text \<open>Dropping the edge of \<open>C\<close> loses nothing that is reached after it.\<close>

lemma reach_delete:
  assumes "map_of es C = Some D"
  shows "(C, X) \<in> (extends_rel es)\<^sup>* \<longleftrightarrow> X = C \<or> (D, X) \<in> (extends_rel (AList.delete C es))\<^sup>*"
    (is "_ \<longleftrightarrow> _ \<or> (D, X) \<in> ?R\<^sup>*")
proof
  assume "(C, X) \<in> (extends_rel es)\<^sup>*"
  then show "X = C \<or> (D, X) \<in> ?R\<^sup>*"
  proof (induction rule: rtrancl_induct)
    case (step Y Z)
    show ?case
    proof (cases "Y = C")
      case True
      then have "Z = D" using step(2) assms by (auto simp: extends_rel_def)
      then show ?thesis by simp
    next
      case False
      then have "(Y, Z) \<in> ?R" using step(2) by (simp add: extends_rel_def delete_conv')
      then show ?thesis using step(3) False by (meson rtrancl.rtrancl_into_rtrancl)
    qed
  qed simp
next
  have "?R \<subseteq> extends_rel es" by (auto simp: extends_rel_def delete_conv' split: if_splits)
  then have "?R\<^sup>* \<subseteq> (extends_rel es)\<^sup>*" by (rule rtrancl_mono)
  moreover have "(C, D) \<in> extends_rel es" using assms by (simp add: extends_rel_def)
  ultimately show "X = C \<or> (D, X) \<in> ?R\<^sup>* \<Longrightarrow> (C, X) \<in> (extends_rel es)\<^sup>*"
    by (meson converse_rtrancl_into_rtrancl rtrancl.rtrancl_refl subsetD)
qed

lemma ancestors_iff: "D \<in> set (ancestors es C) \<longleftrightarrow> (C, D) \<in> (extends_rel es)\<^sup>*"
proof (induction es C rule: ancestors.induct)
  case (1 es C)
  show ?case
  proof (cases "map_of es C")
    case None
    then have "(C, D) \<in> (extends_rel es)\<^sup>* \<longleftrightarrow> D = C"
      by (auto simp: extends_rel_def elim: converse_rtranclE)
    then show ?thesis using None by (simp add: ancestors.simps [of es C])
  next
    case (Some P)
    then show ?thesis
      using 1 [OF Some] reach_delete [OF Some] by (auto simp: ancestors.simps [of es C])
  qed
qed

fun doc_returns :: "js_tag list \<Rightarrow> string option" where
  "doc_returns [] = None"
| "doc_returns (TReturns t # ts) = Some t"
| "doc_returns (_ # ts) = doc_returns ts"

fun doc_type :: "js_tag list \<Rightarrow> string option" where
  "doc_type [] = None"
| "doc_type (TType t # ts) = Some t"
| "doc_type (_ # ts) = doc_type ts"

text \<open>
  The result of a method is documented with \<open>@returns\<close>, or with \<open>@type\<close> where there is no
  \<open>@returns\<close> and the type is not the one of the member itself.
\<close>

definition doc_result :: "js_tag list \<Rightarrow> string option" where
  "doc_result ts = (case doc_returns ts of Some t \<Rightarrow> Some t
     | None \<Rightarrow> (if doc_type ts = Some ''Function'' then None else doc_type ts))"

definition conforms :: "(string \<times> string) list \<Rightarrow> string \<Rightarrow> string option \<Rightarrow> bool" where
  "conforms es T d = (case d of None \<Rightarrow> True | Some t \<Rightarrow> t \<in> set (ancestors es T))"

definition member_ok :: "(string \<times> string) list \<Rightarrow> (string \<Rightarrow> bool) \<Rightarrow> js_tag list \<Rightarrow> js_expr \<Rightarrow> bool" where
  "member_ok es ctors ts e =
     (case e of
        EFun ps b \<Rightarrow> list_all ctors (body_refs b) \<and> conforms es (result_type b) (doc_result ts)
      | _ \<Rightarrow> conforms es (expr_type e) (doc_type ts))"

text \<open>The members of a script that are not listed as exceptions pass the check.\<close>

definition item_ok :: "(string \<times> string) list \<Rightarrow> (string \<Rightarrow> bool) \<Rightarrow> (string \<times> string) list
    \<Rightarrow> js_item \<Rightarrow> bool" where
  "item_ok es ctors exc it =
     (case snd it of SProto C m e \<Rightarrow> 
          (if member_ok es ctors (fst it) e then True else (C, m) \<in> set exc) | _ \<Rightarrow> True)"

definition is_method :: "js_expr \<Rightarrow> bool" where
  "is_method e = (case e of EFun _ _ \<Rightarrow> True | _ \<Rightarrow> False)"

lemma last_def_ok:
  assumes "list_all (item_ok es ctors exc) items" and "last_def C m items None = Some (ts, e)"
    and "(C, m) \<notin> set exc"
  shows "member_ok es ctors ts e"
  using last_def_mem [OF assms(2)] assms(1,3) by (auto simp: list_all_iff item_ok_def split: if_splits)

lemma member_types:
  assumes "wf_state s" and "plain_script items s" and "run_script items s = (s', None)"
    and "C \<in> set (ctor_names items)" and "last_def C m items None = Some (ts, e)"
    and "member_ok es ctors ts e" and "\<And>F. ctors F \<Longrightarrow> plain_ctor s' F"
  shows "if is_method e
    then \<exists>v. call_member s' C m = Inr v \<and> conforms es (type_name v) (doc_result ts)
    else conforms es (type_name (get_member s' (C, gen_of s' C) m)) (doc_type ts)"
proof (cases "is_method e")
  case True
  then obtain ps b where e: "e = EFun ps b" by (auto simp: is_method_def split: js_expr.splits)
  then have "\<forall>F \<in> set (body_refs b). plain_ctor s' F"
    using assms(6,7) by (auto simp: member_ok_def list_all_iff)
  then show ?thesis
    using run_method [OF assms(1-4), of m ts ps b] assms(5,6) e
    by (auto simp: member_ok_def is_method_def)
next
  case False
  then show ?thesis
    using run_value [OF assms(1-5)] assms(6)
    by (cases e) (auto simp: member_ok_def is_method_def)
qed

text \<open>After a script has run, reading a documented data member of a class gives a value whose
  class is the documented one or extends it, and calling a documented method returns such a value,
  for every class the script declares and every member it defines that the documentation check
  accepts.\<close>

theorem documented_member_types:
  assumes "wf_state s" and "plain_script items s" and "run_script items s = (s', None)"
    and "C \<in> set (ctor_names items)" and "last_def C m items None = Some (ts, e)"
    and "member_ok es ctors ts e" and "\<And>F. ctors F \<Longrightarrow> plain_ctor s' F"
  shows "if is_method e
    then \<exists>v. call_member s' C m = Inr v \<and> conforms es (type_name v) (doc_result ts)
    else conforms es (type_name (get_member s' (C, gen_of s' C) m)) (doc_type ts)"
  using assms by (rule member_types)

definition tiny_script :: "js_item list" where
  "tiny_script = [([], SFun ''A'' [] BEmpty), ([], SSetProto ''A'' ''A'' []),
     ([TType ''Number''], SProto ''A'' ''x'' (ENum 1))]"

lemma tiny_run: "run_script tiny_script js_init = (fst (run_script tiny_script js_init), None)"
  by code_simp

theorem documented_member_types_witness:
  "conforms [] (type_name (get_member (fst (run_script tiny_script js_init))
     (''A'', gen_of (fst (run_script tiny_script js_init)) ''A'') ''x'')) (Some ''Number'')"
  using documented_member_types [OF wf_init _ tiny_run, of "''A''" "''x''" "[TType ''Number'']" "ENum 1"
      "[]" "\<lambda>_. False"]
  by (simp add: plain_script_def load_refs_def tiny_script_def plain_ctor_def js_init_def
      declareFun_def ctor_names_def member_ok_def conforms_def ancestors.simps is_method_def)

end
