(* ===== verification/JsStale.thy ===== *)
theory JsStale
  imports JsMembers
begin

text \<open>
  The order of the prototype assignments. The library scripts link a class to its parent with
  \<open>C.prototype = new D()\<close>; an instance of \<open>D\<close> keeps the prototype \<open>D\<close> had at that moment, so a
  later assignment to \<open>D.prototype\<close> leaves \<open>C\<close> with the old object.
\<close>

section \<open>What later statements leave alone\<close>

lemma exec1_setproto: "exec1 (SSetProto C D args) s = Inr s' \<Longrightarrow> \<exists>par. s' = add_proto C par s"
  by (auto simp del: eval.simps split: sum.splits if_splits js_value.splits)

lemma exec1_gen_mono: "exec1 st s = Inr s' \<Longrightarrow> gen_of s D \<le> gen_of s' D"
proof (cases st)
  case (SSetProto C E args)
  moreover have "gen_of s C \<le> next_gen s C"
    by (simp add: gen_of_def next_gen_def split: option.splits)
  ultimately show "exec1 st s = Inr s' \<Longrightarrow> gen_of s D \<le> gen_of s' D"
    using exec1_setproto [of C E args s s'] by auto
qed (auto simp: gen_of_def simp del: eval.simps split: sum.splits if_splits)

lemma exec1_gen_same:
  assumes "exec1 st s = Inr s'" and "\<And>E args. st \<noteq> SSetProto D E args"
  shows "gen_of s' D = gen_of s D"
proof (cases st)
  case (SSetProto C E args)
  then have "C \<noteq> D" using assms(2) by auto
  then show ?thesis using SSetProto assms(1) exec1_setproto [of C E args s s'] by auto
qed (use assms in \<open>auto simp del: eval.simps simp: gen_of_def split: sum.splits if_splits\<close>)

lemma exec_gen_same:
  "exec ss s = (s', None) \<Longrightarrow> \<forall>st \<in> set ss. \<forall>E args. st \<noteq> SSetProto D E args \<Longrightarrow>
    gen_of s' D = gen_of s D"
proof (induction ss arbitrary: s)
  case (Cons st ss)
  then obtain s1 where "exec1 st s = Inr s1" "exec ss s1 = (s', None)"
    by (auto split: sum.splits)
  with Cons show ?case using exec1_gen_same [of st s s1 D] by simp
qed simp

definition same_member :: "string \<Rightarrow> js_obj \<Rightarrow> js_obj \<Rightarrow> bool" where
  "same_member m ob ob' \<longleftrightarrow> jo_parent ob' = jo_parent ob
     \<and> map_of (jo_own ob') m = map_of (jo_own ob) m"

lemma exec1_frame:
  assumes wf: "wf_state s" and ex: "exec1 st s = Inr s'"
    and ob: "map_of (js_objs s) (D, k) = Some ob"
    and un: "(\<forall>e. st \<noteq> SProto D m e) \<or> k < gen_of s D"
  shows "\<exists>ob'. map_of (js_objs s') (D, k) = Some ob' \<and> same_member m ob ob'"
proof (cases st)
  case (SSetProto C E args)
  then obtain par where s': "s' = add_proto C par s"
    using ex exec1_setproto by blast
  have "(D, k) \<noteq> (C, next_gen s C)"
    using next_gen_fresh [OF wf, of C] map_of_oids [OF ob] by auto
  then show ?thesis using s' ob by (auto simp: same_member_def)
next
  case (SProto C n e)
  then obtain v where "s' = set_own (C, gen_of s C) n v s"
    using ex by (auto simp del: eval.simps split: sum.splits if_splits)
  then show ?thesis
    using SProto ob un
    by (auto simp: set_own_def map_of_map_objs same_member_def update_conv')
qed (use ex ob in \<open>auto simp: same_member_def simp del: eval.simps split: sum.splits if_splits\<close>)

lemma exec_frame:
  "wf_state s \<Longrightarrow> exec ss s = (s', None) \<Longrightarrow> map_of (js_objs s) (D, k) = Some ob \<Longrightarrow>
    (\<forall>st \<in> set ss. \<forall>e. st \<noteq> SProto D m e) \<or> k < gen_of s D \<Longrightarrow>
    \<exists>ob'. map_of (js_objs s') (D, k) = Some ob' \<and> same_member m ob ob'"
proof (induction ss arbitrary: s ob)
  case (Cons st ss)
  then obtain s1 where s1: "exec1 st s = Inr s1" "exec ss s1 = (s', None)"
    by (auto split: sum.splits)
  obtain ob1 where ob1: "map_of (js_objs s1) (D, k) = Some ob1" "same_member m ob ob1"
    using exec1_frame [OF Cons.prems(1) s1(1) Cons.prems(3), of m] Cons.prems(4) by auto
  have "(\<forall>st \<in> set ss. \<forall>e. st \<noteq> SProto D m e) \<or> k < gen_of s1 D"
    using Cons.prems(4) exec1_gen_mono [OF s1(1), of D] by auto
  then show ?case
    using Cons.IH [OF wf_exec1 [OF Cons.prems(1) s1(1)] s1(2) ob1(1)] ob1(2)
    by (auto simp: same_member_def)
qed (auto simp: same_member_def)

lemma exec_parent:
  "wf_state s \<Longrightarrow> exec ss s = (s', None) \<Longrightarrow> map_of (js_objs s) p = Some ob \<Longrightarrow>
    \<exists>ob'. map_of (js_objs s') p = Some ob' \<and> jo_parent ob' = jo_parent ob"
proof (induction ss arbitrary: s ob)
  case (Cons st ss)
  then obtain s1 where s1: "exec1 st s = Inr s1" "exec ss s1 = (s', None)"
    by (auto split: sum.splits)
  have "\<exists>ob1. map_of (js_objs s1) p = Some ob1 \<and> jo_parent ob1 = jo_parent ob"
  proof (cases st)
    case (SSetProto C D args)
    then obtain par where "s1 = add_proto C par s" using s1(1) exec1_setproto by blast
    then show ?thesis
      using next_gen_fresh [OF Cons.prems(1), of C] map_of_oids [OF Cons.prems(3)] Cons.prems(3)
      by auto
  next
    case (SProto C n e)
    then obtain v where "s1 = set_own (C, gen_of s C) n v s"
      using s1(1) by (auto simp del: eval.simps split: sum.splits if_splits)
    then show ?thesis using Cons.prems(3) by (auto simp: set_own_def map_of_map_objs)
  qed (use s1(1) Cons.prems(3) in \<open>auto simp del: eval.simps split: sum.splits if_splits\<close>)
  then show ?case using Cons.IH [OF wf_exec1 [OF Cons.prems(1) s1(1)] s1(2)] by auto
qed simp

lemma exec_append:
  "exec (xs @ ys) s = (s', None) \<Longrightarrow> \<exists>s1. exec xs s = (s1, None) \<and> exec ys s1 = (s', None)"
  by (induction xs arbitrary: s) (auto split: sum.splits)

lemma exec_setproto:
  assumes "exec (SSetProto C D args # ss) s = (s', None)" and "plain_ctor s D"
  shows "exec ss (add_proto C (Some (D, gen_of s D)) s) = (s', None)"
  using assms eval_new_inst [OF assms(2), of stack_depth args]
  by (auto simp del: eval.simps split: sum.splits if_splits js_value.splits)

text \<open>A hoisted function starts with an empty prototype of its own.\<close>

lemma hoist_obj:
  "wf_state s \<Longrightarrow> D \<in> fst ` set (funs_of ss) \<Longrightarrow>
    map_of (js_objs (hoist ss s)) (D, gen_of (hoist ss s) D) = Some \<lparr>jo_parent = None, jo_own = []\<rparr>"
proof (induction ss s rule: hoist.induct)
  case (2 F ps b ss s)
  then show ?case
  proof (cases "D \<in> fst ` set (funs_of ss)")
    case False
    have keep: "D \<notin> fst ` set (funs_of ss) \<Longrightarrow> wf_state t \<Longrightarrow> map_of (js_objs t) (D, k) = Some ob \<Longrightarrow>
        map_of (js_objs (hoist ss t)) (D, k) = Some ob \<and> gen_of (hoist ss t) D = gen_of t D"
      for t k ob
    proof (induction ss t rule: hoist.induct)
      case (2 G qs c ss t)
      then show ?case by (simp add: wf_declareFun) (simp add: declareFun_def gen_of_def)
    qed simp_all
    from False 2 have "D = F" by simp
    then show ?thesis
      using keep [OF False wf_declareFun [OF 2(2)], of F ps b "next_gen s F"]
      by (simp add: declareFun_def gen_of_def)
  qed (simp add: wf_declareFun)
qed simp_all

section \<open>A stale prototype hides the members of the parent\<close>

text \<open>Once its class has a new prototype, nothing writes to the old one any more.\<close>

lemma exec_old_object:
  assumes "wf_state s" and "exec (mid @ SSetProto D E args # post) s = (s', None)"
    and "map_of (js_objs s) (D, gen_of s D) = Some ob"
    and "\<forall>st \<in> set mid. \<forall>E args. st \<noteq> SSetProto D E args"
    and "\<forall>st \<in> set mid. \<forall>e. st \<noteq> SProto D m e" and "declared_in s D"
  shows "\<exists>ob'. map_of (js_objs s') (D, gen_of s D) = Some ob' \<and> same_member m ob ob'"
proof -
  obtain s3 where s3: "exec mid s = (s3, None)"
      "exec (SSetProto D E args # post) s3 = (s', None)"
    using exec_append [OF assms(2)] by blast
  then obtain s4 where s4: "exec1 (SSetProto D E args) s3 = Inr s4" "exec post s4 = (s', None)"
    by (cases "exec1 (SSetProto D E args) s3") (simp_all del: exec1.simps)
  have wf3: "wf_state s3" using wf_exec [OF assms(1), of mid] s3(1) by simp
  obtain ob3 where ob3: "map_of (js_objs s3) (D, gen_of s D) = Some ob3" "same_member m ob ob3"
    using exec_frame [OF assms(1) s3(1) assms(3), of m] assms(5) by auto
  have g3: "gen_of s3 D = gen_of s D" using exec_gen_same [OF s3(1) assms(4)] .
  obtain par where par: "s4 = add_proto D par s3" using exec1_setproto [OF s4(1)] by blast
  have "declared_in s3 D"
    using declared_cong [of s3 s] exec_funs [of mid s] s3(1) assms(6) by simp
  then have "(D, gen_of s3 D) \<in> oids (js_objs s3)"
    using gen_exists [OF wf3, of D] by (simp add: declared_in_def)
  then have lt: "gen_of s D < gen_of s4 D"
    using wf3 g3 par
    by (auto simp: wf_state_def gen_of_def next_gen_def split: option.splits)
  have "map_of (js_objs s4) (D, gen_of s D) = Some ob3"
    using ob3(1) lt par by auto
  from exec_frame [OF wf_exec1 [OF wf3 s4(1)] s4(2) this, of m] lt ob3(2)
  show ?thesis by (auto simp: same_member_def)
qed

lemma get_member_missing:
  assumes "wf_state s" and "map_of (js_objs s) p = Some ob" "map_of (jo_own ob) m = None"
    and "jo_parent ob = Some q" and "map_of (js_objs s) q = Some ob'"
    and "map_of (jo_own ob') m = None" "jo_parent ob' = None"
  shows "get_member s p m = VUndef"
proof (rule ccontr)
  assume "get_member s p m \<noteq> VUndef"
  then have "chain_has (js_objs s) p m (get_member s p m)"
    using assms(1) lookup_sound by (simp add: get_member_def wf_state_def)
  then have "chain_has (js_objs s) q m (get_member s p m)"
    using assms(2-4) by (auto elim: chain_hasE)
  then show False using assms(5-7) by (auto elim: chain_hasE)
qed

text \<open>
  \<open>never_set D m ss\<close>: no statement of \<open>ss\<close> assigns \<open>D.prototype.m\<close> before \<open>D.prototype\<close> itself is
  replaced. \<open>misses C D m ss\<close>: the script links \<open>C\<close>, once, to the prototype that \<open>D\<close> was declared
  with, and that object never gets \<open>m\<close>.
\<close>

fun never_set :: "string \<Rightarrow> string \<Rightarrow> js_stmt list \<Rightarrow> bool" where
  "never_set D m [] = True"
| "never_set D m (SSetProto F E args # ss) = (if F = D then True else never_set D m ss)"
| "never_set D m (SProto F k e # ss) = (if F = D \<and> k = m then False else never_set D m ss)"
| "never_set D m (_ # ss) = never_set D m ss"

fun sets_proto :: "string \<Rightarrow> js_stmt \<Rightarrow> bool" where
  "sets_proto C (SSetProto F _ _) = (F = C)"
| "sets_proto C _ = False"

fun misses :: "string \<Rightarrow> string \<Rightarrow> string \<Rightarrow> js_stmt list \<Rightarrow> bool" where
  "misses C D m [] = False"
| "misses C D m (SSetProto F E args # ss) =
     (if F = C then E = D \<and> never_set D m ss \<and> list_all (\<lambda>st. \<not> sets_proto C st) ss
      else if F = D then False else misses C D m ss)"
| "misses C D m (SProto F k e # ss) = (if F = D \<and> k = m then False else misses C D m ss)"
| "misses C D m (_ # ss) = misses C D m ss"

lemma sets_proto_iff: "sets_proto C st \<longleftrightarrow> (\<exists>E args. st = SSetProto C E args)"
  by (cases st) auto

definition quiet :: "string \<Rightarrow> string \<Rightarrow> js_stmt list \<Rightarrow> bool" where
  "quiet D m ss \<longleftrightarrow> (\<forall>st \<in> set ss. \<forall>E args. st \<noteq> SSetProto D E args)
     \<and> (\<forall>st \<in> set ss. \<forall>e. st \<noteq> SProto D m e)"

lemma never_set_split:
  "never_set D m ss \<Longrightarrow>
    quiet D m ss \<or> (\<exists>mid E args post. ss = mid @ SSetProto D E args # post \<and> quiet D m mid)"
proof (induction D m ss rule: never_set.induct)
  case (2 D m F E args ss)
  show ?case
  proof (cases "F = D")
    case True
    then have "SSetProto F E args # ss = [] @ SSetProto D E args # ss \<and> quiet D m []"
      by (simp add: quiet_def)
    then show ?thesis by blast
  next
    case False
    with 2 consider "quiet D m ss"
      | mid E' args' post where "ss = mid @ SSetProto D E' args' # post" "quiet D m mid"
      by auto
    then show ?thesis
    proof cases
      case 2
      then have "SSetProto F E args # ss
            = (SSetProto F E args # mid) @ SSetProto D E' args' # post"
        "quiet D m (SSetProto F E args # mid)"
        using False by (simp_all add: quiet_def)
      then show ?thesis by blast
    qed (use False in \<open>simp add: quiet_def\<close>)
  qed
qed (fastforce simp: quiet_def Cons_eq_append_conv split: if_splits)+

definition early_link :: "string \<Rightarrow> string \<Rightarrow> string \<Rightarrow> js_stmt list \<Rightarrow> bool" where
  "early_link C D m ss \<longleftrightarrow> (\<exists>pre args rest. ss = pre @ SSetProto C D args # rest \<and> quiet D m pre
     \<and> never_set D m rest \<and> list_all (\<lambda>st. \<not> sets_proto C st) rest)"

lemma early_link_Cons: "early_link C D m ss \<Longrightarrow> quiet D m [st] \<Longrightarrow> early_link C D m (st # ss)"
  unfolding early_link_def quiet_def
  by (elim exE conjE, rule_tac x = "st # pre" in exI) auto

lemma misses_early_link: "misses C D m ss \<Longrightarrow> C \<noteq> D \<Longrightarrow> early_link C D m ss"
proof (induction C D m ss rule: misses.induct)
  case (2 C D m F E args ss)
  show ?case
  proof (cases "F = C")
    case True
    with 2 have "SSetProto F E args # ss = [] @ SSetProto C D args # ss \<and> quiet D m []
        \<and> never_set D m ss \<and> list_all (\<lambda>st. \<not> sets_proto C st) ss"
      by (simp add: quiet_def)
    then show ?thesis unfolding early_link_def by blast
  qed (use 2 in \<open>auto simp: quiet_def intro: early_link_Cons split: if_splits\<close>)
qed (auto simp: quiet_def intro: early_link_Cons split: if_splits)

lemma obj_after:
  assumes "wf_state s" and "exec ss s = (s', None)" and "never_set D m ss"
    and "map_of (js_objs s) (D, gen_of s D) = Some ob" and "declared_in s D"
  shows "\<exists>ob'. map_of (js_objs s') (D, gen_of s D) = Some ob' \<and> same_member m ob ob'"
  using never_set_split [OF assms(3)]
proof (elim disjE exE conjE)
  assume "quiet D m ss"
  then show ?thesis
    using exec_frame [OF assms(1,2,4), of m] by (simp add: quiet_def)
next
  fix mid E args post
  assume "ss = mid @ SSetProto D E args # post" "quiet D m mid"
  then show ?thesis
    using exec_old_object [OF assms(1) _ assms(4), of mid E args post s' m] assms(2,5)
    by (simp add: quiet_def)
qed

lemma early_link_hides:
  assumes "wf_state s" and "plain_script items s" and "run_script items s = (s', None)"
    and "C \<in> set (ctor_names items)" and "D \<in> set (ctor_names items)" and "C \<noteq> D"
    and "last_def C m items None = None" and "misses C D m (map snd items)"
  shows "get_member s' (C, gen_of s' C) m = VUndef"
proof -
  let ?h = "hoist (map snd items) s" and ?e = "\<lparr>jo_parent = None, jo_own = []\<rparr>"
  let ?g = "gen_of ?h D"
  obtain pre args rest where ss: "map snd items = pre @ SSetProto C D args # rest"
    and q: "quiet D m pre" "never_set D m rest" and one: "list_all (\<lambda>st. \<not> sets_proto C st) rest"
    using misses_early_link [OF assms(8,6)] by (auto simp: early_link_def)
  have wf0: "wf_state ?h" using assms(1) by (rule wf_hoist)
  have ob0: "map_of (js_objs ?h) (D, ?g) = Some ?e"
    using hoist_obj [OF assms(1)] assms(5) by (simp add: ctor_names_def)
  obtain s1 where s1: "exec pre ?h = (s1, None)" "exec (SSetProto C D args # rest) s1 = (s', None)"
    using exec_append run_ok [OF assms(3)] ss by metis
  have wf1: "wf_state s1" using wf_exec [OF wf0, of pre] s1(1) by simp
  have f1: "js_funs s1 = js_funs ?h" using exec_funs [of pre ?h] s1(1) by simp
  have plainD: "plain_ctor s1 D"
    using assms(2) ss unfolding plain_cong [OF f1] plain_script_def load_refs_def
    by (simp flip: map_map [unfolded comp_def])
  have g1: "gen_of s1 D = ?g" using exec_gen_same [OF s1(1)] q(1) by (simp add: quiet_def)
  obtain ob1 where ob1: "map_of (js_objs s1) (D, ?g) = Some ob1" "same_member m ?e ob1"
    using exec_frame [OF wf0 s1(1) ob0, of m] q(1) by (auto simp: quiet_def)
  let ?s2 = "add_proto C (Some (D, ?g)) s1"
  have r2: "exec rest ?s2 = (s', None)"
    using exec_setproto [OF s1(2) plainD] by (simp add: g1)
  have wf2: "wf_state ?s2"
    using wf_add_proto [OF wf1, of "Some (D, ?g)" C] map_of_oids [OF ob1(1)] by simp
  have g2: "gen_of ?s2 D = ?g" using g1 assms(6) by simp
  have d2: "declared_in ?s2 D"
    using plain_ctor_declared [OF plainD] by (simp add: declared_in_def)
  have ob2: "map_of (js_objs ?s2) (D, gen_of ?s2 D) = Some ob1"
    using ob1(1) assms(6) unfolding g2 by auto
  obtain ob3 where ob3: "map_of (js_objs s') (D, ?g) = Some ob3" "same_member m ob1 ob3"
    using obj_after [OF wf2 r2 q(2) ob2 d2] unfolding g2 by auto
  obtain oc where oc: "map_of (js_objs s') (C, gen_of ?s2 C) = Some oc" "jo_parent oc = Some (D, ?g)"
    using exec_parent [OF wf2 r2, of "(C, gen_of ?s2 C)"] by auto
  have gc: "gen_of s' C = gen_of ?s2 C"
    using exec_gen_same [OF r2, of C] one by (auto simp: list_all_iff sets_proto_iff)
  have "own_member s' C m = None"
    using run_own [OF assms(1-4), of m] assms(7) by (simp add: own_matches_def)
  then have "map_of (jo_own oc) m = None" using oc(1) gc by (simp add: own_member_def)
  moreover have "wf_state s'" using wf_run [OF assms(1), of items] assms(3) by simp
  ultimately show ?thesis
    using get_member_missing [of s' "(C, gen_of s' C)" oc m "(D, ?g)" ob3] oc ob3 ob1(2) gc
    by (simp add: same_member_def)
qed

text \<open>When a script links \<open>C\<close> to the prototype that \<open>D\<close> was declared with, and no statement
  gives that object a member \<open>m\<close> (in particular when \<open>D.prototype\<close> is replaced, and \<open>m\<close> defined on
  the new object, only after the link), then \<open>m\<close> is undefined on every instance of \<open>C\<close> after the
  script has run, unless \<open>C\<close> defines it itself.\<close>

theorem early_link_hides_member:
  assumes "wf_state s" and "plain_script items s" and "run_script items s = (s', None)"
    and "C \<in> set (ctor_names items)" and "D \<in> set (ctor_names items)" and "C \<noteq> D"
    and "last_def C m items None = None" and "misses C D m (map snd items)"
  shows "get_member s' (C, gen_of s' C) m = VUndef"
  using assms by (rule early_link_hides)

definition tiny_stale :: "js_item list" where
  "tiny_stale = [([], SFun ''A'' [] BEmpty), ([], SSetProto ''A'' ''B'' []),
     ([], SFun ''B'' [] BEmpty), ([], SSetProto ''B'' ''B'' []), ([], SProto ''B'' ''x'' ENull)]"

lemma tiny_stale_run: "run_script tiny_stale js_init = (fst (run_script tiny_stale js_init), None)"
  by code_simp

theorem early_link_hides_member_witness:
  "get_member (fst (run_script tiny_stale js_init))
     (''A'', gen_of (fst (run_script tiny_stale js_init)) ''A'') ''x'' = VUndef"
  using early_link_hides_member [OF wf_init _ tiny_stale_run, of "''A''" "''B''" "''x''"]
  by (simp add: plain_script_def load_refs_def tiny_stale_def plain_ctor_def js_init_def
      declareFun_def ctor_names_def)

end
