(* ===== verification/JsSystem.thy ===== *)
theory JsSystem
  imports JsCore
begin

text \<open>
  The statements of \<open>system.js\<close> with their documentation tags, one definition per
  class (and per 150 lines of a class), in the order of the file.
\<close>

definition system_Object :: "js_item list" where
  "system_Object = [
    ([TConstructor], SFun ''Object'' [] BEmpty),
    ([TMemberOf ''Object'', TReturns ''String''], SProto ''Object'' ''toString'' (EFun [] (BReturn (EStr [])))),
    ([TMemberOf ''Object'', TReturns ''String''], SProto ''Object'' ''toLocaleString'' (EFun [] (BReturn (EStr [])))),
    ([TMemberOf ''Object'', TReturns ''Object''], SProto ''Object'' ''valueOf'' (EFun [] (BReturn (ENew ''Object'' [])))),
    ([TMemberOf ''Object'', TParam ''String'' ''name'', TReturns ''Boolean''], SProto ''Object'' ''hasOwnProperty'' (EFun [''name''] (BReturn (EBool True)))),
    ([TMemberOf ''Object'', TParam ''Object'' ''o'', TReturns ''Boolean''], SProto ''Object'' ''isPrototypeOf'' (EFun [''o''] (BReturn (EBool True)))),
    ([TMemberOf ''Object'', TParam ''Object'' ''name'', TReturns ''Boolean''], SProto ''Object'' ''propertyIsEnumerable'' (EFun [''name''] (BReturn (EBool True)))),
    ([TType ''Function'', TMemberOf ''Object''], SProto ''Object'' ''constructor'' (ENew ''Function'' []))]"

definition system_String_1 :: "js_item list" where
  "system_String_1 = [
    ([TConstructor, TExtends ''Object''], SFun ''String'' [] BEmpty),
    ([], SSetProto ''String'' ''Object'' []),
    ([TMemberOf ''String'', TParam ''Number'' ''charCode'', TReturns ''String'', TStatic], SStatic ''String'' ''fromCharCode'' (EFun [''charCode''] (BReturn (EStr [])))),
    ([TType ''Number'', TMemberOf ''String''], SProto ''String'' ''length'' (ENum 1)),
    ([TMemberOf ''String'', TParam ''Number'' ''position'', TReturns ''String''], SProto ''String'' ''charAt'' (EFun [''position''] (BReturn (EStr [])))),
    ([TMemberOf ''String'', TParam ''Number'' ''position'', TReturns ''Number''], SProto ''String'' ''charCodeAt'' (EFun [''position''] (BReturn (ENum 0)))),
    ([TMemberOf ''String'', TParam ''String'' ''value'', TReturns ''String''], SProto ''String'' ''concat'' (EFun [''value''] (BReturn (EStr [])))),
    ([TMemberOf ''String'', TParam ''String'' ''searchString'', TParam ''Number'' ''startPosition'', TReturns ''Number''], SProto ''String'' ''indexOf'' (EFun [''searchString'', ''startPosition''] (BReturn (ENum 1)))),
    ([TMemberOf ''String'', TParam ''String'' ''searchString'', TParam ''Number'' ''startPosition'', TReturns ''Number''], SProto ''String'' ''lastIndexOf'' (EFun [''searchString'', ''startPosition''] (BReturn (ENum 1)))),
    ([TMemberOf ''String'', TParam ''String'' ''otherString'', TReturns ''Number''], SProto ''String'' ''localeCompare'' (EFun [''otherString''] (BReturn (ENum 0)))),
    ([TMemberOf ''String'', TParam ''RegExp'' ''regexp'', TReturns ''Array''], SProto ''String'' ''match'' (EFun [''regexp''] (BReturn (EArray)))),
    ([TMemberOf ''String'', TParam ''RegExp'' ''regexp'', TParam ''String'' ''replaceValue'', TReturns ''String''], SProto ''String'' ''replace'' (EFun [''regexp'', ''replaceValue''] (BReturn (EStr [])))),
    ([TMemberOf ''String'', TParam ''RegExp'' ''regexp'', TReturns ''Number''], SProto ''String'' ''search'' (EFun [''regexp''] (BReturn (ENum 1)))),
    ([TMemberOf ''String'', TParam ''Number'' ''start'', TParam ''Number'' ''end'', TReturns ''String''], SProto ''String'' ''slice'' (EFun [''start'', ''end''] (BReturn (EStr [])))),
    ([TMemberOf ''String'', TParam ''String'' ''separator'', TParam ''Number'' ''limit'', TReturns ''Array''], SProto ''String'' ''split'' (EFun [''separator'', ''limit''] (BReturn (EArray))))]"

definition system_String_2 :: "js_item list" where
  "system_String_2 = [
    ([TMemberOf ''String'', TParam ''Number'' ''start'', TParam ''Number'' ''end'', TReturns ''String''], SProto ''String'' ''substring'' (EFun [''start'', ''end''] (BReturn (EStr [])))),
    ([TMemberOf ''String'', TReturns ''String''], SProto ''String'' ''toLowerCase'' (EFun [] (BReturn (EStr [])))),
    ([TMemberOf ''String'', TReturns ''String''], SProto ''String'' ''toLocaleLowerCase'' (EFun [] (BReturn (EStr [])))),
    ([TMemberOf ''String'', TReturns ''String''], SProto ''String'' ''toUpperCase'' (EFun [] (BReturn (EStr [])))),
    ([TMemberOf ''String'', TReturns ''String''], SProto ''String'' ''toLocaleUpperCase'' (EFun [] (BReturn (EStr []))))]"

definition system_Number :: "js_item list" where
  "system_Number = [
    ([TConstructor, TExtends ''Object''], SFun ''Number'' [] BEmpty),
    ([], SSetProto ''Number'' ''Object'' []),
    ([TType ''Number'', TMemberOf ''Number'', TStatic], SStatic ''Number'' ''MIN_VALUE'' (ENum 0)),
    ([TType ''Number'', TMemberOf ''Number'', TStatic], SStatic ''Number'' ''MAX_VALUE'' (ENum 0)),
    ([TType ''Number'', TMemberOf ''Number'', TStatic], SStatic ''Number'' ''NaN'' (ENum 0)),
    ([TType ''Number'', TMemberOf ''Number'', TStatic], SStatic ''Number'' ''NEGATIVE_INFINITY'' (ENum 0)),
    ([TType ''Number'', TMemberOf ''Number'', TStatic], SStatic ''Number'' ''POSITIVE_INFINITY'' (ENum 0)),
    ([TMemberOf ''Number'', TParam ''Number'' ''fractionDigits'', TReturns ''String''], SProto ''Number'' ''toFixed'' (EFun [''fractionDigits''] (BReturn (EStr [])))),
    ([TMemberOf ''Number'', TParam ''Number'' ''fractionDigits'', TReturns ''String''], SProto ''Number'' ''toExponential'' (EFun [''fractionDigits''] (BReturn (EStr [])))),
    ([TMemberOf ''Number'', TParam ''Number'' ''fractionDigits'', TReturns ''String''], SProto ''Number'' ''toPrecision'' (EFun [''fractionDigits''] (BReturn (EStr []))))]"

definition system_Boolean :: "js_item list" where
  "system_Boolean = [
    ([TConstructor, TExtends ''Object''], SFun ''Boolean'' [] BEmpty),
    ([], SSetProto ''Boolean'' ''Object'' [])]"

definition system_Array :: "js_item list" where
  "system_Array = [
    ([TConstructor, TExtends ''Object''], SFun ''Array'' [] BEmpty),
    ([], SSetProto ''Array'' ''Object'' []),
    ([TType ''Number'', TMemberOf ''Array''], SProto ''Array'' ''length'' (ENum 1)),
    ([TParam ''Array'' ''args'', TReturns ''Array'', TMemberOf ''Array''], SProto ''Array'' ''concat'' (EFun [''args''] (BReturn (EArray)))),
    ([TParam ''String'' ''seperator'', TReturns ''Array'', TMemberOf ''Array''], SProto ''Array'' ''join'' (EFun [''seperator''] (BReturn (EArray)))),
    ([TReturns ''Object'', TMemberOf ''Array''], SProto ''Array'' ''pop'' (EFun [] (BReturn (ENew ''Object'' [])))),
    ([TParam ''Array'' ''args'', TMemberOf ''Array''], SProto ''Array'' ''push'' (EFun [''args''] BEmpty)),
    ([TReturns ''Array'', TMemberOf ''Array''], SProto ''Array'' ''reverse'' (EFun [] (BReturn (EArray)))),
    ([TReturns ''Object'', TMemberOf ''Array''], SProto ''Array'' ''shift'' (EFun [] (BReturn (ENew ''Object'' [])))),
    ([TParam ''Number'' ''start'', TParam ''Number'' ''end'', TReturns ''Array'', TMemberOf ''Array''], SProto ''Array'' ''slice'' (EFun [''start'', ''end''] (BReturn (EArray)))),
    ([TParam ''Function'' ''funct'', TReturns ''Array'', TMemberOf ''Array''], SProto ''Array'' ''sort'' (EFun [''funct''] (BReturn (EArray)))),
    ([TParam ''Number'' ''start'', TParam ''Number'' ''deletecount'', TParam ''Array'' ''items'', TReturns ''Array'', TMemberOf ''Array''], SProto ''Array'' ''splice'' (EFun [''start'', ''deletecount'', ''items''] (BReturn (EArray)))),
    ([TParam ''Object'' ''values'', TReturns ''Number'', TMemberOf ''Array''], SProto ''Array'' ''unshift'' (EFun [''values''] (BReturn (ENum 1))))]"

definition system_Function :: "js_item list" where
  "system_Function = [
    ([TConstructor, TExtends ''Object''], SFun ''Function'' [] BEmpty),
    ([], SSetProto ''Function'' ''Object'' []),
    ([TParam ''Object'' ''thisObject'', TParam ''Array'' ''argArray'', TReturns ''Object''], SProto ''Function'' ''apply'' (EFun [''thisArg'', ''argArray''] (BReturn (ENew ''Object'' [])))),
    ([TParam ''Object'' ''thisObject'', TParam ''Object'' ''args'', TReturns ''Object''], SProto ''Function'' ''call'' (EFun [''thisObject'', ''args''] (BReturn (ENew ''Object'' [])))),
    ([TType ''Number''], SProto ''Function'' ''length'' (ENum 0))]"

definition system_Date_1 :: "js_item list" where
  "system_Date_1 = [
    ([TConstructor, TParam ''String'' ''s'', TExtends ''Object''], SFun ''Date'' [''s''] BEmpty),
    ([], SSetProto ''Date'' ''Object'' []),
    ([TMemberOf ''Date'', TParam ''Number'' ''hour'', TParam ''Number'' ''min'', TParam ''Number'' ''sec'', TParam ''Number'' ''ms'', TReturns ''Number'', TStatic], SStatic ''Date'' ''UTC'' (EFun [''hour'', ''min'', ''sec'', ''ms''] (BReturn (ENum 0)))),
    ([TMemberOf ''Date'', TParam ''String'' ''string'', TReturns ''Number'', TStatic], SStatic ''Date'' ''parse'' (EFun [''string''] (BReturn (ENum 0)))),
    ([TMemberOf ''Date'', TReturns ''String''], SProto ''Date'' ''toDateString'' (EFun [] (BReturn (EStr [])))),
    ([TMemberOf ''Date'', TReturns ''String''], SProto ''Date'' ''toTimeString'' (EFun [] (BReturn (EStr [])))),
    ([TMemberOf ''Date'', TReturns ''String''], SProto ''Date'' ''toLocaleString'' (EFun [] (BReturn (EStr [])))),
    ([TMemberOf ''Date'', TReturns ''String''], SProto ''Date'' ''toLocaleDateString'' (EFun [] (BReturn (EStr [])))),
    ([TMemberOf ''Date'', TReturns ''String''], SProto ''Date'' ''toLocaleTimeString'' (EFun [] (BReturn (EStr [])))),
    ([TMemberOf ''Date'', TReturns ''Object''], SProto ''Date'' ''valueOf'' (EFun [] (BReturn (ENew ''Object'' [])))),
    ([TMemberOf ''Date'', TReturns ''Number''], SProto ''Date'' ''getFullYear'' (EFun [] (BReturn (ENum 0)))),
    ([TMemberOf ''Date'', TReturns ''Number''], SProto ''Date'' ''getTime'' (EFun [] (BReturn (ENum 0)))),
    ([TMemberOf ''Date'', TReturns ''Number''], SProto ''Date'' ''getUTCFullYear'' (EFun [] (BReturn (ENum 0)))),
    ([TMemberOf ''Date'', TReturns ''Number''], SProto ''Date'' ''getMonth'' (EFun [] (BReturn (ENum 0)))),
    ([TMemberOf ''Date'', TReturns ''Number''], SProto ''Date'' ''getUTCMonth'' (EFun [] (BReturn (ENum 0)))),
    ([TMemberOf ''Date'', TReturns ''Number''], SProto ''Date'' ''getDate'' (EFun [] (BReturn (ENum 0)))),
    ([TMemberOf ''Date'', TReturns ''Number''], SProto ''Date'' ''getUTCDate'' (EFun [] (BReturn (ENum 0)))),
    ([TMemberOf ''Date'', TReturns ''Number''], SProto ''Date'' ''getDay'' (EFun [] (BReturn (ENum 0))))]"

definition system_Date_2 :: "js_item list" where
  "system_Date_2 = [
    ([TMemberOf ''Date'', TType ''Number'', TReturns ''Number''], SProto ''Date'' ''getUTCDay'' (EFun [] (BReturn (ENum 0)))),
    ([TMemberOf ''Date'', TReturns ''Number''], SProto ''Date'' ''getHours'' (EFun [] (BReturn (ENum 0)))),
    ([TMemberOf ''Date'', TReturns ''Number''], SProto ''Date'' ''getUTCHours'' (EFun [] (BReturn (ENum 0)))),
    ([TMemberOf ''Date'', TReturns ''Number''], SProto ''Date'' ''getMinutes'' (EFun [] (BReturn (ENum 0)))),
    ([TMemberOf ''Date'', TReturns ''Number''], SProto ''Date'' ''getUTCMinutes'' (EFun [] (BReturn (ENum 0)))),
    ([TMemberOf ''Date'', TReturns ''Number''], SProto ''Date'' ''getSeconds'' (EFun [] (BReturn (ENum 0)))),
    ([TMemberOf ''Date'', TReturns ''Number''], SProto ''Date'' ''getUTCSeconds'' (EFun [] (BReturn (ENum 0)))),
    ([TMemberOf ''Date'', TReturns ''Number''], SProto ''Date'' ''getMilliseconds'' (EFun [] (BReturn (ENum 0)))),
    ([TMemberOf ''Date'', TReturns ''Number''], SProto ''Date'' ''getUTCMilliseconds'' (EFun [] (BReturn (ENum 0)))),
    ([TMemberOf ''Date'', TReturns ''Number''], SProto ''Date'' ''getTimezoneOffset'' (EFun [] (BReturn (ENum 0)))),
    ([TMemberOf ''Date'', TReturns ''Number'', TParam ''Number'' ''value''], SProto ''Date'' ''setTime'' (EFun [''value''] (BReturn (ENum 0)))),
    ([TMemberOf ''Date'', TReturns ''Number'', TParam ''Number'' ''value''], SProto ''Date'' ''setMilliseconds'' (EFun [''value''] (BReturn (ENum 0)))),
    ([TMemberOf ''Date'', TReturns ''Number'', TParam ''Number'' ''ms''], SProto ''Date'' ''setUTCMilliseconds'' (EFun [''ms''] (BReturn (ENum 0)))),
    ([TMemberOf ''Date'', TReturns ''Number'', TParam ''Number'' ''sec'', TParam ''Number'' ''ms''], SProto ''Date'' ''setSeconds'' (EFun [''sec'', ''ms''] (BReturn (ENum 0)))),
    ([TMemberOf ''Date'', TReturns ''Number'', TParam ''Number'' ''sec'', TParam ''Number'' ''ms''], SProto ''Date'' ''setUTCSeconds'' (EFun [''sec'', ''ms''] (BReturn (ENum 0)))),
    ([TMemberOf ''Date'', TReturns ''Number'', TParam ''Number'' ''min'', TParam ''Number'' ''sec'', TParam ''Number'' ''ms''], SProto ''Date'' ''setMinutes'' (EFun [''min'', ''sec'', ''ms''] (BReturn (ENum 0))))]"

definition system_Date_3 :: "js_item list" where
  "system_Date_3 = [
    ([TMemberOf ''Date'', TReturns ''Number'', TParam ''Number'' ''min'', TParam ''Number'' ''sec'', TParam ''Number'' ''ms''], SProto ''Date'' ''setUTCMinute'' (EFun [''min'', ''sec'', ''ms''] (BReturn (ENum 0)))),
    ([TMemberOf ''Date'', TReturns ''Number'', TParam ''Number'' ''hour'', TParam ''Number'' ''min'', TParam ''Number'' ''sec'', TParam ''Number'' ''ms''], SProto ''Date'' ''setHours'' (EFun [''hour'', ''min'', ''sec'', ''ms''] (BReturn (ENum 0)))),
    ([TMemberOf ''Date'', TReturns ''Number'', TParam ''Number'' ''hour'', TParam ''Number'' ''min'', TParam ''Number'' ''sec'', TParam ''Number'' ''ms''], SProto ''Date'' ''setUTCHours'' (EFun [''hour'', ''min'', ''sec'', ''ms''] (BReturn (ENum 0)))),
    ([TMemberOf ''Date'', TReturns ''Number'', TParam ''Number'' ''date''], SProto ''Date'' ''setDate'' (EFun [''date''] (BReturn (ENum 0)))),
    ([TMemberOf ''Date'', TReturns ''Number'', TParam ''Number'' ''date''], SProto ''Date'' ''setUTCDate'' (EFun [''date''] (BReturn (ENum 0)))),
    ([TMemberOf ''Date'', TReturns ''Number'', TParam ''Number'' ''date'', TParam ''Number'' ''month''], SProto ''Date'' ''setMonth'' (EFun [''month'', ''date''] (BReturn (ENum 1)))),
    ([TMemberOf ''Date'', TReturns ''Number'', TParam ''Number'' ''date'', TParam ''Number'' ''month''], SProto ''Date'' ''setUTCMonth'' (EFun [''month'', ''date''] (BReturn (ENum 1)))),
    ([TMemberOf ''Date'', TReturns ''Number'', TParam ''Number'' ''date'', TParam ''Number'' ''month'', TParam ''Number'' ''year''], SProto ''Date'' ''setFullYear'' (EFun [''year'', ''month'', ''date''] (BReturn (ENum 0)))),
    ([TMemberOf ''Date'', TReturns ''Date'', TParam ''Number'' ''date'', TParam ''Number'' ''month'', TParam ''Number'' ''year''], SProto ''Date'' ''setUTCFullYear'' (EFun [''year'', ''month'', ''date''] BEmpty)),
    ([TMemberOf ''Date'', TReturns ''String''], SProto ''Date'' ''toUTCString'' (EFun [] (BReturn (EStr []))))]"

definition system_globals_1 :: "js_item list" where
  "system_globals_1 = [
    ([], SVar ''NaN'' (ENum 0)),
    ([], SVar ''Infinity'' (ENum 0)),
    ([TParam ''String'' ''s'', TType ''Object'', TReturns ''Object''], SFun ''eval'' [''s''] (BReturn (ENew ''Object'' []))),
    ([], SVar ''debugger'' (ENull)),
    ([], SVar ''undefined'' (ENull)),
    ([TParam ''String'' ''s'', TParam ''Number'' ''radix'', TType ''Number'', TReturns ''Number''], SFun ''parseInt'' [''s'', ''radix''] (BReturn (ENum 0))),
    ([TParam ''String'' ''s'', TType ''Number'', TReturns ''Number''], SFun ''parseFloat'' [''s''] (BReturn (ENum 0))),
    ([TParam ''String'' ''s'', TType ''String'', TReturns ''String''], SFun ''escape'' [''s''] (BReturn (EStr []))),
    ([TParam ''String'' ''s'', TType ''String'', TReturns ''String''], SFun ''unescape'' [''s''] (BReturn (EStr []))),
    ([TParam ''String'' ''number'', TType ''Boolean'', TReturns ''Boolean''], SFun ''isNaN'' [''number''] (BReturn (EBool False))),
    ([TParam ''String'' ''number'', TType ''Boolean'', TReturns ''Boolean''], SFun ''isFinite'' [''number''] (BReturn (EBool False))),
    ([TParam ''String'' ''encodedURI'', TType ''String'', TReturns ''String''], SFun ''decodeURI'' [''encodedURI''] (BReturn (EStr []))),
    ([TParam ''String'' ''uriComponent'', TType ''String'', TReturns ''String''], SFun ''decodeURIComponent'' [''uriComponent''] (BReturn (EStr []))),
    ([TParam ''String'' ''uriComponent'', TType ''String'', TReturns ''String''], SFun ''encodeURIComponent'' [''uriComponent''] (BReturn (EStr []))),
    ([TParam ''String'' ''URI'', TType ''String'', TReturns ''String''], SFun ''encodeURI'' [''URI''] (BReturn (EStr [])))]"

definition system_Math_1 :: "js_item list" where
  "system_Math_1 = [
    ([TSuper ''Object'', TConstructor, TMemberOf ''Math''], SFun ''Math'' [] BEmpty),
    ([], SSetProto ''Math'' ''Object'' []),
    ([TMemberOf ''Math''], SStatic ''Math'' ''E'' (ENum 0)),
    ([TMemberOf ''Math''], SStatic ''Math'' ''LN10'' (ENum 0)),
    ([TMemberOf ''Math''], SStatic ''Math'' ''LN2'' (ENum 0)),
    ([TMemberOf ''Math''], SStatic ''Math'' ''LOG2E'' (ENum 0)),
    ([TMemberOf ''Math''], SStatic ''Math'' ''LOG10E'' (ENum 0)),
    ([TMemberOf ''Math''], SStatic ''Math'' ''PI'' (ENum 0)),
    ([TMemberOf ''Math''], SStatic ''Math'' ''SQRT1_2'' (ENum 0)),
    ([TMemberOf ''Math''], SStatic ''Math'' ''SQRT2'' (ENum 0)),
    ([TMemberOf ''Math'', TParam ''Number'' ''x'', TType ''Number'', TReturns ''Number''], SStatic ''Math'' ''abs'' (EFun [''x''] (BReturn (ENum 0)))),
    ([TMemberOf ''Math'', TParam ''Number'' ''x'', TType ''Number'', TReturns ''Number''], SStatic ''Math'' ''acos'' (EFun [''x''] (BReturn (ENum 0)))),
    ([TMemberOf ''Math'', TParam ''Number'' ''x'', TType ''Number'', TReturns ''Number''], SStatic ''Math'' ''asin'' (EFun [''x''] (BReturn (ENum 0)))),
    ([TMemberOf ''Math'', TParam ''Number'' ''x'', TType ''Number'', TReturns ''Number''], SStatic ''Math'' ''atan'' (EFun [''x''] (BReturn (ENum 0)))),
    ([TMemberOf ''Math'', TParam ''Number'' ''x'', TParam ''Number'' ''y'', TType ''Number'', TReturns ''Number''], SStatic ''Math'' ''atan2'' (EFun [''x'', ''y''] (BReturn (ENum 0)))),
    ([TMemberOf ''Math'', TParam ''Number'' ''x'', TType ''Number'', TReturns ''Number''], SStatic ''Math'' ''ceil'' (EFun [''x''] (BReturn (ENum 0)))),
    ([TMemberOf ''Math'', TParam ''Number'' ''x'', TType ''Number'', TReturns ''Number''], SStatic ''Math'' ''cos'' (EFun [''x''] (BReturn (ENum 0)))),
    ([TMemberOf ''Math'', TParam ''Number'' ''x'', TType ''Number'', TReturns ''Number''], SStatic ''Math'' ''exp'' (EFun [''x''] (BReturn (ENum 0))))]"

definition system_Math_2 :: "js_item list" where
  "system_Math_2 = [
    ([TMemberOf ''Math'', TParam ''Number'' ''x'', TType ''Number'', TReturns ''Number''], SStatic ''Math'' ''floor'' (EFun [''x''] (BReturn (ENum 0)))),
    ([TMemberOf ''Math'', TParam ''Number'' ''x'', TType ''Number'', TReturns ''Number''], SStatic ''Math'' ''log'' (EFun [''x''] (BReturn (ENum 0)))),
    ([TMemberOf ''Math'', TParam ''Number'' ''args'', TType ''Number'', TReturns ''Number''], SStatic ''Math'' ''max'' (EFun [''args''] (BReturn (ENum 0)))),
    ([TMemberOf ''Math'', TParam ''Number'' ''args'', TType ''Number'', TReturns ''Number''], SStatic ''Math'' ''min'' (EFun [''args''] (BReturn (ENum 0)))),
    ([TMemberOf ''Math'', TParam ''Number'' ''x'', TParam ''Number'' ''y'', TType ''Number'', TReturns ''Number''], SStatic ''Math'' ''pow'' (EFun [''x'', ''y''] (BReturn (ENum 0)))),
    ([TMemberOf ''Math'', TType ''Number'', TReturns ''Number''], SStatic ''Math'' ''random'' (EFun [] (BReturn (ENum 0)))),
    ([TMemberOf ''Math'', TParam ''Number'' ''x'', TType ''Number'', TReturns ''Number''], SStatic ''Math'' ''round'' (EFun [''x''] (BReturn (ENum 0)))),
    ([TMemberOf ''Math'', TParam ''Number'' ''x'', TType ''Number'', TReturns ''Number''], SStatic ''Math'' ''sin'' (EFun [''x''] (BReturn (ENum 0)))),
    ([TMemberOf ''Math'', TParam ''Number'' ''x'', TType ''Number'', TReturns ''Number''], SStatic ''Math'' ''sqrt'' (EFun [''x''] (BReturn (ENum 0)))),
    ([TMemberOf ''Math'', TParam ''Number'' ''x'', TType ''Number'', TReturns ''Number''], SStatic ''Math'' ''tan'' (EFun [''x''] (BReturn (ENum 0))))]"

definition system_RegExp :: "js_item list" where
  "system_RegExp = [
    ([TSuper ''Object'', TConstructor, TMemberOf ''RegExp''], SFun ''RegExp'' [] BEmpty),
    ([], SSetProto ''RegExp'' ''Object'' []),
    ([TParam ''String'' ''string'', TReturns ''Array'', TType ''Array'', TMemberOf ''RegExp''], SProto ''RegExp'' ''exec'' (EFun [''string''] (BReturn (EArray)))),
    ([TParam ''String'' ''string'', TReturns ''Boolean'', TType ''Boolean'', TMemberOf ''RegExp''], SProto ''RegExp'' ''test'' (EFun [''string''] (BReturn (EBool False)))),
    ([TType ''String'', TMemberOf ''RegExp''], SProto ''RegExp'' ''source'' (EStr [])),
    ([TType ''Boolean'', TMemberOf ''RegExp''], SProto ''RegExp'' ''global'' (EBool False)),
    ([TType ''Boolean'', TMemberOf ''RegExp''], SProto ''RegExp'' ''ignoreCase'' (EBool False)),
    ([TType ''Boolean'', TMemberOf ''RegExp''], SProto ''RegExp'' ''multiline'' (EBool False)),
    ([TType ''Number'', TMemberOf ''RegExp''], SProto ''RegExp'' ''lastIndex'' (ENum 0))]"

definition system_Error :: "js_item list" where
  "system_Error = [
    ([TSuper ''Object'', TConstructor, TParam ''String'' ''message'', TMemberOf ''Error''], SFun ''Error'' [''message''] BEmpty),
    ([], SSetProto ''Error'' ''Object'' []),
    ([TType ''String'', TMemberOf ''Error''], SProto ''Error'' ''name'' (EStr [])),
    ([TType ''String'', TMemberOf ''Error''], SProto ''Error'' ''message'' (EStr []))]"

definition system_EvalError :: "js_item list" where
  "system_EvalError = [
    ([TSuper ''Error'', TConstructor, TMemberOf ''EvalError''], SFun ''EvalError'' [] BEmpty),
    ([], SSetProto ''EvalError'' ''Error'' [EStr []])]"

definition system_RangeError :: "js_item list" where
  "system_RangeError = [
    ([TSuper ''Error'', TConstructor, TMemberOf ''RangeError''], SFun ''RangeError'' [] BEmpty),
    ([], SSetProto ''RangeError'' ''Error'' [EStr []])]"

definition system_ReferenceError :: "js_item list" where
  "system_ReferenceError = [
    ([TSuper ''Error'', TConstructor, TMemberOf ''ReferenceError''], SFun ''ReferenceError'' [] BEmpty),
    ([], SSetProto ''ReferenceError'' ''Error'' [EStr []])]"

definition system_SyntaxError :: "js_item list" where
  "system_SyntaxError = [
    ([TSuper ''Error'', TConstructor, TMemberOf ''SyntaxError''], SFun ''SyntaxError'' [] BEmpty),
    ([], SSetProto ''SyntaxError'' ''Error'' [EStr []])]"

definition system_TypeError :: "js_item list" where
  "system_TypeError = [
    ([TSuper ''Error'', TConstructor, TMemberOf ''TypeError''], SFun ''TypeError'' [] BEmpty),
    ([], SSetProto ''TypeError'' ''Error'' [EStr []])]"

definition system_URIError :: "js_item list" where
  "system_URIError = [
    ([TSuper ''Error'', TConstructor, TMemberOf ''URIError''], SFun ''URIError'' [] BEmpty),
    ([], SSetProto ''URIError'' ''Error'' [EStr []])]"

definition system_globals_2 :: "js_item list" where
  "system_globals_2 = [
    ([], SVar ''debugger'' (ENull))]"

text \<open>The whole script, in order.\<close>

definition system_js :: "js_item list" where
  "system_js = system_Object
     @ system_String_1
     @ system_String_2
     @ system_Number
     @ system_Boolean
     @ system_Array
     @ system_Function
     @ system_Date_1
     @ system_Date_2
     @ system_Date_3
     @ system_globals_1
     @ system_Math_1
     @ system_Math_2
     @ system_RegExp
     @ system_Error
     @ system_EvalError
     @ system_RangeError
     @ system_ReferenceError
     @ system_SyntaxError
     @ system_TypeError
     @ system_URIError
     @ system_globals_2"

lemmas system_items = system_Object_def
  system_String_1_def
  system_String_2_def
  system_Number_def
  system_Boolean_def
  system_Array_def
  system_Function_def
  system_Date_1_def
  system_Date_2_def
  system_Date_3_def
  system_globals_1_def
  system_Math_1_def
  system_Math_2_def
  system_RegExp_def
  system_Error_def
  system_EvalError_def
  system_RangeError_def
  system_ReferenceError_def
  system_SyntaxError_def
  system_TypeError_def
  system_URIError_def
  system_globals_2_def

end
