(* ===== verification/JsBase1.thy ===== *)
theory JsBase1
  imports JsCore
begin

text \<open>
  The statements of \<open>baseBrowserLibrary.js\<close>, lines 12 to 1969, with their documentation tags, one definition per
  class (and per 150 lines of a class), in the order of the file.
\<close>

definition base_DOMException_1 :: "js_item list" where
  "base_DOMException_1 = [
    ([TAugments ''Object'', TConstructor], SFun ''DOMException'' [] BEmpty),
    ([], SSetProto ''DOMException'' ''Object'' []),
    ([TConstant, TType ''Number''], SStatic ''DOMException'' ''INDEX_SIZE_ERR'' (ENum 1)),
    ([TConstant, TType ''Number''], SStatic ''DOMException'' ''DOMSTRING_SIZE_ERR'' (ENum 2)),
    ([TConstant, TType ''Number''], SStatic ''DOMException'' ''HIERARCHY_REQUEST_ERR'' (ENum 3)),
    ([TConstant, TType ''Number''], SStatic ''DOMException'' ''WRONG_DOCUMENT_ERR'' (ENum 4)),
    ([TConstant, TType ''Number''], SStatic ''DOMException'' ''INVALID_CHARACTER_ERR'' (ENum 5)),
    ([TConstant, TType ''Number''], SStatic ''DOMException'' ''NO_DATA_ALLOWED_ER'' (ENum 6)),
    ([TConstant, TType ''Number''], SStatic ''DOMException'' ''NO_MODIFICATION_ALLOWED_ERR'' (ENum 7)),
    ([TConstant, TType ''Number''], SStatic ''DOMException'' ''NOT_FOUND_ERR'' (ENum 8)),
    ([TConstant, TType ''Number''], SStatic ''DOMException'' ''NOT_SUPPORTED_ERR'' (ENum 9)),
    ([TConstant, TType ''Number''], SStatic ''DOMException'' ''INUSE_ATTRIBUTE_ERR'' (ENum 10)),
    ([TConstant, TType ''Number''], SStatic ''DOMException'' ''INVALID_STATE_ERR'' (ENum 11)),
    ([TConstant, TType ''Number''], SStatic ''DOMException'' ''SYNTAX_ERR'' (ENum 12)),
    ([TConstant, TType ''Number''], SStatic ''DOMException'' ''INVALID_MODIFICATION_ER'' (ENum 13))]"

definition base_DOMException_2 :: "js_item list" where
  "base_DOMException_2 = [
    ([TConstant, TType ''Number''], SStatic ''DOMException'' ''NAMESPACE_ERR'' (ENum 14)),
    ([TConstant, TType ''Number''], SStatic ''DOMException'' ''INVALID_ACCESS_ERR'' (ENum 15)),
    ([TType ''Number''], SProto ''DOMException'' ''code'' (ENum 0))]"

definition base_DOMImplementation :: "js_item list" where
  "base_DOMImplementation = [
    ([TAugments ''Object'', TConstructor], SFun ''DOMImplementation'' [] BEmpty),
    ([], SSetProto ''DOMImplementation'' ''Object'' []),
    ([TParam ''String'' ''feature'', TParam ''String'' ''version'', TReturns ''Boolean''], SProto ''DOMImplementation'' ''hasFeature'' (EFun [''feature'', ''version''] (BReturn (EBool False)))),
    ([TParam ''String'' ''qualifiedName'', TParam ''String'' ''publicId'', TParam ''String'' ''systemId'', TReturns ''DocumentType'', TThrows ''DOMException''], SProto ''DOMImplementation'' ''createDocumentType'' (EFun [''qualifiedName'', ''publicId'', ''systemId''] (BReturn (ENew ''DocumentType'' [])))),
    ([TParam ''String'' ''namespaceURI'', TParam ''String'' ''qualifiedName'', TParam ''DocumentType'' ''doctype'', TReturns ''Document'', TThrows ''DOMException''], SProto ''DOMImplementation'' ''createDocument'' (EFun [''namespaceURI'', ''qualifiedName'', ''doctype''] (BReturn (ENew ''HTMLDocument'' []))))]"

definition base_DocumentFragment :: "js_item list" where
  "base_DocumentFragment = [
    ([TAugments ''Node'', TConstructor], SFun ''DocumentFragment'' [] BEmpty),
    ([], SSetProto ''DocumentFragment'' ''Node'' [])]"

definition base_Document_1 :: "js_item list" where
  "base_Document_1 = [
    ([TAugments ''Node'', TConstructor], SFun ''Document'' [] BEmpty),
    ([], SSetProto ''Document'' ''Node'' []),
    ([TType ''Window''], SProto ''Document'' ''defaultView'' (ENew ''Window'' [])),
    ([TType ''DocumentType''], SProto ''Document'' ''doctype'' (ENew ''DocumentType'' [])),
    ([TType ''DOMImplementation''], SProto ''Document'' ''implementation'' (ENew ''DOMImplementation'' [])),
    ([TType ''Element''], SProto ''Document'' ''documentElement'' (ENew ''HTMLElement'' [])),
    ([TType ''Array''], SProto ''Document'' ''styleSheets'' (ENew ''Array'' [])),
    ([TParam ''String'' ''tagName'', TReturns ''Element'', TThrows ''DOMException''], SProto ''Document'' ''createElement'' (EFun [''tagName''] (BReturn (ENew ''HTMLElement'' [])))),
    ([TReturns ''DocumentFragment''], SProto ''Document'' ''createDocumentFragment'' (EFun [] (BReturn (ENew ''DocumentFragment'' [])))),
    ([TParam ''String'' ''data'', TReturns ''Text''], SProto ''Document'' ''createTextNode'' (EFun [''data''] (BReturn (ENew ''Text'' [])))),
    ([TParam ''String'' ''data'', TReturns ''Comment''], SProto ''Document'' ''createComment'' (EFun [''data''] (BReturn (ENew ''Comment'' [])))),
    ([TParam ''String'' ''data'', TReturns ''CDATASection'', TThrows ''DOMException''], SProto ''Document'' ''createCDATASection'' (EFun [''data''] BEmpty)),
    ([TType ''ProcessingInstruction'', TParam ''String'' ''target'', TParam ''String'' ''data'', TReturns ''ProcessingInstruction'', TThrows ''DOMException''], SProto ''Document'' ''createProcessingInstruction'' (EFun [''target'', ''data''] (BReturn (ENew ''ProcessingInstruction'' [])))),
    ([TParam ''String'' ''name'', TReturns ''Attr'', TThrows ''DOMException''], SProto ''Document'' ''createAttribute'' (EFun [''name''] (BReturn (ENew ''Attr'' []))))]"

definition base_Document_2 :: "js_item list" where
  "base_Document_2 = [
    ([TParam ''String'' ''name'', TReturns ''EntityReference'', TThrows ''DOMException''], SProto ''Document'' ''createEntityReference'' (EFun [''name''] (BReturn (ENew ''EntityReference'' [])))),
    ([TParam ''String'' ''tagname'', TReturns ''NodeList''], SProto ''Document'' ''getElementsByTagName'' (EFun [''tagname''] (BReturn (ENew ''NodeList'' [])))),
    ([TParam ''Node'' ''importedNode'', TParam ''Boolean'' ''deep'', TReturns ''Node'', TThrows ''DOMException''], SProto ''Document'' ''importNode'' (EFun [''importedNode'', ''deep''] (BReturn (ENew ''Node'' [])))),
    ([TParam ''String'' ''namespaceURI'', TParam ''String'' ''qualifiedName'', TReturns ''Element'', TThrows ''DOMException''], SProto ''Document'' ''createElementNS'' (EFun [''namespaceURI'', ''qualifiedName''] (BReturn (ENew ''HTMLElement'' [])))),
    ([TParam ''String'' ''eventType'', TReturns ''Object'', TThrows ''DOMException''], SProto ''Document'' ''createEvent'' (EFun [''eventType''] (BReturn (ENew ''Object'' [])))),
    ([TParam ''String'' ''namespaceURI'', TParam ''String'' ''qualifiedName'', TReturns ''Attr'', TThrows ''DOMException''], SProto ''Document'' ''createAttributeNS'' (EFun [''namespaceURI'', ''qualifiedName''] (BReturn (ENew ''Attr'' [])))),
    ([TParam ''String'' ''namespaceURI'', TParam ''String'' ''localName'', TReturns ''NodeList''], SProto ''Document'' ''getElementsByTagNameNS'' (EFun [''namespaceURI'', ''localName''] (BReturn (ENew ''NodeList'' [])))),
    ([TParam ''String'' ''elementId'', TReturns ''Element''], SProto ''Document'' ''getElementById'' (EFun [''elementId''] (BReturn (ENew ''HTMLElement'' []))))]"

definition base_Node_1 :: "js_item list" where
  "base_Node_1 = [
    ([TAugments ''Object'', TConstructor, TMemberOf ''Node''], SFun ''Node'' [] BEmpty),
    ([], SSetProto ''Node'' ''EventTarget'' []),
    ([TConstant, TType ''Number''], SStatic ''Node'' ''ELEMENT_NODE'' (ENum 1)),
    ([TConstant, TType ''Number''], SStatic ''Node'' ''ATTRIBUTE_NODE'' (ENum 2)),
    ([TConstant, TType ''Number''], SStatic ''Node'' ''TEXT_NODE'' (ENum 3)),
    ([TConstant, TType ''Number''], SStatic ''Node'' ''CDATA_SECTION_NODE'' (ENum 4)),
    ([TConstant, TType ''Number''], SStatic ''Node'' ''ENTITY_REFERENCE_NODE'' (ENum 5)),
    ([TType ''Number'', TMemberOf ''Node''], SStatic ''Node'' ''ENTITY_NODE'' (ENum 6)),
    ([TConstant, TType ''Number''], SStatic ''Node'' ''PROCESSING_INSTRUCTION_NODE'' (ENum 7)),
    ([TConstant, TType ''Number''], SStatic ''Node'' ''COMMENT_NODE'' (ENum 8)),
    ([TConstant, TType ''Number''], SStatic ''Node'' ''DOCUMENT_NODE'' (ENum 9)),
    ([TConstant, TType ''Number''], SStatic ''Node'' ''DOCUMENT_TYPE_NODE'' (ENum 10)),
    ([TConstant, TType ''Number''], SStatic ''Node'' ''DOCUMENT_FRAGMENT_NODE'' (ENum 11)),
    ([TConstant, TType ''Number''], SStatic ''Node'' ''NOTATION_NODE'' (ENum 12)),
    ([TType ''String''], SProto ''Node'' ''nodeName'' (EStr []))]"

definition base_Node_2 :: "js_item list" where
  "base_Node_2 = [
    ([TType ''String'', TThrows ''DOMException''], SProto ''Node'' ''nodeValue'' (EStr [])),
    ([TType ''Number''], SProto ''Node'' ''nodeType'' (ENum 0)),
    ([TType ''Node''], SProto ''Node'' ''parentNode'' (ENew ''Node'' [])),
    ([TType ''NodeList''], SProto ''Node'' ''childNodes'' (ENew ''NodeList'' [])),
    ([TType ''Node''], SProto ''Node'' ''firstChild'' (ENew ''Node'' [])),
    ([TType ''Node''], SProto ''Node'' ''lastChild'' (ENew ''Node'' [])),
    ([TType ''Node''], SProto ''Node'' ''previousSibling'' (ENew ''Node'' [])),
    ([TType ''Node''], SProto ''Node'' ''nextSibling'' (ENew ''Node'' [])),
    ([TType ''NamedNodeMap''], SProto ''Node'' ''attributes'' (ENew ''NamedNodeMap'' [])),
    ([TType ''Document''], SProto ''Node'' ''ownerDocument'' (ENew ''HTMLDocument'' [])),
    ([TType ''String''], SProto ''Node'' ''namespaceURI'' (EStr [])),
    ([TType ''String'', TThrows ''DOMException''], SProto ''Node'' ''prefix'' (EStr [])),
    ([TType ''String''], SProto ''Node'' ''localName'' (EStr [])),
    ([TParam ''Node'' ''newChild'', TParam ''Node'' ''refChild'', TReturns ''Node'', TThrows ''DOMException''], SProto ''Node'' ''insertBefore'' (EFun [''newChild'', ''refChild''] (BReturn (ENew ''Node'' []))))]"

definition base_Node_3 :: "js_item list" where
  "base_Node_3 = [
    ([TParam ''Node'' ''newChild'', TParam ''Node'' ''oldChild'', TReturns ''Node'', TThrows ''DOMException''], SProto ''Node'' ''replaceChild'' (EFun [''newChild'', ''oldChild''] (BReturn (ENew ''Node'' [])))),
    ([TParam ''Node'' ''oldChild'', TReturns ''Node'', TThrows ''DOMException''], SProto ''Node'' ''removeChild'' (EFun [''oldChild''] (BReturn (ENew ''Node'' [])))),
    ([TParam ''Node'' ''newChild'', TReturns ''Node'', TThrows ''DOMException''], SProto ''Node'' ''appendChild'' (EFun [''newChild''] (BReturn (ENew ''Node'' [])))),
    ([TReturns ''Boolean''], SProto ''Node'' ''hasChildNodes'' (EFun [] (BReturn (EBool False)))),
    ([TParam ''Boolean'' ''deep'', TReturns ''Node''], SProto ''Node'' ''cloneNode'' (EFun [''deep''] (BReturn (ENew ''Node'' [])))),
    ([], SProto ''Node'' ''normalize'' (EFun [] BEmpty)),
    ([TParam ''String'' ''feature'', TParam ''String'' ''version'', TReturns ''Boolean''], SProto ''Node'' ''isSupported'' (EFun [''feature'', ''version''] (BReturn (EBool False)))),
    ([TReturns ''Boolean''], SProto ''Node'' ''hasAttributes'' (EFun [] (BReturn (EBool False))))]"

definition base_NodeList :: "js_item list" where
  "base_NodeList = [
    ([TAugments ''Object'', TConstructor], SFun ''NodeList'' [] BEmpty),
    ([], SSetProto ''NodeList'' ''Object'' []),
    ([TType ''Number''], SProto ''NodeList'' ''length'' (ENum 0)),
    ([TParam ''Number'' ''index'', TReturns ''Node''], SProto ''NodeList'' ''item'' (EFun [''index''] (BReturn (ENew ''Node'' []))))]"

definition base_NamedNodeMap :: "js_item list" where
  "base_NamedNodeMap = [
    ([TAugments ''Object'', TConstructor], SFun ''NamedNodeMap'' [] BEmpty),
    ([], SSetProto ''NamedNodeMap'' ''Object'' []),
    ([TType ''Number''], SProto ''NamedNodeMap'' ''length'' (ENum 0)),
    ([TParam ''String'' ''name'', TReturns ''Node''], SProto ''NamedNodeMap'' ''getNamedItem'' (EFun [''name''] (BReturn (ENew ''Node'' [])))),
    ([TParam ''Node'' ''arg'', TReturns ''Node'', TThrows ''DOMException''], SProto ''NamedNodeMap'' ''setNamedItem'' (EFun [''arg''] (BReturn (ENew ''Node'' [])))),
    ([TParam ''String'' ''name'', TReturns ''Node'', TThrows ''DOMException''], SProto ''NamedNodeMap'' ''removeNamedItem'' (EFun [''name''] (BReturn (ENew ''Node'' [])))),
    ([TParam ''Number'' ''index'', TReturns ''Node''], SProto ''NamedNodeMap'' ''item'' (EFun [''index''] (BReturn (ENew ''Node'' [])))),
    ([TParam ''String'' ''namespaceURI'', TParam ''String'' ''localName'', TReturns ''Node''], SProto ''NamedNodeMap'' ''getNamedItemNS'' (EFun [''namespaceURI'', ''localName''] (BReturn (ENew ''Node'' [])))),
    ([TParam ''Node'' ''arg'', TReturns ''Node'', TThrows ''DOMException''], SProto ''NamedNodeMap'' ''setNamedItemNS'' (EFun [''arg''] (BReturn (ENew ''Node'' [])))),
    ([TParam ''String'' ''namespaceURI'', TParam ''String'' ''localName'', TReturns ''Node'', TThrows ''DOMException''], SProto ''NamedNodeMap'' ''removeNamedItemNS'' (EFun [''namespaceURI'', ''localName''] (BReturn (ENew ''Node'' []))))]"

definition base_CharacterData :: "js_item list" where
  "base_CharacterData = [
    ([TAugments ''Node'', TConstructor], SFun ''CharacterData'' [] BEmpty),
    ([], SSetProto ''CharacterData'' ''Node'' []),
    ([TType ''String'', TThrows ''DOMException''], SProto ''CharacterData'' ''data'' (EStr [])),
    ([TType ''Number''], SProto ''CharacterData'' ''length'' (ENum 0)),
    ([TParam ''Number'' ''offset'', TParam ''Number'' ''count'', TReturns ''String'', TThrows ''DOMException''], SProto ''CharacterData'' ''substringData'' (EFun [''offset'', ''count''] (BReturn (EStr [])))),
    ([TParam ''String'' ''arg'', TThrows ''DOMException''], SProto ''CharacterData'' ''appendData'' (EFun [''arg''] BEmpty)),
    ([TParam ''Number'' ''offset'', TParam ''String'' ''arg'', TThrows ''DOMException''], SProto ''CharacterData'' ''insertData'' (EFun [''offset'', ''arg''] BEmpty)),
    ([TParam ''Number'' ''offset'', TParam ''Number'' ''count'', TThrows ''DOMException''], SProto ''CharacterData'' ''deleteData'' (EFun [''offset'', ''count''] BEmpty)),
    ([TParam ''Number'' ''offset'', TParam ''Number'' ''count'', TParam ''String'' ''arg'', TThrows ''DOMException''], SProto ''CharacterData'' ''replaceData'' (EFun [''offset'', ''count'', ''arg''] BEmpty))]"

definition base_Attr :: "js_item list" where
  "base_Attr = [
    ([TAugments ''Node'', TConstructor], SFun ''Attr'' [] BEmpty),
    ([], SSetProto ''Attr'' ''Node'' []),
    ([TType ''String''], SProto ''Attr'' ''name'' (EStr [])),
    ([TType ''Boolean''], SProto ''Attr'' ''specified'' (EBool False)),
    ([TType ''String'', TThrows ''DOMException''], SProto ''Attr'' ''value'' (EStr [])),
    ([TType ''Element''], SProto ''Attr'' ''ownerElement'' (ENew ''Element'' []))]"

definition base_Element_1 :: "js_item list" where
  "base_Element_1 = [
    ([TAugments ''Node'', TConstructor], SFun ''Element'' [] BEmpty),
    ([], SSetProto ''Element'' ''Node'' []),
    ([TType ''String''], SProto ''Element'' ''tagName'' (EStr [])),
    ([TParam ''String'' ''type'', TParam ''Function'' ''listener'', TParam ''Boolean'' ''useCapture''], SProto ''Element'' ''addEventListener'' (EFun [''type'', ''listener'', ''useCapture''] BEmpty)),
    ([TParam ''String'' ''type'', TParam ''Function'' ''listener''], SProto ''Element'' ''attachEvent'' (EFun [''type'', ''listener''] BEmpty)),
    ([TParam ''String'' ''type'', TParam ''Function'' ''listener''], SProto ''Element'' ''detachEvent'' (EFun [''type'', ''listener''] BEmpty)),
    ([TParam ''Object'' ''event'', TReturns ''Boolean''], SProto ''Element'' ''dispatchEvent'' (EFun [''event''] (BReturn (EBool False)))),
    ([TParam ''String'' ''name'', TReturns ''String''], SProto ''Element'' ''getAttribute'' (EFun [''name''] (BReturn (EStr [])))),
    ([TParam ''String'' ''name'', TParam ''String'' ''value'', TThrows ''DOMException''], SProto ''Element'' ''setAttribute'' (EFun [''name'', ''value''] BEmpty)),
    ([TParam ''String'' ''name'', TThrows ''DOMException''], SProto ''Element'' ''removeAttribute'' (EFun [''name''] BEmpty)),
    ([TParam ''String'' ''name'', TReturns ''Attr''], SProto ''Element'' ''getAttributeNode'' (EFun [''name''] (BReturn (ENew ''Attr'' [])))),
    ([TParam ''Attr'' ''newAttr'', TReturns ''Attr'', TThrows ''DOMException''], SProto ''Element'' ''setAttributeNode'' (EFun [''newAttr''] (BReturn (ENew ''Attr'' [])))),
    ([TParam ''Attr'' ''oldAttr'', TReturns ''Attr'', TThrows ''DOMException''], SProto ''Element'' ''removeAttributeNode'' (EFun [''oldAttr''] (BReturn (ENew ''Attr'' [])))),
    ([TParam ''String'' ''name'', TReturns ''NodeList''], SProto ''Element'' ''getElementsByTagName'' (EFun [''name''] (BReturn (ENew ''NodeList'' [])))),
    ([TParam ''String'' ''namespaceURI'', TParam ''String'' ''localName'', TReturns ''String'', TThrows ''DOMException''], SProto ''Element'' ''getAttributeNS'' (EFun [''namespaceURI'', ''localName''] (BReturn (EStr []))))]"

definition base_Element_2 :: "js_item list" where
  "base_Element_2 = [
    ([TParam ''String'' ''namespaceURI'', TParam ''String'' ''qualifiedName'', TParam ''String'' ''value'', TThrows ''DOMException''], SProto ''Element'' ''setAttributeNS'' (EFun [''namespaceURI'', ''qualifiedName'', ''value''] BEmpty)),
    ([TParam ''String'' ''namespaceURI'', TParam ''String'' ''localName'', TThrows ''DOMException''], SProto ''Element'' ''removeAttributeNS'' (EFun [''namespaceURI'', ''localName''] BEmpty)),
    ([TParam ''String'' ''namespaceURI'', TParam ''String'' ''localName'', TReturns ''Attr''], SProto ''Element'' ''getAttributeNodeNS'' (EFun [''namespaceURI'', ''localName''] (BReturn (ENew ''Attr'' [])))),
    ([TParam ''Attr'' ''newAttr'', TReturns ''Attr'', TThrows ''DOMException''], SProto ''Element'' ''setAttributeNodeNS'' (EFun [''newAttr''] (BReturn (ENew ''Attr'' [])))),
    ([TParam ''String'' ''namespaceURI'', TParam ''String'' ''localName'', TReturns ''NodeList''], SProto ''Element'' ''getElementsByTagNameNS'' (EFun [''namespaceURI'', ''localName''] (BReturn (ENew ''NodeList'' [])))),
    ([TParam ''String'' ''name'', TReturns ''Boolean''], SProto ''Element'' ''hasAttribute'' (EFun [''name''] (BReturn (EBool False)))),
    ([TParam ''String'' ''namespaceURI'', TParam ''String'' ''localName'', TReturns ''Boolean''], SProto ''Element'' ''hasAttributeNS'' (EFun [''namespaceURI'', ''localName''] (BReturn (EBool False))))]"

definition base_Text :: "js_item list" where
  "base_Text = [
    ([TAugments ''CharacterData'', TConstructor], SFun ''Text'' [] BEmpty),
    ([], SSetProto ''Text'' ''CharacterData'' []),
    ([TParam ''Number'' ''offset'', TReturns ''Text'', TThrows ''DOMException''], SProto ''Text'' ''splitText'' (EFun [''offset''] (BReturn (ENew ''Text'' []))))]"

definition base_Comment :: "js_item list" where
  "base_Comment = [
    ([TAugments ''CharacterData'', TConstructor], SFun ''Comment'' [] BEmpty),
    ([], SSetProto ''Comment'' ''CharacterData'' [])]"

definition base_CDATASection :: "js_item list" where
  "base_CDATASection = [
    ([TAugments ''Text'', TConstructor], SFun ''CDATASection'' [] BEmpty),
    ([], SSetProto ''CDATASection'' ''Text'' [])]"

definition base_DocumentType :: "js_item list" where
  "base_DocumentType = [
    ([TAugments ''Node'', TConstructor], SFun ''DocumentType'' [] BEmpty),
    ([], SSetProto ''DocumentType'' ''Node'' []),
    ([TType ''String''], SProto ''DocumentType'' ''name'' (EStr [])),
    ([TType ''NamedNodeMap''], SProto ''DocumentType'' ''entities'' (ENew ''NamedNodeMap'' [])),
    ([TType ''NamedNodeMap''], SProto ''DocumentType'' ''notations'' (ENew ''NamedNodeMap'' [])),
    ([TType ''String''], SProto ''DocumentType'' ''publicId'' (EStr [])),
    ([TType ''String''], SProto ''DocumentType'' ''systemId'' (EStr [])),
    ([TType ''String''], SProto ''DocumentType'' ''internalSubset'' (EStr []))]"

definition base_Notation :: "js_item list" where
  "base_Notation = [
    ([TAugments ''Node'', TConstructor], SFun ''Notation'' [] BEmpty),
    ([], SSetProto ''Notation'' ''Node'' []),
    ([TType ''String''], SProto ''Notation'' ''publicId'' (EStr [])),
    ([TType ''String''], SProto ''Notation'' ''systemId'' (EStr []))]"

definition base_Entity :: "js_item list" where
  "base_Entity = [
    ([TAugments ''Node'', TConstructor], SFun ''Entity'' [] BEmpty),
    ([], SSetProto ''Entity'' ''Node'' []),
    ([TType ''String''], SProto ''Entity'' ''publicId'' (EStr [])),
    ([TType ''String''], SProto ''Entity'' ''systemId'' (EStr [])),
    ([TType ''String''], SProto ''Entity'' ''notationName'' (EStr []))]"

definition base_EntityReference :: "js_item list" where
  "base_EntityReference = [
    ([TAugments ''Node'', TConstructor], SFun ''EntityReference'' [] BEmpty),
    ([], SSetProto ''EntityReference'' ''Node'' [])]"

definition base_ProcessingInstruction :: "js_item list" where
  "base_ProcessingInstruction = [
    ([TAugments ''Node'', TConstructor], SFun ''ProcessingInstruction'' [] BEmpty),
    ([], SSetProto ''ProcessingInstruction'' ''Node'' []),
    ([TType ''String''], SProto ''ProcessingInstruction'' ''target'' (EStr [])),
    ([TType ''String'', TThrows ''DOMException''], SProto ''ProcessingInstruction'' ''data'' (EStr []))]"

definition base_HTMLCollection :: "js_item list" where
  "base_HTMLCollection = [
    ([TAugments ''Object'', TConstructor], SFun ''HTMLCollection'' [] BEmpty),
    ([], SSetProto ''HTMLCollection'' ''Object'' []),
    ([TType ''Number''], SProto ''HTMLCollection'' ''length'' (ENum 0)),
    ([TParam ''Number'' ''index'', TReturns ''Node''], SProto ''HTMLCollection'' ''item'' (EFun [''index''] (BReturn (ENew ''Node'' [])))),
    ([TParam ''String'' ''name'', TReturns ''Node''], SProto ''HTMLCollection'' ''namedItem'' (EFun [''index''] (BReturn (ENew ''Node'' []))))]"

definition base_HTMLOptionsCollection :: "js_item list" where
  "base_HTMLOptionsCollection = [
    ([TAugments ''Object'', TConstructor], SFun ''HTMLOptionsCollection'' [] BEmpty),
    ([], SSetProto ''HTMLOptionsCollection'' ''Object'' []),
    ([TType ''Number'', TThrows ''DOMException''], SProto ''HTMLOptionsCollection'' ''length'' (ENum 0)),
    ([TParam ''Number'' ''index'', TReturns ''Node''], SProto ''HTMLOptionsCollection'' ''item'' (EFun [''index''] (BReturn (ENew ''Node'' [])))),
    ([TParam ''String'' ''name'', TReturns ''Node''], SProto ''HTMLOptionsCollection'' ''namedItem'' (EFun [''index''] (BReturn (ENew ''Node'' []))))]"

definition base_HTMLDocument_1 :: "js_item list" where
  "base_HTMLDocument_1 = [
    ([TAugments ''Document'', TConstructor], SFun ''HTMLDocument'' [] BEmpty),
    ([], SSetProto ''HTMLDocument'' ''Document'' []),
    ([TType ''String''], SProto ''HTMLDocument'' ''title'' (EStr [])),
    ([TType ''String''], SProto ''HTMLDocument'' ''referrer'' (EStr [])),
    ([TType ''String''], SProto ''HTMLDocument'' ''domain'' (EStr [])),
    ([TType ''String''], SProto ''HTMLDocument'' ''URL'' (EStr [])),
    ([TType ''HTMLElement''], SProto ''HTMLDocument'' ''body'' (ENew ''HTMLElement'' [])),
    ([TType ''HTMLCollection''], SProto ''HTMLDocument'' ''images'' (ENew ''HTMLCollection'' [])),
    ([TType ''HTMLCollection''], SProto ''HTMLDocument'' ''applets'' (ENew ''HTMLCollection'' [])),
    ([TType ''HTMLCollection''], SProto ''HTMLDocument'' ''links'' (ENew ''HTMLCollection'' [])),
    ([TType ''HTMLCollection''], SProto ''HTMLDocument'' ''forms'' (ENew ''HTMLCollection'' [])),
    ([TType ''HTMLCollection''], SProto ''HTMLDocument'' ''anchors'' (ENew ''HTMLCollection'' [])),
    ([TType ''String'', TThrows ''DOMException''], SProto ''HTMLDocument'' ''cookie'' (EStr [])),
    ([TType ''String''], SProto ''HTMLDocument'' ''lastModified'' (EStr [])),
    ([], SProto ''HTMLDocument'' ''open'' (EFun [] BEmpty)),
    ([], SProto ''HTMLDocument'' ''close'' (EFun [] BEmpty)),
    ([TParam ''String'' ''text''], SProto ''HTMLDocument'' ''write'' (EFun [''text''] BEmpty))]"

definition base_HTMLDocument_2 :: "js_item list" where
  "base_HTMLDocument_2 = [
    ([TParam ''String'' ''text''], SProto ''HTMLDocument'' ''writeln'' (EFun [''text''] BEmpty)),
    ([TParam ''String'' ''elementName'', TReturns ''NodeList''], SProto ''HTMLDocument'' ''getElementsByName'' (EFun [''elementName''] (BReturn (ENew ''NodeList'' []))))]"

definition base_HTMLElement :: "js_item list" where
  "base_HTMLElement = [
    ([TAugments ''Element'', TConstructor], SFun ''HTMLElement'' [] BEmpty),
    ([], SSetProto ''HTMLElement'' ''Element'' []),
    ([TType ''String''], SProto ''HTMLElement'' ''id'' (EStr [])),
    ([TType ''String''], SProto ''HTMLElement'' ''title'' (EStr [])),
    ([TType ''String''], SProto ''HTMLElement'' ''lang'' (EStr [])),
    ([TType ''String''], SProto ''HTMLElement'' ''dir'' (EStr [])),
    ([TType ''String''], SProto ''HTMLElement'' ''className'' (EStr [])),
    ([TType ''String''], SProto ''HTMLElement'' ''innerHTML'' (EStr [])),
    ([TType ''Number''], SProto ''HTMLElement'' ''offsetHeight'' (ENum 0)),
    ([TType ''Number''], SProto ''HTMLElement'' ''offsetWidth'' (ENum 0)),
    ([TType ''Number''], SProto ''HTMLElement'' ''offsetLeft'' (ENum 0)),
    ([TType ''Number''], SProto ''HTMLElement'' ''offsetTop'' (ENum 0)),
    ([TType ''HTMLElement''], SProto ''HTMLElement'' ''offsetParent'' (ENew ''HTMLElement'' [])),
    ([TType ''Number''], SProto ''HTMLElement'' ''scrollHeight'' (ENum 0)),
    ([TType ''Number''], SProto ''HTMLElement'' ''scrollWidth'' (ENum 0)),
    ([TType ''Number''], SProto ''HTMLElement'' ''scrollLeft'' (ENum 0)),
    ([TType ''Number''], SProto ''HTMLElement'' ''scrollTop'' (ENum 0)),
    ([TType ''CSS2Properties''], SProto ''HTMLElement'' ''style'' (ENew ''CSS2Properties'' []))]"

text \<open>Part 1 of the script, in order.\<close>

definition base_js_1 :: "js_item list" where
  "base_js_1 = base_DOMException_1
     @ base_DOMException_2
     @ base_DOMImplementation
     @ base_DocumentFragment
     @ base_Document_1
     @ base_Document_2
     @ base_Node_1
     @ base_Node_2
     @ base_Node_3
     @ base_NodeList
     @ base_NamedNodeMap
     @ base_CharacterData
     @ base_Attr
     @ base_Element_1
     @ base_Element_2
     @ base_Text
     @ base_Comment
     @ base_CDATASection
     @ base_DocumentType
     @ base_Notation
     @ base_Entity
     @ base_EntityReference
     @ base_ProcessingInstruction
     @ base_HTMLCollection
     @ base_HTMLOptionsCollection
     @ base_HTMLDocument_1
     @ base_HTMLDocument_2
     @ base_HTMLElement"

lemmas base1_items = base_DOMException_1_def
  base_DOMException_2_def
  base_DOMImplementation_def
  base_DocumentFragment_def
  base_Document_1_def
  base_Document_2_def
  base_Node_1_def
  base_Node_2_def
  base_Node_3_def
  base_NodeList_def
  base_NamedNodeMap_def
  base_CharacterData_def
  base_Attr_def
  base_Element_1_def
  base_Element_2_def
  base_Text_def
  base_Comment_def
  base_CDATASection_def
  base_DocumentType_def
  base_Notation_def
  base_Entity_def
  base_EntityReference_def
  base_ProcessingInstruction_def
  base_HTMLCollection_def
  base_HTMLOptionsCollection_def
  base_HTMLDocument_1_def
  base_HTMLDocument_2_def
  base_HTMLElement_def

end
