(* ===== verification/JsBase2.thy ===== *)
theory JsBase2
  imports JsCore
begin

text \<open>
  The statements of \<open>baseBrowserLibrary.js\<close>, lines 1971 to 3624, with their documentation tags, one definition per
  class (and per 150 lines of a class), in the order of the file.
\<close>

definition base_HTMLHtmlElement :: "js_item list" where
  "base_HTMLHtmlElement = [
    ([TAugments ''HTMLElement'', TConstructor], SFun ''HTMLHtmlElement'' [] BEmpty),
    ([], SSetProto ''HTMLHtmlElement'' ''HTMLElement'' []),
    ([TType ''String''], SProto ''HTMLHtmlElement'' ''version'' (EStr []))]"

definition base_HTMLHeadElement :: "js_item list" where
  "base_HTMLHeadElement = [
    ([TAugments ''HTMLElement'', TConstructor], SFun ''HTMLHeadElement'' [] BEmpty),
    ([], SSetProto ''HTMLHeadElement'' ''HTMLElement'' []),
    ([TType ''String''], SProto ''HTMLHeadElement'' ''profile'' (EStr []))]"

definition base_HTMLLinkElement :: "js_item list" where
  "base_HTMLLinkElement = [
    ([TAugments ''HTMLElement'', TConstructor], SFun ''HTMLLinkElement'' [] BEmpty),
    ([], SSetProto ''HTMLLinkElement'' ''HTMLElement'' []),
    ([TType ''Boolean''], SProto ''HTMLLinkElement'' ''disabled'' (EBool False)),
    ([TType ''String''], SProto ''HTMLLinkElement'' ''charset'' (EStr [])),
    ([TType ''String''], SProto ''HTMLLinkElement'' ''href'' (EStr [])),
    ([TType ''String''], SProto ''HTMLLinkElement'' ''hreflang'' (EStr [])),
    ([TType ''String''], SProto ''HTMLLinkElement'' ''media'' (EStr [])),
    ([TType ''String''], SProto ''HTMLLinkElement'' ''rel'' (EStr [])),
    ([TType ''String''], SProto ''HTMLLinkElement'' ''rev'' (EStr [])),
    ([TType ''String''], SProto ''HTMLLinkElement'' ''target'' (EStr [])),
    ([TType ''String''], SProto ''HTMLLinkElement'' ''type'' (EStr []))]"

definition base_HTMLTitleElement :: "js_item list" where
  "base_HTMLTitleElement = [
    ([TAugments ''HTMLElement'', TConstructor], SFun ''HTMLTitleElement'' [] BEmpty),
    ([], SSetProto ''HTMLTitleElement'' ''HTMLElement'' []),
    ([TType ''String''], SProto ''HTMLTitleElement'' ''text'' (EStr []))]"

definition base_HTMLMetaElement :: "js_item list" where
  "base_HTMLMetaElement = [
    ([TAugments ''HTMLElement'', TConstructor], SFun ''HTMLMetaElement'' [] BEmpty),
    ([], SSetProto ''HTMLMetaElement'' ''HTMLElement'' []),
    ([TType ''String''], SProto ''HTMLMetaElement'' ''content'' (EStr [])),
    ([TType ''String''], SProto ''HTMLMetaElement'' ''httpEquiv'' (EStr [])),
    ([TType ''String''], SProto ''HTMLMetaElement'' ''name'' (EStr [])),
    ([TType ''String''], SProto ''HTMLMetaElement'' ''scheme'' (EStr []))]"

definition base_HTMLBaseElement :: "js_item list" where
  "base_HTMLBaseElement = [
    ([TAugments ''HTMLElement'', TConstructor], SFun ''HTMLBaseElement'' [] BEmpty),
    ([], SSetProto ''HTMLBaseElement'' ''HTMLElement'' []),
    ([TType ''String''], SProto ''HTMLBaseElement'' ''href'' (EStr [])),
    ([TType ''String''], SProto ''HTMLBaseElement'' ''target'' (EStr []))]"

definition base_HTMLIsIndexElement :: "js_item list" where
  "base_HTMLIsIndexElement = [
    ([TAugments ''HTMLElement'', TConstructor], SFun ''HTMLIsIndexElement'' [] BEmpty),
    ([], SSetProto ''HTMLIsIndexElement'' ''HTMLElement'' []),
    ([TType ''HTMLFormElement''], SProto ''HTMLIsIndexElement'' ''form'' (ENew ''HTMLFormElement'' [])),
    ([TType ''String''], SProto ''HTMLIsIndexElement'' ''prompt'' (EStr []))]"

definition base_HTMLStyleElement :: "js_item list" where
  "base_HTMLStyleElement = [
    ([TAugments ''HTMLElement'', TConstructor], SFun ''HTMLStyleElement'' [] BEmpty),
    ([], SSetProto ''HTMLStyleElement'' ''HTMLElement'' []),
    ([TType ''Boolean''], SProto ''HTMLStyleElement'' ''disabled'' (EBool False)),
    ([TType ''String''], SProto ''HTMLStyleElement'' ''media'' (EStr [])),
    ([TType ''String''], SProto ''HTMLStyleElement'' ''type'' (EStr []))]"

definition base_HTMLBodyElement :: "js_item list" where
  "base_HTMLBodyElement = [
    ([TAugments ''HTMLElement'', TConstructor], SFun ''HTMLBodyElement'' [] BEmpty),
    ([], SSetProto ''HTMLBodyElement'' ''HTMLElement'' []),
    ([TType ''String''], SProto ''HTMLBodyElement'' ''aLink'' (EStr [])),
    ([TType ''String''], SProto ''HTMLBodyElement'' ''background'' (EStr [])),
    ([TType ''String''], SProto ''HTMLBodyElement'' ''bgColor'' (EStr [])),
    ([TType ''String''], SProto ''HTMLBodyElement'' ''link'' (EStr [])),
    ([TType ''String''], SProto ''HTMLBodyElement'' ''text'' (EStr [])),
    ([TType ''String''], SProto ''HTMLBodyElement'' ''vLink'' (EStr []))]"

definition base_HTMLFormElement :: "js_item list" where
  "base_HTMLFormElement = [
    ([TAugments ''HTMLElement'', TConstructor], SFun ''HTMLFormElement'' [] BEmpty),
    ([], SSetProto ''HTMLFormElement'' ''HTMLElement'' []),
    ([TType ''HTMLCollection''], SProto ''HTMLFormElement'' ''elements'' (ENew ''HTMLCollection'' [])),
    ([TType ''Number''], SProto ''HTMLFormElement'' ''length'' (ENum 0)),
    ([TType ''String''], SProto ''HTMLFormElement'' ''name'' (EStr [])),
    ([TType ''String''], SProto ''HTMLFormElement'' ''acceptCharset'' (EStr [])),
    ([TType ''String''], SProto ''HTMLFormElement'' ''action'' (EStr [])),
    ([TType ''String''], SProto ''HTMLFormElement'' ''enctype'' (EStr [])),
    ([TType ''String''], SProto ''HTMLFormElement'' ''method'' (EStr [])),
    ([TType ''String''], SProto ''HTMLFormElement'' ''target'' (EStr [])),
    ([], SProto ''HTMLFormElement'' ''submit'' (EFun [] BEmpty)),
    ([], SProto ''HTMLFormElement'' ''reset'' (EFun [] BEmpty))]"

definition base_HTMLSelectElement :: "js_item list" where
  "base_HTMLSelectElement = [
    ([TAugments ''HTMLElement'', TConstructor], SFun ''HTMLSelectElement'' [] BEmpty),
    ([], SSetProto ''HTMLSelectElement'' ''HTMLElement'' []),
    ([TType ''String''], SProto ''HTMLSelectElement'' ''type'' (EStr [])),
    ([TType ''Number''], SProto ''HTMLSelectElement'' ''selectedIndex'' (ENum 0)),
    ([TType ''String''], SProto ''HTMLSelectElement'' ''value'' (EStr [])),
    ([TType ''Number'', TThrows ''DOMException''], SProto ''HTMLSelectElement'' ''length'' (ENum 0)),
    ([TType ''HTMLFormElement''], SProto ''HTMLSelectElement'' ''form'' (ENew ''HTMLFormElement'' [])),
    ([TType ''HTMLOptionsCollection''], SProto ''HTMLSelectElement'' ''options'' (ENew ''HTMLOptionsCollection'' [])),
    ([TType ''Boolean''], SProto ''HTMLSelectElement'' ''disabled'' (EBool False)),
    ([TType ''Boolean''], SProto ''HTMLSelectElement'' ''multiple'' (EBool False)),
    ([TType ''String''], SProto ''HTMLSelectElement'' ''name'' (EStr [])),
    ([TType ''Number''], SProto ''HTMLSelectElement'' ''size'' (ENum 0)),
    ([TType ''Number''], SProto ''HTMLSelectElement'' ''tabIndex'' (ENum 0)),
    ([TParam ''HTMLElement'' ''element'', TParam ''HTMLElement'' ''before'', TThrows ''DOMException''], SProto ''HTMLSelectElement'' ''add'' (EFun [''element'', ''before''] BEmpty)),
    ([TParam ''Number'' ''index''], SProto ''HTMLSelectElement'' ''remove'' (EFun [''index''] BEmpty)),
    ([], SProto ''HTMLSelectElement'' ''blur'' (EFun [] BEmpty)),
    ([], SProto ''HTMLSelectElement'' ''focus'' (EFun [] BEmpty))]"

definition base_HTMLOptGroupElement :: "js_item list" where
  "base_HTMLOptGroupElement = [
    ([TAugments ''HTMLElement'', TConstructor], SFun ''HTMLOptGroupElement'' [] BEmpty),
    ([], SSetProto ''HTMLOptGroupElement'' ''HTMLElement'' []),
    ([TType ''Boolean''], SProto ''HTMLOptGroupElement'' ''disabled'' (EBool False)),
    ([TType ''String''], SProto ''HTMLOptGroupElement'' ''label'' (EStr []))]"

definition base_Option :: "js_item list" where
  "base_Option = [
    ([TConstructor, TParam ''String'' ''text'', TParam ''String'' ''value'', TParam ''Boolean'' ''defaultSelected'', TParam ''Boolean'' ''selected''], SFun ''Option'' [''text'', ''value'', ''defaultSelected'', ''selected''] BEmpty),
    ([], SSetProto ''Option'' ''HTMLOptionElement'' [])]"

definition base_HTMLOptionElement :: "js_item list" where
  "base_HTMLOptionElement = [
    ([TAugments ''HTMLElement'', TConstructor], SFun ''HTMLOptionElement'' [] BEmpty),
    ([], SSetProto ''HTMLOptionElement'' ''HTMLElement'' []),
    ([TType ''HTMLFormElement''], SProto ''HTMLOptionElement'' ''form'' (ENew ''HTMLFormElement'' [])),
    ([TType ''Boolean''], SProto ''HTMLOptionElement'' ''defaultSelected'' (EBool False)),
    ([TType ''String''], SProto ''HTMLOptionElement'' ''text'' (EStr [])),
    ([TType ''Number''], SProto ''HTMLOptionElement'' ''index'' (ENum 0)),
    ([TType ''Boolean''], SProto ''HTMLOptionElement'' ''disabled'' (EBool False)),
    ([TType ''String''], SProto ''HTMLOptionElement'' ''label'' (EStr [])),
    ([TType ''Boolean''], SProto ''HTMLOptionElement'' ''selected'' (EBool False)),
    ([TType ''String''], SProto ''HTMLOptionElement'' ''value'' (EStr []))]"

definition base_HTMLInputElement_1 :: "js_item list" where
  "base_HTMLInputElement_1 = [
    ([TAugments ''HTMLElement'', TConstructor], SFun ''HTMLInputElement'' [] BEmpty),
    ([], SSetProto ''HTMLInputElement'' ''HTMLElement'' []),
    ([TType ''String''], SProto ''HTMLInputElement'' ''defaultValue'' (EStr [])),
    ([TType ''Boolean''], SProto ''HTMLInputElement'' ''defaultChecked'' (EBool False)),
    ([TType ''HTMLFormElement''], SProto ''HTMLInputElement'' ''form'' (ENew ''HTMLFormElement'' [])),
    ([TType ''String''], SProto ''HTMLInputElement'' ''accept'' (EStr [])),
    ([TType ''String''], SProto ''HTMLInputElement'' ''accessKey'' (EStr [])),
    ([TType ''String''], SProto ''HTMLInputElement'' ''align'' (EStr [])),
    ([TType ''String''], SProto ''HTMLInputElement'' ''alt'' (EStr [])),
    ([TType ''Boolean''], SProto ''HTMLInputElement'' ''checked'' (EBool False)),
    ([TType ''Boolean''], SProto ''HTMLInputElement'' ''disabled'' (EBool False)),
    ([TType ''Number''], SProto ''HTMLInputElement'' ''maxLenght'' (ENum 0)),
    ([TType ''String''], SProto ''HTMLInputElement'' ''name'' (EStr [])),
    ([TType ''Boolean''], SProto ''HTMLInputElement'' ''readOnly'' (EBool False)),
    ([TType ''Number''], SProto ''HTMLInputElement'' ''size'' (ENum 0)),
    ([TType ''String''], SProto ''HTMLInputElement'' ''src'' (EStr [])),
    ([TType ''Number''], SProto ''HTMLInputElement'' ''tabIndex'' (ENum 0))]"

definition base_HTMLInputElement_2 :: "js_item list" where
  "base_HTMLInputElement_2 = [
    ([TType ''String''], SProto ''HTMLInputElement'' ''type'' (EStr [])),
    ([TType ''String''], SProto ''HTMLInputElement'' ''useMap'' (EStr [])),
    ([TType ''String''], SProto ''HTMLInputElement'' ''value'' (EStr [])),
    ([], SProto ''HTMLInputElement'' ''blur'' (EFun [] BEmpty)),
    ([], SProto ''HTMLInputElement'' ''focus'' (EFun [] BEmpty)),
    ([], SProto ''HTMLInputElement'' ''select'' (EFun [] BEmpty)),
    ([], SProto ''HTMLInputElement'' ''click'' (EFun [] BEmpty))]"

definition base_HTMLTextAreaElement :: "js_item list" where
  "base_HTMLTextAreaElement = [
    ([TAugments ''HTMLElement'', TConstructor], SFun ''HTMLTextAreaElement'' [] BEmpty),
    ([], SSetProto ''HTMLTextAreaElement'' ''HTMLElement'' []),
    ([TType ''String''], SProto ''HTMLTextAreaElement'' ''defaultValue'' (EStr [])),
    ([TType ''HTMLFormElement''], SProto ''HTMLTextAreaElement'' ''form'' (ENew ''HTMLFormElement'' [])),
    ([TType ''String''], SProto ''HTMLTextAreaElement'' ''accessKey'' (EStr [])),
    ([TType ''Number''], SProto ''HTMLTextAreaElement'' ''cols'' (ENum 0)),
    ([TType ''Boolean''], SProto ''HTMLTextAreaElement'' ''disabled'' (EBool False)),
    ([TType ''String''], SProto ''HTMLTextAreaElement'' ''name'' (EStr [])),
    ([TType ''Boolean''], SProto ''HTMLTextAreaElement'' ''readOnly'' (EBool False)),
    ([TType ''Number''], SProto ''HTMLTextAreaElement'' ''rows'' (ENum 0)),
    ([TType ''Number''], SProto ''HTMLTextAreaElement'' ''tabIndex'' (ENum 0)),
    ([TType ''String''], SProto ''HTMLTextAreaElement'' ''type'' (EStr [])),
    ([TType ''String''], SProto ''HTMLTextAreaElement'' ''value'' (EStr [])),
    ([], SProto ''HTMLTextAreaElement'' ''blur'' (EFun [] BEmpty)),
    ([], SProto ''HTMLTextAreaElement'' ''focus'' (EFun [] BEmpty)),
    ([], SProto ''HTMLTextAreaElement'' ''select'' (EFun [] BEmpty))]"

definition base_HTMLButtonElement :: "js_item list" where
  "base_HTMLButtonElement = [
    ([TAugments ''HTMLElement'', TConstructor], SFun ''HTMLButtonElement'' [] BEmpty),
    ([], SSetProto ''HTMLButtonElement'' ''HTMLElement'' []),
    ([TType ''HTMLFormElement''], SProto ''HTMLButtonElement'' ''form'' (ENew ''HTMLFormElement'' [])),
    ([TType ''String''], SProto ''HTMLButtonElement'' ''accessKey'' (EStr [])),
    ([TType ''Boolean''], SProto ''HTMLButtonElement'' ''disabled'' (EBool False)),
    ([TType ''String''], SProto ''HTMLButtonElement'' ''name'' (EStr [])),
    ([TType ''Number''], SProto ''HTMLButtonElement'' ''tabIndex'' (ENum 0)),
    ([TType ''String''], SProto ''HTMLButtonElement'' ''type'' (EStr [])),
    ([TType ''String''], SProto ''HTMLButtonElement'' ''value'' (EStr []))]"

definition base_HTMLLabelElement :: "js_item list" where
  "base_HTMLLabelElement = [
    ([TAugments ''HTMLElement'', TConstructor], SFun ''HTMLLabelElement'' [] BEmpty),
    ([], SSetProto ''HTMLLabelElement'' ''HTMLElement'' []),
    ([TType ''HTMLFormElement''], SProto ''HTMLLabelElement'' ''form'' (ENew ''HTMLFormElement'' [])),
    ([TType ''String''], SProto ''HTMLLabelElement'' ''accessKey'' (EStr [])),
    ([TType ''String''], SProto ''HTMLLabelElement'' ''htmlFor'' (EStr []))]"

definition base_HTMLFieldSetElement :: "js_item list" where
  "base_HTMLFieldSetElement = [
    ([TAugments ''HTMLElement'', TConstructor], SFun ''HTMLFieldSetElement'' [] BEmpty),
    ([], SSetProto ''HTMLFieldSetElement'' ''HTMLElement'' []),
    ([TType ''HTMLFormElement''], SProto ''HTMLFieldSetElement'' ''form'' (ENew ''HTMLFormElement'' []))]"

definition base_HTMLLegendElement :: "js_item list" where
  "base_HTMLLegendElement = [
    ([TAugments ''HTMLElement'', TConstructor], SFun ''HTMLLegendElement'' [] BEmpty),
    ([], SSetProto ''HTMLLegendElement'' ''HTMLElement'' []),
    ([TType ''HTMLFormElement''], SProto ''HTMLLegendElement'' ''form'' (ENew ''HTMLFormElement'' [])),
    ([TType ''String''], SProto ''HTMLLegendElement'' ''accessKey'' (EStr [])),
    ([TType ''String''], SProto ''HTMLLegendElement'' ''align'' (EStr []))]"

definition base_HTMLUListElement :: "js_item list" where
  "base_HTMLUListElement = [
    ([TAugments ''HTMLElement'', TConstructor], SFun ''HTMLUListElement'' [] BEmpty),
    ([], SSetProto ''HTMLUListElement'' ''HTMLElement'' []),
    ([TType ''Boolean''], SProto ''HTMLUListElement'' ''compact'' (EBool False)),
    ([TType ''String''], SProto ''HTMLUListElement'' ''type'' (EStr []))]"

definition base_HTMLOListElement :: "js_item list" where
  "base_HTMLOListElement = [
    ([TAugments ''HTMLElement'', TConstructor], SFun ''HTMLOListElement'' [] BEmpty),
    ([], SSetProto ''HTMLOListElement'' ''HTMLElement'' []),
    ([TType ''Boolean''], SProto ''HTMLOListElement'' ''compact'' (EBool False)),
    ([TType ''Number''], SProto ''HTMLOListElement'' ''start'' (ENum 0)),
    ([TType ''String''], SProto ''HTMLOListElement'' ''type'' (EStr []))]"

definition base_HTMLDListElement :: "js_item list" where
  "base_HTMLDListElement = [
    ([TAugments ''HTMLElement'', TConstructor], SFun ''HTMLDListElement'' [] BEmpty),
    ([], SSetProto ''HTMLDListElement'' ''HTMLElement'' []),
    ([TType ''Boolean''], SProto ''HTMLDListElement'' ''compact'' (EBool False))]"

definition base_HTMLDirectoryElement :: "js_item list" where
  "base_HTMLDirectoryElement = [
    ([TAugments ''HTMLElement'', TConstructor], SFun ''HTMLDirectoryElement'' [] BEmpty),
    ([], SSetProto ''HTMLDirectoryElement'' ''HTMLElement'' []),
    ([TType ''Boolean''], SProto ''HTMLDirectoryElement'' ''compact'' (EBool False))]"

definition base_HTMLMenuElement :: "js_item list" where
  "base_HTMLMenuElement = [
    ([TAugments ''HTMLElement'', TConstructor], SFun ''HTMLMenuElement'' [] BEmpty),
    ([], SSetProto ''HTMLMenuElement'' ''HTMLElement'' []),
    ([TType ''Boolean''], SProto ''HTMLMenuElement'' ''compact'' (EBool False))]"

definition base_HTMLLIElement :: "js_item list" where
  "base_HTMLLIElement = [
    ([TAugments ''HTMLElement'', TConstructor], SFun ''HTMLLIElement'' [] BEmpty),
    ([], SSetProto ''HTMLLIElement'' ''HTMLElement'' []),
    ([TType ''String''], SProto ''HTMLLIElement'' ''type'' (EStr [])),
    ([TType ''Number''], SProto ''HTMLLIElement'' ''value'' (ENum 0))]"

definition base_HTMLDivElement :: "js_item list" where
  "base_HTMLDivElement = [
    ([TAugments ''HTMLElement'', TConstructor], SFun ''HTMLDivElement'' [] BEmpty),
    ([], SSetProto ''HTMLDivElement'' ''HTMLElement'' []),
    ([TType ''String''], SProto ''HTMLDivElement'' ''align'' (EStr []))]"

definition base_HTMLParagraphElement :: "js_item list" where
  "base_HTMLParagraphElement = [
    ([TAugments ''HTMLElement'', TConstructor], SFun ''HTMLParagraphElement'' [] BEmpty),
    ([], SSetProto ''HTMLParagraphElement'' ''HTMLElement'' []),
    ([TType ''String''], SProto ''HTMLParagraphElement'' ''align'' (EStr []))]"

definition base_HTMLHeadingElement :: "js_item list" where
  "base_HTMLHeadingElement = [
    ([TAugments ''HTMLElement'', TConstructor], SFun ''HTMLHeadingElement'' [] BEmpty),
    ([], SSetProto ''HTMLHeadingElement'' ''HTMLElement'' []),
    ([TType ''String''], SProto ''HTMLHeadingElement'' ''align'' (EStr []))]"

definition base_HTMLQuoteElement :: "js_item list" where
  "base_HTMLQuoteElement = [
    ([TAugments ''HTMLElement'', TConstructor], SFun ''HTMLQuoteElement'' [] BEmpty),
    ([], SSetProto ''HTMLQuoteElement'' ''HTMLElement'' []),
    ([TType ''String''], SProto ''HTMLQuoteElement'' ''align'' (EStr []))]"

definition base_HTMLPreElement :: "js_item list" where
  "base_HTMLPreElement = [
    ([TAugments ''HTMLElement'', TConstructor], SFun ''HTMLPreElement'' [] BEmpty),
    ([], SSetProto ''HTMLPreElement'' ''HTMLElement'' []),
    ([TType ''Number''], SProto ''HTMLPreElement'' ''width'' (ENum 0))]"

definition base_HTMLBRElement :: "js_item list" where
  "base_HTMLBRElement = [
    ([TAugments ''HTMLElement'', TConstructor], SFun ''HTMLBRElement'' [] BEmpty),
    ([], SSetProto ''HTMLBRElement'' ''HTMLElement'' []),
    ([TType ''String''], SProto ''HTMLBRElement'' ''clear'' (EStr []))]"

definition base_HTMLBaseFontElement :: "js_item list" where
  "base_HTMLBaseFontElement = [
    ([TAugments ''HTMLElement'', TConstructor], SFun ''HTMLBaseFontElement'' [] BEmpty),
    ([], SSetProto ''HTMLBaseFontElement'' ''HTMLElement'' []),
    ([TType ''String''], SProto ''HTMLBaseFontElement'' ''color'' (EStr [])),
    ([TType ''String''], SProto ''HTMLBaseFontElement'' ''face'' (EStr [])),
    ([TType ''Number''], SProto ''HTMLBaseFontElement'' ''size'' (ENum 0))]"

definition base_HTMLFontElement :: "js_item list" where
  "base_HTMLFontElement = [
    ([TAugments ''HTMLElement'', TConstructor], SFun ''HTMLFontElement'' [] BEmpty),
    ([], SSetProto ''HTMLFontElement'' ''HTMLElement'' []),
    ([TType ''String''], SProto ''HTMLFontElement'' ''color'' (EStr [])),
    ([TType ''String''], SProto ''HTMLFontElement'' ''face'' (EStr [])),
    ([TType ''Number''], SProto ''HTMLFontElement'' ''size'' (ENum 0))]"

text \<open>Part 2 of the script, in order.\<close>

definition base_js_2 :: "js_item list" where
  "base_js_2 = base_HTMLHtmlElement
     @ base_HTMLHeadElement
     @ base_HTMLLinkElement
     @ base_HTMLTitleElement
     @ base_HTMLMetaElement
     @ base_HTMLBaseElement
     @ base_HTMLIsIndexElement
     @ base_HTMLStyleElement
     @ base_HTMLBodyElement
     @ base_HTMLFormElement
     @ base_HTMLSelectElement
     @ base_HTMLOptGroupElement
     @ base_Option
     @ base_HTMLOptionElement
     @ base_HTMLInputElement_1
     @ base_HTMLInputElement_2
     @ base_HTMLTextAreaElement
     @ base_HTMLButtonElement
     @ base_HTMLLabelElement
     @ base_HTMLFieldSetElement
     @ base_HTMLLegendElement
     @ base_HTMLUListElement
     @ base_HTMLOListElement
     @ base_HTMLDListElement
     @ base_HTMLDirectoryElement
     @ base_HTMLMenuElement
     @ base_HTMLLIElement
     @ base_HTMLDivElement
     @ base_HTMLParagraphElement
     @ base_HTMLHeadingElement
     @ base_HTMLQuoteElement
     @ base_HTMLPreElement
     @ base_HTMLBRElement
     @ base_HTMLBaseFontElement
     @ base_HTMLFontElement"

lemmas base2_items = base_HTMLHtmlElement_def
  base_HTMLHeadElement_def
  base_HTMLLinkElement_def
  base_HTMLTitleElement_def
  base_HTMLMetaElement_def
  base_HTMLBaseElement_def
  base_HTMLIsIndexElement_def
  base_HTMLStyleElement_def
  base_HTMLBodyElement_def
  base_HTMLFormElement_def
  base_HTMLSelectElement_def
  base_HTMLOptGroupElement_def
  base_Option_def
  base_HTMLOptionElement_def
  base_HTMLInputElement_1_def
  base_HTMLInputElement_2_def
  base_HTMLTextAreaElement_def
  base_HTMLButtonElement_def
  base_HTMLLabelElement_def
  base_HTMLFieldSetElement_def
  base_HTMLLegendElement_def
  base_HTMLUListElement_def
  base_HTMLOListElement_def
  base_HTMLDListElement_def
  base_HTMLDirectoryElement_def
  base_HTMLMenuElement_def
  base_HTMLLIElement_def
  base_HTMLDivElement_def
  base_HTMLParagraphElement_def
  base_HTMLHeadingElement_def
  base_HTMLQuoteElement_def
  base_HTMLPreElement_def
  base_HTMLBRElement_def
  base_HTMLBaseFontElement_def
  base_HTMLFontElement_def

end
