(* ===== verification/JsBase3.thy ===== *)
theory JsBase3
  imports JsCore
begin

text \<open>
  The statements of \<open>baseBrowserLibrary.js\<close>, lines 3626 to 5393, with their documentation tags, one definition per
  class (and per 150 lines of a class), in the order of the file.
\<close>

definition base_HTMLHRElement :: "js_item list" where
  "base_HTMLHRElement = [
    ([TAugments ''HTMLElement'', TConstructor], SFun ''HTMLHRElement'' [] BEmpty),
    ([], SSetProto ''HTMLHRElement'' ''HTMLElement'' []),
    ([TType ''String''], SProto ''HTMLHRElement'' ''align'' (EStr [])),
    ([TType ''Boolean''], SProto ''HTMLHRElement'' ''noShade'' (EBool False)),
    ([TType ''String''], SProto ''HTMLHRElement'' ''size'' (EStr [])),
    ([TType ''String''], SProto ''HTMLHRElement'' ''width'' (EStr []))]"

definition base_HTMLModElement :: "js_item list" where
  "base_HTMLModElement = [
    ([TAugments ''HTMLElement'', TConstructor], SFun ''HTMLModElement'' [] BEmpty),
    ([], SSetProto ''HTMLModElement'' ''HTMLElement'' []),
    ([TType ''String''], SProto ''HTMLModElement'' ''cite'' (EStr [])),
    ([TType ''String''], SProto ''HTMLModElement'' ''dateTime'' (EStr []))]"

definition base_HTMLAnchorElement :: "js_item list" where
  "base_HTMLAnchorElement = [
    ([TAugments ''HTMLElement'', TConstructor], SFun ''HTMLAnchorElement'' [] BEmpty),
    ([], SSetProto ''HTMLAnchorElement'' ''HTMLElement'' []),
    ([TType ''String''], SProto ''HTMLAnchorElement'' ''accessKey'' (EStr [])),
    ([TType ''String''], SProto ''HTMLAnchorElement'' ''charset'' (EStr [])),
    ([TType ''String''], SProto ''HTMLAnchorElement'' ''coords'' (EStr [])),
    ([TType ''String''], SProto ''HTMLAnchorElement'' ''href'' (EStr [])),
    ([TType ''String''], SProto ''HTMLAnchorElement'' ''hreflang'' (EStr [])),
    ([TType ''String''], SProto ''HTMLAnchorElement'' ''name'' (EStr [])),
    ([TType ''String''], SProto ''HTMLAnchorElement'' ''rel'' (EStr [])),
    ([TType ''String''], SProto ''HTMLAnchorElement'' ''rev'' (EStr [])),
    ([TType ''String''], SProto ''HTMLAnchorElement'' ''shape'' (EStr [])),
    ([TType ''Number''], SProto ''HTMLAnchorElement'' ''tabIndex'' (ENum 0)),
    ([TType ''String''], SProto ''HTMLAnchorElement'' ''target'' (EStr [])),
    ([TType ''String''], SProto ''HTMLAnchorElement'' ''type'' (EStr [])),
    ([], SProto ''HTMLAnchorElement'' ''blur'' (EFun [] BEmpty)),
    ([], SProto ''HTMLAnchorElement'' ''focus'' (EFun [] BEmpty))]"

definition base_Image :: "js_item list" where
  "base_Image = [
    ([TConstructor, TParam ''Number'' ''width'', TParam ''Number'' ''height''], SFun ''Image'' [''width'', ''height''] BEmpty),
    ([], SSetProto ''Image'' ''HTMLImageElement'' [])]"

definition base_HTMLImageElement :: "js_item list" where
  "base_HTMLImageElement = [
    ([TAugments ''HTMLElement'', TConstructor], SFun ''HTMLImageElement'' [] BEmpty),
    ([], SSetProto ''HTMLImageElement'' ''HTMLElement'' []),
    ([TType ''String''], SProto ''HTMLImageElement'' ''name'' (EStr [])),
    ([TType ''String''], SProto ''HTMLImageElement'' ''align'' (EStr [])),
    ([TType ''String''], SProto ''HTMLImageElement'' ''alt'' (EStr [])),
    ([TType ''String''], SProto ''HTMLImageElement'' ''border'' (EStr [])),
    ([TType ''Number''], SProto ''HTMLImageElement'' ''height'' (ENum 0)),
    ([TType ''Number''], SProto ''HTMLImageElement'' ''hspace'' (ENum 0)),
    ([TType ''Boolean''], SProto ''HTMLImageElement'' ''isMap'' (EBool False)),
    ([TType ''String''], SProto ''HTMLImageElement'' ''longDesc'' (EStr [])),
    ([TType ''String''], SProto ''HTMLImageElement'' ''src'' (EStr [])),
    ([TType ''String''], SProto ''HTMLImageElement'' ''useMap'' (EStr [])),
    ([TType ''Number''], SProto ''HTMLImageElement'' ''vspace'' (ENum 0)),
    ([TType ''Number''], SProto ''HTMLImageElement'' ''width'' (ENum 0))]"

definition base_HTMLObjectElement_1 :: "js_item list" where
  "base_HTMLObjectElement_1 = [
    ([TAugments ''HTMLElement'', TConstructor], SFun ''HTMLObjectElement'' [] BEmpty),
    ([], SSetProto ''HTMLObjectElement'' ''HTMLElement'' []),
    ([TType ''HTMLFormElement''], SProto ''HTMLObjectElement'' ''form'' (ENew ''HTMLFormElement'' [])),
    ([TType ''String''], SProto ''HTMLObjectElement'' ''code'' (EStr [])),
    ([TType ''String''], SProto ''HTMLObjectElement'' ''align'' (EStr [])),
    ([TType ''String''], SProto ''HTMLObjectElement'' ''archive'' (EStr [])),
    ([TType ''String''], SProto ''HTMLObjectElement'' ''border'' (EStr [])),
    ([TType ''String''], SProto ''HTMLObjectElement'' ''codeBase'' (EStr [])),
    ([TType ''String''], SProto ''HTMLObjectElement'' ''codeType'' (EStr [])),
    ([TType ''String''], SProto ''HTMLObjectElement'' ''data'' (EStr [])),
    ([TType ''Boolean''], SProto ''HTMLObjectElement'' ''declare'' (EBool False)),
    ([TType ''String''], SProto ''HTMLObjectElement'' ''height'' (EStr [])),
    ([TType ''Number''], SProto ''HTMLObjectElement'' ''hspace'' (ENum 0)),
    ([TType ''String''], SProto ''HTMLObjectElement'' ''name'' (EStr [])),
    ([TType ''String''], SProto ''HTMLObjectElement'' ''standby'' (EStr [])),
    ([TType ''Number''], SProto ''HTMLObjectElement'' ''tabIndex'' (ENum 0)),
    ([TType ''String''], SProto ''HTMLObjectElement'' ''type'' (EStr []))]"

definition base_HTMLObjectElement_2 :: "js_item list" where
  "base_HTMLObjectElement_2 = [
    ([TType ''String''], SProto ''HTMLObjectElement'' ''useMap'' (EStr [])),
    ([TType ''Number''], SProto ''HTMLObjectElement'' ''vspace'' (ENum 0)),
    ([TType ''String''], SProto ''HTMLObjectElement'' ''width'' (EStr [])),
    ([TType ''Document''], SProto ''HTMLObjectElement'' ''contentDocument'' (ENew ''HTMLDocument'' []))]"

definition base_HTMLParamElement :: "js_item list" where
  "base_HTMLParamElement = [
    ([TAugments ''HTMLElement'', TConstructor], SFun ''HTMLParamElement'' [] BEmpty),
    ([], SSetProto ''HTMLParamElement'' ''HTMLElement'' []),
    ([TType ''String''], SProto ''HTMLParamElement'' ''name'' (EStr [])),
    ([TType ''String''], SProto ''HTMLParamElement'' ''type'' (EStr [])),
    ([TType ''String''], SProto ''HTMLParamElement'' ''value'' (EStr [])),
    ([TType ''String''], SProto ''HTMLParamElement'' ''valueType'' (EStr []))]"

definition base_HTMLAppletElement :: "js_item list" where
  "base_HTMLAppletElement = [
    ([TAugments ''HTMLElement'', TConstructor], SFun ''HTMLAppletElement'' [] BEmpty),
    ([], SSetProto ''HTMLAppletElement'' ''HTMLElement'' []),
    ([TType ''String''], SProto ''HTMLAppletElement'' ''align'' (EStr [])),
    ([TType ''String''], SProto ''HTMLAppletElement'' ''alt'' (EStr [])),
    ([TType ''String''], SProto ''HTMLAppletElement'' ''archive'' (EStr [])),
    ([TType ''String''], SProto ''HTMLAppletElement'' ''code'' (EStr [])),
    ([TType ''String''], SProto ''HTMLAppletElement'' ''codeBase'' (EStr [])),
    ([TType ''String''], SProto ''HTMLAppletElement'' ''hight'' (EStr [])),
    ([TType ''Number''], SProto ''HTMLAppletElement'' ''hspace'' (ENum 0)),
    ([TType ''String''], SProto ''HTMLAppletElement'' ''name'' (EStr [])),
    ([TType ''String''], SProto ''HTMLAppletElement'' ''object'' (EStr [])),
    ([TType ''Number''], SProto ''HTMLAppletElement'' ''vspace'' (ENum 0)),
    ([TType ''String''], SProto ''HTMLAppletElement'' ''width'' (EStr []))]"

definition base_HTMLMapElement :: "js_item list" where
  "base_HTMLMapElement = [
    ([TAugments ''HTMLElement'', TConstructor], SFun ''HTMLMapElement'' [] BEmpty),
    ([], SSetProto ''HTMLMapElement'' ''HTMLElement'' []),
    ([TType ''HTMLCollection''], SProto ''HTMLMapElement'' ''areas'' (ENew ''HTMLCollection'' [])),
    ([TType ''String''], SProto ''HTMLMapElement'' ''name'' (EStr []))]"

definition base_HTMLAreaElement :: "js_item list" where
  "base_HTMLAreaElement = [
    ([TAugments ''HTMLElement'', TConstructor], SFun ''HTMLAreaElement'' [] BEmpty),
    ([], SSetProto ''HTMLAreaElement'' ''HTMLElement'' []),
    ([TType ''String''], SProto ''HTMLAreaElement'' ''accessKey'' (EStr [])),
    ([TType ''String''], SProto ''HTMLAreaElement'' ''alt'' (EStr [])),
    ([TType ''String''], SProto ''HTMLAreaElement'' ''coords'' (EStr [])),
    ([TType ''String''], SProto ''HTMLAreaElement'' ''href'' (EStr [])),
    ([TType ''Boolean''], SProto ''HTMLAreaElement'' ''noHref'' (EBool False)),
    ([TType ''String''], SProto ''HTMLAreaElement'' ''shape'' (EStr [])),
    ([TType ''Number''], SProto ''HTMLAreaElement'' ''tabIndex'' (ENum 0)),
    ([TType ''String''], SProto ''HTMLAreaElement'' ''target'' (EStr []))]"

definition base_HTMLScriptElement :: "js_item list" where
  "base_HTMLScriptElement = [
    ([TAugments ''HTMLElement'', TConstructor], SFun ''HTMLScriptElement'' [] BEmpty),
    ([], SSetProto ''HTMLScriptElement'' ''HTMLElement'' []),
    ([TType ''String''], SProto ''HTMLScriptElement'' ''text'' (EStr [])),
    ([TType ''String''], SProto ''HTMLScriptElement'' ''htmlFor'' (EStr [])),
    ([TType ''String''], SProto ''HTMLScriptElement'' ''event'' (EStr [])),
    ([TType ''String''], SProto ''HTMLScriptElement'' ''charset'' (EStr [])),
    ([TType ''String''], SProto ''HTMLScriptElement'' ''defer'' (EStr [])),
    ([TType ''String''], SProto ''HTMLScriptElement'' ''src'' (EStr [])),
    ([TType ''String''], SProto ''HTMLScriptElement'' ''type'' (EStr []))]"

definition base_HTMLTableElement_1 :: "js_item list" where
  "base_HTMLTableElement_1 = [
    ([TAugments ''HTMLElement'', TConstructor], SFun ''HTMLTableElement'' [] BEmpty),
    ([], SSetProto ''HTMLTableElement'' ''HTMLElement'' []),
    ([TType ''HTMLTableCaptionElement'', TThrows ''DOMException''], SProto ''HTMLTableElement'' ''caption'' (ENew ''HTMLTableCaptionElement'' [])),
    ([TType ''HTMLTableSectionElement'', TThrows ''DOMException''], SProto ''HTMLTableElement'' ''tHead'' (ENew ''HTMLTableSelectionElement'' [])),
    ([TType ''HTMLTableSectionElement'', TThrows ''DOMException''], SProto ''HTMLTableElement'' ''tFoot'' (ENew ''HTMLTableSelectionElement'' [])),
    ([TType ''HTMLCollection''], SProto ''HTMLTableElement'' ''rows'' (ENew ''HTMLCollection'' [])),
    ([TType ''HTMLCollection''], SProto ''HTMLTableElement'' ''tBodies'' (ENew ''HTMLCollection'' [])),
    ([TType ''String''], SProto ''HTMLTableElement'' ''align'' (EStr [])),
    ([TType ''String''], SProto ''HTMLTableElement'' ''bgColor'' (EStr [])),
    ([TType ''String''], SProto ''HTMLTableElement'' ''border'' (EStr [])),
    ([TType ''String''], SProto ''HTMLTableElement'' ''cellPadding'' (EStr [])),
    ([TType ''String''], SProto ''HTMLTableElement'' ''cellSpacing'' (EStr [])),
    ([TType ''String''], SProto ''HTMLTableElement'' ''frame'' (EStr [])),
    ([TType ''String''], SProto ''HTMLTableElement'' ''rules'' (EStr [])),
    ([TType ''String''], SProto ''HTMLTableElement'' ''summary'' (EStr [])),
    ([TType ''String''], SProto ''HTMLTableElement'' ''width'' (EStr [])),
    ([TReturns ''HTMLElement''], SProto ''HTMLTableElement'' ''createTHead'' (EFun [] (BReturn (ENew ''HTMLElement'' []))))]"

definition base_HTMLTableElement_2 :: "js_item list" where
  "base_HTMLTableElement_2 = [
    ([], SProto ''HTMLTableElement'' ''deleteTHead'' (EFun [] BEmpty)),
    ([TReturns ''HTMLElement''], SProto ''HTMLTableElement'' ''createTFoot'' (EFun [] (BReturn (ENew ''HTMLElement'' [])))),
    ([], SProto ''HTMLTableElement'' ''deleteTFoot'' (EFun [] BEmpty)),
    ([TReturns ''HTMLElement''], SProto ''HTMLTableElement'' ''createCaption'' (EFun [] (BReturn (ENew ''HTMLElement'' [])))),
    ([], SProto ''HTMLTableElement'' ''deleteCaption'' (EFun [] BEmpty)),
    ([TParam ''Number'' ''index'', TReturns ''HTMLElement'', TThrows ''DOMException''], SProto ''HTMLTableElement'' ''insertRow'' (EFun [''index''] (BReturn (ENew ''HTMLElement'' [])))),
    ([TParam ''Number'' ''index'', TThrows ''DOMException''], SProto ''HTMLTableElement'' ''deleteRow'' (EFun [''index''] BEmpty))]"

definition base_HTMLTableCaptionElement :: "js_item list" where
  "base_HTMLTableCaptionElement = [
    ([TAugments ''HTMLElement'', TConstructor], SFun ''HTMLTableCaptionElement'' [] BEmpty),
    ([], SSetProto ''HTMLTableCaptionElement'' ''HTMLElement'' []),
    ([TType ''String''], SProto ''HTMLTableCaptionElement'' ''align'' (EStr []))]"

definition base_HTMLTableColElement :: "js_item list" where
  "base_HTMLTableColElement = [
    ([TAugments ''HTMLElement'', TConstructor], SFun ''HTMLTableColElement'' [] BEmpty),
    ([], SSetProto ''HTMLTableColElement'' ''HTMLElement'' []),
    ([TType ''String''], SProto ''HTMLTableColElement'' ''align'' (EStr [])),
    ([TType ''String''], SProto ''HTMLTableColElement'' ''ch'' (EStr [])),
    ([TType ''String''], SProto ''HTMLTableColElement'' ''chOff'' (EStr [])),
    ([TType ''Number''], SProto ''HTMLTableColElement'' ''span'' (ENum 0)),
    ([TType ''String''], SProto ''HTMLTableColElement'' ''vAlign'' (EStr [])),
    ([TType ''String''], SProto ''HTMLTableColElement'' ''width'' (EStr []))]"

definition base_HTMLTableSelectionElement :: "js_item list" where
  "base_HTMLTableSelectionElement = [
    ([TAugments ''HTMLElement'', TConstructor], SFun ''HTMLTableSelectionElement'' [] BEmpty),
    ([], SSetProto ''HTMLTableSelectionElement'' ''HTMLElement'' []),
    ([TType ''String''], SProto ''HTMLTableSelectionElement'' ''align'' (EStr [])),
    ([TType ''String''], SProto ''HTMLTableSelectionElement'' ''ch'' (EStr [])),
    ([TType ''String''], SProto ''HTMLTableSelectionElement'' ''chOff'' (EStr [])),
    ([TType ''String''], SProto ''HTMLTableSelectionElement'' ''vAlign'' (EStr [])),
    ([TType ''String''], SProto ''HTMLTableSelectionElement'' ''rows'' (EStr [])),
    ([TParam ''Number'' ''index'', TReturns ''HTMLElement'', TThrows ''DOMException''], SProto ''HTMLTableSelectionElement'' ''insertRow'' (EFun [''index''] (BReturn (ENew ''HTMLElement'' [])))),
    ([TParam ''Number'' ''index'', TThrows ''DOMException''], SProto ''HTMLTableSelectionElement'' ''deleteRow'' (EFun [''index''] BEmpty))]"

definition base_HTMLTableRowElement :: "js_item list" where
  "base_HTMLTableRowElement = [
    ([TAugments ''HTMLElement'', TConstructor], SFun ''HTMLTableRowElement'' [] BEmpty),
    ([], SSetProto ''HTMLTableRowElement'' ''HTMLElement'' []),
    ([TType ''Number''], SProto ''HTMLTableRowElement'' ''rowIndex'' (ENum 0)),
    ([TType ''Number''], SProto ''HTMLTableRowElement'' ''sectionRowIndex'' (ENum 0)),
    ([TType ''HTMLCollection''], SProto ''HTMLTableRowElement'' ''cells'' (ENew ''HTMLCollection'' [])),
    ([TType ''String''], SProto ''HTMLTableRowElement'' ''align'' (EStr [])),
    ([TType ''String''], SProto ''HTMLTableRowElement'' ''bgColor'' (EStr [])),
    ([TType ''String''], SProto ''HTMLTableRowElement'' ''ch'' (EStr [])),
    ([TType ''String''], SProto ''HTMLTableRowElement'' ''chOff'' (EStr [])),
    ([TType ''String''], SProto ''HTMLTableRowElement'' ''vAlign'' (EStr [])),
    ([TParam ''Number'' ''index'', TReturns ''HTMLElement'', TThrows ''DOMException''], SProto ''HTMLTableRowElement'' ''insertCell'' (EFun [''index''] (BReturn (ENew ''HTMLElement'' [])))),
    ([TParam ''Number'' ''index'', TThrows ''DOMException''], SProto ''HTMLTableRowElement'' ''deleteCell'' (EFun [''index''] BEmpty))]"

definition base_HTMLTableCellElement :: "js_item list" where
  "base_HTMLTableCellElement = [
    ([TAugments ''HTMLElement'', TConstructor], SFun ''HTMLTableCellElement'' [] BEmpty),
    ([], SSetProto ''HTMLTableCellElement'' ''HTMLElement'' []),
    ([TType ''Number''], SProto ''HTMLTableCellElement'' ''cellIndex'' (ENum 0)),
    ([TType ''String''], SProto ''HTMLTableCellElement'' ''abbr'' (EStr [])),
    ([TType ''String''], SProto ''HTMLTableCellElement'' ''align'' (EStr [])),
    ([TType ''String''], SProto ''HTMLTableCellElement'' ''axis'' (EStr [])),
    ([TType ''String''], SProto ''HTMLTableCellElement'' ''bgColor'' (EStr [])),
    ([TType ''String''], SProto ''HTMLTableCellElement'' ''ch'' (EStr [])),
    ([TType ''String''], SProto ''HTMLTableCellElement'' ''chOff'' (EStr [])),
    ([TType ''Number''], SProto ''HTMLTableCellElement'' ''colSpan'' (ENum 0)),
    ([TType ''String''], SProto ''HTMLTableCellElement'' ''headers'' (EStr [])),
    ([TType ''String''], SProto ''HTMLTableCellElement'' ''height'' (EStr [])),
    ([TType ''Boolean''], SProto ''HTMLTableCellElement'' ''noWrap'' (EBool False)),
    ([TType ''Number''], SProto ''HTMLTableCellElement'' ''rowSpan'' (ENum 0)),
    ([TType ''String''], SProto ''HTMLTableCellElement'' ''scope'' (EStr [])),
    ([TType ''String''], SProto ''HTMLTableCellElement'' ''vAlign'' (EStr [])),
    ([TType ''String''], SProto ''HTMLTableCellElement'' ''width'' (EStr []))]"

definition base_HTMLFrameSetElement :: "js_item list" where
  "base_HTMLFrameSetElement = [
    ([TAugments ''HTMLElement'', TConstructor], SFun ''HTMLFrameSetElement'' [] BEmpty),
    ([], SSetProto ''HTMLFrameSetElement'' ''HTMLElement'' []),
    ([TType ''String''], SProto ''HTMLFrameSetElement'' ''cols'' (EStr [])),
    ([TType ''String''], SProto ''HTMLFrameSetElement'' ''rows'' (EStr []))]"

definition base_HTMLFrameElement :: "js_item list" where
  "base_HTMLFrameElement = [
    ([TAugments ''HTMLElement'', TConstructor], SFun ''HTMLFrameElement'' [] BEmpty),
    ([], SSetProto ''HTMLFrameElement'' ''HTMLElement'' []),
    ([TType ''String''], SProto ''HTMLFrameElement'' ''frameBorder'' (EStr [])),
    ([TType ''String''], SProto ''HTMLFrameElement'' ''longDesc'' (EStr [])),
    ([TType ''String''], SProto ''HTMLFrameElement'' ''marginHeight'' (EStr [])),
    ([TType ''String''], SProto ''HTMLFrameElement'' ''marginWidth'' (EStr [])),
    ([TType ''String''], SProto ''HTMLFrameElement'' ''name'' (EStr [])),
    ([TType ''Boolean''], SProto ''HTMLFrameElement'' ''noResize'' (EBool False)),
    ([TType ''String''], SProto ''HTMLFrameElement'' ''scrolling'' (EStr [])),
    ([TType ''String''], SProto ''HTMLFrameElement'' ''src'' (EStr [])),
    ([TType ''Document''], SProto ''HTMLFrameElement'' ''contentDocument'' (ENew ''HTMLDocument'' []))]"

definition base_HTMLIFrameElement :: "js_item list" where
  "base_HTMLIFrameElement = [
    ([TAugments ''HTMLElement'', TConstructor], SFun ''HTMLIFrameElement'' [] BEmpty),
    ([], SSetProto ''HTMLIFrameElement'' ''HTMLElement'' []),
    ([TType ''String''], SProto ''HTMLIFrameElement'' ''align'' (EStr [])),
    ([TType ''String''], SProto ''HTMLIFrameElement'' ''frameBorder'' (EStr [])),
    ([TType ''String''], SProto ''HTMLIFrameElement'' ''height'' (EStr [])),
    ([TType ''String''], SProto ''HTMLIFrameElement'' ''longDesc'' (EStr [])),
    ([TType ''String''], SProto ''HTMLIFrameElement'' ''marginHeight'' (EStr [])),
    ([TType ''String''], SProto ''HTMLIFrameElement'' ''marginWidth'' (EStr [])),
    ([TType ''String''], SProto ''HTMLIFrameElement'' ''name'' (EStr [])),
    ([TType ''String''], SProto ''HTMLIFrameElement'' ''scrolling'' (EStr [])),
    ([TType ''String''], SProto ''HTMLIFrameElement'' ''src'' (EStr [])),
    ([TType ''String''], SProto ''HTMLIFrameElement'' ''width'' (EStr [])),
    ([TType ''Document''], SProto ''HTMLIFrameElement'' ''contentDocument'' (ENew ''HTMLDocument'' []))]"

definition base_CSS2Properties :: "js_item list" where
  "base_CSS2Properties = [
    ([TAugments ''Object'', TConstructor], SFun ''CSS2Properties'' [] BEmpty),
    ([], SSetProto ''CSS2Properties'' ''Object'' [])]"

text \<open>Part 3 of the script, in order.\<close>

definition base_js_3 :: "js_item list" where
  "base_js_3 = base_HTMLHRElement
     @ base_HTMLModElement
     @ base_HTMLAnchorElement
     @ base_Image
     @ base_HTMLImageElement
     @ base_HTMLObjectElement_1
     @ base_HTMLObjectElement_2
     @ base_HTMLParamElement
     @ base_HTMLAppletElement
     @ base_HTMLMapElement
     @ base_HTMLAreaElement
     @ base_HTMLScriptElement
     @ base_HTMLTableElement_1
     @ base_HTMLTableElement_2
     @ base_HTMLTableCaptionElement
     @ base_HTMLTableColElement
     @ base_HTMLTableSelectionElement
     @ base_HTMLTableRowElement
     @ base_HTMLTableCellElement
     @ base_HTMLFrameSetElement
     @ base_HTMLFrameElement
     @ base_HTMLIFrameElement
     @ base_CSS2Properties"

lemmas base3_items = base_HTMLHRElement_def
  base_HTMLModElement_def
  base_HTMLAnchorElement_def
  base_Image_def
  base_HTMLImageElement_def
  base_HTMLObjectElement_1_def
  base_HTMLObjectElement_2_def
  base_HTMLParamElement_def
  base_HTMLAppletElement_def
  base_HTMLMapElement_def
  base_HTMLAreaElement_def
  base_HTMLScriptElement_def
  base_HTMLTableElement_1_def
  base_HTMLTableElement_2_def
  base_HTMLTableCaptionElement_def
  base_HTMLTableColElement_def
  base_HTMLTableSelectionElement_def
  base_HTMLTableRowElement_def
  base_HTMLTableCellElement_def
  base_HTMLFrameSetElement_def
  base_HTMLFrameElement_def
  base_HTMLIFrameElement_def
  base_CSS2Properties_def

end
