(* ===== verification/JsWindow.thy ===== *)
theory JsWindow
  imports JsCore
begin

text \<open>
  The statements of \<open>browserWindow.js\<close> with their documentation tags, one definition per
  class (and per 150 lines of a class), in the order of the file.
\<close>

definition window_BarProp :: "js_item list" where
  "window_BarProp = [
    ([], SFun ''BarProp'' [] BEmpty),
    ([], SSetProto ''BarProp'' ''Array'' [])]"

definition window_Window_1 :: "js_item list" where
  "window_Window_1 = [
    ([TSuper ''Global'', TConstructor], SFun ''Window'' [] BEmpty),
    ([], SSetProto ''Window'' ''EventTarget'' []),
    ([], SProto ''Window'' ''self'' (ENew ''Window'' [])),
    ([], SProto ''Window'' ''window'' (ENew ''Window'' [])),
    ([], SProto ''Window'' ''frames'' (ENew ''Array'' [])),
    ([TType ''Boolean'', TMemberOf ''Window''], SProto ''Window'' ''closed'' (ENew ''Boolean'' [])),
    ([TType ''String'', TMemberOf ''Window''], SProto ''Window'' ''defaultStatus'' (EStr [])),
    ([TType ''Document'', TMemberOf ''Window''], SProto ''Window'' ''document'' (ENew ''HTMLDocument'' [])),
    ([TType ''History'', TMemberOf ''Window''], SProto ''Window'' ''history'' (ENew ''History'' [])),
    ([TType ''Location'', TMemberOf ''Window''], SProto ''Window'' ''location'' (ENew ''Location'' [])),
    ([TType ''String'', TMemberOf ''Window''], SProto ''Window'' ''name'' (EStr [])),
    ([TType ''Navigator'', TMemberOf ''Window''], SProto ''Window'' ''navigator'' (ENew ''Navigator'' [])),
    ([TType ''Window'', TMemberOf ''Window''], SProto ''Window'' ''opener'' (ENew ''Window'' [])),
    ([TType ''Number'', TMemberOf ''Window''], SProto ''Window'' ''outerWidth'' (ENum 0)),
    ([TType ''Number'', TMemberOf ''Window''], SProto ''Window'' ''outerHeight'' (ENum 0)),
    ([TType ''Number'', TMemberOf ''Window''], SProto ''Window'' ''pageXOffset'' (ENum 0)),
    ([TType ''Number'', TMemberOf ''Window''], SProto ''Window'' ''pageYOffset'' (ENum 0)),
    ([TType ''Window'', TMemberOf ''Window''], SProto ''Window'' ''parent'' (ENew ''Window'' [])),
    ([TType ''Screen'', TMemberOf ''Window''], SProto ''Window'' ''screen'' (ENew ''Screen'' [])),
    ([TType ''String'', TMemberOf ''Window''], SProto ''Window'' ''status'' (EStr [])),
    ([TType ''Window'', TMemberOf ''Window''], SProto ''Window'' ''top'' (ENew ''Window'' [])),
    ([TType ''Number'', TMemberOf ''Window''], SProto ''Window'' ''innerWidth'' (ENum 0)),
    ([TType ''Number'', TMemberOf ''Window''], SProto ''Window'' ''innerHeight'' (ENum 0)),
    ([TType ''Number'', TMemberOf ''Window''], SProto ''Window'' ''screenX'' (ENum 0)),
    ([TType ''Number'', TMemberOf ''Window''], SProto ''Window'' ''screenY'' (ENum 0)),
    ([TType ''Number'', TMemberOf ''Window''], SProto ''Window'' ''screenLeft'' (ENum 0)),
    ([TType ''Number'', TMemberOf ''Window''], SProto ''Window'' ''screenTop'' (ENum 0))]"

definition window_Window_2 :: "js_item list" where
  "window_Window_2 = [
    ([], SProto ''Window'' ''length'' (ENum 0)),
    ([], SProto ''Window'' ''scrollbars'' (ENew ''BarProp'' [])),
    ([], SProto ''Window'' ''scrollX'' (ENum 0)),
    ([], SProto ''Window'' ''scrollY'' (ENum 0)),
    ([], SProto ''Window'' ''content'' (ENew ''Window'' [])),
    ([], SProto ''Window'' ''menubar'' (ENew ''BarProp'' [])),
    ([], SProto ''Window'' ''toolbar'' (ENew ''BarProp'' [])),
    ([], SProto ''Window'' ''locationbar'' (ENew ''BarProp'' [])),
    ([], SProto ''Window'' ''personalbar'' (ENew ''BarProp'' [])),
    ([], SProto ''Window'' ''statusbar'' (ENew ''BarProp'' [])),
    ([], SProto ''Window'' ''directories'' (ENew ''BarProp'' [])),
    ([], SProto ''Window'' ''scrollMaxX'' (ENum 0)),
    ([], SProto ''Window'' ''scrollMaxY'' (ENum 0)),
    ([], SProto ''Window'' ''fullScreen'' (EStr [])),
    ([], SProto ''Window'' ''frameElement'' (EStr [])),
    ([TParam ''String'' ''message'', TMemberOf ''Window''], SProto ''Window'' ''alert'' (EFun [''message''] BEmpty)),
    ([TMemberOf ''Window''], SProto ''Window'' ''blur'' (EFun [] BEmpty)),
    ([TParam [] ''intervalID'', TMemberOf ''Window''], SProto ''Window'' ''clearInterval'' (EFun [''intervalID''] BEmpty)),
    ([TParam [] ''intervalID'', TMemberOf ''Window''], SProto ''Window'' ''clearTimeout'' (EFun [''intervalID''] BEmpty)),
    ([TMemberOf ''Window''], SProto ''Window'' ''close'' (EFun [] BEmpty)),
    ([TParam ''String'' ''arg'', TMemberOf ''Window'', TReturns ''Boolean''], SProto ''Window'' ''confirm'' (EFun [''arg''] (BReturn (EBool False)))),
    ([TMemberOf ''Window''], SProto ''Window'' ''focus'' (EFun [] BEmpty)),
    ([TParam ''Element'' ''element'', TParam ''String'' ''pseudoElt'', TMemberOf ''Window'', TReturns ''Object''], SProto ''Window'' ''getComputedStyle'' (EFun [''element'', ''pseudoElt''] (BReturn (ENew ''Object'' [])))),
    ([TParam ''Number'' ''x'', TParam ''Number'' ''y'', TMemberOf ''Window''], SProto ''Window'' ''moveTo'' (EFun [''x'', ''y''] BEmpty)),
    ([TParam ''Number'' ''deltaX'', TParam ''Number'' ''deltaY'', TMemberOf ''Window''], SProto ''Window'' ''moveBy'' (EFun [''deltaX'', ''deltaY''] BEmpty)),
    ([TParam ''String'' ''url'', TParam ''String'' ''windowName'', TParam ''String'' ''windowFeatures'', TParam ''Boolean'' ''optionalArg4'', TMemberOf ''Window'', TReturns ''Window''], SProto ''Window'' ''open'' (EFun [''url'', ''windowName'', ''windowFeatures'', ''optionalArg4''] (BReturn (ENew ''Window'' [])))),
    ([TMemberOf ''Window''], SProto ''Window'' ''print'' (EFun [] BEmpty)),
    ([TParam ''String'' ''text'', TParam ''String'' ''value'', TMemberOf ''Window'', TReturns ''String''], SProto ''Window'' ''prompt'' (EFun [''text'', ''value''] (BReturn (EStr [])))),
    ([TParam ''Number'' ''newOuterWidth'', TParam ''Number'' ''newOuterHeighr'', TMemberOf ''Window''], SProto ''Window'' ''resizeTo'' (EFun [''newOuterWidth'', ''newOuterHeight''] BEmpty)),
    ([TParam ''Number'' ''deltaX'', TParam ''Number'' ''deltaY'', TMemberOf ''Window''], SProto ''Window'' ''resizeBy'' (EFun [''deltaX'', ''deltaY''] BEmpty)),
    ([TParam ''Number'' ''x'', TParam ''Number'' ''y'', TMemberOf ''Window''], SProto ''Window'' ''scrollTo'' (EFun [''x'', ''y''] BEmpty)),
    ([TParam ''Number'' ''pixelX'', TParam ''Number'' ''pixelY'', TMemberOf ''Window''], SProto ''Window'' ''scrollBy'' (EFun [''pixelX'', ''pixelY''] BEmpty)),
    ([TParam ''Function'' ''callback'', TParam ''Number'' ''delay'', TMemberOf ''Window'', TReturns ''Number''], SProto ''Window'' ''setInterval'' (EFun [''callback'', ''delay''] (BReturn (ENum 0)))),
    ([TParam ''Function'' ''callback'', TParam ''Number'' ''delay'', TMemberOf ''Window'', TReturns ''Number''], SProto ''Window'' ''setTimeout'' (EFun [''callback'', ''delay''] (BReturn (ENum 0))))]"

definition window_Window_3 :: "js_item list" where
  "window_Window_3 = [
    ([TParam ''String'' ''encodedData'', TMemberOf ''Window'', TReturns ''String''], SProto ''Window'' ''atob'' (EFun [''encodedData''] (BReturn (EStr [])))),
    ([TParam ''String'' ''stringToEncode'', TMemberOf ''Window'', TReturns ''String''], SProto ''Window'' ''btoa'' (EFun [''stringToEncode''] (BReturn (EStr [])))),
    ([TParam ''Boolean'' ''resizable'', TMemberOf ''Window''], SProto ''Window'' ''setResizable'' (EFun [''resizable''] BEmpty)),
    ([], SProto ''Window'' ''captureEvents'' (EFun [''eventType''] BEmpty)),
    ([], SProto ''Window'' ''releaseEvents'' (EFun [''eventType''] BEmpty)),
    ([], SProto ''Window'' ''routeEvent'' (EFun [''eventType''] BEmpty)),
    ([], SProto ''Window'' ''enableExternalCapture'' (EFun [] BEmpty)),
    ([], SProto ''Window'' ''disableExternalCapture'' (EFun [] BEmpty)),
    ([], SProto ''Window'' ''find'' (EFun [] BEmpty)),
    ([], SProto ''Window'' ''back'' (EFun [] BEmpty)),
    ([], SProto ''Window'' ''forward'' (EFun [] BEmpty)),
    ([], SProto ''Window'' ''home'' (EFun [] BEmpty)),
    ([], SProto ''Window'' ''stop'' (EFun [] BEmpty)),
    ([TParam ''Number'' ''pixelX'', TParam ''Number'' ''pixelY''], SProto ''Window'' ''scroll'' (EFun [''pixelX'', ''pixelY''] BEmpty))]"

definition window_History :: "js_item list" where
  "window_History = [
    ([TSuper ''Object'', TConstructor], SFun ''History'' [] BEmpty),
    ([], SSetProto ''History'' ''Object'' []),
    ([], SProto ''History'' ''history'' (ENew ''History'' [])),
    ([TType ''Number'', TMemberOf ''History''], SProto ''History'' ''length'' (ENum 0)),
    ([TMemberOf ''History''], SProto ''History'' ''back'' (EFun [] BEmpty)),
    ([TMemberOf ''History''], SProto ''History'' ''forward'' (EFun [] BEmpty)),
    ([TParam [] ''arg'', TMemberOf ''History''], SProto ''History'' ''go'' (EFun [''arg''] BEmpty))]"

definition window_Location :: "js_item list" where
  "window_Location = [
    ([TSuper ''Object'', TConstructor], SFun ''Location'' [] BEmpty),
    ([], SSetProto ''Location'' ''Object'' []),
    ([], SProto ''Location'' ''location'' (ENew ''Location'' [])),
    ([TType ''String'', TMemberOf ''Location''], SProto ''Location'' ''hash'' (EStr [])),
    ([TType ''String'', TMemberOf ''Location''], SProto ''Location'' ''host'' (EStr [])),
    ([TType ''String'', TMemberOf ''Location''], SProto ''Location'' ''hostname'' (EStr [])),
    ([TType ''String'', TMemberOf ''Location''], SProto ''Location'' ''href'' (EStr [])),
    ([TType ''String'', TMemberOf ''Location''], SProto ''Location'' ''pathname'' (EStr [])),
    ([TType ''String'', TMemberOf ''Location''], SProto ''Location'' ''port'' (EStr [])),
    ([TType ''String'', TMemberOf ''Location''], SProto ''Location'' ''protocol'' (EStr [])),
    ([TType ''String'', TMemberOf ''Location''], SProto ''Location'' ''search'' (EStr [])),
    ([TParam ''String'' ''arg'', TMemberOf ''Location''], SProto ''Location'' ''assign'' (EFun [''arg''] BEmpty)),
    ([TParam ''Boolean'' ''optionalArg'', TMemberOf ''Location''], SProto ''Location'' ''reload'' (EFun [''optionalArg''] BEmpty)),
    ([TParam ''String'' ''arg'', TMemberOf ''Location''], SProto ''Location'' ''replace'' (EFun [''arg''] BEmpty))]"

definition window_Navigator_1 :: "js_item list" where
  "window_Navigator_1 = [
    ([TSuper ''Object'', TConstructor], SFun ''Navigator'' [] BEmpty),
    ([], SSetProto ''Navigator'' ''Object'' []),
    ([], SProto ''Navigator'' ''navigator'' (ENew ''Navigator'' [])),
    ([TType ''String'', TMemberOf ''Navigator''], SProto ''Navigator'' ''appCodeName'' (EStr [])),
    ([TType ''String'', TMemberOf ''Navigator''], SProto ''Navigator'' ''appName'' (EStr [])),
    ([TType ''String'', TMemberOf ''Navigator''], SProto ''Navigator'' ''appVersion'' (EStr [])),
    ([TType ''Boolean'', TMemberOf ''Navigator''], SProto ''Navigator'' ''cookieEnabled'' (ENew ''Boolean'' [])),
    ([TType ''Array'', TMemberOf ''Navigator''], SProto ''Navigator'' ''mimeTypes'' (ENew ''Array'' [])),
    ([TType ''String'', TMemberOf ''Navigator''], SProto ''Navigator'' ''platform'' (EStr [])),
    ([TType ''Array'', TMemberOf ''Navigator''], SProto ''Navigator'' ''plugins'' (ENew ''Array'' [])),
    ([TType ''String'', TMemberOf ''Navigator''], SProto ''Navigator'' ''userAgent'' (EStr [])),
    ([TReturns ''Boolean'', TMemberOf ''Navigator''], SProto ''Navigator'' ''javaEnabled'' (EFun [] (BReturn (EBool False))))]"

definition window_Screen :: "js_item list" where
  "window_Screen = [
    ([TSuper ''Object'', TConstructor], SFun ''Screen'' [] BEmpty),
    ([], SSetProto ''Screen'' ''Object'' []),
    ([], SProto ''Screen'' ''screen'' (ENew ''Screen'' []))]"

definition window_Navigator_2 :: "js_item list" where
  "window_Navigator_2 = [
    ([TType ''Number'', TMemberOf ''Screen''], SProto ''Navigator'' ''availHeight'' (ENum 0)),
    ([TType ''Number'', TMemberOf ''Screen''], SProto ''Navigator'' ''availWidth'' (ENum 0)),
    ([TType ''Number'', TMemberOf ''Screen''], SProto ''Navigator'' ''colorDepth'' (ENum 0)),
    ([TType ''Number'', TMemberOf ''Screen''], SProto ''Navigator'' ''height'' (ENum 0)),
    ([TType ''Number'', TMemberOf ''Screen''], SProto ''Navigator'' ''width'' (ENum 0))]"

definition window_Event :: "js_item list" where
  "window_Event = [
    ([], SSetProto ''Event'' ''Object'' []),
    ([], SProto ''Event'' ''CAPTURING_PHASE'' (ENum 1)),
    ([], SProto ''Event'' ''AT_TARGET'' (ENum 2)),
    ([], SProto ''Event'' ''BUBBLING_PHASE'' (ENum 3)),
    ([], SProto ''Event'' ''type'' (EStr [])),
    ([], SProto ''Event'' ''target'' (ENew ''EventTarget'' [])),
    ([], SProto ''Event'' ''currentTarget'' (ENew ''EventTarget'' [])),
    ([], SProto ''Event'' ''eventPhase'' (ENum 0)),
    ([], SProto ''Event'' ''bubbles'' (EBool False)),
    ([], SProto ''Event'' ''cancelable'' (EBool False)),
    ([], SProto ''Event'' ''timeStamp'' (ENum 0)),
    ([], SProto ''Event'' ''stopPropagation'' (EFun [] BEmpty)),
    ([], SProto ''Event'' ''preventDefault'' (EFun [] BEmpty)),
    ([TParam ''String'' ''eventTypeArg'', TParam ''Boolean'' ''canBubbleArg'', TParam ''Boolean'' ''cancelableArg''], SProto ''Event'' ''initEvent'' (EFun [''eventTypeArg'', ''canBubbleArg'', ''cancelableArg''] BEmpty))]"

definition window_EventListener :: "js_item list" where
  "window_EventListener = [
    ([], SFun ''EventListener'' [] BEmpty),
    ([], SSetProto ''EventListener'' ''Object'' []),
    ([TParam ''Event'' ''event'', TMemberOf ''EventListener''], SProto ''EventListener'' ''handleEvent'' (EFun [''event''] BEmpty))]"

definition window_EventTarget :: "js_item list" where
  "window_EventTarget = [
    ([], SFun ''EventTarget'' [] BEmpty),
    ([], SSetProto ''EventTarget'' ''Object'' []),
    ([TMemberOf ''Window'', TParam [] ''event {Event}'', TThrows ''EventException''], SProto ''EventTarget'' ''dispatchEvent'' (EFun [''event''] BEmpty)),
    ([TMemberOf ''Window'', TParam ''String'' ''type'', TParam ''EventListener'' ''listener'', TParam ''Boolean'' ''useCapture''], SProto ''EventTarget'' ''addEventListener'' (EFun [''type'', ''listener'', ''useCapture''] BEmpty)),
    ([TMemberOf ''Window'', TParam ''String'' ''type'', TParam ''EventListener'' ''listener'', TParam ''Boolean'' ''useCapture''], SProto ''EventTarget'' ''removeEventListener'' (EFun [''type'', ''listener'', ''useCapture''] BEmpty))]"

text \<open>The whole script, in order.\<close>

definition window_js :: "js_item list" where
  "window_js = window_BarProp
     @ window_Window_1
     @ window_Window_2
     @ window_Window_3
     @ window_History
     @ window_Location
     @ window_Navigator_1
     @ window_Screen
     @ window_Navigator_2
     @ window_Event
     @ window_EventListener
     @ window_EventTarget"

lemmas window_items = window_BarProp_def
  window_Window_1_def
  window_Window_2_def
  window_Window_3_def
  window_History_def
  window_Location_def
  window_Navigator_1_def
  window_Screen_def
  window_Navigator_2_def
  window_Event_def
  window_EventListener_def
  window_EventTarget_def

end
