(* ===== verification/JsDom5.thy ===== *)
theory JsDom5
  imports JsCore
begin

text \<open>
  The statements of \<open>dom5.js\<close> with their documentation tags, one definition per
  class (and per 150 lines of a class), in the order of the file.
\<close>

definition dom_Document :: "js_item list" where
  "dom_Document = [
    ([TParam ''String'' ''selectors'', TMemberOf ''Document'', TReturns ''Element''], SProto ''Document'' ''querySelector'' (EFun [''selectors''] (BReturn (ENew ''Element'' [])))),
    ([TParam ''String'' ''selectors'', TMemberOf ''Document'', TReturns ''NodeList''], SProto ''Document'' ''querySelectorAll'' (EFun [''selectors''] (BReturn (ENew ''NodeList'' []))))]"

definition dom_DocumentFragment :: "js_item list" where
  "dom_DocumentFragment = [
    ([TParam ''String'' ''selectors'', TMemberOf ''DocumentFragment'', TReturns ''Element''], SProto ''DocumentFragment'' ''querySelector'' (EFun [''selectors''] (BReturn (ENew ''Element'' [])))),
    ([TParam ''String'' ''selectors'', TMemberOf ''DocumentFragment'', TReturns ''NodeList''], SProto ''DocumentFragment'' ''querySelectorAll'' (EFun [''selectors''] (BReturn (ENew ''NodeList'' []))))]"

definition dom_Element :: "js_item list" where
  "dom_Element = [
    ([TParam ''String'' ''selectors'', TMemberOf ''Element'', TReturns ''Element''], SProto ''Element'' ''querySelector'' (EFun [''selectors''] (BReturn (ENew ''Element'' [])))),
    ([TParam ''String'' ''selectors'', TMemberOf ''Element'', TReturns ''NodeList''], SProto ''Element'' ''querySelectorAll'' (EFun [''selectors''] (BReturn (ENew ''NodeList'' []))))]"

definition dom_History :: "js_item list" where
  "dom_History = [
    ([TType ''Object'', TMemberOf ''History''], SProto ''History'' ''state'' (ENew ''Object'' [])),
    ([TParam ''Object'' ''data'', TParam ''String'' ''title'', TParam ''String'' ''url - optional'', TMemberOf ''History''], SProto ''History'' ''pushState'' (EFun [''data'', ''title'', ''url''] BEmpty)),
    ([TParam ''Object'' ''data'', TParam ''String'' ''title'', TParam ''String'' ''url - optional'', TMemberOf ''History''], SProto ''History'' ''replaceState'' (EFun [''data'', ''title'', ''url''] BEmpty))]"

definition dom_Window :: "js_item list" where
  "dom_Window = [
    ([TType ''Storage'', TMemberOf ''Window''], SProto ''Window'' ''sessionStorage'' (ENew ''Storage'' [])),
    ([TType ''Storage'', TMemberOf ''Window''], SProto ''Window'' ''localStorage'' (ENew ''Storage'' []))]"

definition dom_Storage :: "js_item list" where
  "dom_Storage = [
    ([], SFun ''Storage'' [] BEmpty),
    ([], SSetProto ''Storage'' ''Object'' []),
    ([TType ''Number'', TMemberOf ''Storage''], SProto ''Storage'' ''length'' (ENew ''Number'' [])),
    ([TParam ''Number'' ''index'', TMemberOf ''Storage'', TReturns ''String''], SProto ''Storage'' ''key'' (EFun [''index''] (BReturn (ENew ''String'' [])))),
    ([TParam ''String'' ''key'', TMemberOf ''Storage'', TReturns ''String''], SProto ''Storage'' ''getItem'' (EFun [''key''] (BReturn (ENew ''String'' [])))),
    ([TParam ''String'' ''key'', TParam ''String'' ''value'', TMemberOf ''Storage''], SProto ''Storage'' ''setItem'' (EFun [''key'', ''value''] BEmpty)),
    ([TParam ''String'' ''key'', TMemberOf ''Storage''], SProto ''Storage'' ''removeItem'' (EFun [''key''] BEmpty)),
    ([TMemberOf ''Storage''], SProto ''Storage'' ''clear'' (EFun [] BEmpty))]"

definition dom_WebSocket :: "js_item list" where
  "dom_WebSocket = [
    ([TConstructor, TParam ''String'' ''url''], SFun ''WebSocket'' [''url''] BEmpty),
    ([], SSetProto ''WebSocket'' ''Object'' []),
    ([TConstant, TType ''Number''], SProto ''WebSocket'' ''CONNECTING'' (ENum 0)),
    ([TConstant, TType ''Number''], SProto ''WebSocket'' ''OPEN'' (ENum 1)),
    ([TConstant, TType ''Number''], SProto ''WebSocket'' ''CLOSING'' (ENum 2)),
    ([TConstant, TType ''Number''], SProto ''WebSocket'' ''CLOSED'' (ENum 3)),
    ([TType ''String'', TMemberOf ''WebSocket''], SProto ''WebSocket'' ''url'' (ENew ''String'' [])),
    ([TType ''Number'', TMemberOf ''WebSocket''], SProto ''WebSocket'' ''readyState'' (ENew ''Number'' [])),
    ([TType ''Number'', TMemberOf ''WebSocket''], SProto ''WebSocket'' ''bufferedAmount'' (ENew ''Number'' [])),
    ([TType ''String'', TMemberOf ''WebSocket''], SProto ''WebSocket'' ''extensions'' (ENew ''String'' [])),
    ([TType ''String'', TMemberOf ''WebSocket''], SProto ''WebSocket'' ''protocol'' (ENew ''String'' [])),
    ([TType ''String'', TMemberOf ''WebSocket''], SProto ''WebSocket'' ''binaryType'' (ENew ''String'' [])),
    ([TParam ''Number'' ''code - optional'', TParam ''String'' ''reason - optional'', TMemberOf ''WebSocket''], SProto ''WebSocket'' ''close'' (EFun [''code'', ''reason''] BEmpty)),
    ([TParam ''Object'' ''data - may be a String, Blob, ArrayBuffer, or ArrayBufferView'', TMemberOf ''WebSocket''], SProto ''WebSocket'' ''send'' (EFun [''data''] BEmpty))]"

definition dom_Navigator :: "js_item list" where
  "dom_Navigator = [
    ([TType ''Geolocation'', TMemberOf ''Navigator''], SProto ''Navigator'' ''geolocation'' (ENew ''Geolocation'' []))]"

definition dom_Geolocation :: "js_item list" where
  "dom_Geolocation = [
    ([], SFun ''Geolocation'' [] BEmpty),
    ([], SSetProto ''Geolocation'' ''Object'' []),
    ([TParam ''Function'' ''successCallback (Position pos)'', TParam ''Function'' ''errorCallback (PositionError error) - optional'', TParam ''PositionOptions'' ''options - optional'', TMemberOf ''Geolocation''], SProto ''Geolocation'' ''getCurrentPosition'' (EFun [''successCallback'', ''errorCallback'', ''options''] BEmpty)),
    ([TParam ''Function'' ''successCallback (Position pos)'', TParam ''Function'' ''errorCallback (PositionError error) - optional'', TParam ''PositionOptions'' ''options - optional'', TMemberOf ''Geolocation'', TReturns ''Number''], SProto ''Geolocation'' ''watchPosition'' (EFun [''successCallback'', ''errorCallback'', ''options''] (BReturn (ENew ''Number'' [])))),
    ([TParam ''Number'' ''watchId'', TMemberOf ''Geolocation''], SProto ''Geolocation'' ''clearWatch'' (EFun [''watchId''] BEmpty))]"

definition dom_Coordinates :: "js_item list" where
  "dom_Coordinates = [
    ([], SFun ''Coordinates'' [] BEmpty),
    ([], SSetProto ''Coordinates'' ''Object'' []),
    ([TType ''Number'', TMemberOf ''Coordinates''], SProto ''Coordinates'' ''latitude'' (ENew ''Number'' [])),
    ([TType ''Number'', TMemberOf ''Coordinates''], SProto ''Coordinates'' ''longitude'' (ENew ''Number'' [])),
    ([TType ''Number'', TMemberOf ''Coordinates''], SProto ''Coordinates'' ''altitude'' (ENew ''Number'' [])),
    ([TType ''Number'', TMemberOf ''Coordinates''], SProto ''Coordinates'' ''accuracy'' (ENew ''Number'' [])),
    ([TType ''Number'', TMemberOf ''Coordinates''], SProto ''Coordinates'' ''altitudeAccuracy'' (ENew ''Number'' [])),
    ([TType ''Number'', TMemberOf ''Coordinates''], SProto ''Coordinates'' ''heading'' (ENew ''Number'' [])),
    ([TType ''Number'', TMemberOf ''Coordinates''], SProto ''Coordinates'' ''speed'' (ENew ''Number'' []))]"

definition dom_Position :: "js_item list" where
  "dom_Position = [
    ([], SFun ''Position'' [] BEmpty),
    ([], SSetProto ''Position'' ''Object'' []),
    ([TType ''Coordinates'', TMemberOf ''Position''], SProto ''Position'' ''coords'' (ENew ''Coordinates'' [])),
    ([TType ''Number'', TMemberOf ''Position''], SProto ''Position'' ''timestamp'' (ENew ''Number'' []))]"

definition dom_PositionError :: "js_item list" where
  "dom_PositionError = [
    ([], SFun ''PositionError'' [] BEmpty),
    ([], SSetProto ''PositionError'' ''Object'' []),
    ([TConstant, TType ''Number''], SProto ''PositionError'' ''PERMISSION_DENIED'' (ENum 1)),
    ([TConstant, TType ''Number''], SProto ''PositionError'' ''POSITION_UNAVAILABLE'' (ENum 2)),
    ([TConstant, TType ''Number''], SProto ''PositionError'' ''TIMEOUT'' (ENum 3)),
    ([TType ''Number'', TMemberOf ''PositionError''], SProto ''PositionError'' ''code'' (ENew ''Number'' [])),
    ([TType ''String'', TMemberOf ''PositionError''], SProto ''PositionError'' ''message'' (ENew ''String'' []))]"

definition dom_PositionOptions :: "js_item list" where
  "dom_PositionOptions = [
    ([], SFun ''PositionOptions'' [] BEmpty),
    ([], SSetProto ''PositionOptions'' ''Object'' []),
    ([TType ''Boolean'', TMemberOf ''PositionOptions''], SProto ''PositionOptions'' ''enableHighAccuracy'' (ENew ''Boolean'' [])),
    ([TType ''Number'', TMemberOf ''PositionOptions''], SProto ''PositionOptions'' ''timeout'' (ENew ''Number'' [])),
    ([TType ''Number'', TMemberOf ''PositionOptions''], SProto ''PositionOptions'' ''maximumAge'' (ENew ''Number'' []))]"

definition dom_TimeRanges :: "js_item list" where
  "dom_TimeRanges = [
    ([], SFun ''TimeRanges'' [] BEmpty),
    ([], SSetProto ''TimeRanges'' ''Object'' []),
    ([TType ''Number'', TMemberOf ''TimeRanges''], SProto ''TimeRanges'' ''length'' (ENew ''Number'' []))]"

definition dom_globals :: "js_item list" where
  "dom_globals = [
    ([TParam ''Number'' ''index'', TMemberOf ''TimeRanges'', TReturns ''Number''], SFun ''start'' [''index''] (BReturn (ENew ''Number'' []))),
    ([TParam ''Number'' ''index'', TMemberOf ''TimeRanges'', TReturns ''Number''], SFun ''end'' [''index''] (BReturn (ENew ''Number'' [])))]"

definition dom_MediaError :: "js_item list" where
  "dom_MediaError = [
    ([], SFun ''MediaError'' [] BEmpty),
    ([], SSetProto ''MediaError'' ''Object'' []),
    ([TConstant, TType ''Number''], SProto ''MediaError'' ''MEDIA_ERR_ABORTED'' (ENum 1)),
    ([TConstant, TType ''Number''], SProto ''MediaError'' ''MEDIA_ERR_NETWORK'' (ENum 2)),
    ([TConstant, TType ''Number''], SProto ''MediaError'' ''MEDIA_ERR_DECODE'' (ENum 3)),
    ([TConstant, TType ''Number''], SProto ''MediaError'' ''MEDIA_ERR_SRC_NOT_SUPPORTED'' (ENum 4)),
    ([TType ''Number'', TMemberOf ''MediaError''], SProto ''MediaError'' ''code'' (ENew ''Number'' []))]"

definition dom_HTMLMediaElement_1 :: "js_item list" where
  "dom_HTMLMediaElement_1 = [
    ([TAugments ''HTMLElement''], SFun ''HTMLMediaElement'' [] BEmpty),
    ([], SSetProto ''HTMLMediaElement'' ''HTMLElement'' []),
    ([TType ''String'', TMemberOf ''HTMLMediaElement''], SProto ''HTMLMediaElement'' ''src'' (ENew ''String'' [])),
    ([TType ''String'', TMemberOf ''HTMLMediaElement''], SProto ''HTMLMediaElement'' ''currentSrc'' (ENew ''String'' [])),
    ([TType ''String'', TMemberOf ''HTMLMediaElement''], SProto ''HTMLMediaElement'' ''crossOrigin'' (ENew ''String'' [])),
    ([TConstant, TType ''Number''], SProto ''HTMLMediaElement'' ''NETWORK_EMPTY'' (ENum 0)),
    ([TConstant, TType ''Number''], SProto ''HTMLMediaElement'' ''NETWORK_IDLE'' (ENum 1)),
    ([TConstant, TType ''Number''], SProto ''HTMLMediaElement'' ''NETWORK_LOADING'' (ENum 2)),
    ([TConstant, TType ''Number''], SProto ''HTMLMediaElement'' ''NETWORK_NO_SOURCE'' (ENum 3)),
    ([TType ''Number'', TMemberOf ''HTMLMediaElement''], SProto ''HTMLMediaElement'' ''networkState'' (ENew ''Number'' [])),
    ([TType ''String'', TMemberOf ''HTMLMediaElement''], SProto ''HTMLMediaElement'' ''preload'' (ENew ''String'' [])),
    ([TType ''TimeRanges'', TMemberOf ''HTMLMediaElement''], SProto ''HTMLMediaElement'' ''buffered'' (ENew ''TimeRanges'' [])),
    ([TMemberOf ''HTMLMediaElement''], SProto ''HTMLMediaElement'' ''load'' (EFun [] BEmpty)),
    ([TParam ''String'' ''type'', TMemberOf ''HTMLMediaElement'', TReturns ''String''], SProto ''HTMLMediaElement'' ''canPlayType'' (EFun [''type''] (BExpr (ENew ''String'' [])))),
    ([TConstant, TType ''Number''], SProto ''HTMLMediaElement'' ''HAVE_NOTHING'' (ENum 0)),
    ([TConstant, TType ''Number''], SProto ''HTMLMediaElement'' ''HAVE_METADATA'' (ENum 1)),
    ([TConstant, TType ''Number''], SProto ''HTMLMediaElement'' ''HAVE_CURRENT_DATA'' (ENum 2)),
    ([TConstant, TType ''Number''], SProto ''HTMLMediaElement'' ''HAVE_FUTURE_DATA'' (ENum 3)),
    ([TConstant, TType ''Number''], SProto ''HTMLMediaElement'' ''HAVE_ENOUGH_DATA'' (ENum 4))]"

definition dom_HTMLMediaElement_2 :: "js_item list" where
  "dom_HTMLMediaElement_2 = [
    ([TType ''Number'', TMemberOf ''HTMLMediaElement''], SProto ''HTMLMediaElement'' ''readyState'' (ENew ''Number'' [])),
    ([TType ''Boolean'', TMemberOf ''HTMLMediaElement''], SProto ''HTMLMediaElement'' ''seeking'' (ENew ''Boolean'' [])),
    ([TType ''Number'', TMemberOf ''HTMLMediaElement''], SProto ''HTMLMediaElement'' ''currentTime'' (ENew ''Number'' [])),
    ([TType ''Number'', TMemberOf ''HTMLMediaElement''], SProto ''HTMLMediaElement'' ''initialTime'' (ENew ''Number'' [])),
    ([TType ''Number'', TMemberOf ''HTMLMediaElement''], SProto ''HTMLMediaElement'' ''duration'' (ENew ''Number'' [])),
    ([TType ''Date'', TMemberOf ''HTMLMediaElement''], SProto ''HTMLMediaElement'' ''startOffsetTime'' (ENew ''Date'' [])),
    ([TType ''Boolean'', TMemberOf ''HTMLMediaElement''], SProto ''HTMLMediaElement'' ''paused'' (ENew ''Boolean'' [])),
    ([TType ''Number'', TMemberOf ''HTMLMediaElement''], SProto ''HTMLMediaElement'' ''defaultPlaybackRate'' (ENew ''Number'' [])),
    ([TType ''Number'', TMemberOf ''HTMLMediaElement''], SProto ''HTMLMediaElement'' ''playbackRate'' (ENew ''Number'' [])),
    ([TType ''TimeRanges'', TMemberOf ''HTMLMediaElement''], SProto ''HTMLMediaElement'' ''played'' (ENew ''TimeRanges'' [])),
    ([TType ''TimeRanges'', TMemberOf ''HTMLMediaElement''], SProto ''HTMLMediaElement'' ''seekable'' (ENew ''TimeRanges'' [])),
    ([TType ''Boolean'', TMemberOf ''HTMLMediaElement''], SProto ''HTMLMediaElement'' ''ended'' (ENew ''Boolean'' [])),
    ([TType ''Boolean'', TMemberOf ''HTMLMediaElement''], SProto ''HTMLMediaElement'' ''autoplay'' (ENew ''Boolean'' [])),
    ([TType ''Boolean'', TMemberOf ''HTMLMediaElement''], SProto ''HTMLMediaElement'' ''loop'' (ENew ''Boolean'' [])),
    ([TMemberOf ''HTMLMediaElement''], SProto ''HTMLMediaElement'' ''play'' (EFun [] BEmpty)),
    ([TMemberOf ''HTMLMediaElement''], SProto ''HTMLMediaElement'' ''pause'' (EFun [] BEmpty)),
    ([TType ''Boolean'', TMemberOf ''HTMLMediaElement''], SProto ''HTMLMediaElement'' ''controls'' (ENew ''Boolean'' [])),
    ([TType ''Number'', TMemberOf ''HTMLMediaElement''], SProto ''HTMLMediaElement'' ''volume'' (ENew ''Number'' [])),
    ([TType ''Boolean'', TMemberOf ''HTMLMediaElement''], SProto ''HTMLMediaElement'' ''muted'' (ENew ''Boolean'' []))]"

definition dom_HTMLMediaElement_3 :: "js_item list" where
  "dom_HTMLMediaElement_3 = [
    ([TType ''Boolean'', TMemberOf ''HTMLMediaElement''], SProto ''HTMLMediaElement'' ''defaultMuted'' (ENew ''Boolean'' []))]"

definition dom_HTMLAudioElement :: "js_item list" where
  "dom_HTMLAudioElement = [
    ([TAugments ''HTMLMediaElement'', TConstructor, TParam ''String'' ''src''], SFun ''HTMLAudioElement'' [''src''] BEmpty),
    ([], SSetProto ''HTMLAudioElement'' ''HTMLMediaElement'' [])]"

definition dom_HTMLVideoElement :: "js_item list" where
  "dom_HTMLVideoElement = [
    ([TAugments ''HTMLMediaElement''], SFun ''HTMLVideoElement'' [] BEmpty),
    ([], SSetProto ''HTMLVideoElement'' ''HTMLMediaElement'' []),
    ([TType ''Number'', TMemberOf ''HTMLVideoElement''], SProto ''HTMLVideoElement'' ''width'' (ENew ''Number'' [])),
    ([TType ''Number'', TMemberOf ''HTMLVideoElement''], SProto ''HTMLVideoElement'' ''height'' (ENew ''Number'' [])),
    ([TType ''Number'', TMemberOf ''HTMLVideoElement''], SProto ''HTMLVideoElement'' ''videoWidth'' (ENew ''Number'' [])),
    ([TType ''Number'', TMemberOf ''HTMLVideoElement''], SProto ''HTMLVideoElement'' ''videoHeight'' (ENew ''Number'' [])),
    ([TType ''String'', TMemberOf ''HTMLVideoElement''], SProto ''HTMLVideoElement'' ''poster'' (ENew ''String'' []))]"

text \<open>The whole script, in order.\<close>

definition dom_js :: "js_item list" where
  "dom_js = dom_Document
     @ dom_DocumentFragment
     @ dom_Element
     @ dom_History
     @ dom_Window
     @ dom_Storage
     @ dom_WebSocket
     @ dom_Navigator
     @ dom_Geolocation
     @ dom_Coordinates
     @ dom_Position
     @ dom_PositionError
     @ dom_PositionOptions
     @ dom_TimeRanges
     @ dom_globals
     @ dom_MediaError
     @ dom_HTMLMediaElement_1
     @ dom_HTMLMediaElement_2
     @ dom_HTMLMediaElement_3
     @ dom_HTMLAudioElement
     @ dom_HTMLVideoElement"

lemmas dom_items = dom_Document_def
  dom_DocumentFragment_def
  dom_Element_def
  dom_History_def
  dom_Window_def
  dom_Storage_def
  dom_WebSocket_def
  dom_Navigator_def
  dom_Geolocation_def
  dom_Coordinates_def
  dom_Position_def
  dom_PositionError_def
  dom_PositionOptions_def
  dom_TimeRanges_def
  dom_globals_def
  dom_MediaError_def
  dom_HTMLMediaElement_1_def
  dom_HTMLMediaElement_2_def
  dom_HTMLMediaElement_3_def
  dom_HTMLAudioElement_def
  dom_HTMLVideoElement_def

end
