(* ===== verification/JsXhr.thy ===== *)
theory JsXhr
  imports JsCore
begin

text \<open>
  The statements of \<open>xhr.js\<close> with their documentation tags, one definition per
  class (and per 150 lines of a class), in the order of the file.
\<close>

definition xhr_Window :: "js_item list" where
  "xhr_Window = [
    ([TType ''XMLHttpRequest'', TMemberOf ''Window''], SProto ''Window'' ''createRequest'' (EFun [] (BReturn (ENew ''XMLHttpRequest'' []))))]"

definition xhr_XMLHttpRequest :: "js_item list" where
  "xhr_XMLHttpRequest = [
    ([TType ''constructor''], SSetProto ''XMLHttpRequest'' ''Object'' []),
    ([], SFun ''XMLHttpRequest'' [] BEmpty),
    ([TMemberOf ''XMLHttpRequest''], SProto ''XMLHttpRequest'' ''onreadystatechange'' (EFun [] BEmpty)),
    ([TType ''Number'', TMemberOf ''XMLHttpRequest''], SProto ''XMLHttpRequest'' ''readyState'' (ENum 0)),
    ([TType ''String'', TMemberOf ''XMLHttpRequest''], SProto ''XMLHttpRequest'' ''responseText'' (EStr [])),
    ([TType ''Document'', TMemberOf ''XMLHttpRequest''], SProto ''XMLHttpRequest'' ''responseXML'' (ENew ''Document'' [])),
    ([TType ''Number'', TMemberOf ''XMLHttpRequest''], SProto ''XMLHttpRequest'' ''status'' (ENum 0)),
    ([TType ''String'', TMemberOf ''XMLHttpRequest''], SProto ''XMLHttpRequest'' ''statusText'' (EStr [])),
    ([TMemberOf ''XMLHttpRequest''], SProto ''XMLHttpRequest'' ''abort'' (EFun [] BEmpty)),
    ([TType ''String'', TMemberOf ''XMLHttpRequest''], SProto ''XMLHttpRequest'' ''getAllResponseHeaders'' (EFun [] (BReturn (EStr [])))),
    ([TParam ''String'' ''method'', TParam ''String'' ''url'', TParam ''Boolean'' ''optional async'', TParam ''String'' ''optional username'', TParam ''String'' ''optional password'', TMemberOf ''XMLHttpRequest''], SProto ''XMLHttpRequest'' ''open'' (EFun [''method'', ''url'', ''async'', ''username'', ''password''] BEmpty)),
    ([TParam ''Object'' ''body'', TMemberOf ''XMLHttpRequest''], SProto ''XMLHttpRequest'' ''send'' (EFun [''body''] BEmpty)),
    ([TParam ''String'' ''header'', TParam ''String'' ''value'', TMemberOf ''XMLHttpRequest''], SProto ''XMLHttpRequest'' ''setRequestHeader'' (EFun [''header'', ''value''] BEmpty)),
    ([TParam ''String'' ''header'', TType ''String'', TMemberOf ''XMLHttpRequest''], SProto ''XMLHttpRequest'' ''getResponseHeader'' (EFun [''header''] (BReturn (EStr []))))]"

text \<open>The whole script, in order.\<close>

definition xhr_js :: "js_item list" where
  "xhr_js = xhr_Window
     @ xhr_XMLHttpRequest"

lemmas xhr_items = xhr_Window_def
  xhr_XMLHttpRequest_def

end
