(* ===== verification/JsLib.thy ===== *)
theory JsLib
  imports JsStale JsSystem JsBase1 JsBase2 JsBase3 JsWindow JsDom5 JsXhr
begin

text \<open>
  The five library scripts together.
\<close>

section \<open>The scripts and their classes\<close>

definition base_js :: "js_item list" where
  "base_js = base_js_1 @ base_js_2 @ base_js_3"

text \<open>
  Statements that no ECMAScript parser accepts are dropped one by one, as an editor's parser
  recovers from them.
\<close>

definition recovered :: "js_item list \<Rightarrow> js_item list" where
  "recovered its = filter (\<lambda>it. case snd it of SVar x _ \<Rightarrow> x \<notin> set reserved_words | _ \<Rightarrow> True) its"

definition library :: "js_item list" where
  "library = recovered (system_js @ base_js @ window_js @ dom_js @ xhr_js)"

text \<open>The classes of the library, the functions with a result, and the links between the classes.\<close>

definition library_classes :: "string list" where
  "library_classes = [
     ''Object'', ''String'', ''Number'', ''Boolean'', ''Array'', ''Function'', ''Date'',
     ''Math'', ''RegExp'', ''Error'', ''EvalError'', ''RangeError'', ''ReferenceError'',
     ''SyntaxError'', ''TypeError'', ''URIError'', ''DOMException'', ''DOMImplementation'',
     ''DocumentFragment'', ''Document'', ''Node'', ''NodeList'', ''NamedNodeMap'',
     ''CharacterData'', ''Attr'', ''Element'', ''Text'', ''Comment'', ''CDATASection'',
     ''DocumentType'', ''Notation'', ''Entity'', ''EntityReference'',
     ''ProcessingInstruction'', ''HTMLCollection'', ''HTMLOptionsCollection'',
     ''HTMLDocument'', ''HTMLElement'', ''HTMLHtmlElement'', ''HTMLHeadElement'',
     ''HTMLLinkElement'', ''HTMLTitleElement'', ''HTMLMetaElement'', ''HTMLBaseElement'',
     ''HTMLIsIndexElement'', ''HTMLStyleElement'', ''HTMLBodyElement'', ''HTMLFormElement'',
     ''HTMLSelectElement'', ''HTMLOptGroupElement'', ''Option'', ''HTMLOptionElement'',
     ''HTMLInputElement'', ''HTMLTextAreaElement'', ''HTMLButtonElement'',
     ''HTMLLabelElement'', ''HTMLFieldSetElement'', ''HTMLLegendElement'',
     ''HTMLUListElement'', ''HTMLOListElement'', ''HTMLDListElement'',
     ''HTMLDirectoryElement'', ''HTMLMenuElement'', ''HTMLLIElement'', ''HTMLDivElement'',
     ''HTMLParagraphElement'', ''HTMLHeadingElement'', ''HTMLQuoteElement'',
     ''HTMLPreElement'', ''HTMLBRElement'', ''HTMLBaseFontElement'', ''HTMLFontElement'',
     ''HTMLHRElement'', ''HTMLModElement'', ''HTMLAnchorElement'', ''Image'',
     ''HTMLImageElement'', ''HTMLObjectElement'', ''HTMLParamElement'', ''HTMLAppletElement'',
     ''HTMLMapElement'', ''HTMLAreaElement'', ''HTMLScriptElement'', ''HTMLTableElement'',
     ''HTMLTableCaptionElement'', ''HTMLTableColElement'', ''HTMLTableSelectionElement'',
     ''HTMLTableRowElement'', ''HTMLTableCellElement'', ''HTMLFrameSetElement'',
     ''HTMLFrameElement'', ''HTMLIFrameElement'', ''CSS2Properties'', ''BarProp'', ''Window'',
     ''History'', ''Location'', ''Navigator'', ''Screen'', ''EventListener'', ''EventTarget'',
     ''Storage'', ''WebSocket'', ''Geolocation'', ''Coordinates'', ''Position'',
     ''PositionError'', ''PositionOptions'', ''TimeRanges'', ''MediaError'',
     ''HTMLMediaElement'', ''HTMLAudioElement'', ''HTMLVideoElement'', ''XMLHttpRequest'']"

definition library_functions :: "string list" where
  "library_functions = [
     ''eval'', ''parseInt'', ''parseFloat'', ''escape'', ''unescape'', ''isNaN'', ''isFinite'',
     ''decodeURI'', ''decodeURIComponent'', ''encodeURIComponent'', ''encodeURI'', ''start'',
     ''end'']"

definition class_links :: "(string \<times> string) list" where
  "class_links = [
     (''String'', ''Object''), (''Number'', ''Object''), (''Boolean'', ''Object''),
     (''Array'', ''Object''), (''Function'', ''Object''), (''Date'', ''Object''),
     (''Math'', ''Object''), (''RegExp'', ''Object''), (''Error'', ''Object''),
     (''EvalError'', ''Error''), (''RangeError'', ''Error''), (''ReferenceError'', ''Error''),
     (''SyntaxError'', ''Error''), (''TypeError'', ''Error''), (''URIError'', ''Error''),
     (''DOMException'', ''Object''), (''DOMImplementation'', ''Object''),
     (''DocumentFragment'', ''Node''), (''Document'', ''Node''), (''Node'', ''EventTarget''),
     (''NodeList'', ''Object''), (''NamedNodeMap'', ''Object''), (''CharacterData'', ''Node''),
     (''Attr'', ''Node''), (''Element'', ''Node''), (''Text'', ''CharacterData''),
     (''Comment'', ''CharacterData''), (''CDATASection'', ''Text''),
     (''DocumentType'', ''Node''), (''Notation'', ''Node''), (''Entity'', ''Node''),
     (''EntityReference'', ''Node''), (''ProcessingInstruction'', ''Node''),
     (''HTMLCollection'', ''Object''), (''HTMLOptionsCollection'', ''Object''),
     (''HTMLDocument'', ''Document''), (''HTMLElement'', ''Element''),
     (''HTMLHtmlElement'', ''HTMLElement''), (''HTMLHeadElement'', ''HTMLElement''),
     (''HTMLLinkElement'', ''HTMLElement''), (''HTMLTitleElement'', ''HTMLElement''),
     (''HTMLMetaElement'', ''HTMLElement''), (''HTMLBaseElement'', ''HTMLElement''),
     (''HTMLIsIndexElement'', ''HTMLElement''), (''HTMLStyleElement'', ''HTMLElement''),
     (''HTMLBodyElement'', ''HTMLElement''), (''HTMLFormElement'', ''HTMLElement''),
     (''HTMLSelectElement'', ''HTMLElement''), (''HTMLOptGroupElement'', ''HTMLElement''),
     (''Option'', ''HTMLOptionElement''), (''HTMLOptionElement'', ''HTMLElement''),
     (''HTMLInputElement'', ''HTMLElement''), (''HTMLTextAreaElement'', ''HTMLElement''),
     (''HTMLButtonElement'', ''HTMLElement''), (''HTMLLabelElement'', ''HTMLElement''),
     (''HTMLFieldSetElement'', ''HTMLElement''), (''HTMLLegendElement'', ''HTMLElement''),
     (''HTMLUListElement'', ''HTMLElement''), (''HTMLOListElement'', ''HTMLElement''),
     (''HTMLDListElement'', ''HTMLElement''), (''HTMLDirectoryElement'', ''HTMLElement''),
     (''HTMLMenuElement'', ''HTMLElement''), (''HTMLLIElement'', ''HTMLElement''),
     (''HTMLDivElement'', ''HTMLElement''), (''HTMLParagraphElement'', ''HTMLElement''),
     (''HTMLHeadingElement'', ''HTMLElement''), (''HTMLQuoteElement'', ''HTMLElement''),
     (''HTMLPreElement'', ''HTMLElement''), (''HTMLBRElement'', ''HTMLElement''),
     (''HTMLBaseFontElement'', ''HTMLElement''), (''HTMLFontElement'', ''HTMLElement''),
     (''HTMLHRElement'', ''HTMLElement''), (''HTMLModElement'', ''HTMLElement''),
     (''HTMLAnchorElement'', ''HTMLElement''), (''Image'', ''HTMLImageElement''),
     (''HTMLImageElement'', ''HTMLElement''), (''HTMLObjectElement'', ''HTMLElement''),
     (''HTMLParamElement'', ''HTMLElement''), (''HTMLAppletElement'', ''HTMLElement''),
     (''HTMLMapElement'', ''HTMLElement''), (''HTMLAreaElement'', ''HTMLElement''),
     (''HTMLScriptElement'', ''HTMLElement''), (''HTMLTableElement'', ''HTMLElement''),
     (''HTMLTableCaptionElement'', ''HTMLElement''),
     (''HTMLTableColElement'', ''HTMLElement''),
     (''HTMLTableSelectionElement'', ''HTMLElement''),
     (''HTMLTableRowElement'', ''HTMLElement''), (''HTMLTableCellElement'', ''HTMLElement''),
     (''HTMLFrameSetElement'', ''HTMLElement''), (''HTMLFrameElement'', ''HTMLElement''),
     (''HTMLIFrameElement'', ''HTMLElement''), (''CSS2Properties'', ''Object''),
     (''BarProp'', ''Array''), (''Window'', ''EventTarget''), (''History'', ''Object''),
     (''Location'', ''Object''), (''Navigator'', ''Object''), (''Screen'', ''Object''),
     (''Event'', ''Object''), (''EventListener'', ''Object''), (''EventTarget'', ''Object''),
     (''Storage'', ''Object''), (''WebSocket'', ''Object''), (''Geolocation'', ''Object''),
     (''Coordinates'', ''Object''), (''Position'', ''Object''),
     (''PositionError'', ''Object''), (''PositionOptions'', ''Object''),
     (''TimeRanges'', ''Object''), (''MediaError'', ''Object''),
     (''HTMLMediaElement'', ''HTMLElement''), (''HTMLAudioElement'', ''HTMLMediaElement''),
     (''HTMLVideoElement'', ''HTMLMediaElement''), (''XMLHttpRequest'', ''Object'')]"

section \<open>Splitting the checks over the parts\<close>

text \<open>The functions of a script with an empty body, and the others.\<close>

fun plain_names :: "js_stmt list \<Rightarrow> string list" where
  "plain_names [] = []"
| "plain_names (SFun F ps BEmpty # ss) = F # plain_names ss"
| "plain_names (_ # ss) = plain_names ss"

fun other_names :: "js_stmt list \<Rightarrow> string list" where
  "other_names [] = []"
| "other_names (SFun F ps (BReturn e) # ss) = F # other_names ss"
| "other_names (SFun F ps (BExpr e) # ss) = F # other_names ss"
| "other_names (_ # ss) = other_names ss"

lemma names_Cons:
  "plain_names (st # ss) = (case st of
     SFun F ps b \<Rightarrow> (if b = BEmpty then F # plain_names ss else plain_names ss) | _ \<Rightarrow> plain_names ss)"
  "other_names (st # ss) = (case st of
     SFun F ps b \<Rightarrow> (if b = BEmpty then other_names ss else F # other_names ss) | _ \<Rightarrow> other_names ss)"
  by (cases st; simp; cases "case st of SFun F ps b \<Rightarrow> b | _ \<Rightarrow> BEmpty"; simp)+

lemma funs_of_append: "funs_of (xs @ ys) = funs_of xs @ funs_of ys"
  by (induction xs rule: funs_of.induct) simp_all

lemma plain_names_append: "plain_names (xs @ ys) = plain_names xs @ plain_names ys"
  by (induction xs rule: plain_names.induct) simp_all

lemma other_names_append: "other_names (xs @ ys) = other_names xs @ other_names ys"
  by (induction xs rule: other_names.induct) simp_all

lemma load_refs_append: "load_refs (xs @ ys) = load_refs xs @ load_refs ys"
  by (simp add: load_refs_def)

text \<open>What recovery drops, the checks ignore.\<close>

lemma recovered_Nil: "recovered [] = []"
  by (simp add: recovered_def)

lemma recovered_Cons:
  "recovered ((ts, st) # its) =
     (case st of SVar x _ \<Rightarrow> if x \<in> set reserved_words then recovered its else (ts, st) # recovered its
      | _ \<Rightarrow> (ts, st) # recovered its)"
  by (simp add: recovered_def split: js_stmt.splits)

lemmas recovered_simps = recovered_Nil recovered_Cons

lemma recovered_names:
  "plain_names (map snd (recovered its)) = plain_names (map snd its)"
  "other_names (map snd (recovered its)) = other_names (map snd its)"
  by (induction its)
    (auto simp: recovered_simps names_Cons split: js_stmt.splits js_body.splits)

lemma recovered_last_def: "last_def C m (recovered its) acc = last_def C m its acc"
  by (induction its arbitrary: acc) (auto simp: recovered_simps split: js_stmt.splits)

lemma recovered_never_set: "never_set D m (map snd (recovered its)) = never_set D m (map snd its)"
  by (induction its) (auto simp: recovered_simps split: js_stmt.splits if_splits)

lemma recovered_sets_proto:
  "list_all (\<lambda>st. \<not> sets_proto C st) (map snd (recovered its))
     = list_all (\<lambda>st. \<not> sets_proto C st) (map snd its)"
  by (induction its) (auto simp: recovered_simps split: js_stmt.splits if_splits)

lemma recovered_misses: "misses C D m (map snd (recovered its)) = misses C D m (map snd its)"
  by (induction its)
    (auto simp: recovered_simps recovered_never_set recovered_sets_proto
      split: js_stmt.splits if_splits)

lemma recovered_list_all: "list_all P its \<Longrightarrow> list_all P (recovered its)"
  by (simp add: recovered_def list_all_iff)

lemma recovered_load_refs: "set (load_refs (recovered its)) \<subseteq> set (load_refs its)"
  by (auto simp: recovered_def load_refs_def)

lemma recovered_early_error:
  "\<forall>F \<in> set (plain_names (map snd its)) \<union> set (other_names (map snd its)). F \<notin> set reserved_words \<Longrightarrow>
    early_error (map snd (recovered its)) = None"
proof (induction its)
  case (Cons it its)
  obtain ts st where "it = (ts, st)" by (cases it)
  with Cons show ?case
    by (cases st) (auto simp: recovered_simps names_Cons split: if_splits)
qed (simp add: recovered_simps)

lemma funs_names:
  "fst ` set (funs_of ss) = set (plain_names ss) \<union> set (other_names ss)"
  "(F, ps, b) \<in> set (funs_of ss) \<Longrightarrow> b \<noteq> BEmpty \<Longrightarrow> F \<in> set (other_names ss)"
  by (induction ss rule: other_names.induct) auto

lemma plain_hoist:
  assumes "C \<in> set (plain_names ss)" and "C \<notin> set (other_names ss)"
  shows "plain_ctor (hoist ss s) C"
proof -
  have "C \<in> fst ` set (funs_of ss)" using assms(1) by (simp add: funs_names)
  then obtain ps b where m: "map_of (rev (funs_of ss)) C = Some (ps, b)"
    by (metis domIff dom_map_of_conv_image_fst not_None_eq set_rev surj_pair)
  then have "(C, ps, b) \<in> set (funs_of ss)" by (auto dest: map_of_SomeD)
  then have "b = BEmpty" using funs_names(2) assms(2) by blast
  then show ?thesis using m by (simp add: plain_ctor_def map_add_def)
qed

section \<open>The names of the library\<close>

text \<open>Membership as an opaque predicate, so that the facts about single names are rewrite rules.\<close>

definition is_class :: "string \<Rightarrow> bool" where
  "is_class C \<longleftrightarrow> C \<in> set library_classes"

lemma class_facts: "list_all is_class library_classes"
  by (simp add: is_class_def list_all_iff)

lemmas class_rules = class_facts [unfolded library_classes_def list.pred_inject]

lemmas js_items = system_items base1_items base2_items base3_items window_items dom_items xhr_items

lemmas js_scripts = system_js_def base_js_1_def base_js_2_def base_js_3_def window_js_def
  dom_js_def xhr_js_def

lemma library_plain_names: "plain_names (map snd library) = library_classes"
proof -
  have sys: "plain_names (map snd system_js) @ plain_names (map snd base_js) @
      plain_names (map snd window_js) @ plain_names (map snd dom_js) @ plain_names (map snd xhr_js)
    = library_classes"
    by (simp add: base_js_def js_scripts js_items library_classes_def)
  then show ?thesis
    by (simp add: library_def recovered_names plain_names_append)
qed

lemma library_other_names: "other_names (map snd library) = library_functions"
proof -
  have "other_names (map snd system_js) @ other_names (map snd base_js) @
      other_names (map snd window_js) @ other_names (map snd dom_js) @ other_names (map snd xhr_js)
    = library_functions"
    by (simp add: base_js_def js_scripts js_items library_functions_def)
  then show ?thesis
    by (simp add: library_def recovered_names other_names_append)
qed

section \<open>The references of the library\<close>

definition ref_ok :: "string \<Rightarrow> bool" where
  "ref_ok C = (if is_class C then True else C = ''Event'')"

lemma refs_system: "list_all ref_ok (load_refs system_js)"
  by (simp add: load_refs_def js_scripts system_items ref_ok_def class_rules)

lemma refs_base: "list_all ref_ok (load_refs base_js)"
  by (simp add: load_refs_def js_scripts base_js_def base1_items base2_items base3_items ref_ok_def
      class_rules)

lemma refs_window: "list_all ref_ok (load_refs window_js)"
  by (simp add: load_refs_def js_scripts window_items ref_ok_def class_rules)

lemma refs_dom: "list_all ref_ok (load_refs dom_js)"
  by (simp add: load_refs_def js_scripts dom_items ref_ok_def class_rules)

lemma refs_xhr: "list_all ref_ok (load_refs xhr_js)"
  by (simp add: load_refs_def js_scripts xhr_items ref_ok_def class_rules)

end
