(* ===== verification/JsFacts.thy ===== *)
theory JsFacts
  imports JsLib
begin

text \<open>
  What holds of the five library scripts: which environment they load in, which documented types
  their members have, and where a prototype link loses members.
\<close>

section \<open>Loading the library\<close>

text \<open>Class names start with an upper-case letter, reserved words with a lower-case one.\<close>

lemma reserved_lower: "w \<in> set reserved_words \<Longrightarrow> w \<noteq> [] \<and> digit5 (hd w)"
  by (auto simp: reserved_words_def)

lemma upper_not_reserved: "C \<noteq> [] \<Longrightarrow> \<not> digit5 (hd C) \<Longrightarrow> C \<notin> set reserved_words"
  using reserved_lower by blast

lemma classes_upper: "list_all (\<lambda>C. C \<noteq> [] \<and> \<not> digit5 (hd C)) library_classes"
  by (simp add: library_classes_def)

lemma functions_lower: "list_all (\<lambda>C. C \<noteq> [] \<and> digit5 (hd C)) library_functions"
  by (simp add: library_functions_def)

lemma functions_not_reserved: "list_all (\<lambda>F. F \<notin> set reserved_words) library_functions"
  by (simp add: library_functions_def reserved_words_def)

lemma class_not_function: "is_class C \<Longrightarrow> C \<notin> set library_functions"
  using classes_upper functions_lower by (auto simp: is_class_def list_all_iff)

lemma library_no_early_error: "early_error (map snd library) = None"
proof -
  let ?all = "system_js @ base_js @ window_js @ dom_js @ xhr_js"
  have "F \<notin> set reserved_words" if "F \<in> set library_classes" for F
    using classes_upper upper_not_reserved that by (auto simp: list_all_iff)
  moreover have "plain_names (map snd ?all) = library_classes"
    using library_plain_names unfolding library_def recovered_names .
  moreover have "other_names (map snd ?all) = library_functions"
    using library_other_names unfolding library_def recovered_names .
  ultimately show ?thesis
    using functions_not_reserved unfolding library_def
    by (intro recovered_early_error) (simp only: list_all_iff, blast)
qed

lemma library_refs: "C \<in> set (load_refs library) \<Longrightarrow> is_class C \<or> C = ''Event''"
proof -
  have "list_all ref_ok (load_refs (system_js @ base_js @ window_js @ dom_js @ xhr_js))"
    by (simp add: load_refs_append refs_system refs_base refs_window refs_dom refs_xhr)
  then have "C \<in> set (load_refs library) \<Longrightarrow> ref_ok C"
    using recovered_load_refs unfolding library_def list_all_iff by blast
  then show "C \<in> set (load_refs library) \<Longrightarrow> is_class C \<or> C = ''Event''"
    by (auto simp: ref_ok_def split: if_splits)
qed

lemma library_plain_class: "is_class C \<Longrightarrow> plain_ctor (hoist (map snd library) s) C"
  using class_not_function
  by (intro plain_hoist) (auto simp: library_plain_names library_other_names is_class_def)

lemma ctor_names_library: "set (ctor_names library) = set library_classes \<union> set library_functions"
  using funs_names(1) [of "map snd library"]
  by (simp add: ctor_names_def library_plain_names library_other_names)

lemma event_not_declared: "''Event'' \<notin> set (ctor_names library)"
  by (simp add: ctor_names_library library_classes_def library_functions_def)

lemma plain_hoist_other:
  "C \<notin> set (ctor_names its) \<Longrightarrow> plain_ctor (hoist (map snd its) s) C = plain_ctor s C"
proof -
  assume "C \<notin> set (ctor_names its)"
  then have "map_of (rev (funs_of (map snd its))) C = None"
    by (auto simp: ctor_names_def map_of_eq_None_iff)
  then show ?thesis by (simp add: plain_ctor_def map_add_def)
qed

lemma library_plain_script: "plain_ctor s ''Event'' \<Longrightarrow> plain_script library s"
  using library_refs library_plain_class plain_hoist_other event_not_declared
  unfolding plain_script_def by metis

lemma event_used: "''Event'' \<in> set (load_refs library)"
proof -
  have "''Event'' \<in> set (load_refs (recovered window_Event))"
    by (simp add: window_Event_def recovered_simps load_refs_def)
  then show ?thesis
    by (auto simp: library_def window_js_def load_refs_def recovered_def)
qed


definition event_host :: js_state where
  "event_host = declareFun ''Event'' [] BEmpty js_init"

lemma event_host_facts:
  "wf_state event_host" "plain_ctor event_host ''Event''" "declared_in event_host ''Event''"
  by (simp_all add: event_host_def wf_declareFun wf_init)
    (simp_all add: plain_ctor_def declared_in_def declareFun_def)


section \<open>The scripts one by one\<close>

lemma run_undeclared:
  assumes "C \<in> set (load_refs its)" and "C \<notin> set (ctor_names its)" and "\<not> declared_in s C"
  shows "snd (run_script its s) \<noteq> None"
proof -
  have "\<not> declared_in (hoist (map snd its) s) C"
    using assms(2,3) by (simp add: hoist_declared ctor_names_def)
  moreover obtain it where "it \<in> set its" "C \<in> set (stmt_refs (snd it))"
    using assms(1) by (auto simp: load_refs_def)
  ultimately have "snd (exec (map snd its) (hoist (map snd its) s)) \<noteq> None"
    using exec_undeclared by (metis image_eqI list.set_map)
  then show ?thesis by (simp add: run_script_def Let_def split: option.splits)
qed

lemma base_uses_window: "''Window'' \<in> set (load_refs base_js)"
proof -
  have "''Window'' \<in> set (load_refs base_Document_1)"
    by (simp add: base_Document_1_def load_refs_def)
  then show ?thesis by (simp add: base_js_def base_js_1_def load_refs_append)
qed

lemma window_uses_base: "''HTMLDocument'' \<in> set (load_refs window_js)"
proof -
  have "''HTMLDocument'' \<in> set (load_refs window_Window_1)"
    by (simp add: window_Window_1_def load_refs_def)
  then show ?thesis by (simp add: window_js_def load_refs_append)
qed

lemma names_of_base: "''Window'' \<notin> set (ctor_names base_js)"
  unfolding ctor_names_def set_map funs_names
  by (simp add: base_js_def js_scripts base1_items base2_items base3_items)

lemma names_of_window: "''HTMLDocument'' \<notin> set (ctor_names window_js)"
  unfolding ctor_names_def set_map funs_names
  by (simp add: window_js_def window_items)

text \<open>\<open>baseBrowserLibrary.js\<close> and \<open>browserWindow.js\<close> each instantiate a class the other one
  declares while they load, so whichever of the two is loaded first, into an environment without
  those classes, ends with an error: no sequence of script loads works.\<close>

theorem no_load_order:
  assumes "\<not> declared_in s ''Window''" and "\<not> declared_in s ''HTMLDocument''"
  shows "snd (run_script base_js s) \<noteq> None \<and> snd (run_script window_js s) \<noteq> None"
  using run_undeclared [OF base_uses_window names_of_base assms(1)]
    run_undeclared [OF window_uses_base names_of_window assms(2)] by blast

theorem no_load_order_witness:
  "snd (run_script base_js js_init) \<noteq> None \<and> snd (run_script window_js js_init) \<noteq> None"
  using no_load_order [of js_init] by (simp add: declared_in_def js_init_def)


section \<open>Documented types\<close>

text \<open>
  The members whose documented type is not the type they have: two table sections are instances of
  a class with a misspelt name, and three methods return nothing.
\<close>

definition doc_exceptions :: "(string \<times> string) list" where
  "doc_exceptions =
     [(''HTMLTableElement'', ''tHead''), (''HTMLTableElement'', ''tFoot''),
      (''Date'', ''setUTCFullYear''), (''Document'', ''createCDATASection''),
      (''HTMLMediaElement'', ''canPlayType'')]"

definition lib_item_ok :: "js_item \<Rightarrow> bool" where
  "lib_item_ok = item_ok class_links is_class doc_exceptions"

lemma conforms_same: "conforms es T (Some T)"
  by (simp add: conforms_def ancestors.simps [of es T])

lemma conforms_none: "conforms es T None"
  by (simp add: conforms_def)

lemma conforms_element: "conforms class_links ''HTMLElement'' (Some ''Element'')"
  by code_simp

lemma conforms_document: "conforms class_links ''HTMLDocument'' (Some ''Document'')"
  by code_simp

lemmas doc_rules = lib_item_ok_def item_ok_def member_ok_def doc_result_def conforms_same
  conforms_none conforms_element conforms_document class_rules doc_exceptions_def

lemma ok_system: "list_all lib_item_ok system_js"
  by (simp add: js_scripts system_items doc_rules)

lemma ok_base1: "list_all lib_item_ok base_js_1"
  by (simp add: js_scripts base1_items doc_rules)

lemma ok_base2: "list_all lib_item_ok base_js_2"
  by (simp add: js_scripts base2_items doc_rules)

lemma ok_base3: "list_all lib_item_ok base_js_3"
  by (simp add: js_scripts base3_items doc_rules)

lemma ok_window: "list_all lib_item_ok window_js"
  by (simp add: js_scripts window_items doc_rules)

lemma ok_dom: "list_all lib_item_ok dom_js"
  by (simp add: js_scripts dom_items doc_rules)

lemma ok_xhr: "list_all lib_item_ok xhr_js"
  by (simp add: js_scripts xhr_items doc_rules)

lemma ok_library: "list_all lib_item_ok library"
  unfolding library_def base_js_def
  by (intro recovered_list_all)
    (simp add: ok_system ok_base1 ok_base2 ok_base3 ok_window ok_dom ok_xhr)

end
