(* ===== verification/JsLoaded.thy ===== *)
theory JsLoaded
  imports JsFacts
begin

text \<open>
  The state after the five library scripts have been loaded: the types of the members, the members
  whose documentation is wrong, and the classes that miss members.
\<close>

section \<open>The library after loading\<close>

definition loaded :: "js_state \<Rightarrow> js_state" where
  "loaded s = fst (run_script library s)"

lemma library_run:
  assumes "plain_ctor s ''Event''"
  shows "run_script library s = (loaded s, None)"
proof -
  have "snd (exec (map snd library) (hoist (map snd library) s)) = None"
    using library_plain_script [OF assms]
    by (intro exec_plain) (auto simp: plain_script_def load_refs_def)
  then show ?thesis
    using library_no_early_error
    by (simp add: loaded_def run_script_def Let_def prod_eq_iff)
qed

lemma class_in_library: "is_class C \<Longrightarrow> C \<in> set (ctor_names library)"
  by (simp add: ctor_names_library is_class_def)

lemma loaded_plain:
  assumes "plain_ctor s ''Event''" and "is_class C"
  shows "plain_ctor (loaded s) C"
proof -
  have "plain_ctor (loaded s) = plain_ctor (hoist (map snd library) s)"
    by (rule plain_cong) (rule run_funs [OF library_run [OF assms(1)]])
  then show ?thesis using library_plain_class [OF assms(2), of s] by simp
qed


text \<open>A member that a script does not define is undefined on the class; lookups over the parts.\<close>

definition untouched :: "string \<Rightarrow> string \<Rightarrow> string \<Rightarrow> js_item \<Rightarrow> bool" where
  "untouched C D m it = (case snd it of
     SProto F k _ \<Rightarrow> (if k = m then F \<noteq> C \<and> F \<noteq> D else True)
   | SSetProto F _ _ \<Rightarrow> F \<noteq> C \<and> F \<noteq> D
   | _ \<Rightarrow> True)"

lemma untouched_last_def:
  "list_all (untouched C D m) its \<Longrightarrow> last_def C m its acc = acc"
  by (induction its arbitrary: acc) (auto simp: untouched_def split: js_stmt.splits if_splits)

lemma untouched_never_set: "list_all (untouched C D m) its \<Longrightarrow> never_set D m (map snd its)"
  by (induction its) (auto simp: untouched_def split: js_stmt.splits if_splits)

lemma untouched_sets_proto:
  "list_all (untouched C D m) its \<Longrightarrow> list_all (\<lambda>st. \<not> sets_proto C st) (map snd its)"
  by (induction its) (auto simp: untouched_def split: js_stmt.splits if_splits)

lemma untouched_misses_left:
  "list_all (untouched C D m) its \<Longrightarrow> misses C D m (map snd its @ ss) = misses C D m ss"
  by (induction its) (auto simp: untouched_def split: js_stmt.splits if_splits)

lemma never_set_append:
  "never_set D m xs \<Longrightarrow> never_set D m ys \<Longrightarrow> never_set D m (xs @ ys)"
  by (induction D m xs rule: never_set.induct) (auto split: if_splits)

lemma untouched_misses_right:
  "misses C D m ss \<Longrightarrow> list_all (untouched C D m) its \<Longrightarrow> misses C D m (ss @ map snd its)"
  using untouched_never_set untouched_sets_proto
  by (induction C D m ss rule: misses.induct)
    (auto intro: never_set_append split: if_splits)

lemma missing_in_library:
  assumes "system_js @ base_js @ window_js @ dom_js @ xhr_js = xs @ part @ ys"
    and "list_all (untouched C D m) xs" and "list_all (untouched C D m) ys"
    and "last_def C m part None = None" and "misses C D m (map snd part)"
    and "C \<noteq> D" "is_class C" "is_class D" "wf_state s" "plain_ctor s ''Event''"
  shows "get_member (loaded s) (C, gen_of (loaded s) C) m = VUndef"
proof (rule early_link_hides [OF assms(9) library_plain_script [OF assms(10)]
      library_run [OF assms(10)] class_in_library class_in_library])
  show "last_def C m library None = None"
    unfolding library_def recovered_last_def assms(1)
    by (simp add: last_def_append untouched_last_def [OF assms(2)]
        untouched_last_def [OF assms(3)] assms(4))
  show "misses C D m (map snd library)"
    unfolding library_def recovered_misses assms(1)
    using untouched_misses_left [OF assms(2)] untouched_misses_right [OF assms(5,3)] by simp
qed (use assms in auto)

section \<open>Members that get lost\<close>

lemma js_order:
  "system_js @ base_js @ window_js @ dom_js @ xhr_js
     = system_js @ base_js_1 @ (base_js_2 @ base_js_3 @ window_js @ dom_js @ xhr_js)"
  "system_js @ base_js @ window_js @ dom_js @ xhr_js
     = (system_js @ base_js_1 @ base_js_2 @ base_js_3) @ window_js @ (dom_js @ xhr_js)"
  "system_js @ base_js @ window_js @ dom_js @ xhr_js
     = (system_js @ base_js_1 @ base_js_2 @ base_js_3 @ window_js) @ dom_js @ xhr_js"
  by (simp_all add: base_js_def)

lemmas document_untouched = untouched_def js_scripts base1_items base2_items base3_items
  system_items window_items dom_items xhr_items

lemma document_rest:
  "list_all (untouched ''Document'' ''Node'' ''appendChild'') system_js"
  "list_all (untouched ''Document'' ''Node'' ''appendChild'') base_js_2"
  "list_all (untouched ''Document'' ''Node'' ''appendChild'') base_js_3"
  "list_all (untouched ''Document'' ''Node'' ''appendChild'') window_js"
  "list_all (untouched ''Document'' ''Node'' ''appendChild'') dom_js"
  "list_all (untouched ''Document'' ''Node'' ''appendChild'') xhr_js"
  by (simp_all add: document_untouched)

lemma document_part:
  "last_def ''Document'' ''appendChild'' base_js_1 None = None"
  "misses ''Document'' ''Node'' ''appendChild'' (map snd base_js_1)"
  by code_simp code_simp

lemma window_rest:
  "list_all (untouched ''Window'' ''EventTarget'' ''addEventListener'') system_js"
  "list_all (untouched ''Window'' ''EventTarget'' ''addEventListener'') base_js_1"
  "list_all (untouched ''Window'' ''EventTarget'' ''addEventListener'') base_js_2"
  "list_all (untouched ''Window'' ''EventTarget'' ''addEventListener'') base_js_3"
  "list_all (untouched ''Window'' ''EventTarget'' ''addEventListener'') dom_js"
  "list_all (untouched ''Window'' ''EventTarget'' ''addEventListener'') xhr_js"
  by (simp_all add: document_untouched)

lemma window_part:
  "last_def ''Window'' ''addEventListener'' window_js None = None"
  "misses ''Window'' ''EventTarget'' ''addEventListener'' (map snd window_js)"
  by code_simp code_simp

lemma screen_rest:
  "list_all (untouched ''Screen'' ''Object'' ''availHeight'') system_js"
  "list_all (untouched ''Screen'' ''Object'' ''availHeight'') base_js_1"
  "list_all (untouched ''Screen'' ''Object'' ''availHeight'') base_js_2"
  "list_all (untouched ''Screen'' ''Object'' ''availHeight'') base_js_3"
  "list_all (untouched ''Screen'' ''Object'' ''availHeight'') dom_js"
  "list_all (untouched ''Screen'' ''Object'' ''availHeight'') xhr_js"
  by (simp_all add: document_untouched)

lemma screen_part:
  "last_def ''Screen'' ''availHeight'' window_js None = None"
  "misses ''Screen'' ''Object'' ''availHeight'' (map snd window_js)"
  by code_simp code_simp

lemma ranges_rest:
  "list_all (untouched ''TimeRanges'' ''Object'' ''start'') system_js"
  "list_all (untouched ''TimeRanges'' ''Object'' ''start'') base_js_1"
  "list_all (untouched ''TimeRanges'' ''Object'' ''start'') base_js_2"
  "list_all (untouched ''TimeRanges'' ''Object'' ''start'') base_js_3"
  "list_all (untouched ''TimeRanges'' ''Object'' ''start'') window_js"
  "list_all (untouched ''TimeRanges'' ''Object'' ''start'') xhr_js"
  by (simp_all add: document_untouched)

lemma ranges_part:
  "last_def ''TimeRanges'' ''start'' dom_js None = None"
  "misses ''TimeRanges'' ''Object'' ''start'' (map snd dom_js)"
  by code_simp code_simp

text \<open>Once the library is loaded, an instance of \<open>Document\<close> has no \<open>appendChild\<close> and an instance
  of \<open>Window\<close> no \<open>addEventListener\<close>, although \<open>Node\<close> and \<open>EventTarget\<close>, the classes they extend,
  define them: \<open>Document.prototype\<close> and \<open>Window.prototype\<close> are linked before their parents get the
  prototype objects that the members are defined on.\<close>

theorem stale_links_of_library:
  assumes "wf_state s" and "plain_ctor s ''Event''"
  shows "get_member (loaded s) (''Document'', gen_of (loaded s) ''Document'') ''appendChild'' = VUndef
    \<and> get_member (loaded s) (''Window'', gen_of (loaded s) ''Window'') ''addEventListener'' = VUndef"
proof
  show "get_member (loaded s) (''Document'', gen_of (loaded s) ''Document'') ''appendChild'' = VUndef"
    by (rule missing_in_library [OF js_order(1) _ _ document_part])
      (simp_all add: document_rest class_rules assms)
  show "get_member (loaded s) (''Window'', gen_of (loaded s) ''Window'') ''addEventListener'' = VUndef"
    by (rule missing_in_library [OF js_order(2) _ _ window_part])
      (simp_all add: window_rest class_rules assms)
qed

theorem stale_links_of_library_witness:
  "get_member (loaded event_host) (''Document'', gen_of (loaded event_host) ''Document'')
     ''appendChild'' = VUndef"
  using stale_links_of_library [OF event_host_facts(1,2)] by blast

lemma loaded_value:
  assumes "wf_state s" and "plain_ctor s ''Event''" and "is_class C"
    and "last_def C m (system_js @ base_js @ window_js @ dom_js @ xhr_js) None = Some (ts, e)"
  shows "type_name (get_member (loaded s) (C, gen_of (loaded s) C) m) = expr_type e"
  using run_value [OF assms(1) library_plain_script [OF assms(2)] library_run [OF assms(2)]
      class_in_library [OF assms(3)]] assms(4)
  unfolding library_def recovered_last_def by blast

lemma navigator_availHeight:
  "last_def ''Navigator'' ''availHeight'' window_js None
     = Some ([TType ''Number'', TMemberOf ''Screen''], ENum 0)"
  by code_simp

lemma navigator_rest:
  "list_all (untouched ''Navigator'' ''Navigator'' ''availHeight'') dom_js"
  "list_all (untouched ''Navigator'' ''Navigator'' ''availHeight'') xhr_js"
  by (simp_all add: document_untouched)

text \<open>Once the library is loaded, an instance of \<open>Screen\<close> has no \<open>availHeight\<close> and an instance
  of \<open>Navigator\<close> has one, a number: \<open>browserWindow.js\<close> assigns the members it documents as members
  of \<open>Screen\<close> to the prototype of \<open>Navigator\<close>. Nor has \<open>TimeRanges\<close> the method \<open>start\<close> that \<open>dom5.js\<close>
  documents as its member and declares as a global function.\<close>

theorem misplaced_members:
  assumes "wf_state s" and "plain_ctor s ''Event''"
  shows "get_member (loaded s) (''Screen'', gen_of (loaded s) ''Screen'') ''availHeight'' = VUndef
    \<and> type_name (get_member (loaded s) (''Navigator'', gen_of (loaded s) ''Navigator'')
        ''availHeight'') = ''Number''
    \<and> get_member (loaded s) (''TimeRanges'', gen_of (loaded s) ''TimeRanges'') ''start'' = VUndef"
proof (intro conjI)
  show "get_member (loaded s) (''Screen'', gen_of (loaded s) ''Screen'') ''availHeight'' = VUndef"
    by (rule missing_in_library [OF js_order(2) _ _ screen_part])
      (simp_all add: screen_rest class_rules assms)
  show "get_member (loaded s) (''TimeRanges'', gen_of (loaded s) ''TimeRanges'') ''start'' = VUndef"
    by (rule missing_in_library [OF js_order(3) _ _ ranges_part])
      (simp_all add: ranges_rest class_rules assms)
  have later: "last_def ''Navigator'' ''availHeight'' (dom_js @ xhr_js) acc = acc" for acc
    by (simp add: last_def_append untouched_last_def [OF navigator_rest(1)]
        untouched_last_def [OF navigator_rest(2)])
  have scan: "last_def ''Navigator'' ''availHeight'' window_js acc
      = last_def ''Navigator'' ''availHeight'' window_js None" for acc
    by (simp add: window_js_def last_def_append window_Navigator_1_def)
  have "last_def ''Navigator'' ''availHeight''
      (system_js @ base_js @ window_js @ dom_js @ xhr_js) None
    = Some ([TType ''Number'', TMemberOf ''Screen''], ENum 0)"
    unfolding last_def_append [of _ _ system_js] last_def_append [of _ _ base_js]
      last_def_append [of _ _ window_js] later
    by (subst scan) (rule navigator_availHeight)
  from loaded_value [OF assms _ this]
  show "type_name (get_member (loaded s) (''Navigator'', gen_of (loaded s) ''Navigator'')
      ''availHeight'') = ''Number''"
    by (simp add: class_rules)
qed

theorem misplaced_members_witness:
  "get_member (loaded event_host) (''Screen'', gen_of (loaded event_host) ''Screen'')
     ''availHeight'' = VUndef"
  using misplaced_members [OF event_host_facts(1,2)] by blast

section \<open>The members whose documentation is wrong\<close>

text \<open>Where a script part defines a member, what came before does not matter.\<close>

lemma last_def_cases:
  "(\<forall>a b. last_def C m its a = last_def C m its b) \<or> (\<forall>a. last_def C m its a = a)"
proof (induction its)
  case (Cons it its)
  obtain ts st where "it = (ts, st)" by (cases it)
  with Cons show ?case by (cases st) (auto split: if_splits)
qed simp

lemma last_def_found: "last_def C m its None = Some d \<Longrightarrow> last_def C m its acc = Some d"
  using last_def_cases [of C m its] by (metis option.distinct(1))

lemma last_def_in_part:
  assumes "last_def C m part None = Some d" and "list_all (untouched C C m) ys"
  shows "last_def C m (xs @ part @ ys) acc = Some d"
  using last_def_found [OF assms(1)] untouched_last_def [OF assms(2)] by (simp add: last_def_append)

lemma thead_part:
  "last_def ''HTMLTableElement'' ''tHead'' base_js_3 None
     = Some ([TType ''HTMLTableSectionElement'', TThrows ''DOMException''],
             ENew ''HTMLTableSelectionElement'' [])"
  by code_simp

lemma thead_rest:
  "list_all (untouched ''HTMLTableElement'' ''HTMLTableElement'' ''tHead'') window_js"
  "list_all (untouched ''HTMLTableElement'' ''HTMLTableElement'' ''tHead'') dom_js"
  "list_all (untouched ''HTMLTableElement'' ''HTMLTableElement'' ''tHead'') xhr_js"
  by (simp_all add: document_untouched)

lemma play_part:
  "last_def ''HTMLMediaElement'' ''canPlayType'' dom_js None
     = Some ([TParam ''String'' ''type'', TMemberOf ''HTMLMediaElement'', TReturns ''String''],
             EFun [''type''] (BExpr (ENew ''String'' [])))"
  by code_simp

lemma play_rest:
  "list_all (untouched ''HTMLMediaElement'' ''HTMLMediaElement'' ''canPlayType'') xhr_js"
  by (simp add: document_untouched)

lemma loaded_method:
  assumes "wf_state s" and "plain_ctor s ''Event''" and "is_class C"
    and "last_def C m (system_js @ base_js @ window_js @ dom_js @ xhr_js) None
      = Some (ts, EFun ps b)"
    and "list_all is_class (body_refs b)"
  shows "\<exists>v. call_member (loaded s) C m = Inr v \<and> type_name v = result_type b"
proof (rule run_method [OF assms(1) library_plain_script [OF assms(2)]
      library_run [OF assms(2)] class_in_library [OF assms(3)]])
  show "last_def C m library None = Some (ts, EFun ps b)"
    using assms(4) unfolding library_def recovered_last_def .
  show "\<forall>F \<in> set (body_refs b). plain_ctor (loaded s) F"
    using assms(5) loaded_plain [OF assms(2)] by (simp add: list_all_iff)
qed

text \<open>Two of the documentation exceptions as they behave once the library is loaded:
  \<open>HTMLTableElement.tHead\<close> is documented as an \<open>HTMLTableSectionElement\<close> and holds an instance of
  the class with the misspelt name \<open>HTMLTableSelectionElement\<close>, which does not extend it; and
  \<open>HTMLMediaElement.canPlayType\<close>, documented to return a \<open>String\<close>, returns undefined, as its body
  lacks the return.\<close>

theorem documentation_defects:
  assumes "wf_state s" and "plain_ctor s ''Event''"
  shows "type_name (get_member (loaded s) (''HTMLTableElement'',
        gen_of (loaded s) ''HTMLTableElement'') ''tHead'') = ''HTMLTableSelectionElement''
    \<and> \<not> conforms class_links ''HTMLTableSelectionElement'' (Some ''HTMLTableSectionElement'')
    \<and> (\<exists>v. call_member (loaded s) ''HTMLMediaElement'' ''canPlayType'' = Inr v
         \<and> type_name v = ''undefined'')"
proof (intro conjI)
  have "last_def ''HTMLTableElement'' ''tHead''
      (system_js @ base_js @ window_js @ dom_js @ xhr_js) None
    = Some ([TType ''HTMLTableSectionElement'', TThrows ''DOMException''],
            ENew ''HTMLTableSelectionElement'' [])"
    using last_def_in_part [OF thead_part, of "window_js @ dom_js @ xhr_js"
        "system_js @ base_js_1 @ base_js_2"]
    by (simp add: base_js_def thead_rest)
  from loaded_value [OF assms _ this]
  show "type_name (get_member (loaded s) (''HTMLTableElement'',
      gen_of (loaded s) ''HTMLTableElement'') ''tHead'') = ''HTMLTableSelectionElement''"
    by (simp add: class_rules)
  show "\<not> conforms class_links ''HTMLTableSelectionElement'' (Some ''HTMLTableSectionElement'')"
    by code_simp
  have "last_def ''HTMLMediaElement'' ''canPlayType''
      (system_js @ base_js @ window_js @ dom_js @ xhr_js) None
    = Some ([TParam ''String'' ''type'', TMemberOf ''HTMLMediaElement'', TReturns ''String''],
            EFun [''type''] (BExpr (ENew ''String'' [])))"
    using last_def_in_part [OF play_part play_rest, of "system_js @ base_js @ window_js"] by simp
  from loaded_method [OF assms _ this]
  show "\<exists>v. call_member (loaded s) ''HTMLMediaElement'' ''canPlayType'' = Inr v
      \<and> type_name v = ''undefined''"
    by (simp add: class_rules)
qed

theorem documentation_defects_witness:
  "type_name (get_member (loaded event_host) (''HTMLTableElement'',
      gen_of (loaded event_host) ''HTMLTableElement'') ''tHead'') = ''HTMLTableSelectionElement''"
  using documentation_defects [OF event_host_facts(1,2)] by blast

text \<open>A member of the library at which the typing theorem applies.\<close>

lemma nodeValue_part:
  "last_def ''Node'' ''nodeValue'' base_js_1 None
     = Some ([TType ''String'', TThrows ''DOMException''], EStr [])"
  by code_simp

lemma nodeValue_rest:
  "list_all (untouched ''Node'' ''Node'' ''nodeValue'') base_js_2"
  "list_all (untouched ''Node'' ''Node'' ''nodeValue'') base_js_3"
  "list_all (untouched ''Node'' ''Node'' ''nodeValue'') window_js"
  "list_all (untouched ''Node'' ''Node'' ''nodeValue'') dom_js"
  "list_all (untouched ''Node'' ''Node'' ''nodeValue'') xhr_js"
  by (simp_all add: document_untouched)

lemma nodeValue_def:
  "last_def ''Node'' ''nodeValue'' library None
     = Some ([TType ''String'', TThrows ''DOMException''], EStr [])"
  using last_def_in_part [OF nodeValue_part, of "base_js_2 @ base_js_3 @ window_js @ dom_js @ xhr_js"
      system_js]
  by (simp add: library_def recovered_last_def base_js_def nodeValue_rest)


end
