(* ===== verification/Spec2Isabelle.thy ===== *)
theory Spec2Isabelle
  imports RoundTrip ReaderStops ReceiverInv ReadLength PoolsFacts CircArray CompactionFacts JsLoaded
begin

text \<open>
  A verification library of jyudp, a message protocol over UDP with acknowledgements written in
  Java, and of the JavaScript library that the workspace of its authors carries.

  \<^bold>\<open>How the program works.\<close> A server (\<open>NetProtocol/judpServer\<close>) opens a socket
  (\<open>JNetSocket/UDPServerSocket\<close>), whose thread posts what it receives on a bus, and registers a listener
  there. A client (\<open>NetProtocol/judpClient\<close>) takes a sending session from a pool
  by destination. The session (\<open>Sessions/ClientSession\<close>) splits a message into packets, numbers them
  (\<open>NetPackaget/PackagetRandom\<close>), sends each in a datagram (\<open>NetPackaget/CreateNetPackaget\<close>), keeps it
  in memory, and asks for an acknowledgement; a bound on the memory moves old packets to a store of
  files (\<open>Sessions/ClientManager\<close>, \<open>FileStore/FileMemoryData\<close>), whose dead parts \<open>FileStore/FileModify\<close>
  is to remove. At the receiver, the listener
  (\<open>NetProtocol/ListenerData\<close>) queues datagrams, parses them and gives them to the session of their
  source (\<open>Sessions/ServerSession\<close>). That session holds a reassembly buffer per message
  (\<open>BufferData/ReceiveBuffer\<close>); its reader task takes the packets out in order, asks for missing ones,
  hands the message to the bus and to threads that wait in \<open>read\<close>, gives the session to the queue of
  the server of its port, acknowledges the message, and frees its slot. The client's session receives
  with a thread and a listener of its own: the acknowledgement makes it drop the packets, a request
  makes it send again, and messages are for the client's reads.

  \<^bold>\<open>Theories and sources.\<close>
  \<^item> \<open>Prelude\<close>: Java's integers and arrays, exceptions as the left side of a sum, decimal texts.
  \<^item> \<open>ByteBuf\<close>: the big-endian byte buffer of the platform, as far as the codec uses it.
  \<^item> \<open>Packets\<close>: \<open>CreateNetPackaget\<close>, \<open>ReturnCode\<close>, \<open>AckPackaget\<close>. \<open>SubPack\<close>: \<open>SubPackaget\<close>.
  \<^item> \<open>RecvBuffer\<close>: \<open>ReceiveBuffer\<close>, \<open>AppData\<close>. \<open>CircArray\<close>: \<open>CircularArray\<close>.
  \<^item> \<open>Ids\<close>: \<open>PackagetRandom\<close>, sequentially and as the steps of threads.
  \<^item> \<open>FileIO\<close>: \<open>FileRead\<close>, \<open>FileWrite\<close>, over a file system of byte lists. \<open>FileStore\<close>: \<open>FileMemoryData\<close>,
    \<open>FileIndex\<close>, \<open>DataDeleteIndex\<close>. \<open>Compaction\<close>: \<open>FileModify\<close>, \<open>FileModifyDBManager\<close>, \<open>FileDBManager\<close>;
    \<open>CompactionFacts\<close>.
  \<^item> \<open>Udp\<close>: \<open>UDPClient\<close> over a network that is an argument: which hosts resolve, which lengths are
    sent. A datagram that is sent is an entry of a log. \<open>UdpServer\<close>: \<open>UDPServerSocket\<close>.
  \<^item> \<open>Sender\<close>: \<open>ClientSession\<close> and the memory bound of \<open>ClientManager\<close>, over one record \<open>world\<close> of the
    static state, with sessions by reference. \<open>SenderFrame\<close>: what sending leaves alone.
  \<^item> \<open>Registry\<close>: \<open>SessionMap\<close>, \<open>MessageBus\<close>, \<open>ServerManager\<close>, and the contract of a keyed store.
  \<^item> \<open>Receiver\<close>: \<open>ServerSession\<close>. Its buffers are objects: \<open>heap\<close> holds them, slots refer to them. What
    it does to others is a log of events. \<open>ReceiverFacts\<close>, \<open>ReceiverInv\<close>, \<open>ReceiverEnds\<close>, \<open>ReaderStops\<close>,
    \<open>ReadLength\<close> hold what is proved of it; \<open>SessionFrame\<close> what none of its operations changes.
  \<^item> \<open>Listener\<close>: \<open>ListenerData\<close> with the making of sessions; its thread is a step relation, interleaved
    with arrivals, readers, the manager's tasks and closing. \<open>ListenerFacts\<close> and \<open>ListenerRuns\<close> hold
    what is proved of it.
  \<^item> \<open>Pools\<close>: \<open>ClientSessionsPools\<close>, \<open>SessionFactory\<close>, \<open>judpClient\<close>, \<open>CacheListener\<close> and the reclaiming
    of \<open>ClientManager\<close>; \<open>PoolsFacts\<close>.
  \<^item> \<open>Server\<close>: \<open>judpServer\<close>, \<open>judpSocket\<close> and the receiving of \<open>UDPServerSocket\<close>, the servers of a process
    with one bus and one manager as a step relation; \<open>ServerFacts\<close>.
  \<^item> \<open>ClientSide\<close>: the receiving thread and the reads of \<open>ClientSession\<close> and \<open>judpClient\<close>, over a listener
    whose own state is \<open>world\<close>, as a step relation; \<open>ClientFacts\<close>.
  \<^item> \<open>EndToEnd\<close>, \<open>RoundTrip\<close>: client, socket, listener, server session, server and acknowledgement
    composed.
  \<^item> \<open>JsCore\<close> (a semantics of the statements the scripts use), \<open>JsSystem\<close>, \<open>JsBase1\<close>, \<open>JsBase2\<close>,
    \<open>JsBase3\<close>, \<open>JsWindow\<close>, \<open>JsDom5\<close>, \<open>JsXhr\<close> (the scripts, statement by statement), \<open>JsLib\<close>,
    \<open>JsMembers\<close>, \<open>JsLoad\<close>, \<open>JsStale\<close>, \<open>JsFacts\<close>, \<open>JsLoaded\<close> (what loading them gives).

  \<^bold>\<open>Interfaces.\<close> \<open>keyed_store\<close> and its extension \<open>shrinking_store\<close> state what a map by key promises and
  what "look up or create" then gives; they are interpreted on the session map, the buses, the server
  sockets, the listener's sources and the client pool. \<open>session_relation\<close> lifts a reflexive,
  transitive relation kept by the primitive updates of a session through the whole reader; it is
  interpreted on the relation that keeps a session's identity and never reopens it.
  \<open>sending_relation\<close> does the same for sending; it is interpreted on the silence of a closed socket and
  on the flags of a session. \<open>fifo\<close> is the contract of a queue between threads, interpreted on the queue
  of accepted sessions.

  \<^bold>\<open>What is shown.\<close> A short message arrives at the server that accepts its session, and is
  acknowledged and forgotten. A stream of single-packet
  messages is handed on in order, once each. A datagram for a session is an update of a table of
  sessions by source and id. Packets, acknowledgements and messages survive building and parsing,
  splitting and reassembly. The invariants of buffers, sessions and listener hold in every
  interleaving; every listener of a process hears every datagram. A round of the reader ends once the
  first packet of its message is there. An orderly close ends the session. The sort of the
  reorganisation is the library's stable sort. The remaining theorems on the Java side delimit
  this: which messages, orders and foreign datagrams the program does not handle, and what follows.
  On the JavaScript side: when the library loads, and which members then have their documented type.

  \<^bold>\<open>Bounds and fuel.\<close> The loops of the reader need not end, so they take fuel, and None says that it ran
  out. Theorems that a round ends name enough fuel (two for a message of one packet, the number of
  packets and one else; for a round that was started, the packets stored and two more), and theorems that it does not end hold for every fuel. The reader's inner
  wait ends by its counter and is total; so is the copying of \<open>read(len)\<close>, by the number of chunks.
  What arrives while the reader waits is a schedule, a list of batches. The random numbers behind
  session ids, the clock, host resolution and object serialisation are arguments.

  \<^bold>\<open>Not modelled.\<close> The TCP and multicast sockets (input and output only), the selector of the server's
  channel, Guava's event bus and cache (not in the repository; a post reaches what was registered, as
  the hypothesis \<open>eventbus\<close> states), the database behind the index (whether it answers is an
  argument), MapDB and PalDB and their wrappers, console programs, and the IDE's data. Interleavings
  below one operation are modelled for the identifiers and for the listener's thread, not elsewhere.
\<close>

end
